(* ===== verification/Prelude.thy ===== *)
theory Prelude
  imports Complex_Main "HOL-Library.Multiset" "HOL-Library.AList"
    "HOL-Library.List_Lexorder" "HOL-Library.Product_Lexorder" "HOL-Library.Char_ord"
begin

text \<open>
  Shared by every theory of the development: the collections of rewrite rules the component
  proofs use, the result type of operations that may raise, and generic facts on lists and maps.
  An operation that may raise and that changes state returns a pair: its result, with the
  exception on the left, and the state it leaves, which survives the exception as it does in
  the program.
\<close>

named_theorems store_simps \<open>the effect of broker commands on the parts of the store\<close>
named_theorems key_simps \<open>distinctness of the keys the program builds\<close>
named_theorems model_defs \<open>definitions of small operations, unfolded together\<close>

section \<open>Results of operations that may raise\<close>

datatype exn =
    ValueError
  | TypeError
  | KeyError
  | AttributeError
  | ModuleNotFoundError
  | TimeoutFormatError
  | NoSuchJobError
  | InvalidJobOperation
  | NoSuchRegistryError
  | DequeueTimeout
  | CallbackSetupError
  | QueueNotFoundError
  | QueueConnectionDiscrepancyError
  | ImproperlyConfigured
  | WorkerCommandError
  | WorkerNotFound
  | StopRequested
  | SystemExit
  | ValidationError
  | DoesNotExist
  | Http404
  | JobTimeoutException
  | AssertionError
  | ZeroDivisionError
  | OSError
  | OverflowError
  | IntegrityError
  | IndexError
  | NotImplementedError
  | ProcessLookupError
  | ConnectionError
  | ResponseError
  | KeyboardInterrupt
  | SystemError
  | UserError string

type_synonym 'a result = "exn + 'a"

type_synonym ('s, 'a) outcome = "'a result \<times> 's"

definition and_then :: "('s, 'a) outcome \<Rightarrow> ('a \<Rightarrow> 's \<Rightarrow> ('s, 'b) outcome) \<Rightarrow> ('s, 'b) outcome"
  where "and_then m f = (case m of (Inl e, s) \<Rightarrow> (Inl e, s) | (Inr x, s) \<Rightarrow> f x s)"

lemma and_then_simps [simp]:
  "and_then (Inl e, s) f = (Inl e, s)"
  "and_then (Inr x, s) f = f x s"
  by (simp_all add: and_then_def)

lemma and_then_assoc: "and_then (and_then m f) g = and_then m (\<lambda>x s. and_then (f x s) g)"
  by (cases m; cases "fst m") auto

lemma and_then_Inr_iff:
  "and_then m f = (Inr y, t) \<longleftrightarrow> (\<exists>x s. m = (Inr x, s) \<and> f x s = (Inr y, t))"
  by (auto simp: and_then_def split: prod.splits sum.splits)

lemma and_then_InrE:
  assumes "and_then m f = (Inr y, t)"
  obtains x s where "m = (Inr x, s)" "f x s = (Inr y, t)"
  using assms by (auto simp: and_then_Inr_iff)

definition is_ok :: "'a result \<Rightarrow> bool"
  where "is_ok r = (case r of Inl _ \<Rightarrow> False | Inr _ \<Rightarrow> True)"

lemma is_ok_simps [simp]: "\<not> is_ok (Inl e)" "is_ok (Inr x)"
  by (simp_all add: is_ok_def)

definition rbind :: "'a result \<Rightarrow> ('a \<Rightarrow> 'b result) \<Rightarrow> 'b result"
  \<comment> \<open>sequencing of expressions that may raise and change nothing\<close>
  where "rbind r f = (case r of Inl e \<Rightarrow> Inl e | Inr x \<Rightarrow> f x)"

lemma rbind_simps [simp]: "rbind (Inl e) f = Inl e" "rbind (Inr x) f = f x"
  by (simp_all add: rbind_def)

type_synonym ('k, 's, 'a) op = "'k \<Rightarrow> 's \<Rightarrow> 'k \<times> ('s, 'a) outcome"
  \<comment> \<open>a method of an object \<open>'k\<close>: it may change the object and the world, and may raise\<close>

definition op_bind :: "('k, 's, 'a) op \<Rightarrow> ('a \<Rightarrow> ('k, 's, 'b) op) \<Rightarrow> ('k, 's, 'b) op"
  where "op_bind m f k s =
    (case m k s of (k1, Inl e, s1) \<Rightarrow> (k1, Inl e, s1) | (k1, Inr a, s1) \<Rightarrow> f a k1 s1)"

definition op_then :: "('k, 's, 'a) op \<Rightarrow> ('k, 's, 'b) op \<Rightarrow> ('k, 's, 'b) op"
  where "op_then m n = op_bind m (\<lambda>_. n)"

definition op_return :: "'a \<Rightarrow> ('k, 's, 'a) op"
  where "op_return a k s = (k, Inr a, s)"

definition op_raise :: "exn \<Rightarrow> ('k, 's, 'a) op"
  where "op_raise e k s = (k, Inl e, s)"

definition op_get :: "('k \<Rightarrow> 's \<Rightarrow> 'a) \<Rightarrow> ('k, 's, 'a) op"
  where "op_get f k s = (k, Inr (f k s), s)"

definition op_obj :: "('k \<Rightarrow> 'k) \<Rightarrow> ('k, 's, unit) op"
  where "op_obj f k s = (f k, Inr (), s)"

definition op_world :: "('k \<Rightarrow> 's \<Rightarrow> 's) \<Rightarrow> ('k, 's, unit) op"
  where "op_world f k s = (k, Inr (), f k s)"

definition op_lift :: "('k \<Rightarrow> 's \<Rightarrow> ('s, 'a) outcome) \<Rightarrow> ('k, 's, 'a) op"
  where "op_lift f k s = (k, f k s)"

definition op_when :: "bool \<Rightarrow> ('k, 's, unit) op \<Rightarrow> ('k, 's, unit) op"
  where "op_when b m = (if b then m else op_return ())"

definition op_catch :: "('k, 's, 'a) op \<Rightarrow> (exn \<Rightarrow> ('k, 's, 'a) op) \<Rightarrow> ('k, 's, 'a) op"
  where "op_catch m h k s =
    (case m k s of (k1, Inl e, s1) \<Rightarrow> h e k1 s1 | (k1, Inr a, s1) \<Rightarrow> (k1, Inr a, s1))"

definition op_sub :: "('k \<Rightarrow> 'm) \<Rightarrow> ('m \<Rightarrow> 'k \<Rightarrow> 'k) \<Rightarrow> ('m, 's, 'a) op \<Rightarrow> ('k, 's, 'a) op"
  \<comment> \<open>a method of the object's member\<close>
  where "op_sub get put m k s = (case m (get k) s of (x, r, s1) \<Rightarrow> (put x k, r, s1))"

fun op_each :: "('a \<Rightarrow> ('k, 's, unit) op) \<Rightarrow> 'a list \<Rightarrow> ('k, 's, unit) op" where
  "op_each f [] = op_return ()"
| "op_each f (x # xs) = op_then (f x) (op_each f xs)"

lemma op_simps [simp]:
  "op_return a k s = (k, Inr a, s)"
  "op_raise e k s = (k, Inl e, s)"
  "op_get f k s = (k, Inr (f k s), s)"
  "op_obj g k s = (g k, Inr (), s)"
  "op_world w k s = (k, Inr (), w k s)"
  "op_lift l k s = (k, l k s)"
  "op_then m n k s = op_bind m (\<lambda>_. n) k s"
  by (simp_all add: op_return_def op_raise_def op_get_def op_obj_def op_world_def op_lift_def op_then_def)

lemma op_bind_simps:
  "m k s = (k1, Inl e, s1) \<Longrightarrow> op_bind m f k s = (k1, Inl e, s1)"
  "m k s = (k1, Inr a, s1) \<Longrightarrow> op_bind m f k s = f a k1 s1"
  by (simp_all add: op_bind_def)

definition is_Exception :: "exn \<Rightarrow> bool"
  \<comment> \<open>what \<open>except Exception\<close> catches\<close>
  where "is_Exception e = (e \<noteq> SystemExit \<and> e \<noteq> KeyboardInterrupt)"

section \<open>Lists, association lists and maps\<close>

lemma filter_fst_neq_map_of: "map_of (filter (\<lambda>p. fst p \<noteq> k) xs) = (map_of xs)(k := None)"
  by (induction xs) (auto simp: fun_eq_iff)

lemma distinct_fst_filter: "distinct (map fst xs) \<Longrightarrow> distinct (map fst (filter P xs))"
  by (induction xs) auto

lemma map_of_eq_empty_iff: "map_of xs = Map.empty \<longleftrightarrow> xs = []"
  by (cases xs) (auto simp: fun_eq_iff)

lemma sorted_map_filter: "sorted (map f xs) \<Longrightarrow> sorted (map f (filter P xs))"
  by (rule sorted_filter)

lemma set_eq_filter_mem: "(x, y) \<in> set xs \<Longrightarrow> x \<in> fst ` set xs"
  by force

lemma map_of_update_all:
  "map_of (fold (\<lambda>(k, v). AList.update k v) kvs xs) = map_of xs ++ map_of (rev kvs)"
  by (induction kvs arbitrary: xs) (auto simp: update_conv' map_add_def fun_eq_iff split: option.splits)

end
