(* ===== verification/PyBase.thy ===== *)
theory PyBase
  imports Prelude
begin

text \<open>
  What the program uses of Python and of its standard library: the values it stores, the text
  they are stored as, decimal integers, a few string methods, and time.

  Instants are integers counting microseconds since the epoch: the resolution of \<open>datetime\<close>,
  so that \<open>datetime.timestamp()\<close> and the scores of the broker's sorted sets are exact.
  Floating-point numbers of other origins are rationals, without rounding.
  Text written by \<open>isoformat\<close>, \<open>json.dumps\<close>, \<open>repr\<close> of a float and by \<open>pickle\<close> with \<open>base64\<close>
  is represented by the value it encodes, tagged with the encoder: the program only ever decodes
  such text with the encoder's inverse.  Integers and strings are real text.
\<close>

section \<open>Time\<close>

type_synonym time = int

definition secs :: "int \<Rightarrow> time"
  where "secs n = n * 1000000"

definition to_secs :: "time \<Rightarrow> int"
  \<comment> \<open>\<open>int(t)\<close> of a timestamp in seconds: truncation towards zero\<close>
  where "to_secs t = (if 0 \<le> t then t div 1000000 else - ((- t) div 1000000))"

lemma to_secs_secs [simp]: "to_secs (secs n) = n"
proof (cases "0 \<le> n")
  case True
  then show ?thesis by (simp add: to_secs_def secs_def)
next
  case False
  then show ?thesis by (simp add: to_secs_def secs_def flip: mult_minus_left)
qed

lemma secs_le_iff [simp]: "secs a \<le> secs b \<longleftrightarrow> a \<le> b"
  by (simp add: secs_def)

lemma secs_add: "secs (a + b) = secs a + secs b"
  by (simp add: secs_def algebra_simps)

lemma secs_to_secs_le: "0 \<le> t \<Longrightarrow> secs (to_secs t) \<le> t"
proof -
  assume "0 \<le> t"
  then have "secs (to_secs t) = t - t mod 1000000"
    by (simp add: secs_def to_secs_def minus_mod_eq_div_mult)
  then show ?thesis by simp
qed

section \<open>Values and their stored text\<close>

datatype pyval =
    VNone
  | VBool bool
  | VInt int
  | VFloat rat
  | VStr string
  | VDatetime time
  | VEnum string
  | VList "pyval list"
  | VDict "(string \<times> pyval) list"
  | VObj string

datatype wire =
    W string
  | WFloat rat
  | WIso time
  | WJson pyval
  | WPickle pyval

fun jsonable :: "pyval \<Rightarrow> bool"
  \<comment> \<open>\<open>json.dumps(v)\<close> without a \<open>default\<close> returns rather than raising TypeError;
     a string-valued Enum is a string to the encoder\<close>
where
  "jsonable (VDatetime _) = False"
| "jsonable (VObj _) = False"
| "jsonable (VList vs) = list_all jsonable vs"
| "jsonable (VDict kvs) = list_all (\<lambda>kv. jsonable (snd kv)) kvs"
| "jsonable _ = True"

section \<open>Decimal integers\<close>

definition is_digit :: "char \<Rightarrow> bool"
  where "is_digit c = (48 \<le> (of_char c :: nat) \<and> (of_char c :: nat) \<le> 57)"

definition digit_val :: "char \<Rightarrow> nat"
  where "digit_val c = of_char c - 48"

definition digit_char :: "nat \<Rightarrow> char"
  where "digit_char d = char_of (48 + d)"

definition is_space :: "char \<Rightarrow> bool"
  where "is_space c = (let n = (of_char c :: nat) in 9 \<le> n \<and> n \<le> 13 \<or> 28 \<le> n \<and> n \<le> 32)"

definition py_strip :: "string \<Rightarrow> string"
  where "py_strip s = rev (dropWhile is_space (rev (dropWhile is_space s)))"

fun dec_digits :: "nat \<Rightarrow> string"
  where "dec_digits n = (if n < 10 then [digit_char n] else dec_digits (n div 10) @ [digit_char (n mod 10)])"

declare dec_digits.simps [simp del]

definition str_of_int :: "int \<Rightarrow> string"
  where "str_of_int i = (if i < 0 then CHR ''-'' # dec_digits (nat (- i)) else dec_digits (nat i))"

fun more_digits :: "nat \<Rightarrow> string \<Rightarrow> nat option"
  \<comment> \<open>the rest of a decimal literal after at least one digit; single underscores may separate digits\<close>
where
  "more_digits n [] = Some n"
| "more_digits n (c # cs) =
     (if is_digit c then more_digits (10 * n + digit_val c) cs
      else if c = CHR ''_'' then
        (case cs of [] \<Rightarrow> None
         | d # ds \<Rightarrow> if is_digit d then more_digits (10 * n + digit_val d) ds else None)
      else None)"

definition read_digits :: "string \<Rightarrow> nat option"
  where "read_digits s = (case s of [] \<Rightarrow> None
           | c # cs \<Rightarrow> if is_digit c then more_digits (digit_val c) cs else None)"

definition int_of_str :: "string \<Rightarrow> int option"
  \<comment> \<open>\<open>int(s)\<close> of a string, None for its ValueError\<close>
where
  "int_of_str s =
     (case py_strip s of
        [] \<Rightarrow> None
      | c # cs \<Rightarrow>
          if c = CHR ''-'' then map_option (\<lambda>n. - int n) (read_digits cs)
          else if c = CHR ''+'' then map_option int (read_digits cs)
          else map_option int (read_digits (c # cs)))"

lemma is_digit_digit_char [simp]: "d < 10 \<Longrightarrow> is_digit (digit_char d)"
  by (simp add: is_digit_def digit_char_def)

lemma digit_val_digit_char [simp]: "d < 10 \<Longrightarrow> digit_val (digit_char d) = d"
  by (simp add: digit_val_def digit_char_def)

lemma is_digit_not_space: "is_digit c \<Longrightarrow> \<not> is_space c"
  by (auto simp: is_digit_def is_space_def Let_def)

lemma is_digit_not_sign: "is_digit c \<Longrightarrow> c \<noteq> CHR ''-'' \<and> c \<noteq> CHR ''+'' \<and> c \<noteq> CHR ''_''"
  by (auto simp: is_digit_def)

lemma more_digits_append:
  "more_digits a xs = Some b \<Longrightarrow> more_digits a (xs @ ys) = more_digits b ys"
proof (induction a xs rule: more_digits.induct)
  case (1 n)
  then show ?case by simp
next
  case (2 n c cs)
  then show ?case by (cases cs) (auto split: if_splits)
qed

lemma dec_digits_all: "list_all is_digit (dec_digits n)"
proof (induction n rule: dec_digits.induct)
  case (1 n)
  then show ?case by (cases "n < 10") (simp_all add: dec_digits.simps [of n])
qed

lemma dec_digits_nonempty: "dec_digits n \<noteq> []"
  by (simp add: dec_digits.simps [of n])

lemma read_dec_digits: "read_digits (dec_digits n) = Some n"
proof (induction n rule: dec_digits.induct)
  case (1 n)
  show ?case
  proof (cases "n < 10")
    case True
    then show ?thesis by (simp add: dec_digits.simps [of n] read_digits_def)
  next
    case False
    with 1 have ih: "read_digits (dec_digits (n div 10)) = Some (n div 10)" by simp
    obtain c cs where cs: "dec_digits (n div 10) = c # cs"
      using dec_digits_nonempty by (cases "dec_digits (n div 10)") auto
    from ih cs have "is_digit c" and m: "more_digits (digit_val c) cs = Some (n div 10)"
      by (auto simp: read_digits_def split: if_splits)
    with False cs show ?thesis
      by (simp add: dec_digits.simps [of n] read_digits_def more_digits_append [OF m])
  qed
qed

lemma py_strip_digits:
  assumes "list_all is_digit xs" shows "py_strip xs = xs"
proof -
  have drop: "list_all is_digit ys \<Longrightarrow> dropWhile is_space ys = ys" for ys
    by (cases ys) (auto simp: is_digit_not_space)
  from assms have "list_all is_digit (rev xs)" by (simp add: list_all_rev)
  then show ?thesis using assms by (simp add: py_strip_def drop)
qed

lemma py_strip_minus_digits:
  assumes "list_all is_digit xs" "xs \<noteq> []" shows "py_strip (CHR ''-'' # xs) = CHR ''-'' # xs"
proof -
  have "dropWhile is_space (rev xs @ [CHR ''-'']) = rev xs @ [CHR ''-'']"
    using assms by (cases "rev xs") (auto simp: is_digit_not_space simp flip: list_all_rev [of _ xs])
  then show ?thesis by (simp add: py_strip_def is_space_def)
qed

lemma int_of_str_of_int [simp]: "int_of_str (str_of_int i) = Some i"
proof (cases "i < 0")
  case True
  then show ?thesis
    by (simp add: int_of_str_def str_of_int_def py_strip_minus_digits dec_digits_all
        dec_digits_nonempty read_dec_digits)
next
  case False
  obtain c cs where cs: "dec_digits (nat i) = c # cs"
    using dec_digits_nonempty by (cases "dec_digits (nat i)") auto
  with dec_digits_all [of "nat i"] have "is_digit c" by simp
  with is_digit_not_sign [of c] False cs show ?thesis
    using read_dec_digits [of "nat i"] dec_digits_all [of "nat i"]
    by (simp add: int_of_str_def str_of_int_def py_strip_digits)
qed

section \<open>String methods\<close>

definition lower_char :: "char \<Rightarrow> char"
  where "lower_char c = (let n = (of_char c :: nat) in if 65 \<le> n \<and> n \<le> 90 then char_of (n + 32) else c)"

definition py_lower :: "string \<Rightarrow> string"
  where "py_lower s = map lower_char s"

definition py_join :: "string \<Rightarrow> string list \<Rightarrow> string"
  where "py_join sep xs = (case xs of [] \<Rightarrow> [] | y # ys \<Rightarrow> y @ concat (map (\<lambda>z. sep @ z) ys))"

fun py_split :: "char \<Rightarrow> string \<Rightarrow> string list"
  \<comment> \<open>\<open>s.split(sep)\<close> for a separator of one character\<close>
where
  "py_split sep [] = [[]]"
| "py_split sep (c # cs) =
     (if c = sep then [] # py_split sep cs
      else (case py_split sep cs of [] \<Rightarrow> [[c]] | w # ws \<Rightarrow> (c # w) # ws))"

lemma py_split_nonempty [simp]: "py_split sep s \<noteq> []"
  by (induction s) (auto split: list.splits)

lemma py_join_py_split: "py_join [sep] (py_split sep s) = s"
proof (induction s)
  case (Cons c cs)
  then show ?case by (cases "py_split sep cs") (auto simp: py_join_def)
qed (simp add: py_join_def)

fun py_find :: "string \<Rightarrow> string \<Rightarrow> int"
  \<comment> \<open>\<open>s.find(sub)\<close>: the first position, -1 for none\<close>
where
  "py_find [] sub = (if sub = [] then 0 else -1)"
| "py_find (c # cs) sub =
     (if take (length sub) (c # cs) = sub then 0
      else (let r = py_find cs sub in if r = -1 then -1 else r + 1))"

end
