(* ===== verification/Settings.thy ===== *)
theory Settings
  imports PyBase
begin

text \<open>
  \<open>scheduler/types/settings_types.py\<close>, \<open>scheduler/types/broker_types.py\<close> and
  \<open>scheduler/settings.py\<close>: the scheduler's and the queues' configuration, the checks a queue
  configuration makes of itself, and the table of configured queues.
  The module globals \<open>SCHEDULER_CONFIG\<close> and \<open>_QUEUES\<close> are arguments of the operations that read them.
\<close>

section \<open>The scheduler's configuration\<close>

datatype broker_kind = REDIS | FAKEREDIS | VALKEY

record scheduler_config =
  EXECUTIONS_IN_PAGE :: int
  SCHEDULER_INTERVAL :: int
  BROKER :: broker_kind
  TOKEN_VALIDATION_METHOD :: "(string \<Rightarrow> bool) option"
  CALLBACK_TIMEOUT :: int
  DEFAULT_SUCCESS_TTL :: int
  DEFAULT_FAILURE_TTL :: int
  DEFAULT_JOB_TTL :: int
  DEFAULT_JOB_TIMEOUT :: int
  DEFAULT_WORKER_TTL :: int
  DEFAULT_MAINTENANCE_TASK_INTERVAL :: int
  DEFAULT_JOB_MONITORING_INTERVAL :: int
  SCHEDULER_FALLBACK_PERIOD_SECS :: int
  FAIL_FAST_QUEUE_PROBING :: bool
  QUEUE_PROBE_SOCKET_CONNECT_TIMEOUT :: rat

definition token_validation :: "string \<Rightarrow> bool"
  where "token_validation token = False"

definition default_scheduler_config :: scheduler_config
  where "default_scheduler_config =
    \<lparr> EXECUTIONS_IN_PAGE = 20,
      SCHEDULER_INTERVAL = 10,
      BROKER = REDIS,
      TOKEN_VALIDATION_METHOD = Some token_validation,
      CALLBACK_TIMEOUT = 60,
      DEFAULT_SUCCESS_TTL = 10 * 60,
      DEFAULT_FAILURE_TTL = 365 * 24 * 60 * 60,
      DEFAULT_JOB_TTL = 10 * 60,
      DEFAULT_JOB_TIMEOUT = 5 * 60,
      DEFAULT_WORKER_TTL = 10 * 60,
      DEFAULT_MAINTENANCE_TASK_INTERVAL = 10 * 60,
      DEFAULT_JOB_MONITORING_INTERVAL = 30,
      SCHEDULER_FALLBACK_PERIOD_SECS = 120,
      FAIL_FAST_QUEUE_PROBING = True,
      QUEUE_PROBE_SOCKET_CONNECT_TIMEOUT = 2 \<rparr>"

section \<open>A queue's configuration\<close>

record queue_configuration =
  DB :: "int option"
  UNIX_SOCKET_PATH :: "string option"
  URL :: "string option"
  HOST :: "string option"
  PORT :: "int option"
  USERNAME :: "string option"
  PASSWORD :: "string option"
  ASYNC :: bool
  SENTINELS :: "(string \<times> int) list option"
  SENTINEL_KWARGS :: "(string \<times> pyval) list option"
  MASTER_NAME :: "string option"
  CONNECTION_KWARGS :: "(string \<times> pyval) list option"

definition truthy_str :: "string option \<Rightarrow> bool"
  where "truthy_str v = (case v of None \<Rightarrow> False | Some s \<Rightarrow> s \<noteq> [])"

definition truthy_list :: "'a list option \<Rightarrow> bool"
  where "truthy_list v = (case v of None \<Rightarrow> False | Some xs \<Rightarrow> xs \<noteq> [])"

definition queue_configuration_post_init :: "queue_configuration \<Rightarrow> queue_configuration result"
  where "queue_configuration_post_init q =
    (if \<not> (truthy_str (URL q) \<or> truthy_str (UNIX_SOCKET_PATH q) \<or> truthy_str (HOST q) \<or> truthy_list (SENTINELS q))
     then Inl ValueError
     else if of_bool (URL q \<noteq> None) + of_bool (UNIX_SOCKET_PATH q \<noteq> None) + of_bool (HOST q \<noteq> None) > (1::nat)
     then Inl ValueError
     else if HOST q \<noteq> None \<and> (PORT q = None \<or> DB q = None)
     then Inl ValueError
     else Inr q)"

definition dict_eq :: "(string \<times> 'v) list \<Rightarrow> (string \<times> 'v) list \<Rightarrow> bool"
  \<comment> \<open>equality of dicts with the given items, whatever their order\<close>
  where "dict_eq a b = (list_all (\<lambda>(k, v). map_of b k = Some v) a \<and> list_all (\<lambda>(k, v). map_of a k = Some v) b)"

definition dict_opt_eq :: "(string \<times> 'v) list option \<Rightarrow> (string \<times> 'v) list option \<Rightarrow> bool"
  where "dict_opt_eq a b = (case (a, b) of (None, None) \<Rightarrow> True | (Some x, Some y) \<Rightarrow> dict_eq x y | _ \<Rightarrow> False)"

definition same_connection_params :: "queue_configuration \<Rightarrow> queue_configuration \<Rightarrow> bool"
  where "same_connection_params a b \<longleftrightarrow>
    URL a = URL b \<and> DB a = DB b \<and> UNIX_SOCKET_PATH a = UNIX_SOCKET_PATH b \<and> HOST a = HOST b \<and>
    PORT a = PORT b \<and> PASSWORD a = PASSWORD b \<and> SENTINELS a = SENTINELS b \<and>
    MASTER_NAME a = MASTER_NAME b \<and> dict_opt_eq (CONNECTION_KWARGS a) (CONNECTION_KWARGS b)"

section \<open>The configured queues\<close>

type_synonym queue_table = "(string \<times> queue_configuration) list"

definition get_queue_names :: "queue_table \<Rightarrow> string list"
  where "get_queue_names qs = map fst qs"

definition get_queue_configuration :: "queue_table \<Rightarrow> string \<Rightarrow> queue_configuration result"
  where "get_queue_configuration qs name =
    (case map_of qs name of None \<Rightarrow> Inl QueueNotFoundError | Some q \<Rightarrow> Inr q)"

definition task_types :: "string list"
  where "task_types = [''OnceTaskType'', ''RepeatableTaskType'', ''CronTaskType'']"

lemma get_queue_configuration_ok_iff:
  "is_ok (get_queue_configuration qs name) \<longleftrightarrow> name \<in> set (get_queue_names qs)"
  by (auto simp: get_queue_configuration_def get_queue_names_def map_of_eq_None_iff
      split: option.splits dest: map_of_SomeD intro: rev_image_eqI)

lemma dict_eq_map_of:
  assumes "dict_eq a b" shows "map_of a = map_of b"
proof
  fix k
  from assms have ab: "\<And>v. map_of a k = Some v \<Longrightarrow> map_of b k = Some v"
    and ba: "\<And>v. map_of b k = Some v \<Longrightarrow> map_of a k = Some v"
    by (force simp: dict_eq_def list_all_iff dest: map_of_SomeD)+
  show "map_of a k = map_of b k"
    by (cases "map_of a k"; cases "map_of b k") (auto dest: ab ba)
qed

lemma dict_eq_refl: "distinct (map fst a) \<Longrightarrow> dict_eq a a"
  by (auto simp: dict_eq_def list_all_iff)

end
