(* ===== verification/Broker.thy ===== *)
theory Broker
  imports Settings
begin

text \<open>
  The broker (Redis or Valkey) is a service outside the repository.  It is a parameter of the model:
  a record of the commands the program sends, over an abstract state \<open>'s\<close> of the outside world, with
  the configuration and the clock the program reads.  The locale \<open>broker\<close> states what the program
  relies on, as the commands' documentation describes them: \<open>view\<close> reads off the outside state what
  the keys hold, and every command acts on the view as its documentation says.  Two commands are
  constrained less: a blocking pop may return anything another client adds while it waits, and a
  stream with an approximate length limit may keep more entries than asked.

  Simplifications, all of the service and not of the program: keys holding different types are
  looked up separately, a key does not expire between two commands of one operation
  (\<open>expire_key\<close> is the expiry itself), and commands do not fail.
  A pipeline is the list of the commands buffered so far; executing it sends them in order.

  The second half is an in-memory broker, which satisfies the contract and on which witnesses run.
\<close>

type_synonym key = string

datatype cmd =
    ZADD key string time bool
  | ZREM key string
  | ZREMRANGEBYSCORE key time time
  | HSET key "(string \<times> wire) list"
  | HDEL key "string list"
  | SADD key string
  | SREM key "string list"
  | DEL key
  | EXPIRE key int
  | PERSIST key
  | XADD key "(string \<times> wire) list" nat
  | PUBLISH key wire

record 's env =
  e_cfg :: scheduler_config
  e_now :: "'s \<Rightarrow> time \<times> 's"
  e_run :: "cmd \<Rightarrow> 's \<Rightarrow> 's"
  e_zrange :: "key \<Rightarrow> int \<Rightarrow> int \<Rightarrow> 's \<Rightarrow> (string \<times> time) list"
  e_zrangebyscore :: "key \<Rightarrow> time \<Rightarrow> time \<Rightarrow> nat option \<Rightarrow> 's \<Rightarrow> (string \<times> time) list"
  e_zcard :: "key \<Rightarrow> 's \<Rightarrow> nat"
  e_zrank :: "key \<Rightarrow> string \<Rightarrow> 's \<Rightarrow> nat option"
  e_zscore :: "key \<Rightarrow> string \<Rightarrow> 's \<Rightarrow> time option"
  e_zpopmin :: "key \<Rightarrow> 's \<Rightarrow> (string \<times> time) option \<times> 's"
  e_bzpopmin :: "key list \<Rightarrow> int \<Rightarrow> 's \<Rightarrow> (key \<times> string \<times> time) option \<times> 's"
  e_hgetall :: "key \<Rightarrow> 's \<Rightarrow> (string \<times> wire) list"
  e_hget :: "key \<Rightarrow> string \<Rightarrow> 's \<Rightarrow> wire option"
  e_exists :: "key \<Rightarrow> 's \<Rightarrow> bool"
  e_smembers :: "key \<Rightarrow> 's \<Rightarrow> string list"
  e_scard :: "key \<Rightarrow> 's \<Rightarrow> nat"
  e_setnx :: "key \<Rightarrow> string \<Rightarrow> int option \<Rightarrow> 's \<Rightarrow> bool \<times> 's"
  e_get :: "key \<Rightarrow> 's \<Rightarrow> string option"
  e_xrevrange :: "key \<Rightarrow> nat option \<Rightarrow> 's \<Rightarrow> (string \<times> wire) list list"

definition run_all :: "('s, 'x) env_scheme \<Rightarrow> cmd list \<Rightarrow> 's \<Rightarrow> 's"
  \<comment> \<open>\<open>pipeline.execute()\<close>\<close>
  where "run_all B pipe s = fold (e_run B) pipe s"

lemma run_all_simps [simp]:
  "run_all B [] s = s"
  "run_all B (c # cs) s = run_all B cs (e_run B c s)"
  by (simp_all add: run_all_def)

lemma run_all_append [simp]: "run_all B (xs @ ys) s = run_all B ys (run_all B xs s)"
  by (simp add: run_all_def)

definition current_timestamp :: "('s, 'x) env_scheme \<Rightarrow> 's \<Rightarrow> int \<times> 's"
  where "current_timestamp B s = (let (t, s1) = e_now B s in (to_secs t, s1))"

definition utcnow :: "('s, 'x) env_scheme \<Rightarrow> 's \<Rightarrow> time \<times> 's"
  where "utcnow B s = e_now B s"

section \<open>What the keys hold\<close>

record store =
  zsets :: "key \<Rightarrow> (string \<times> time) list"
  hashes :: "key \<Rightarrow> string \<rightharpoonup> wire"
  sets :: "key \<Rightarrow> string set"
  strs :: "key \<rightharpoonup> string"
  streams :: "key \<Rightarrow> (string \<times> wire) list list"
  ttls :: "key \<rightharpoonup> int"
  outbox :: "(key \<times> wire) list"

subsection \<open>Sorted sets\<close>

definition zkey :: "string \<times> time \<Rightarrow> time \<times> string"
  where "zkey p = (snd p, fst p)"

definition zset_ok :: "(string \<times> time) list \<Rightarrow> bool"
  \<comment> \<open>ordered by score, then lexicographically by member, with distinct members\<close>
  where "zset_ok xs \<longleftrightarrow> sorted (map zkey xs) \<and> distinct (map fst xs)"

definition z_rem :: "string \<Rightarrow> (string \<times> time) list \<Rightarrow> (string \<times> time) list"
  where "z_rem m xs = filter (\<lambda>p. fst p \<noteq> m) xs"

definition z_add :: "string \<Rightarrow> time \<Rightarrow> bool \<Rightarrow> (string \<times> time) list \<Rightarrow> (string \<times> time) list"
  where "z_add m sc xx xs =
    (if xx \<and> m \<notin> fst ` set xs then xs else insort_key zkey (m, sc) (z_rem m xs))"

definition z_in_score :: "time \<Rightarrow> time \<Rightarrow> string \<times> time \<Rightarrow> bool"
  where "z_in_score lo hi p \<longleftrightarrow> lo \<le> snd p \<and> snd p \<le> hi"

definition z_range :: "int \<Rightarrow> int \<Rightarrow> 'a list \<Rightarrow> 'a list"
  \<comment> \<open>the elements from index \<open>start\<close> to index \<open>stop\<close>, both included; negative indexes count from the end\<close>
  where "z_range start stop xs =
    (let n = int (length xs);
         a = (if start < 0 then max 0 (n + start) else start);
         b = (if stop < 0 then n + stop else min stop (n - 1))
     in if a > b then [] else take (nat (b - a + 1)) (drop (nat a) xs))"

definition z_rank :: "string \<Rightarrow> (string \<times> time) list \<Rightarrow> nat option"
  where "z_rank m xs = (let i = length (takeWhile (\<lambda>p. fst p \<noteq> m) xs) in if i < length xs then Some i else None)"

definition z_limit :: "nat option \<Rightarrow> 'a list \<Rightarrow> 'a list"
  where "z_limit n xs = (case n of None \<Rightarrow> xs | Some k \<Rightarrow> take k xs)"

definition first_nonempty :: "('k \<Rightarrow> 'a list) \<Rightarrow> 'k list \<Rightarrow> ('k \<times> 'a) option"
  where "first_nonempty f ks = map_option (\<lambda>k. (k, hd (f k))) (find (\<lambda>k. f k \<noteq> []) ks)"

subsection \<open>The effect of a command\<close>

definition drop_ttl_if_gone :: "key \<Rightarrow> store \<Rightarrow> store"
  where "drop_ttl_if_gone k st =
    (if hashes st k = Map.empty then st\<lparr>ttls := (ttls st)(k := None)\<rparr> else st)"

definition key_exists :: "store \<Rightarrow> key \<Rightarrow> bool"
  \<comment> \<open>of the keys that can be given a time to live: hashes, strings and streams\<close>
  where "key_exists st k \<longleftrightarrow> hashes st k \<noteq> Map.empty \<or> strs st k \<noteq> None \<or> streams st k \<noteq> []"

definition del_key :: "key \<Rightarrow> store \<Rightarrow> store"
  where "del_key k st = st\<lparr>zsets := (zsets st)(k := []), hashes := (hashes st)(k := Map.empty),
     sets := (sets st)(k := {}), strs := (strs st)(k := None), streams := (streams st)(k := []),
     ttls := (ttls st)(k := None)\<rparr>"

definition expire_key :: "key \<Rightarrow> store \<Rightarrow> store"
  \<comment> \<open>the service removing a key whose time to live has run out\<close>
  where "expire_key k st = (if ttls st k = None then st else del_key k st)"

fun apply_cmd :: "cmd \<Rightarrow> store \<Rightarrow> store" where
  "apply_cmd (ZADD k m sc xx) st = st\<lparr>zsets := (zsets st)(k := z_add m sc xx (zsets st k))\<rparr>"
| "apply_cmd (ZREM k m) st = st\<lparr>zsets := (zsets st)(k := z_rem m (zsets st k))\<rparr>"
| "apply_cmd (ZREMRANGEBYSCORE k lo hi) st =
     st\<lparr>zsets := (zsets st)(k := filter (\<lambda>p. \<not> z_in_score lo hi p) (zsets st k))\<rparr>"
| "apply_cmd (HSET k kvs) st = st\<lparr>hashes := (hashes st)(k := hashes st k ++ map_of (rev kvs))\<rparr>"
| "apply_cmd (HDEL k fs) st =
     drop_ttl_if_gone k (st\<lparr>hashes := (hashes st)(k := hashes st k |` (- set fs))\<rparr>)"
| "apply_cmd (SADD k m) st = st\<lparr>sets := (sets st)(k := insert m (sets st k))\<rparr>"
| "apply_cmd (SREM k ms) st = st\<lparr>sets := (sets st)(k := sets st k - set ms)\<rparr>"
| "apply_cmd (DEL k) st = del_key k st"
| "apply_cmd (EXPIRE k ttl) st =
     (if \<not> key_exists st k then st
      else if ttl \<le> 0 then del_key k st
      else st\<lparr>ttls := (ttls st)(k \<mapsto> ttl)\<rparr>)"
| "apply_cmd (PERSIST k) st = st\<lparr>ttls := (ttls st)(k := None)\<rparr>"
| "apply_cmd (XADD k e n) st = st\<lparr>streams := (streams st)(k := streams st k @ [e])\<rparr>"
| "apply_cmd (PUBLISH ch v) st = st\<lparr>outbox := outbox st @ [(ch, v)]\<rparr>"

fun trims_stream :: "cmd \<Rightarrow> bool" where
  "trims_stream (XADD _ _ _) = True"
| "trims_stream _ = False"

section \<open>The contract\<close>

locale broker =
  fixes B :: "('s, 'x) env_scheme"
    and view :: "'s \<Rightarrow> store"
  assumes zset_ok_view: "zset_ok (zsets (view s) k)"
    and view_now: "view (snd (e_now B s)) = view s"
    and view_run: "\<not> trims_stream c \<Longrightarrow> view (e_run B c s) = apply_cmd c (view s)"
    and view_xadd: "\<exists>d. view (e_run B (XADD k e n) s) =
          (view s)\<lparr>streams := (streams (view s))(k := drop d (streams (view s) k @ [e]))\<rparr> \<and>
          (d = 0 \<or> (0 < n \<and> n \<le> Suc (length (streams (view s) k)) - d))"
    and zrange: "e_zrange B k a b s = z_range a b (zsets (view s) k)"
    and zrangebyscore: "e_zrangebyscore B k lo hi cnt s = z_limit cnt (filter (z_in_score lo hi) (zsets (view s) k))"
    and zcard: "e_zcard B k s = length (zsets (view s) k)"
    and zrank: "e_zrank B k m s = z_rank m (zsets (view s) k)"
    and zscore: "e_zscore B k m s = map_of (zsets (view s) k) m"
    and zpopmin_fst: "fst (e_zpopmin B k s) = (case zsets (view s) k of [] \<Rightarrow> None | p # ps \<Rightarrow> Some p)"
    and zpopmin_view: "view (snd (e_zpopmin B k s)) =
          (view s)\<lparr>zsets := (zsets (view s))(k := tl (zsets (view s) k))\<rparr>"
    and bzpopmin_some: "first_nonempty (zsets (view s)) ks = Some (k, p) \<Longrightarrow>
          fst (e_bzpopmin B ks timeout s) = Some (k, p) \<and>
          view (snd (e_bzpopmin B ks timeout s)) =
            (view s)\<lparr>zsets := (zsets (view s))(k := tl (zsets (view s) k))\<rparr>"
    and bzpopmin_none: "e_bzpopmin B ks timeout s = (None, t) \<Longrightarrow> view t = view s"
    and bzpopmin_key: "fst (e_bzpopmin B ks timeout s) = Some (k, p) \<Longrightarrow> k \<in> set ks"
    and hgetall: "map_of (e_hgetall B k s) = hashes (view s) k"
    and hgetall_distinct: "distinct (map fst (e_hgetall B k s))"
    and hget: "e_hget B k f s = hashes (view s) k f"
    and exists: "e_exists B k s \<longleftrightarrow> key_exists (view s) k"
    and smembers: "set (e_smembers B k s) = sets (view s) k"
    and smembers_distinct: "distinct (e_smembers B k s)"
    and scard: "e_scard B k s = card (sets (view s) k)"
    and setnx_fst: "fst (e_setnx B k v ex s) \<longleftrightarrow> strs (view s) k = None"
    and setnx_view: "view (snd (e_setnx B k v ex s)) =
          (if strs (view s) k = None
           then (view s)\<lparr>strs := (strs (view s))(k \<mapsto> v), ttls := (ttls (view s))(k := ex)\<rparr>
           else view s)"
    and get: "e_get B k s = strs (view s) k"
    and xrevrange: "e_xrevrange B k cnt s = z_limit cnt (rev (streams (view s) k))"
begin

lemmas reads = zrange zrangebyscore zcard zrank zscore hget exists scard get xrevrange setnx_fst

lemma hgetall_empty_iff: "e_hgetall B k s = [] \<longleftrightarrow> hashes (view s) k = Map.empty"
  by (simp add: map_of_eq_empty_iff flip: hgetall)

lemma view_utcnow [simp]: "view (snd (utcnow B s)) = view s"
  by (simp add: utcnow_def view_now)

lemma view_current_timestamp [simp]: "view (snd (current_timestamp B s)) = view s"
  using view_now [of s] by (cases "e_now B s") (simp add: current_timestamp_def)

lemma view_run_all:
  "list_all (\<lambda>c. \<not> trims_stream c) cs \<Longrightarrow> view (run_all B cs s) = fold apply_cmd cs (view s)"
  by (induction cs arbitrary: s) (auto simp: view_run)

end

text \<open>The contract reads the commands only: it carries over to an environment that has the same ones.\<close>

lemma broker_same_commands:
  assumes "broker B view"
    and "e_now B' = e_now B" "e_run B' = e_run B" "e_zrange B' = e_zrange B" "e_zrangebyscore B' = e_zrangebyscore B"
      "e_zcard B' = e_zcard B" "e_zrank B' = e_zrank B" "e_zscore B' = e_zscore B" "e_zpopmin B' = e_zpopmin B"
      "e_bzpopmin B' = e_bzpopmin B" "e_hgetall B' = e_hgetall B" "e_hget B' = e_hget B" "e_exists B' = e_exists B"
      "e_smembers B' = e_smembers B" "e_scard B' = e_scard B" "e_setnx B' = e_setnx B" "e_get B' = e_get B"
      "e_xrevrange B' = e_xrevrange B"
  shows "broker B' view"
  using assms(1) unfolding broker_def assms(2-) .

section \<open>Facts on sorted sets\<close>

lemma zset_ok_Nil [simp]: "zset_ok []"
  by (simp add: zset_ok_def)

lemma zset_ok_filter: "zset_ok xs \<Longrightarrow> zset_ok (filter P xs)"
  by (simp add: zset_ok_def sorted_filter distinct_fst_filter)

lemma zset_ok_z_rem: "zset_ok xs \<Longrightarrow> zset_ok (z_rem m xs)"
  by (simp add: z_rem_def zset_ok_filter)

lemma zset_ok_tl: "zset_ok xs \<Longrightarrow> zset_ok (tl xs)"
  by (cases xs) (auto simp: zset_ok_def)

lemma set_z_rem: "set (z_rem m xs) = {p \<in> set xs. fst p \<noteq> m}"
  by (auto simp: z_rem_def)

lemma set_z_add:
  "set (z_add m sc xx xs) =
     (if xx \<and> m \<notin> fst ` set xs then set xs else insert (m, sc) {p \<in> set xs. fst p \<noteq> m})"
  by (simp add: z_add_def set_insort_key set_z_rem)

lemma fst_not_in_z_rem: "m \<notin> fst ` set (z_rem m xs)"
  by (auto simp: set_z_rem)

lemma distinct_insort_key_fst:
  "distinct (map fst xs) \<Longrightarrow> fst p \<notin> fst ` set xs \<Longrightarrow> distinct (map fst (insort_key f p xs))"
  by (induction xs) (auto simp: set_insort_key)

lemma zset_ok_z_add:
  assumes "zset_ok xs" shows "zset_ok (z_add m sc xx xs)"
proof -
  have ok: "zset_ok (z_rem m xs)" using assms by (rule zset_ok_z_rem)
  then have "sorted (map zkey (insort_key zkey (m, sc) (z_rem m xs)))"
    by (simp add: zset_ok_def sorted_insort_key)
  moreover have "distinct (map fst (insort_key zkey (m, sc) (z_rem m xs)))"
    using ok fst_not_in_z_rem [of m xs] by (simp add: zset_ok_def distinct_insort_key_fst)
  ultimately show ?thesis using assms by (simp add: z_add_def zset_ok_def)
qed

lemma map_of_z_rem [simp]: "map_of (z_rem m xs) = (map_of xs)(m := None)"
  by (simp add: z_rem_def filter_fst_neq_map_of)

lemma map_of_z_add:
  assumes "zset_ok xs"
  shows "map_of (z_add m sc xx xs) =
     (if xx \<and> m \<notin> fst ` set xs then map_of xs else (map_of xs)(m \<mapsto> sc))"
proof -
  have d: "distinct (map fst (z_add m sc xx xs))"
    using zset_ok_z_add [OF assms] by (simp add: zset_ok_def)
  show ?thesis
  proof (cases "xx \<and> m \<notin> fst ` set xs")
    case True
    then show ?thesis by (simp add: z_add_def)
  next
    case False
    have "map_of (z_add m sc xx xs) k = ((map_of xs)(m \<mapsto> sc)) k" for k
    proof (cases "k = m")
      case True
      with False d show ?thesis by (auto simp: set_z_add map_of_eq_Some_iff)
    next
      case neq: False
      have "(map_of (z_add m sc xx xs) k = Some v) = (map_of xs k = Some v)" for v
        using neq False d assms by (simp add: set_z_add map_of_eq_Some_iff zset_ok_def)
      with neq show ?thesis by (cases "map_of xs k"; cases "map_of (z_add m sc xx xs) k") auto
    qed
    with False show ?thesis by auto
  qed
qed

lemma length_z_add_new:
  "m \<notin> fst ` set xs \<Longrightarrow> length (z_add m sc False xs) = Suc (length xs)"
proof -
  assume "m \<notin> fst ` set xs"
  then have "z_rem m xs = xs" by (auto simp: z_rem_def filter_id_conv)
  then show ?thesis by (simp add: z_add_def)
qed

lemma z_range_all [simp]: "z_range 0 (-1) xs = xs"
  by (cases xs) (simp_all add: z_range_def)

lemma z_range_first: "z_range 0 0 xs = (case xs of [] \<Rightarrow> [] | x # _ \<Rightarrow> [x])"
  by (cases xs) (simp_all add: z_range_def)

lemma z_range_last: "z_range (-1) (-1) xs = (if xs = [] then [] else [last xs])"
proof (cases xs rule: rev_cases)
  case Nil
  then show ?thesis by (simp add: z_range_def)
next
  case (snoc ys y)
  then show ?thesis by (simp add: z_range_def)
qed

lemma z_range_nonneg:
  "0 \<le> a \<Longrightarrow> 0 \<le> b \<Longrightarrow> z_range a b xs = take (nat (b - a + 1)) (drop (nat a) xs)"
  by (auto simp: z_range_def Let_def min_def nat_diff_distrib)

lemma z_rank_None_iff: "z_rank m xs = None \<longleftrightarrow> m \<notin> fst ` set xs"
proof -
  have "length (takeWhile (\<lambda>p. fst p \<noteq> m) xs) < length xs \<longleftrightarrow> m \<in> fst ` set xs"
    by (induction xs) auto
  then show ?thesis by (auto simp: z_rank_def Let_def)
qed

lemma first_nonempty_None_iff: "first_nonempty f ks = None \<longleftrightarrow> (\<forall>k\<in>set ks. f k = [])"
  by (auto simp: first_nonempty_def find_None_iff)

lemma z_add_last:
  assumes ok: "zset_ok xs" and new: "m \<notin> fst ` set xs"
    and last: "\<forall>p\<in>set xs. snd p < sc \<or> (snd p = sc \<and> fst p \<le> m)"
  shows "z_add m sc False xs = xs @ [(m, sc)]"
proof -
  have rem: "z_rem m xs = xs" using new by (auto simp: z_rem_def filter_id_conv)
  have "insort_key zkey (m, sc) xs = xs @ [(m, sc)]"
    using last new
  proof (induction xs)
    case (Cons p ps)
    then show ?case by (cases p) (auto simp: zkey_def less_prod_def' less_eq_prod_def)
  qed simp
  then show ?thesis by (simp add: z_add_def rem)
qed

section \<open>An in-memory broker\<close>

record mem =
  m_clock :: time
  m_zsets :: "key \<Rightarrow> (string \<times> time) list"
  m_hashes :: "key \<Rightarrow> (string \<times> wire) list"
  m_sets :: "key \<Rightarrow> string list"
  m_strs :: "key \<Rightarrow> string option"
  m_streams :: "key \<Rightarrow> (string \<times> wire) list list"
  m_ttls :: "key \<Rightarrow> int option"
  m_outbox :: "(key \<times> wire) list"

definition z_norm :: "(string \<times> time) list \<Rightarrow> (string \<times> time) list"
  where "z_norm xs = sort_key zkey (AList.clearjunk xs)"

lemma zset_ok_z_norm [simp]: "zset_ok (z_norm xs)"
proof -
  have "mset (map fst (z_norm xs)) = mset (map fst (AList.clearjunk xs))"
    by (simp add: z_norm_def)
  then have "distinct (map fst (z_norm xs))"
    using mset_eq_imp_distinct_iff distinct_clearjunk by blast
  then show ?thesis by (simp add: zset_ok_def z_norm_def)
qed

lemma z_norm_id: "zset_ok xs \<Longrightarrow> z_norm xs = xs"
  by (simp add: z_norm_def zset_ok_def sort_key_id_if_sorted)

definition m_zset :: "'m mem_scheme \<Rightarrow> key \<Rightarrow> (string \<times> time) list"
  where "m_zset m k = z_norm (m_zsets m k)"

definition m_hash :: "'m mem_scheme \<Rightarrow> key \<Rightarrow> (string \<times> wire) list"
  where "m_hash m k = AList.clearjunk (m_hashes m k)"

definition m_set :: "'m mem_scheme \<Rightarrow> key \<Rightarrow> string list"
  where "m_set m k = remdups (m_sets m k)"

definition mem_view :: "'m mem_scheme \<Rightarrow> store"
  where "mem_view m = \<lparr>zsets = m_zset m, hashes = (\<lambda>k. map_of (m_hashes m k)), sets = (\<lambda>k. set (m_sets m k)),
     strs = m_strs m, streams = m_streams m, ttls = m_ttls m, outbox = m_outbox m\<rparr>"

definition mem_del :: "key \<Rightarrow> 'm mem_scheme \<Rightarrow> 'm mem_scheme"
  where "mem_del k m = m\<lparr>m_zsets := (m_zsets m)(k := []), m_hashes := (m_hashes m)(k := []),
     m_sets := (m_sets m)(k := []), m_strs := (m_strs m)(k := None), m_streams := (m_streams m)(k := []),
     m_ttls := (m_ttls m)(k := None)\<rparr>"

definition mem_exists :: "key \<Rightarrow> 'm mem_scheme \<Rightarrow> bool"
  where "mem_exists k m \<longleftrightarrow> m_hashes m k \<noteq> [] \<or> m_strs m k \<noteq> None \<or> m_streams m k \<noteq> []"

fun mem_run :: "cmd \<Rightarrow> 'm mem_scheme \<Rightarrow> 'm mem_scheme" where
  "mem_run (ZADD k x sc xx) m = m\<lparr>m_zsets := (m_zsets m)(k := z_add x sc xx (m_zset m k))\<rparr>"
| "mem_run (ZREM k x) m = m\<lparr>m_zsets := (m_zsets m)(k := z_rem x (m_zset m k))\<rparr>"
| "mem_run (ZREMRANGEBYSCORE k lo hi) m =
     m\<lparr>m_zsets := (m_zsets m)(k := filter (\<lambda>p. \<not> z_in_score lo hi p) (m_zset m k))\<rparr>"
| "mem_run (HSET k kvs) m =
     m\<lparr>m_hashes := (m_hashes m)(k := fold (\<lambda>(f, v). AList.update f v) kvs (m_hashes m k))\<rparr>"
| "mem_run (HDEL k fs) m =
     (let h = AList.restrict (- set fs) (m_hashes m k)
      in m\<lparr>m_hashes := (m_hashes m)(k := h), m_ttls := (if h = [] then (m_ttls m)(k := None) else m_ttls m)\<rparr>)"
| "mem_run (SADD k x) m = m\<lparr>m_sets := (m_sets m)(k := x # m_sets m k)\<rparr>"
| "mem_run (SREM k xs) m = m\<lparr>m_sets := (m_sets m)(k := filter (\<lambda>x. x \<notin> set xs) (m_sets m k))\<rparr>"
| "mem_run (DEL k) m = mem_del k m"
| "mem_run (EXPIRE k ttl) m =
     (if \<not> mem_exists k m then m else if ttl \<le> 0 then mem_del k m
      else m\<lparr>m_ttls := (m_ttls m)(k \<mapsto> ttl)\<rparr>)"
| "mem_run (PERSIST k) m = m\<lparr>m_ttls := (m_ttls m)(k := None)\<rparr>"
| "mem_run (XADD k e n) m =
     m\<lparr>m_streams := (m_streams m)(k := drop (if n = 0 then 0 else Suc (length (m_streams m k)) - n) (m_streams m k @ [e]))\<rparr>"
| "mem_run (PUBLISH ch v) m = m\<lparr>m_outbox := m_outbox m @ [(ch, v)]\<rparr>"

definition mem_now :: "'m mem_scheme \<Rightarrow> time \<times> 'm mem_scheme"
  \<comment> \<open>a clock that advances by one microsecond at each reading\<close>
  where "mem_now m = (m_clock m, m\<lparr>m_clock := m_clock m + 1\<rparr>)"

definition mem_pop :: "key \<Rightarrow> 'm mem_scheme \<Rightarrow> 'm mem_scheme"
  where "mem_pop k m = m\<lparr>m_zsets := (m_zsets m)(k := tl (m_zset m k))\<rparr>"

definition mem_env_ext :: "scheduler_config \<Rightarrow> 'x \<Rightarrow> ('m mem_scheme, 'x) env_scheme"
  where "mem_env_ext cfg x =
    \<lparr> e_cfg = cfg,
      e_now = mem_now,
      e_run = mem_run,
      e_zrange = (\<lambda>k a b m. z_range a b (m_zset m k)),
      e_zrangebyscore = (\<lambda>k lo hi n m. z_limit n (filter (z_in_score lo hi) (m_zset m k))),
      e_zcard = (\<lambda>k m. length (m_zset m k)),
      e_zrank = (\<lambda>k x m. z_rank x (m_zset m k)),
      e_zscore = (\<lambda>k x m. map_of (m_zset m k) x),
      e_zpopmin = (\<lambda>k m. (case m_zset m k of [] \<Rightarrow> None | p # _ \<Rightarrow> Some p, mem_pop k m)),
      e_bzpopmin = (\<lambda>ks timeout m. case first_nonempty (m_zset m) ks of
          None \<Rightarrow> (None, m) | Some (k, p) \<Rightarrow> (Some (k, p), mem_pop k m)),
      e_hgetall = (\<lambda>k m. m_hash m k),
      e_hget = (\<lambda>k f m. map_of (m_hashes m k) f),
      e_exists = mem_exists,
      e_smembers = (\<lambda>k m. m_set m k),
      e_scard = (\<lambda>k m. length (m_set m k)),
      e_setnx = (\<lambda>k v ex m. if m_strs m k = None
          then (True, m\<lparr>m_strs := (m_strs m)(k \<mapsto> v), m_ttls := (m_ttls m)(k := ex)\<rparr>) else (False, m)),
      e_get = (\<lambda>k m. m_strs m k),
      e_xrevrange = (\<lambda>k n m. z_limit n (rev (m_streams m k))), \<dots> = x \<rparr>"

abbreviation mem_env :: "scheduler_config \<Rightarrow> 'm mem_scheme env"
  where "mem_env cfg \<equiv> mem_env_ext cfg ()"

lemma mem_view_sel [simp]:
  "zsets (mem_view m) = m_zset m"
  "hashes (mem_view m) = (\<lambda>k. map_of (m_hashes m k))"
  "sets (mem_view m) = (\<lambda>k. set (m_sets m k))"
  "strs (mem_view m) = m_strs m"
  "streams (mem_view m) = m_streams m"
  "ttls (mem_view m) = m_ttls m"
  "outbox (mem_view m) = m_outbox m"
  by (simp_all add: mem_view_def)

lemma zset_ok_m_zset [simp]: "zset_ok (m_zset m k)"
  by (simp add: m_zset_def)

lemma m_zset_update:
  "zset_ok xs \<Longrightarrow> m_zset (m\<lparr>m_zsets := (m_zsets m)(k := xs)\<rparr>) = (m_zset m)(k := xs)"
  by (auto simp: m_zset_def z_norm_id fun_eq_iff)

lemma store_eqI:
  assumes "zsets a = zsets b" "hashes a = hashes b" "sets a = sets b" "strs a = strs b"
    "streams a = streams b" "ttls a = ttls b" "outbox a = outbox b"
  shows "a = (b :: store)"
  using assms by (cases a; cases b) simp

lemma m_zset_other [simp]:
  "m_zset (m\<lparr>m_hashes := h\<rparr>) = m_zset m" "m_zset (m\<lparr>m_sets := u\<rparr>) = m_zset m"
  "m_zset (m\<lparr>m_strs := v\<rparr>) = m_zset m" "m_zset (m\<lparr>m_streams := w\<rparr>) = m_zset m"
  "m_zset (m\<lparr>m_ttls := t\<rparr>) = m_zset m" "m_zset (m\<lparr>m_outbox := b\<rparr>) = m_zset m"
  "m_zset (m\<lparr>m_clock := c\<rparr>) = m_zset m"
  by (simp_all add: m_zset_def fun_eq_iff)

lemma mem_view_del: "mem_view (mem_del k m) = del_key k (mem_view m)"
  by (rule store_eqI) (auto simp: mem_del_def del_key_def m_zset_def z_norm_def fun_eq_iff)

lemma mem_exists_view: "mem_exists k m \<longleftrightarrow> key_exists (mem_view m) k"
  by (simp add: mem_exists_def key_exists_def map_of_eq_empty_iff)

lemma mem_view_run:
  assumes "\<not> trims_stream c" shows "mem_view (mem_run c m) = apply_cmd c (mem_view m)"
proof (cases c)
  case (HDEL k fs)
  have "map_of (AList.restrict (- set fs) (m_hashes m k)) = map_of (m_hashes m k) |` (- set fs)"
    by (rule restr_conv')
  moreover from this have "AList.restrict (- set fs) (m_hashes m k) = [] \<longleftrightarrow> map_of (m_hashes m k) |` (- set fs) = Map.empty"
    by (metis map_of_eq_empty_iff)
  ultimately show ?thesis
    by (intro store_eqI) (auto simp: HDEL Let_def drop_ttl_if_gone_def fun_eq_iff)
next
  case (DEL k)
  then show ?thesis by (simp add: mem_view_del)
next
  case (EXPIRE k ttl)
  then show ?thesis by (auto simp: mem_view_del mem_exists_view intro!: store_eqI)
next
  case (ZADD k x sc xx)
  then show ?thesis by (auto intro!: store_eqI simp: m_zset_update zset_ok_z_add)
next
  case (ZREM k x)
  then show ?thesis by (auto intro!: store_eqI simp: m_zset_update zset_ok_z_rem)
next
  case (ZREMRANGEBYSCORE k lo hi)
  then show ?thesis by (auto intro!: store_eqI simp: m_zset_update zset_ok_filter)
qed (use assms in \<open>auto intro!: store_eqI simp: map_of_update_all fun_eq_iff\<close>)

lemma mem_view_pop:
  "mem_view (mem_pop k m) = (mem_view m)\<lparr>zsets := (m_zset m)(k := tl (m_zset m k))\<rparr>"
  by (rule store_eqI) (simp_all add: mem_pop_def m_zset_update zset_ok_tl)

interpretation mem_broker: broker "mem_env_ext cfg x" mem_view
  for cfg :: scheduler_config and x :: 'x
proof unfold_locales
  fix c :: cmd and m assume "\<not> trims_stream c"
  then show "mem_view (e_run (mem_env_ext cfg x) c m) = apply_cmd c (mem_view m)"
    by (simp add: mem_env_ext_def mem_view_run)
next
  fix k e n and m :: "'m mem_scheme"
  let ?d = "if n = 0 then 0 else Suc (length (m_streams m k)) - n"
  show "\<exists>d. mem_view (e_run (mem_env_ext cfg x) (XADD k e n) m) =
      (mem_view m)\<lparr>streams := (streams (mem_view m))(k := drop d (streams (mem_view m) k @ [e]))\<rparr> \<and>
      (d = 0 \<or> (0 < n \<and> n \<le> Suc (length (streams (mem_view m) k)) - d))"
    by (rule exI [of _ ?d]) (auto intro!: store_eqI simp: mem_env_ext_def)
next
  fix ks k p timeout and m :: "'m mem_scheme"
  assume "first_nonempty (zsets (mem_view m)) ks = Some (k, p)"
  then show "fst (e_bzpopmin (mem_env_ext cfg x) ks timeout m) = Some (k, p) \<and>
      mem_view (snd (e_bzpopmin (mem_env_ext cfg x) ks timeout m)) =
        (mem_view m)\<lparr>zsets := (zsets (mem_view m))(k := tl (zsets (mem_view m) k))\<rparr>"
    by (simp add: mem_env_ext_def mem_view_pop)
qed (auto intro!: store_eqI simp: mem_env_ext_def mem_now_def mem_view_pop m_hash_def m_set_def map_of_clearjunk
      mem_exists_view first_nonempty_def card_set find_Some_iff in_set_conv_nth
      split: list.splits option.splits prod.splits)

end
