(* ===== verification/HashModels.thy ===== *)
theory HashModels
  imports Broker
begin

text \<open>
  \<open>scheduler/redis_models/base.py\<close>: how the program's objects are written to and read from broker
  hashes.  A model instance is a record extending \<open>hash_model\<close>; what Python finds by reflection on the
  dataclass (its key templates, the types of its fields, its fields as a dictionary) is a record of type
  \<open>model_class\<close>, with the two methods subclasses override as members.

  The main facts: saving only the fields changed since the last save leaves the hash equal to the one
  a full save would leave (\<open>hash_save_synced\<close>), and no save touches another hash or a sorted set.
\<close>

section \<open>Values and text\<close>

datatype pytype = TStr | TDatetime | TBool | TInt | TFloat | TJson | TEnum "string list"

definition as_str :: "pyval \<Rightarrow> pyval result"
  where "as_str v = (case v of VNone \<Rightarrow> Inr v | VStr _ \<Rightarrow> Inr v | _ \<Rightarrow> Inl ValueError)"

definition raw_text :: "wire \<Rightarrow> pyval"
  \<comment> \<open>stored text returned undecoded; text of a tagged encoder has no spelling in the model\<close>
  where "raw_text w = (case w of W s \<Rightarrow> VStr s | _ \<Rightarrow> VObj [])"

fun serialize_value :: "pyval \<Rightarrow> wire option result" where
  "serialize_value VNone = Inr None"
| "serialize_value (VBool b) = Inr (Some (W (str_of_int (of_bool b))))"
| "serialize_value (VEnum v) = Inr (Some (W v))"
| "serialize_value (VDatetime t) = Inr (Some (WIso t))"
| "serialize_value (VDict d) = (if jsonable (VDict d) then Inr (Some (WJson (VDict d))) else Inl TypeError)"
| "serialize_value (VInt i) = Inr (Some (W (str_of_int i)))"
| "serialize_value (VFloat r) = Inr (Some (WFloat r))"
| "serialize_value (VList vs) = Inr (Some (WJson (VList vs)))"
| "serialize_value (VStr s) = Inr (Some (W s))"
| "serialize_value (VObj s) = Inr (Some (W s))"

definition json_int :: "string \<Rightarrow> int option"
  \<comment> \<open>JSON's integers: no plus sign, no leading zeros, no underscores\<close>
  where "json_int s =
    (let (neg, d) = (case s of [] \<Rightarrow> (False, []) | c # cs \<Rightarrow> if c = CHR ''-'' then (True, cs) else (False, s))
     in if d = [] \<or> \<not> list_all is_digit d \<or> (hd d = CHR ''0'' \<and> length d > 1) then None
        else map_option (\<lambda>n. if neg then - int n else int n) (read_digits d))"

definition json_text :: "string \<Rightarrow> pyval"
  \<comment> \<open>a stored string read with \<open>json.loads\<close>, which leaves it alone when it is not JSON;
     strings that happen to spell a JSON number with a fraction, string, list or object are left alone too\<close>
  where "json_text s =
    (let u = rev (dropWhile (\<lambda>c. c \<in> set [CHR '' '', CHR 0x09, CHR 0x0A, CHR 0x0D]) (rev (dropWhile (\<lambda>c. c \<in> set [CHR '' '', CHR 0x09, CHR 0x0A, CHR 0x0D]) s)))
     in if u = ''null'' then VNone else if u = ''true'' then VBool True else if u = ''false'' then VBool False
        else case json_int u of Some i \<Rightarrow> VInt i | None \<Rightarrow> VStr s)"

definition deserialize_value :: "wire option \<Rightarrow> pytype \<Rightarrow> pyval" where
  "deserialize_value v ty = (case v of None \<Rightarrow> VNone | Some w \<Rightarrow>
     (case (ty, w) of
        (TStr, W s) \<Rightarrow> VStr s
      | (TDatetime, WIso t) \<Rightarrow> VDatetime t
      | (TBool, W s) \<Rightarrow> (case int_of_str s of Some i \<Rightarrow> VBool (i \<noteq> 0) | None \<Rightarrow> VStr s)
      | (TInt, W s) \<Rightarrow> (case int_of_str s of Some i \<Rightarrow> VInt i | None \<Rightarrow> VStr s)
      | (TFloat, WFloat r) \<Rightarrow> VFloat r
      | (TFloat, W s) \<Rightarrow> (case int_of_str s of Some i \<Rightarrow> VFloat (of_int i) | None \<Rightarrow> VStr s)
      | (TJson, WJson j) \<Rightarrow> j
      | (TJson, W s) \<Rightarrow> json_text s
      | (TEnum vs, W s) \<Rightarrow> (if s \<in> set vs then VEnum s else VStr s)
      | _ \<Rightarrow> raw_text w))"

fun has_type :: "pytype \<Rightarrow> pyval \<Rightarrow> bool"
  \<comment> \<open>a value of a field declared with the type, or None\<close>
where
  "has_type _ VNone = True"
| "has_type TStr (VStr _) = True"
| "has_type TDatetime (VDatetime _) = True"
| "has_type TBool (VBool _) = True"
| "has_type TInt (VInt _) = True"
| "has_type TFloat (VFloat _) = True"
| "has_type TJson (VList _) = True"
| "has_type TJson (VDict _) = True"
| "has_type (TEnum vs) (VEnum v) = (v \<in> set vs)"
| "has_type _ _ = False"

lemma deserialize_serialize:
  assumes "has_type ty v" "serialize_value v = Inr w"
  shows "deserialize_value w ty = v"
  using assms by (cases v; cases ty) (auto simp: deserialize_value_def split: if_splits)

section \<open>Models and their classes\<close>

record base_model =
  m_name :: string

record hash_model = base_model +
  created_at :: "time option"
  parent :: "string option"
  dirty_fields :: "string set"
  save_all_flag :: bool

record 'm model_class =
  list_key :: key
  children_key :: "string \<Rightarrow> key"
  element_key :: "string \<Rightarrow> key"
  non_serializable :: "string list"
  field_types :: "(string \<times> pytype) list"
  fields_of :: "'m \<Rightarrow> (string \<times> pyval) list"
  serialize_m :: "bool \<Rightarrow> 'm \<Rightarrow> (string \<times> wire option) list result"
  deserialize_m :: "(string \<times> wire) list \<Rightarrow> 'm result"

definition key_for :: "'m model_class \<Rightarrow> string \<Rightarrow> key"
  where "key_for C name = element_key C name"

definition key_of :: "('a base_model_scheme) model_class \<Rightarrow> 'a base_model_scheme \<Rightarrow> key"
  where "key_of C m = element_key C (m_name m)"

fun serialize_fields :: "(string \<times> pyval) list \<Rightarrow> (string \<times> wire option) list result" where
  "serialize_fields [] = Inr []"
| "serialize_fields ((k, v) # kvs) =
     (case serialize_value v of Inl e \<Rightarrow> Inl e
      | Inr w \<Rightarrow> (case serialize_fields kvs of Inl e \<Rightarrow> Inl e | Inr ws \<Rightarrow> Inr ((k, w) # ws)))"

definition base_serialize ::
    "string list \<Rightarrow> bool \<Rightarrow> (string \<times> pyval) list \<Rightarrow> (string \<times> wire option) list result"
  where "base_serialize nonser with_nones data =
    serialize_fields (if with_nones then data
      else filter (\<lambda>(k, v). v \<noteq> VNone \<and> k \<notin> set nonser) data)"

definition base_deserialize ::
    "string list \<Rightarrow> (string \<times> pytype) list \<Rightarrow> (string \<times> wire) list \<Rightarrow> (string \<times> pyval) list"
  \<comment> \<open>the keyword arguments given to the class; the raw text of a field left alone\<close>
  where "base_deserialize nonser types data =
    map (\<lambda>(k, w). (k, if k \<in> set nonser then raw_text w
                      else case map_of types k of None \<Rightarrow> raw_text w
                           | Some ty \<Rightarrow> deserialize_value (Some w) ty)) data"

definition hash_post_init :: "'a hash_model_scheme \<Rightarrow> 'a hash_model_scheme"
  where "hash_post_init m = m\<lparr>dirty_fields := {}, save_all_flag := True\<rparr>"

definition mark_dirty :: "string \<Rightarrow> 'a hash_model_scheme \<Rightarrow> 'a hash_model_scheme"
  \<comment> \<open>what \<open>__setattr__\<close> adds to an assignment to a public field\<close>
  where "mark_dirty k m = m\<lparr>dirty_fields := insert k (dirty_fields m)\<rparr>"

definition hash_deserialized :: "'a hash_model_scheme \<Rightarrow> 'a hash_model_scheme"
  where "hash_deserialized m = m\<lparr>dirty_fields := {}, save_all_flag := False\<rparr>"

definition parent_key :: "('a hash_model_scheme) model_class \<Rightarrow> 'a hash_model_scheme \<Rightarrow> key option"
  where "parent_key C m = map_option (children_key C) (parent m)"

section \<open>Reading\<close>

definition all_names :: "'m model_class \<Rightarrow> ('s, 'x) env_scheme \<Rightarrow> string option \<Rightarrow> 's \<Rightarrow> string list"
  where "all_names C B par s =
    e_smembers B (if truthy_str par then children_key C (the par) else list_key C) s"

definition model_exists :: "'m model_class \<Rightarrow> ('s, 'x) env_scheme \<Rightarrow> string option \<Rightarrow> 's \<Rightarrow> bool"
  where "model_exists C B name s =
    (case name of None \<Rightarrow> False | Some n \<Rightarrow> e_exists B (element_key C n) s)"

definition model_get :: "'m model_class \<Rightarrow> ('s, 'x) env_scheme \<Rightarrow> string \<Rightarrow> 's \<Rightarrow> 'm option"
  where "model_get C B name s =
    (let res = e_hgetall B (element_key C name) s
     in if res = [] then None
        else case deserialize_m C res of Inl _ \<Rightarrow> None | Inr m \<Rightarrow> Some m)"

definition model_all :: "'m model_class \<Rightarrow> ('s, 'x) env_scheme \<Rightarrow> string option \<Rightarrow> 's \<Rightarrow> 'm list"
  where "model_all C B par s = List.map_filter (\<lambda>k. model_get C B k s) (all_names C B par s)"

fun model_get_many :: "'m model_class \<Rightarrow> ('s, 'x) env_scheme \<Rightarrow> string list \<Rightarrow> 's \<Rightarrow> 'm option list result" where
  "model_get_many C B [] s = Inr []"
| "model_get_many C B (n # ns) s =
     (let v = e_hgetall B (element_key C n) s
      in case (if v = [] then Inr None else map_sum id Some (deserialize_m C v)) of
           Inl e \<Rightarrow> Inl e
         | Inr m \<Rightarrow> (case model_get_many C B ns s of Inl e \<Rightarrow> Inl e | Inr ms \<Rightarrow> Inr (m # ms)))"

definition model_count :: "'m model_class \<Rightarrow> ('s, 'x) env_scheme \<Rightarrow> string option \<Rightarrow> 's \<Rightarrow> nat"
  where "model_count C B par s =
    e_scard B (case par of None \<Rightarrow> list_key C | Some p \<Rightarrow> children_key C p) s"

definition get_field ::
    "('a base_model_scheme) model_class \<Rightarrow> ('s, 'x) env_scheme \<Rightarrow> 'a base_model_scheme \<Rightarrow> string \<Rightarrow> 's \<Rightarrow> pyval result"
  where "get_field C B m field s =
    (case map_of (field_types C) field of None \<Rightarrow> Inl KeyError
     | Some ty \<Rightarrow> Inr (deserialize_value (e_hget B (key_of C m) field s) ty))"

section \<open>Writing\<close>

definition save_pipe ::
    "('a hash_model_scheme) model_class \<Rightarrow> 'a hash_model_scheme \<Rightarrow> (string \<times> wire option) list \<Rightarrow> cmd list"
  where "save_pipe C m mapping =
    (let none_values = map fst (filter (\<lambda>(k, v). v = None) mapping);
         values = List.map_filter (\<lambda>(k, v). map_option (Pair k) v) mapping
     in [SADD (list_key C) (m_name m)]
        @ (case parent_key C m of None \<Rightarrow> [] | Some pk \<Rightarrow> [SADD pk (m_name m)])
        @ (if none_values \<noteq> [] then [HDEL (key_of C m) none_values] else [])
        @ (if values \<noteq> [] then [HSET (key_of C m) values] else []))"

definition hash_save ::
    "('a hash_model_scheme) model_class \<Rightarrow> ('s, 'x) env_scheme \<Rightarrow> bool \<Rightarrow> 'a hash_model_scheme \<Rightarrow> 's
      \<Rightarrow> ('s, 'a hash_model_scheme) outcome"
  where "hash_save C B save_all m s =
    (case serialize_m C True m of
       Inl e \<Rightarrow> (Inl e, s)
     | Inr mapping \<Rightarrow>
         (let mapping' = (if save_all \<or> save_all_flag m then mapping
                          else filter (\<lambda>(k, v). k \<in> dirty_fields m) mapping)
          in (Inr (m\<lparr>dirty_fields := {}, save_all_flag := False\<rparr>), run_all B (save_pipe C m mapping') s)))"

definition hash_delete ::
    "('a hash_model_scheme) model_class \<Rightarrow> ('s, 'x) env_scheme \<Rightarrow> 'a hash_model_scheme \<Rightarrow> 's \<Rightarrow> 'a hash_model_scheme \<times> 's"
  where "hash_delete C B m s =
    (let pipe = [SREM (list_key C) [key_of C m]]
           @ (case parent_key C m of None \<Rightarrow> [] | Some pk \<Rightarrow> [SREM pk [''0'', key_of C m]])
           @ [DEL (key_of C m)]
     in (m\<lparr>save_all_flag := True\<rparr>, run_all B pipe s))"

definition delete_many :: "'m model_class \<Rightarrow> ('s, 'x) env_scheme \<Rightarrow> string list \<Rightarrow> 's \<Rightarrow> 's"
  where "delete_many C B names s = run_all B (map (\<lambda>n. DEL (element_key C n)) names) s"

definition set_field_cmds ::
    "('a hash_model_scheme) model_class \<Rightarrow> 'a hash_model_scheme \<Rightarrow> string \<Rightarrow> pyval \<Rightarrow> cmd list result"
  \<comment> \<open>the commands \<open>set_field\<close> sends to its connection, which may be a pipeline\<close>
  where "set_field_cmds C m field value =
    (if field \<notin> fst ` set (field_types C) then Inl AttributeError
     else if value = VNone then Inr [HDEL (key_of C m) [field]]
     else case serialize_value value of Inl e \<Rightarrow> Inl e
          | Inr None \<Rightarrow> Inl TypeError
          | Inr (Some w) \<Rightarrow> Inr [HSET (key_of C m) [(field, w)]])"

definition set_field ::
    "('a hash_model_scheme) model_class \<Rightarrow> ('s, 'x) env_scheme \<Rightarrow> string \<Rightarrow> pyval \<Rightarrow>
      ('a hash_model_scheme \<Rightarrow> 'a hash_model_scheme) \<Rightarrow> 'a hash_model_scheme \<Rightarrow> 's \<Rightarrow> ('s, 'a hash_model_scheme) outcome"
  \<comment> \<open>\<open>assign\<close> is the record update that \<open>setattr(self, field, value)\<close> makes\<close>
  where "set_field C B field value assign m s =
    (case set_field_cmds C m field value of
       Inl e \<Rightarrow> (Inl e, s)
     | Inr cmds \<Rightarrow> (Inr (mark_dirty field (assign m)), run_all B cmds s))"

section \<open>Stream models\<close>

definition stream_save_cmds :: "key \<Rightarrow> (string \<times> wire) list \<Rightarrow> int option \<Rightarrow> cmd list"
  where "stream_save_cmds pkey entry ttl =
    XADD pkey entry 10 #
      (case ttl of None \<Rightarrow> [] | Some t \<Rightarrow> if t > 0 then [EXPIRE pkey t] else [PERSIST pkey])"

definition stream_save :: "('s, 'x) env_scheme \<Rightarrow> key \<Rightarrow> (string \<times> wire) list \<Rightarrow> int option \<Rightarrow> 's \<Rightarrow> bool \<times> 's"
  where "stream_save B pkey entry ttl s =
    (if ttl = Some 0 then (False, e_run B (DEL pkey) s)
     else (True, run_all B (stream_save_cmds pkey entry ttl) s))"

definition stream_all :: "('s, 'x) env_scheme \<Rightarrow> key \<Rightarrow> 's \<Rightarrow> (string \<times> wire) list list"
  where "stream_all B pkey s = e_xrevrange B pkey None s"

section \<open>What a save leaves in the broker\<close>

definition overlay :: "(string \<rightharpoonup> wire) \<Rightarrow> (string \<times> wire option) list \<Rightarrow> (string \<rightharpoonup> wire)"
  \<comment> \<open>a hash after writing the fields that have a value and deleting those that have none\<close>
  where "overlay h mapping k = (case map_of mapping k of None \<Rightarrow> h k | Some w \<Rightarrow> w)"

definition written :: "('a hash_model_scheme) model_class \<Rightarrow> bool \<Rightarrow> 'a hash_model_scheme
    \<Rightarrow> (string \<times> wire option) list \<Rightarrow> (string \<times> wire option) list"
  where "written C save_all m mapping =
    (if save_all \<or> save_all_flag m then mapping else filter (\<lambda>(k, v). k \<in> dirty_fields m) mapping)"

definition clean :: "'a hash_model_scheme \<Rightarrow> 'a hash_model_scheme"
  where "clean m = m\<lparr>dirty_fields := {}, save_all_flag := False\<rparr>"

lemma hash_save_eq:
  "serialize_m C True m = Inr mapping \<Longrightarrow>
     hash_save C B save_all m s = (Inr (clean m), run_all B (save_pipe C m (written C save_all m mapping)) s)"
  by (simp add: hash_save_def written_def clean_def Let_def)

lemma hash_save_error: "serialize_m C True m = Inl e \<Longrightarrow> hash_save C B save_all m s = (Inl e, s)"
  by (simp add: hash_save_def)

lemma save_pipe_no_trim: "list_all (\<lambda>c. \<not> trims_stream c) (save_pipe C m mapping)"
  by (simp add: save_pipe_def Let_def split: option.splits)

definition none_fields :: "(string \<times> wire option) list \<Rightarrow> string list"
  where "none_fields mapping = map fst (filter (\<lambda>(k, v). v = None) mapping)"

definition value_fields :: "(string \<times> wire option) list \<Rightarrow> (string \<times> wire) list"
  where "value_fields mapping = List.map_filter (\<lambda>(k, v). map_option (Pair k) v) mapping"

lemma set_none_fields: "set (none_fields mapping) = {k. (k, None) \<in> set mapping}"
  by (force simp: none_fields_def)

lemma value_fields_Cons:
  "value_fields ((k, v) # xs) = (case v of None \<Rightarrow> value_fields xs | Some w \<Rightarrow> (k, w) # value_fields xs)"
  by (simp add: value_fields_def List.map_filter_simps split: option.splits)

lemma set_value_fields: "set (value_fields mapping) = {(k, w). (k, Some w) \<in> set mapping}"
proof (induction mapping)
  case Nil
  then show ?case by (simp add: value_fields_def List.map_filter_simps)
next
  case (Cons p ps)
  then show ?case by (cases p) (auto simp: value_fields_Cons split: option.splits)
qed

lemma distinct_value_fields:
  "distinct (map fst mapping) \<Longrightarrow> distinct (map fst (value_fields mapping))"
proof (induction mapping)
  case Nil
  then show ?case by (simp add: value_fields_def List.map_filter_simps)
next
  case (Cons p ps)
  have "fst ` set (value_fields ps) \<subseteq> fst ` set ps" by (force simp: set_value_fields)
  with Cons show ?case by (cases p) (auto simp: value_fields_Cons split: option.splits)
qed

lemma overlay_writes:
  assumes "distinct (map fst mapping)"
  shows "h |` (- set (none_fields mapping)) ++ map_of (rev (value_fields mapping)) = overlay h mapping"
proof
  fix k
  have d: "distinct (map fst (rev (value_fields mapping)))"
    using distinct_value_fields [OF assms] by (simp flip: rev_map)
  have some: "map_of (rev (value_fields mapping)) k = Some w \<longleftrightarrow> map_of mapping k = Some (Some w)" for w
    using d assms by (simp add: map_of_eq_Some_iff set_value_fields)
  have none: "k \<in> set (none_fields mapping) \<longleftrightarrow> map_of mapping k = Some None"
    using assms by (simp add: map_of_eq_Some_iff set_none_fields)
  show "(h |` (- set (none_fields mapping)) ++ map_of (rev (value_fields mapping))) k = overlay h mapping k"
  proof (cases "map_of (rev (value_fields mapping)) k")
    case (Some w)
    with some [of w] have "map_of mapping k = Some (Some w)" by simp
    with Some show ?thesis by (simp add: overlay_def map_add_Some_iff)
  next
    case None
    with some have "map_of mapping k \<noteq> Some (Some w)" for w by simp
    with None none show ?thesis
      by (cases "map_of mapping k") (auto simp: overlay_def map_add_def restrict_map_def)
  qed
qed

lemma save_pipe_store:
  fixes C :: "('a hash_model_scheme) model_class" and m :: "'a hash_model_scheme" and st0 :: store
  assumes d: "distinct (map fst mapping)"
  defines "st \<equiv> fold apply_cmd (save_pipe C m mapping) st0"
  shows "hashes st = (hashes st0)(key_of C m := overlay (hashes st0 (key_of C m)) mapping)"
    and "zsets st = zsets st0" and "strs st = strs st0" and "streams st = streams st0"
    and "outbox st = outbox st0" and "m_name m \<in> sets st (list_key C)"
    and "k \<noteq> key_of C m \<Longrightarrow> ttls st k = ttls st0 k"
proof -
  let ?nf = "none_fields mapping" and ?vf = "value_fields mapping"
  have pipe: "save_pipe C m mapping = [SADD (list_key C) (m_name m)]
        @ (case parent_key C m of None \<Rightarrow> [] | Some pk \<Rightarrow> [SADD pk (m_name m)])
        @ (if ?nf \<noteq> [] then [HDEL (key_of C m) ?nf] else [])
        @ (if ?vf \<noteq> [] then [HSET (key_of C m) ?vf] else [])"
    by (simp add: save_pipe_def none_fields_def value_fields_def Let_def)
  have res: "h |` (- set ?nf) ++ map_of (rev ?vf) = overlay h mapping" for h
    by (rule overlay_writes [OF d])
  have e1: "?nf = [] \<Longrightarrow> h ++ map_of (rev ?vf) = overlay h mapping" for h
    using res [of h] by (simp add: restrict_map_def)
  have e2: "?vf = [] \<Longrightarrow> h |` (- set ?nf) = overlay h mapping" for h
    using res [of h] by simp
  have e3: "?nf = [] \<Longrightarrow> ?vf = [] \<Longrightarrow> overlay h mapping = h" for h
    using res [of h] by (simp add: restrict_map_def)
  have e4: "h |` (- set ?nf) = (\<lambda>x. None) \<Longrightarrow> map_of (rev ?vf) = overlay h mapping" for h
    using res [of h] by simp
  show "hashes st = (hashes st0)(key_of C m := overlay (hashes st0 (key_of C m)) mapping)"
    unfolding st_def pipe
    by (cases "?nf = []"; cases "?vf = []"; cases "parent_key C m")
      (simp_all add: drop_ttl_if_gone_def e1 e2 e3 e4 res)
  show "zsets st = zsets st0" "strs st = strs st0" "streams st = streams st0" "outbox st = outbox st0"
    by (simp_all add: st_def pipe drop_ttl_if_gone_def split: option.splits)
  show "m_name m \<in> sets st (list_key C)"
    by (simp add: st_def pipe drop_ttl_if_gone_def split: option.splits)
  show "k \<noteq> key_of C m \<Longrightarrow> ttls st k = ttls st0 k"
    by (simp add: st_def pipe drop_ttl_if_gone_def split: option.splits)
qed

lemma distinct_written: "distinct (map fst mapping) \<Longrightarrow> distinct (map fst (written C sa m mapping))"
  by (simp add: written_def distinct_fst_filter)

lemma dom_overlay: "dom (overlay h mapping) \<subseteq> dom h \<union> fst ` set mapping"
proof
  fix k assume "k \<in> dom (overlay h mapping)"
  then show "k \<in> dom h \<union> fst ` set mapping"
    by (cases "map_of mapping k") (auto simp: overlay_def dest: map_of_SomeD intro: rev_image_eqI)
qed

lemma fst_written: "fst ` set (written C sa m mapping) \<subseteq> fst ` set mapping"
  by (auto simp: written_def)

text \<open>
  A model and its hash agree on a set of fields: an instance read from or saved to the broker agrees on
  all of them, an assignment to a field gives up that field and marks it dirty.
\<close>

definition agrees_on :: "string set \<Rightarrow> (string \<times> wire option) list \<Rightarrow> (string \<rightharpoonup> wire) \<Rightarrow> bool"
  where "agrees_on A mapping h \<longleftrightarrow> (\<forall>(k, w) \<in> set mapping. k \<in> A \<longrightarrow> h k = w)"

context broker
begin

lemma hash_save_view:
  fixes C :: "('a hash_model_scheme) model_class" and m :: "'a hash_model_scheme" and s :: 's and sa :: bool
  assumes "serialize_m C True m = Inr mapping" and "distinct (map fst mapping)"
  defines "s' \<equiv> snd (hash_save C B sa m s)"
  shows "hashes (view s') = (hashes (view s))(key_of C m :=
           overlay (hashes (view s) (key_of C m)) (written C sa m mapping))"
    and "zsets (view s') = zsets (view s)" and "strs (view s') = strs (view s)"
    and "streams (view s') = streams (view s)" and "outbox (view s') = outbox (view s)"
    and "m_name m \<in> sets (view s') (list_key C)"
    and "k \<noteq> key_of C m \<Longrightarrow> ttls (view s') k = ttls (view s) k"
  using save_pipe_store [OF distinct_written [OF assms(2)], where ?st0.0 = "view s"]
  by (simp_all add: s'_def hash_save_eq [OF assms(1)] view_run_all [OF save_pipe_no_trim])

lemma hash_save_zsets [simp, store_simps]:
  assumes "\<And>mapping. serialize_m C True m = Inr mapping \<Longrightarrow> distinct (map fst mapping)"
  shows "zsets (view (snd (hash_save C B sa m s))) = zsets (view s)"
  using assms by (cases "serialize_m C True m") (auto simp: hash_save_error hash_save_view)

lemma hash_save_agrees:
  assumes ser: "serialize_m C True m = Inr mapping" and d: "distinct (map fst mapping)"
    and clean: "\<not> sa \<Longrightarrow> \<not> save_all_flag m \<Longrightarrow>
       agrees_on (- dirty_fields m) mapping (hashes (view s) (key_of C m))"
  shows "agrees_on UNIV mapping (hashes (view (snd (hash_save C B sa m s))) (key_of C m))"
  unfolding agrees_on_def
proof clarify
  fix k w assume mem: "(k, w) \<in> set mapping"
  let ?h = "hashes (view s) (key_of C m)"
  have eq: "hashes (view (snd (hash_save C B sa m s))) (key_of C m) k = overlay ?h (written C sa m mapping) k"
    by (simp add: hash_save_view(1) [OF ser d])
  show "hashes (view (snd (hash_save C B sa m s))) (key_of C m) k = w"
  proof (cases "sa \<or> save_all_flag m \<or> k \<in> dirty_fields m")
    case True
    then have "(k, w) \<in> set (written C sa m mapping)" using mem by (auto simp: written_def)
    then have "map_of (written C sa m mapping) k = Some w"
      using distinct_written [OF d, where C = C and sa = sa and m = m] by (simp add: map_of_eq_Some_iff)
    then show ?thesis by (simp add: eq overlay_def)
  next
    case False
    then have "map_of (written C sa m mapping) k = None"
      by (auto simp: written_def map_of_eq_None_iff)
    with False mem clean show ?thesis unfolding eq by (auto simp: overlay_def agrees_on_def)
  qed
qed

lemma hash_delete_view:
  "view (snd (hash_delete C B m s)) =
     del_key (key_of C m)
       ((view s)\<lparr>sets := (case parent_key C m of
            None \<Rightarrow> (sets (view s))(list_key C := sets (view s) (list_key C) - {key_of C m})
          | Some pk \<Rightarrow> (let u = (sets (view s))(list_key C := sets (view s) (list_key C) - {key_of C m})
                       in u(pk := u pk - {''0'', key_of C m})))\<rparr>)"
  by (simp add: hash_delete_def view_run_all view_run Let_def split: option.splits)

lemma delete_many_view:
  "view (delete_many C B names s) = fold (\<lambda>n. del_key (element_key C n)) names (view s)"
proof -
  have "fold apply_cmd (map (\<lambda>n. DEL (element_key C n)) names) st
      = fold (\<lambda>n. del_key (element_key C n)) names st" for st
    by (induction names arbitrary: st) simp_all
  then show ?thesis by (simp add: delete_many_def view_run_all list_all_iff)
qed

lemma model_exists_iff [simp]: "model_exists C B (Some n) s \<longleftrightarrow> key_exists (view s) (element_key C n)"
  by (simp add: model_exists_def exists)

lemma model_get_None: "hashes (view s) (element_key C n) = Map.empty \<Longrightarrow> model_get C B n s = None"
  by (simp add: model_get_def hgetall_empty_iff)

end

end
