(* ===== verification/Registries.thy ===== *)
theory Registries
  imports HashModels
begin

text \<open>
  \<open>scheduler/redis_models/registry/base_registry.py\<close> and the parts of \<open>queue_registries.py\<close> that do
  not look at jobs: the six registries of a queue, each a sorted set of job names with a timestamp.
  A registry is its class and the name of its queue; the class gives the key and whether \<open>cleanup\<close>
  removes expired entries.  Reading a finished, failed or active registry first removes what has
  expired, so reading changes the broker.

  The keys of different registries, and of different queues, never coincide (\<open>reg_key_inject\<close>);
  \<open>registry_ops\<close> is the contract the queue relies on.
\<close>

section \<open>Registries and their keys\<close>

datatype registry_kind = QueuedJobs | FinishedJobs | FailedJobs | CanceledJobs | ScheduledJobs | ActiveJobs

record registry =
  reg_kind :: registry_kind
  reg_name :: string

fun reg_suffix :: "registry_kind \<Rightarrow> string" where
  "reg_suffix QueuedJobs = '':queued_jobs''"
| "reg_suffix FinishedJobs = '':finished_jobs''"
| "reg_suffix FailedJobs = '':failed_jobs''"
| "reg_suffix CanceledJobs = '':canceled_jobs''"
| "reg_suffix ScheduledJobs = '':scheduled_jobs''"
| "reg_suffix ActiveJobs = '':active''"

definition reg_key :: "registry \<Rightarrow> key"
  where "reg_key r = '':registry:'' @ reg_name r @ reg_suffix (reg_kind r)"

fun keeps_expired :: "registry_kind \<Rightarrow> bool"
  \<comment> \<open>the classes whose \<open>cleanup\<close> does nothing\<close>
where
  "keeps_expired QueuedJobs = True"
| "keeps_expired CanceledJobs = True"
| "keeps_expired ScheduledJobs = True"
| "keeps_expired _ = False"

lemma reg_suffix_append_eq:
  assumes "a @ reg_suffix k = b @ reg_suffix k'" shows "k = k' \<and> a = b"
proof -
  from assms have "rev (reg_suffix k) @ rev a = rev (reg_suffix k') @ rev b"
    by (metis rev_append)
  then show ?thesis by (cases k; cases k') simp_all
qed

lemma reg_key_inject [simp]: "reg_key r = reg_key r' \<longleftrightarrow> r = r'"
proof
  assume "reg_key r = reg_key r'"
  then have "reg_kind r = reg_kind r' \<and> reg_name r = reg_name r'"
    by (auto simp: reg_key_def dest!: reg_suffix_append_eq)
  then show "r = r'" by simp
qed simp

section \<open>Operations\<close>

definition timestamp_or_now :: "('s, 'x) env_scheme \<Rightarrow> time option \<Rightarrow> 's \<Rightarrow> time \<times> 's"
  \<comment> \<open>\<open>timestamp or current_timestamp()\<close>\<close>
  where "timestamp_or_now B timestamp s =
    (case timestamp of
       Some t \<Rightarrow> if t \<noteq> 0 then (t, s) else apfst secs (current_timestamp B s)
     | None \<Rightarrow> apfst secs (current_timestamp B s))"

definition zset_cleanup :: "('s, 'x) env_scheme \<Rightarrow> registry \<Rightarrow> time option \<Rightarrow> 's \<Rightarrow> 's"
  where "zset_cleanup B r timestamp s =
    (let (score, s1) = timestamp_or_now B timestamp s
     in e_run B (ZREMRANGEBYSCORE (reg_key r) 0 score) s1)"

definition reg_cleanup :: "('s, 'x) env_scheme \<Rightarrow> registry \<Rightarrow> time option \<Rightarrow> 's \<Rightarrow> 's"
  where "reg_cleanup B r timestamp s =
    (if keeps_expired (reg_kind r) then s else zset_cleanup B r timestamp s)"

definition reg_count :: "('s, 'x) env_scheme \<Rightarrow> registry \<Rightarrow> 's \<Rightarrow> nat \<times> 's"
  where "reg_count B r s = (let s1 = reg_cleanup B r None s in (e_zcard B (reg_key r) s1, s1))"

definition reg_add_cmd :: "registry \<Rightarrow> string \<Rightarrow> time \<Rightarrow> bool \<Rightarrow> cmd"
  where "reg_add_cmd r job_name score update_existing_only = ZADD (reg_key r) job_name score update_existing_only"

definition reg_add :: "('s, 'x) env_scheme \<Rightarrow> registry \<Rightarrow> string \<Rightarrow> time \<Rightarrow> 's \<Rightarrow> 's"
  where "reg_add B r job_name score s = e_run B (reg_add_cmd r job_name score False) s"

definition reg_delete_cmd :: "registry \<Rightarrow> string \<Rightarrow> cmd"
  where "reg_delete_cmd r job_name = ZREM (reg_key r) job_name"

definition reg_delete :: "('s, 'x) env_scheme \<Rightarrow> registry \<Rightarrow> string \<Rightarrow> 's \<Rightarrow> 's"
  where "reg_delete B r job_name s = e_run B (reg_delete_cmd r job_name) s"

definition reg_exists :: "('s, 'x) env_scheme \<Rightarrow> registry \<Rightarrow> string \<Rightarrow> 's \<Rightarrow> bool"
  where "reg_exists B r job_name s \<longleftrightarrow> e_zrank B (reg_key r) job_name s \<noteq> None"

definition reg_all :: "('s, 'x) env_scheme \<Rightarrow> registry \<Rightarrow> int \<Rightarrow> int \<Rightarrow> 's \<Rightarrow> string list \<times> 's"
  where "reg_all B r start stop s =
    (let s1 = reg_cleanup B r None s in (map fst (e_zrange B (reg_key r) start stop s1), s1))"

definition reg_all_with_timestamps ::
    "('s, 'x) env_scheme \<Rightarrow> registry \<Rightarrow> int \<Rightarrow> int \<Rightarrow> 's \<Rightarrow> (string \<times> time) list \<times> 's"
  where "reg_all_with_timestamps B r start stop s =
    (let s1 = reg_cleanup B r None s in (e_zrange B (reg_key r) start stop s1, s1))"

definition reg_get_first :: "('s, 'x) env_scheme \<Rightarrow> registry \<Rightarrow> 's \<Rightarrow> string option \<times> 's"
  where "reg_get_first B r s =
    (let s1 = reg_cleanup B r None s
     in (case e_zrange B (reg_key r) 0 0 s1 of [] \<Rightarrow> None | p # _ \<Rightarrow> Some (fst p), s1))"

definition reg_get_last_timestamp :: "('s, 'x) env_scheme \<Rightarrow> registry \<Rightarrow> 's \<Rightarrow> int option \<times> 's"
  where "reg_get_last_timestamp B r s =
    (let s1 = reg_cleanup B r None s
     in (case e_zrange B (reg_key r) (-1) (-1) s1 of [] \<Rightarrow> None | p # _ \<Rightarrow> Some (to_secs (snd p)), s1))"

fun pop_nonblocking :: "('s, 'x) env_scheme \<Rightarrow> registry list \<Rightarrow> 's \<Rightarrow> (key \<times> string) option \<times> 's" where
  "pop_nonblocking B [] s = (None, s)"
| "pop_nonblocking B (r # rs) s =
     (case e_zpopmin B (reg_key r) s of
        (Some p, s1) \<Rightarrow> (Some (reg_key r, fst p), s1)
      | (None, s1) \<Rightarrow> pop_nonblocking B rs s1)"

definition reg_pop ::
    "('s, 'x) env_scheme \<Rightarrow> registry list \<Rightarrow> int option \<Rightarrow> 's \<Rightarrow> ('s, (key \<times> string) option) outcome"
  \<comment> \<open>the pair of a registry key and a job name, None for the pair of Nones\<close>
  where "reg_pop B registries timeout s =
    (if timeout = Some 0 then (Inl ValueError, s)
     else case timeout of
       Some t \<Rightarrow>
         (case e_bzpopmin B (map reg_key registries) t s of
            (None, s1) \<Rightarrow> (Inl DequeueTimeout, s1)
          | (Some (k, n, _), s1) \<Rightarrow> (Inr (Some (k, n)), s1))
     | None \<Rightarrow> apfst Inr (pop_nonblocking B registries s))"

section \<open>The scheduled and the active registry\<close>

datatype py_datetime = Aware time | Naive time

record local_tz =
  tz_timezone :: int
  tz_altzone :: int
  tz_daylight :: int

definition schedule_timestamp :: "local_tz \<Rightarrow> py_datetime \<Rightarrow> time"
  \<comment> \<open>a naive datetime, counted as if it were UTC, is given the server's offset from UTC\<close>
  where "schedule_timestamp tz d = (case d of Aware t \<Rightarrow> t
    | Naive t \<Rightarrow> (let offset = - (if tz_daylight tz = 0 then tz_timezone tz else tz_altzone tz) in t - secs offset))"

definition reg_schedule :: "('s, 'x) env_scheme \<Rightarrow> local_tz \<Rightarrow> registry \<Rightarrow> string \<Rightarrow> py_datetime \<Rightarrow> 's \<Rightarrow> 's"
  where "reg_schedule B tz r job_name scheduled_datetime s =
    reg_add B r job_name (schedule_timestamp tz scheduled_datetime) s"

definition get_jobs_to_schedule :: "('s, 'x) env_scheme \<Rightarrow> registry \<Rightarrow> int \<Rightarrow> nat \<Rightarrow> 's \<Rightarrow> string list"
  where "get_jobs_to_schedule B r timestamp chunk_size s =
    map fst (e_zrangebyscore B (reg_key r) 0 (secs timestamp) (Some chunk_size) s)"

definition get_scheduled_time :: "('s, 'x) env_scheme \<Rightarrow> registry \<Rightarrow> string \<Rightarrow> 's \<Rightarrow> time option"
  where "get_scheduled_time B r job_name s =
    (case e_zscore B (reg_key r) job_name s of None \<Rightarrow> None | Some t \<Rightarrow> if t = 0 then None else Some t)"

definition get_job_names_before ::
    "('s, 'x) env_scheme \<Rightarrow> registry \<Rightarrow> time option \<Rightarrow> 's \<Rightarrow> (string \<times> time) list \<times> 's"
  where "get_job_names_before B r timestamp s =
    (let (score, s1) = timestamp_or_now B timestamp s
     in (e_zrangebyscore B (reg_key r) 0 score None s1, s1))"

section \<open>The contract of a registry\<close>

locale registry_ops =
  fixes entries :: "'s \<Rightarrow> 'r \<Rightarrow> string \<rightharpoonup> time"
    and add :: "'r \<Rightarrow> string \<Rightarrow> time \<Rightarrow> 's \<Rightarrow> 's"
    and delete :: "'r \<Rightarrow> string \<Rightarrow> 's \<Rightarrow> 's"
  assumes entries_add: "entries (add r n t s) r' = (if r' = r then (entries s r)(n \<mapsto> t) else entries s r')"
    and entries_delete: "entries (delete r n s) r' = (if r' = r then (entries s r)(n := None) else entries s r')"
begin

definition holds :: "'s \<Rightarrow> 'r \<Rightarrow> string \<Rightarrow> bool"
  where "holds s r n \<longleftrightarrow> entries s r n \<noteq> None"

lemma holds_add: "holds (add r n t s) r' n' \<longleftrightarrow> (r' = r \<and> n' = n) \<or> holds s r' n'"
  by (auto simp: holds_def entries_add)

lemma holds_delete: "holds (delete r n s) r' n' \<longleftrightarrow> \<not> (r' = r \<and> n' = n) \<and> holds s r' n'"
  by (auto simp: holds_def entries_delete)

lemma add_delete: "entries (delete r n (add r n t s)) r' = entries (delete r n s) r'"
  by (simp add: entries_add entries_delete)

lemma move_unique:
  assumes "\<And>r'. r' \<noteq> r1 \<Longrightarrow> \<not> holds s r' n"
  shows "holds (add r2 n t (delete r1 n s)) r n \<longleftrightarrow> r = r2"
  using assms by (auto simp: holds_add holds_delete)

lemma entries_delete_many:
  "entries (fold (delete r) ns s) r' = (if r' = r then entries s r |` (- set ns) else entries s r')"
proof (induction ns arbitrary: s)
  case (Cons n ns)
  then show ?case by (auto simp: entries_delete restrict_map_def fun_eq_iff)
qed (simp add: restrict_map_def)

lemma entries_delete_across:
  "entries (fold (\<lambda>r. delete r n) rs s) r' = (if r' \<in> set rs then (entries s r')(n := None) else entries s r')"
  by (induction rs arbitrary: s) (auto simp: entries_delete)

end

section \<open>The operations meet their contract\<close>

definition reg_entries :: "('s \<Rightarrow> store) \<Rightarrow> 's \<Rightarrow> registry \<Rightarrow> string \<rightharpoonup> time"
  where "reg_entries view s r = map_of (zsets (view s) (reg_key r))"

lemma reg_entries_dom: "reg_entries view s r n = None \<longleftrightarrow> n \<notin> fst ` set (zsets (view s) (reg_key r))"
  by (simp add: reg_entries_def map_of_eq_None_iff)

context broker
begin

lemma view_reg_add: "view (reg_add B r n t s) =
    (view s)\<lparr>zsets := (zsets (view s))(reg_key r := z_add n t False (zsets (view s) (reg_key r)))\<rparr>"
  by (simp add: reg_add_def reg_add_cmd_def view_run)

lemma view_reg_delete: "view (reg_delete B r n s) =
    (view s)\<lparr>zsets := (zsets (view s))(reg_key r := z_rem n (zsets (view s) (reg_key r)))\<rparr>"
  by (simp add: reg_delete_def reg_delete_cmd_def view_run)

end

sublocale broker \<subseteq> regs: registry_ops "reg_entries view" "reg_add B" "reg_delete B"
proof unfold_locales
  fix r n t s r'
  show "reg_entries view (reg_add B r n t s) r' =
      (if r' = r then (reg_entries view s r)(n \<mapsto> t) else reg_entries view s r')"
    using zset_ok_view by (simp add: reg_entries_def view_reg_add map_of_z_add)
  show "reg_entries view (reg_delete B r n s) r' =
      (if r' = r then (reg_entries view s r)(n := None) else reg_entries view s r')"
    by (simp add: reg_entries_def view_reg_delete)
qed

interpretation mem_regs: registry_ops "reg_entries mem_view" "reg_add (mem_env_ext cfg x)" "reg_delete (mem_env_ext cfg x)"
  for cfg :: scheduler_config and x :: 'x
  by (rule mem_broker.regs.registry_ops_axioms)

definition cleanup_score :: "('s, 'x) env_scheme \<Rightarrow> time option \<Rightarrow> 's \<Rightarrow> time"
  where "cleanup_score B t s = fst (timestamp_or_now B t s)"

lemma cleanup_score_Some [simp]: "t \<noteq> 0 \<Longrightarrow> cleanup_score B (Some t) s = t"
  by (simp add: cleanup_score_def timestamp_or_now_def)

definition unexpired :: "registry \<Rightarrow> time \<Rightarrow> (string \<times> time) list \<Rightarrow> (string \<times> time) list"
  where "unexpired r score xs =
    (if keeps_expired (reg_kind r) then xs else filter (\<lambda>p. \<not> z_in_score 0 score p) xs)"

context broker
begin

lemma view_timestamp_or_now [simp]: "view (snd (timestamp_or_now B t s)) = view s"
proof (cases t)
  case None
  then show ?thesis using view_current_timestamp [of s] by (simp add: timestamp_or_now_def)
next
  case (Some a)
  then show ?thesis using view_current_timestamp [of s] by (simp add: timestamp_or_now_def)
qed

lemma view_reg_cleanup:
  "view (reg_cleanup B r t s) = (view s)\<lparr>zsets := (zsets (view s))(reg_key r :=
      unexpired r (cleanup_score B t s) (zsets (view s) (reg_key r)))\<rparr>"
  using view_timestamp_or_now [of t s]
  by (cases "timestamp_or_now B t s")
    (simp add: reg_cleanup_def zset_cleanup_def view_run unexpired_def cleanup_score_def)

lemma reg_exists_iff: "reg_exists B r n s \<longleftrightarrow> reg_entries view s r n \<noteq> None"
  by (simp add: reg_exists_def reads z_rank_None_iff reg_entries_dom)

lemma fst_reg_count: "fst (reg_count B r s) = length (unexpired r (cleanup_score B None s) (zsets (view s) (reg_key r)))"
  by (simp add: reg_count_def reads view_reg_cleanup)

lemma fst_reg_all: "fst (reg_all B r 0 (-1) s) = map fst (unexpired r (cleanup_score B None s) (zsets (view s) (reg_key r)))"
  by (simp add: reg_all_def reads view_reg_cleanup)

lemma snd_reads [simp]:
  "snd (reg_count B r s) = reg_cleanup B r None s"
  "snd (reg_all B r a b s) = reg_cleanup B r None s"
  "snd (reg_all_with_timestamps B r a b s) = reg_cleanup B r None s"
  "snd (reg_get_first B r s) = reg_cleanup B r None s"
  "snd (reg_get_last_timestamp B r s) = reg_cleanup B r None s"
  by (simp_all add: reg_count_def reg_all_def reg_all_with_timestamps_def reg_get_first_def
      reg_get_last_timestamp_def Let_def)

lemma reg_cleanup_kept [simp]: "keeps_expired (reg_kind r) \<Longrightarrow> reg_cleanup B r t s = s"
  by (simp add: reg_cleanup_def)

end

end
