(* ===== verification/Calendar.thy ===== *)
theory Calendar
  imports PyBase
begin

text \<open>
  What the program uses of \<open>datetime\<close>: calendar dates, their proleptic Gregorian ordinals (the day number
  \<open>date.toordinal()\<close>), the weekday, times of day, and the digits \<open>strftime\<close> prints.  A \<open>date\<close> that is only
  compared, shifted by a \<open>timedelta\<close> or asked for its weekday is represented by its ordinal.
\<close>

section \<open>Dates\<close>

type_synonym day = int

datatype ymd = YMD (y_year: int) (y_month: int) (y_day: int)

definition is_leap :: "int \<Rightarrow> bool"
  where "is_leap y \<longleftrightarrow> y mod 4 = 0 \<and> (y mod 100 \<noteq> 0 \<or> y mod 400 = 0)"

definition days_in_month :: "int \<Rightarrow> int \<Rightarrow> int"
  where "days_in_month y m =
    (if m = 2 then (if is_leap y then 29 else 28)
     else if m = 4 \<or> m = 6 \<or> m = 9 \<or> m = 11 then 30 else 31)"

definition days_before_year :: "int \<Rightarrow> int"
  where "days_before_year y = (let p = y - 1 in p * 365 + p div 4 - p div 100 + p div 400)"

definition month_starts :: "int list"
  where "month_starts = [0, 31, 59, 90, 120, 151, 181, 212, 243, 273, 304, 334]"

definition days_before_month :: "int \<Rightarrow> int \<Rightarrow> int"
  where "days_before_month y m =
    month_starts ! nat (m - 1) + (if m > 2 \<and> is_leap y then 1 else 0)"

definition valid_date :: "int \<Rightarrow> int \<Rightarrow> int \<Rightarrow> bool"
  \<comment> \<open>\<open>datetime(year, month, day)\<close> does not raise ValueError\<close>
  where "valid_date y m d \<longleftrightarrow> 1 \<le> y \<and> y \<le> 9999 \<and> 1 \<le> m \<and> m \<le> 12 \<and> 1 \<le> d \<and> d \<le> days_in_month y m"

definition toordinal :: "ymd \<Rightarrow> day"
  where "toordinal x = days_before_year (y_year x) + days_before_month (y_year x) (y_month x) + y_day x"

definition max_ordinal :: day
  where "max_ordinal = 3652059"

definition weekday :: "day \<Rightarrow> int"
  \<comment> \<open>Monday is 0\<close>
  where "weekday n = (n + 6) mod 7"

definition fromordinal :: "day \<Rightarrow> ymd"
  where "fromordinal ord =
    (let n = ord - 1;
         n400 = n div 146097; a = n mod 146097;
         n100 = a div 36524; b = a mod 36524;
         n4 = b div 1461; c = b mod 1461;
         n1 = c div 365; d = c mod 365;
         year = n400 * 400 + 1 + n100 * 100 + n4 * 4 + n1
     in if n1 = 4 \<or> n100 = 4 then YMD (year - 1) 12 31
        else (let month = int (length (filter (\<lambda>m. days_before_month year m \<le> d) [1 .. 12]))
              in YMD year month (d - days_before_month year month + 1)))"

lemma weekday_bounds: "0 \<le> weekday n" "weekday n < 7"
  by (simp_all add: weekday_def)

lemma days_in_month_pos: "28 \<le> days_in_month y m" "days_in_month y m \<le> 31"
  by (simp_all add: days_in_month_def)

lemma month_cases:
  assumes "1 \<le> (m::int)" "m \<le> 12"
  shows "m = 1 \<or> m = 2 \<or> m = 3 \<or> m = 4 \<or> m = 5 \<or> m = 6 \<or> m = 7 \<or> m = 8 \<or> m = 9 \<or> m = 10 \<or> m = 11 \<or> m = 12"
proof -
  have "m \<in> {1..12}" using assms by simp
  moreover have "{1..12::int} = {1,2,3,4,5,6,7,8,9,10,11,12}" by code_simp
  ultimately show ?thesis by simp
qed

lemma days_before_month_Suc:
  assumes "1 \<le> m" "m < 12"
  shows "days_before_month y (m + 1) = days_before_month y m + days_in_month y m"
  using month_cases [of m] assms
  by (auto simp: days_before_month_def days_in_month_def month_starts_def)

lemma div_pred:
  assumes "0 < (c::int)"
  shows "y div c - (y - 1) div c = (if y mod c = 0 then 1 else 0)"
proof (cases "y mod c = 0")
  case True
  then have "y - 1 = c * (y div c - 1) + (c - 1)"
    using mult_div_mod_eq [of c y] by (simp add: right_diff_distrib)
  then have "(y - 1) div c = y div c - 1"
    using assms by (intro int_div_pos_eq [where r = "c - 1"]) auto
  with True show ?thesis by simp
next
  case False
  have "y - 1 = c * (y div c) + (y mod c - 1)" by simp
  moreover have "0 \<le> y mod c - 1" "y mod c - 1 < c"
    using assms False pos_mod_sign [of c y] pos_mod_bound [of c y] by linarith+
  ultimately have "(y - 1) div c = y div c" by (intro int_div_pos_eq)
  with False show ?thesis by simp
qed

lemma year_length:
  "days_before_year (y + 1) - days_before_year y = (if is_leap y then 366 else 365)"
proof -
  have dvd: "(4::int) dvd 100" "(100::int) dvd 400" by simp_all
  have c: "y mod 400 = 0 \<Longrightarrow> y mod 100 = 0" "y mod 100 = 0 \<Longrightarrow> y mod 4 = 0"
    using dvd dvd_trans by (auto simp: mod_eq_0_iff_dvd)
  have indicator: "365 + (if a then 1 else 0) - (if b then 1 else 0) + (if d then 1 else 0)
      = (if a \<and> (\<not> b \<or> d) then 366 else 365 :: int)" if "d \<Longrightarrow> b" "b \<Longrightarrow> a" for a b d
    using that by (cases a; cases b; cases d) simp_all
  have regroup: "y * 365 + a - b + d - ((y - 1) * 365 + a' - b' + d') = 365 + (a - a') - (b - b') + (d - d')"
    for a b d a' b' d' :: int by (simp add: left_diff_distrib)
  have "days_before_year (y + 1) - days_before_year y =
      365 + (y div 4 - (y - 1) div 4) - (y div 100 - (y - 1) div 100) + (y div 400 - (y - 1) div 400)"
    unfolding days_before_year_def Let_def add_diff_cancel_right' by (rule regroup)
  also have "\<dots> = 365 + (if y mod 4 = 0 then 1 else 0) - (if y mod 100 = 0 then 1 else 0) + (if y mod 400 = 0 then 1 else 0)"
    by (simp only: div_pred zero_less_numeral)
  also have "\<dots> = (if is_leap y then 366 else 365)"
    unfolding is_leap_def by (rule indicator [OF c])
  finally show ?thesis .
qed

lemma december: "days_before_year y + days_before_month y 12 + 31 = days_before_year (y + 1)"
  using year_length [of y] by (simp add: days_before_month_def month_starts_def split: if_splits)

text \<open>The first of the next month is the day after the last of this one.\<close>

lemma toordinal_next_month:
  assumes "1 \<le> m" "m \<le> 12"
  shows "toordinal (if m = 12 then YMD (y + 1) 1 1 else YMD y (m + 1) 1)
       = toordinal (YMD y m (days_in_month y m)) + 1"
proof (cases "m = 12")
  case True
  then show ?thesis using december [of y]
    by (simp add: toordinal_def days_before_month_def month_starts_def days_in_month_def)
next
  case False
  with assms days_before_month_Suc [of m y] show ?thesis by (simp add: toordinal_def)
qed

section \<open>Times of day\<close>

type_synonym clock_time = int
  \<comment> \<open>microseconds since midnight\<close>

definition day_micros :: int
  where "day_micros = 86400000000"

definition minutes :: "int \<Rightarrow> int"
  where "minutes n = n * 60000000"

definition valid_clock_time :: "clock_time \<Rightarrow> bool"
  where "valid_clock_time t \<longleftrightarrow> 0 \<le> t \<and> t < day_micros"

definition add_clock :: "clock_time \<Rightarrow> int \<Rightarrow> clock_time"
  \<comment> \<open>\<open>(datetime.combine(d, t) + delta).time()\<close>: wraps around at midnight\<close>
  where "add_clock t delta = (t + delta) mod day_micros"

definition clock_hour :: "clock_time \<Rightarrow> int"
  where "clock_hour t = t div 3600000000"

lemma valid_add_clock [simp]: "valid_clock_time (add_clock t d)"
  by (simp add: valid_clock_time_def add_clock_def day_micros_def)

lemma add_clock_same_day: "0 \<le> t + d \<Longrightarrow> t + d < day_micros \<Longrightarrow> add_clock t d = t + d"
  by (simp add: add_clock_def)

section \<open>Instants\<close>

definition epoch_ordinal :: day
  where "epoch_ordinal = 719163"

definition day_of :: "time \<Rightarrow> day"
  \<comment> \<open>\<open>dt.date()\<close> of a UTC datetime\<close>
  where "day_of t = t div day_micros + epoch_ordinal"

definition clock_of :: "time \<Rightarrow> clock_time"
  where "clock_of t = t mod day_micros"

definition pad :: "nat \<Rightarrow> int \<Rightarrow> string"
  where "pad n i = (let s = str_of_int i in replicate (n - length s) (CHR ''0'') @ s)"

definition compact_stamp :: "time \<Rightarrow> string"
  \<comment> \<open>\<open>strftime("%Y%m%d%H%M%S%f")\<close> of a UTC datetime\<close>
  where "compact_stamp t =
    (let d = fromordinal (day_of t); c = clock_of t
     in pad 4 (y_year d) @ pad 2 (y_month d) @ pad 2 (y_day d)
        @ pad 2 (c div 3600000000) @ pad 2 (c div 60000000 mod 60) @ pad 2 (c div 1000000 mod 60)
        @ pad 6 (c mod 1000000))"

definition datetime_text :: "string \<Rightarrow> time \<Rightarrow> string"
  \<comment> \<open>\<open>isoformat(sep)\<close> of a UTC datetime\<close>
  where "datetime_text sep t =
    (let d = fromordinal (day_of t); c = clock_of t
     in pad 4 (y_year d) @ ''-'' @ pad 2 (y_month d) @ ''-'' @ pad 2 (y_day d) @ sep
        @ pad 2 (c div 3600000000) @ '':'' @ pad 2 (c div 60000000 mod 60) @ '':'' @ pad 2 (c div 1000000 mod 60)
        @ (if c mod 1000000 = 0 then [] else ''.'' @ pad 6 (c mod 1000000)) @ ''+00:00'')"

definition datetime_str :: "time \<Rightarrow> string"
  where "datetime_str t = datetime_text '' '' t"

definition isoformat :: "time \<Rightarrow> string"
  where "isoformat t = datetime_text ''T'' t"

end
