(* ===== verification/JobModels.thy ===== *)
theory JobModels
  imports Registries Calendar
begin

text \<open>
  \<open>scheduler/redis_models/job.py\<close> and \<open>scheduler/helpers/callback.py\<close>: the job, how it is created,
  stored, read back, moved through its lifecycle and expired, and the callables it refers to.

  A job is the record \<open>job_model\<close>, with one field per field of the dataclass \<open>JobModel\<close>.  Where
  Python lets a field hold None against its annotation, the field is an option.  A stored field whose
  text does not parse at its declared type, which Python keeps as text, is an error of the whole
  deserialization here.

  Code the program imports by name, calls and awaits is outside the repository: the record
  \<open>host_env\<close> extends the broker's record with it.  A call may change the job it is given, the outside
  world, and may raise.
\<close>

section \<open>The record\<close>

datatype job_status =
    JobScheduled
  | JobQueued
  | JobCanceled
  | JobStarted
  | JobFinished
  | JobFailed
  | JobStopped

fun job_status_value :: "job_status \<Rightarrow> string" where
  "job_status_value JobScheduled = ''scheduled''"
| "job_status_value JobQueued = ''queued''"
| "job_status_value JobCanceled = ''canceled''"
| "job_status_value JobStarted = ''started''"
| "job_status_value JobFinished = ''finished''"
| "job_status_value JobFailed = ''failed''"
| "job_status_value JobStopped = ''stopped''"

definition job_statuses :: "job_status list"
  where "job_statuses = [JobScheduled, JobQueued, JobCanceled, JobStarted, JobFinished, JobFailed, JobStopped]"

definition job_status_of :: "string \<Rightarrow> job_status option"
  where "job_status_of v = find (\<lambda>st. job_status_value st = v) job_statuses"

lemma job_status_of_value [simp]: "job_status_of (job_status_value st) = Some st"
  by (cases st) (simp_all add: job_status_of_def job_statuses_def)

record job_model = hash_model +
  j_args :: "pyval list"
  j_kwargs :: "(string \<times> pyval) list"
  j_queue_name :: string
  j_description :: string
  j_func_name :: string
  j_timeout :: int
  j_success_ttl :: int
  j_job_info_ttl :: int
  j_at_front :: "bool option"
  j_last_heartbeat :: "time option"
  j_worker_name :: "string option"
  j_started_at :: "time option"
  j_enqueued_at :: "time option"
  j_ended_at :: "time option"
  j_success_callback_name :: "string option"
  j_success_callback_timeout :: "int option"
  j_failure_callback_name :: "string option"
  j_failure_callback_timeout :: "int option"
  j_stopped_callback_name :: "string option"
  j_stopped_callback_timeout :: "int option"
  j_task_type :: "string option"
  j_scheduled_task_id :: "int option"
  j_status :: "job_status option"
  j_meta :: "(string \<times> pyval) list"

definition is_queued :: "job_model \<Rightarrow> bool"
  where "is_queued j = (j_status j = Some JobQueued)"

definition is_canceled :: "job_model \<Rightarrow> bool"
  where "is_canceled j = (j_status j = Some JobCanceled)"

definition is_failed :: "job_model \<Rightarrow> bool"
  where "is_failed j = (j_status j = Some JobFailed)"

definition is_scheduled_task :: "job_model \<Rightarrow> bool"
  where "is_scheduled_task j = (j_scheduled_task_id j \<noteq> None)"

definition has_failure_callback :: "job_model \<Rightarrow> bool"
  where "has_failure_callback j = (j_failure_callback_name j \<noteq> None)"

definition job_eq :: "job_model \<Rightarrow> job_model \<Rightarrow> bool"
  where "job_eq a b = (m_name a = m_name b)"

definition job_str :: "job_model \<Rightarrow> string"
  where "job_str j = m_name j @ '': '' @ j_description j"

section \<open>Callables\<close>

datatype func_ref =
    FStr string
  | FFunction string
  | FMethod string
  | FCallableObject string
  | FNotCallable string

datatype callback = Callback (cb_func: string) (cb_timeout: int)
  \<comment> \<open>a function, by \<open>__module__ + "." + __qualname__\<close>\<close>

record 's host_env = "'s env" +
  h_import :: "string \<Rightarrow> (string \<Rightarrow> (bool \<times> string) option) result"
  h_call :: "string \<Rightarrow> pyval list \<Rightarrow> (string \<times> pyval) list \<Rightarrow> job_model \<Rightarrow> 's \<Rightarrow> job_model \<times> ('s, pyval) outcome"
  h_is_coroutine :: "pyval \<Rightarrow> bool"
  h_await :: "pyval \<Rightarrow> job_model \<Rightarrow> 's \<Rightarrow> job_model \<times> ('s, pyval) outcome"
  h_callback :: "string \<Rightarrow> int \<Rightarrow> pyval \<Rightarrow> job_model \<Rightarrow> 's \<Rightarrow> job_model \<times> ('s, pyval) outcome"
  h_repr :: "pyval \<Rightarrow> string"
  h_func_str :: "func_ref \<Rightarrow> string"
  h_traceback :: "exn \<Rightarrow> string"

definition callable_func :: "('s, 'x) host_env_scheme \<Rightarrow> string \<Rightarrow> string result"
  where "callable_func H callable_str =
    (let path = py_split CHR ''.'' callable_str
     in case h_import H (py_join ''.'' (butlast path)) of
          Inl e \<Rightarrow> Inl e
        | Inr getattr \<Rightarrow>
            (case getattr (last path) of
               None \<Rightarrow> Inl AttributeError
             | Some (callable, qualname) \<Rightarrow> if callable then Inr qualname else Inl TypeError))"

definition callback_init :: "('s, 'x) host_env_scheme \<Rightarrow> func_ref \<Rightarrow> int option \<Rightarrow> callback result"
  where "callback_init H func timeout =
    (let t = (case timeout of None \<Rightarrow> CALLBACK_TIMEOUT (e_cfg H)
              | Some n \<Rightarrow> if n = 0 then CALLBACK_TIMEOUT (e_cfg H) else n)
     in if t < 0 then Inl CallbackSetupError
        else case func of
            FFunction qualname \<Rightarrow> Inr (Callback qualname t)
          | FStr func_str \<Rightarrow>
              (case callable_func H func_str of
                 Inr qualname \<Rightarrow> Inr (Callback qualname t)
               | Inl e \<Rightarrow> Inl (if e \<in> {TypeError, AttributeError, ModuleNotFoundError, ValueError}
                              then CallbackSetupError else e))
          | _ \<Rightarrow> Inl CallbackSetupError)"

definition job_func :: "('s, 'x) host_env_scheme \<Rightarrow> job_model \<Rightarrow> string result"
  where "job_func H j = callable_func H (j_func_name j)"

definition call_callback ::
    "('s, 'x) host_env_scheme \<Rightarrow> string option \<Rightarrow> int option \<Rightarrow> pyval \<Rightarrow> job_model \<Rightarrow> 's
      \<Rightarrow> job_model \<times> ('s, pyval) outcome"
  where "call_callback H name timeout arg j s =
    (case name of
       None \<Rightarrow> (j, Inr VNone, s)
     | Some n \<Rightarrow>
         (case callback_init H (FStr n) timeout of
            Inl e \<Rightarrow> (j, Inl e, s)
          | Inr cb \<Rightarrow> h_callback H (cb_func cb) (cb_timeout cb) arg j s))"

definition call_failure_callback ::
    "('s, 'x) host_env_scheme \<Rightarrow> pyval \<Rightarrow> job_model \<Rightarrow> 's \<Rightarrow> job_model \<times> ('s, pyval) outcome"
  where "call_failure_callback H arg j s =
    call_callback H (j_failure_callback_name j) (j_failure_callback_timeout j) arg j s"

definition call_success_callback ::
    "('s, 'x) host_env_scheme \<Rightarrow> pyval \<Rightarrow> job_model \<Rightarrow> 's \<Rightarrow> job_model \<times> ('s, pyval) outcome"
  where "call_success_callback H arg j s =
    call_callback H (j_success_callback_name j) (j_success_callback_timeout j) arg j s"

definition call_stopped_callback ::
    "('s, 'x) host_env_scheme \<Rightarrow> pyval \<Rightarrow> job_model \<Rightarrow> 's \<Rightarrow> job_model \<times> ('s, pyval) outcome"
  where "call_stopped_callback H arg j s =
    call_callback H (j_stopped_callback_name j) (j_stopped_callback_timeout j) arg j s"

section \<open>Timeouts\<close>

definition unit_second :: "string \<Rightarrow> int option"
  where "unit_second u =
     (if u = ''d'' then Some 86400 else if u = ''h'' then Some 3600
      else if u = ''m'' then Some 60 else if u = ''s'' then Some 1 else None)"

definition parse_timeout_text :: "string \<Rightarrow> int result"
  where "parse_timeout_text s =
    (case int_of_str s of
       Some i \<Rightarrow> Inr i
     | None \<Rightarrow>
         (let digit = butlast s; unit = py_lower (if s = [] then [] else [last s])
          in case (int_of_str digit, unit_second unit) of
               (Some i, Some u) \<Rightarrow> Inr (i * u)
             | _ \<Rightarrow> Inl TimeoutFormatError))"

definition parse_timeout :: "pyval \<Rightarrow> int option result"
  where "parse_timeout timeout =
    (case timeout of
       VNone \<Rightarrow> Inr None
     | VInt i \<Rightarrow> Inr (Some i)
     | VBool b \<Rightarrow> Inr (Some (of_bool b))
     | VFloat r \<Rightarrow> Inr (Some (if 0 \<le> r then \<lfloor>r\<rfloor> else \<lceil>r\<rceil>))
     | VStr s \<Rightarrow> map_sum id Some (parse_timeout_text s)
     | VEnum s \<Rightarrow> map_sum id Some (parse_timeout_text s)
     | _ \<Rightarrow> Inl TypeError)"

section \<open>The text of a call\<close>

definition truncate_long_string :: "string \<Rightarrow> nat option \<Rightarrow> string"
  where "truncate_long_string data max_length =
    (case max_length of None \<Rightarrow> data
     | Some n \<Rightarrow> if length data > n then take n data @ ''...'' else data)"

definition call_string ::
    "(pyval \<Rightarrow> string) \<Rightarrow> string \<Rightarrow> pyval list \<Rightarrow> (string \<times> pyval) list \<Rightarrow> nat option \<Rightarrow> string"
  where "call_string repr func_name args kwargs max_length =
    (let arg_list = map (\<lambda>a. truncate_long_string (repr a) max_length) args;
         list_kwargs = map (\<lambda>(k, v). k @ ''='' @ truncate_long_string (repr v) max_length) kwargs
     in func_name @ ''('' @ py_join '', '' (arg_list @ sort list_kwargs) @ '')'')"

definition get_call_string :: "('s, 'x) host_env_scheme \<Rightarrow> job_model \<Rightarrow> string"
  where "get_call_string H j = call_string (h_repr H) (j_func_name j) (j_args j) (j_kwargs j) None"

section \<open>Storing a job\<close>

definition opt_val :: "('a \<Rightarrow> pyval) \<Rightarrow> 'a option \<Rightarrow> pyval"
  where "opt_val f v = (case v of None \<Rightarrow> VNone | Some x \<Rightarrow> f x)"

definition job_fields :: "job_model \<Rightarrow> (string \<times> pyval) list"
  where "job_fields j =
    [(''name'', VStr (m_name j)),
     (''created_at'', opt_val VDatetime (created_at j)),
     (''parent'', opt_val VStr (parent j)),
     (''args'', VList (j_args j)),
     (''kwargs'', VDict (j_kwargs j)),
     (''queue_name'', VStr (j_queue_name j)),
     (''description'', VStr (j_description j)),
     (''func_name'', VStr (j_func_name j)),
     (''timeout'', VInt (j_timeout j)),
     (''success_ttl'', VInt (j_success_ttl j)),
     (''job_info_ttl'', VInt (j_job_info_ttl j)),
     (''at_front'', opt_val VBool (j_at_front j)),
     (''last_heartbeat'', opt_val VDatetime (j_last_heartbeat j)),
     (''worker_name'', opt_val VStr (j_worker_name j)),
     (''started_at'', opt_val VDatetime (j_started_at j)),
     (''enqueued_at'', opt_val VDatetime (j_enqueued_at j)),
     (''ended_at'', opt_val VDatetime (j_ended_at j)),
     (''success_callback_name'', opt_val VStr (j_success_callback_name j)),
     (''success_callback_timeout'', opt_val VInt (j_success_callback_timeout j)),
     (''failure_callback_name'', opt_val VStr (j_failure_callback_name j)),
     (''failure_callback_timeout'', opt_val VInt (j_failure_callback_timeout j)),
     (''stopped_callback_name'', opt_val VStr (j_stopped_callback_name j)),
     (''stopped_callback_timeout'', opt_val VInt (j_stopped_callback_timeout j)),
     (''task_type'', opt_val VStr (j_task_type j)),
     (''scheduled_task_id'', opt_val VInt (j_scheduled_task_id j)),
     (''status'', opt_val (\<lambda>st. VEnum (job_status_value st)) (j_status j)),
     (''meta'', VDict (j_meta j))]"

definition job_field_types :: "(string \<times> pytype) list"
  where "job_field_types =
    [(''name'', TStr), (''created_at'', TDatetime), (''parent'', TStr),
     (''queue_name'', TStr), (''description'', TStr), (''func_name'', TStr),
     (''timeout'', TInt), (''success_ttl'', TInt), (''job_info_ttl'', TInt), (''at_front'', TBool),
     (''last_heartbeat'', TDatetime), (''worker_name'', TStr),
     (''started_at'', TDatetime), (''enqueued_at'', TDatetime), (''ended_at'', TDatetime),
     (''success_callback_name'', TStr), (''success_callback_timeout'', TInt),
     (''failure_callback_name'', TStr), (''failure_callback_timeout'', TInt),
     (''stopped_callback_name'', TStr), (''stopped_callback_timeout'', TInt),
     (''task_type'', TStr), (''scheduled_task_id'', TInt),
     (''status'', TEnum (map job_status_value job_statuses)), (''meta'', TJson)]"

definition job_non_serializable :: "string list"
  where "job_non_serializable = [''args'', ''kwargs'']"

definition job_serialize :: "bool \<Rightarrow> job_model \<Rightarrow> (string \<times> wire option) list result"
  where "job_serialize with_nones j =
    rbind (base_serialize job_non_serializable with_nones (job_fields j))
      (\<lambda>res. Inr (AList.update ''kwargs'' (Some (WPickle (VDict (j_kwargs j))))
                  (AList.update ''args'' (Some (WPickle (VList (j_args j)))) res)))"

fun to_str :: "pyval \<Rightarrow> string result" where
  "to_str (VStr s) = Inr s"
| "to_str _ = Inl TypeError"

fun to_int :: "pyval \<Rightarrow> int result" where
  "to_int (VInt i) = Inr i"
| "to_int _ = Inl TypeError"

fun to_bool :: "pyval \<Rightarrow> bool result" where
  "to_bool (VBool b) = Inr b"
| "to_bool _ = Inl TypeError"

fun to_datetime :: "pyval \<Rightarrow> time result" where
  "to_datetime (VDatetime t) = Inr t"
| "to_datetime _ = Inl TypeError"

fun to_dict :: "pyval \<Rightarrow> (string \<times> pyval) list result" where
  "to_dict (VDict d) = Inr d"
| "to_dict _ = Inl TypeError"

fun to_job_status :: "pyval \<Rightarrow> job_status result" where
  "to_job_status (VEnum v) = (case job_status_of v of None \<Rightarrow> Inl TypeError | Some st \<Rightarrow> Inr st)"
| "to_job_status _ = Inl TypeError"

definition required :: "(pyval \<Rightarrow> 'a result) \<Rightarrow> (string \<rightharpoonup> pyval) \<Rightarrow> string \<Rightarrow> 'a result"
  \<comment> \<open>a keyword argument without a default\<close>
  where "required conv kw k = (case kw k of None \<Rightarrow> Inl TypeError | Some v \<Rightarrow> conv v)"

definition defaulted :: "(pyval \<Rightarrow> 'a result) \<Rightarrow> 'a \<Rightarrow> (string \<rightharpoonup> pyval) \<Rightarrow> string \<Rightarrow> 'a result"
  where "defaulted conv d kw k = (case kw k of None \<Rightarrow> Inr d | Some v \<Rightarrow> conv v)"

definition optional :: "(pyval \<Rightarrow> 'a result) \<Rightarrow> (string \<rightharpoonup> pyval) \<Rightarrow> string \<Rightarrow> 'a option result"
  where "optional conv kw k = (case kw k of None \<Rightarrow> Inr None | Some v \<Rightarrow> map_sum id Some (conv v))"

definition job_init :: "scheduler_config \<Rightarrow> (string \<rightharpoonup> pyval) \<Rightarrow> pyval list \<Rightarrow> (string \<times> pyval) list \<Rightarrow> job_model result"
  \<comment> \<open>\<open>JobModel(**data)\<close>, the arguments and keyword arguments of the call unpickled\<close>
  where "job_init cfg kw args kwargs =
    rbind (required to_str kw ''name'') (\<lambda>name.
    rbind (required to_datetime kw ''created_at'') (\<lambda>created_at.
    rbind (optional to_str kw ''parent'') (\<lambda>parent.
    rbind (required to_str kw ''queue_name'') (\<lambda>queue_name.
    rbind (required to_str kw ''description'') (\<lambda>description.
    rbind (required to_str kw ''func_name'') (\<lambda>func_name.
    rbind (defaulted to_int (DEFAULT_JOB_TIMEOUT cfg) kw ''timeout'') (\<lambda>timeout.
    rbind (defaulted to_int (DEFAULT_SUCCESS_TTL cfg) kw ''success_ttl'') (\<lambda>success_ttl.
    rbind (defaulted to_int (DEFAULT_JOB_TTL cfg) kw ''job_info_ttl'') (\<lambda>job_info_ttl.
    rbind (defaulted to_bool False kw ''at_front'') (\<lambda>at_front.
    rbind (optional to_datetime kw ''last_heartbeat'') (\<lambda>last_heartbeat.
    rbind (optional to_str kw ''worker_name'') (\<lambda>worker_name.
    rbind (optional to_datetime kw ''started_at'') (\<lambda>started_at.
    rbind (optional to_datetime kw ''enqueued_at'') (\<lambda>enqueued_at.
    rbind (optional to_datetime kw ''ended_at'') (\<lambda>ended_at.
    rbind (optional to_str kw ''success_callback_name'') (\<lambda>success_name.
    rbind (defaulted to_int (CALLBACK_TIMEOUT cfg) kw ''success_callback_timeout'') (\<lambda>success_timeout.
    rbind (optional to_str kw ''failure_callback_name'') (\<lambda>failure_name.
    rbind (defaulted to_int (CALLBACK_TIMEOUT cfg) kw ''failure_callback_timeout'') (\<lambda>failure_timeout.
    rbind (optional to_str kw ''stopped_callback_name'') (\<lambda>stopped_name.
    rbind (defaulted to_int (CALLBACK_TIMEOUT cfg) kw ''stopped_callback_timeout'') (\<lambda>stopped_timeout.
    rbind (optional to_str kw ''task_type'') (\<lambda>task_type.
    rbind (optional to_int kw ''scheduled_task_id'') (\<lambda>scheduled_task_id.
    rbind (required to_job_status kw ''status'') (\<lambda>status.
    rbind (required to_dict kw ''meta'') (\<lambda>meta.
    Inr (hash_post_init
      \<lparr> m_name = name, created_at = Some created_at, parent = parent, dirty_fields = {}, save_all_flag = True,
        j_args = args, j_kwargs = kwargs, j_queue_name = queue_name, j_description = description,
        j_func_name = func_name, j_timeout = timeout, j_success_ttl = success_ttl,
        j_job_info_ttl = job_info_ttl, j_at_front = Some at_front, j_last_heartbeat = last_heartbeat,
        j_worker_name = worker_name, j_started_at = started_at, j_enqueued_at = enqueued_at,
        j_ended_at = ended_at, j_success_callback_name = success_name,
        j_success_callback_timeout = Some success_timeout, j_failure_callback_name = failure_name,
        j_failure_callback_timeout = Some failure_timeout, j_stopped_callback_name = stopped_name,
        j_stopped_callback_timeout = Some stopped_timeout, j_task_type = task_type,
        j_scheduled_task_id = scheduled_task_id, j_status = Some status, j_meta = meta \<rparr>)
    )))))))))))))))))))))))))"

definition job_deserialize :: "scheduler_config \<Rightarrow> (string \<times> wire) list \<Rightarrow> job_model result"
  \<comment> \<open>a field the class does not have, or has no default for and misses, makes the class raise TypeError\<close>
  where "job_deserialize cfg data =
    (if \<not> fst ` set data \<subseteq> set (job_non_serializable @ map fst job_field_types) then Inl TypeError
     else case (map_of data ''args'', map_of data ''kwargs'') of
        (Some (WPickle (VList args)), Some (WPickle (VDict kwargs))) \<Rightarrow>
          rbind (job_init cfg (map_of (base_deserialize job_non_serializable job_field_types data)) args kwargs)
            (\<lambda>j. Inr (mark_dirty ''kwargs'' (mark_dirty ''args'' (hash_deserialized j))))
      | _ \<Rightarrow> Inl TypeError)"

definition job_class :: "scheduler_config \<Rightarrow> job_model model_class"
  where "job_class cfg =
    \<lparr> list_key = '':jobs:ALL:'',
      children_key = (\<lambda>p. '':'' @ p @ '':jobs:''),
      element_key = (\<lambda>n. '':jobs:'' @ n),
      non_serializable = job_non_serializable,
      field_types = job_field_types,
      fields_of = job_fields,
      serialize_m = job_serialize,
      deserialize_m = job_deserialize cfg \<rparr>"

section \<open>A stored job reads back\<close>

lemma serialize_fields_keys: "serialize_fields kvs = Inr ws \<Longrightarrow> map fst ws = map fst kvs"
  by (induction kvs arbitrary: ws rule: serialize_fields.induct) (auto split: sum.splits)

lemma serialize_fields_lookup:
  assumes "serialize_fields kvs = Inr ws" "map_of kvs k = Some v"
  shows "\<exists>w. serialize_value v = Inr w \<and> map_of ws k = Some w"
  using assms
  by (induction kvs arbitrary: ws rule: serialize_fields.induct) (auto split: sum.splits if_splits)

lemma serialize_value_None_iff [simp]: "serialize_value v = Inr None \<longleftrightarrow> v = VNone"
  by (cases v) auto

lemma distinct_job_fields [simp]: "distinct (map fst (job_fields j))"
  by (simp add: job_fields_def)


lemma opt_val_simps [simp]:
  "opt_val f None = VNone" "opt_val f (Some x) = f x"
  by (simp_all add: opt_val_def)

lemma serialize_opt_val [simp]:
  "serialize_value (opt_val VStr a) = Inr (map_option W a)"
  "serialize_value (opt_val VInt b) = Inr (map_option (\<lambda>i. W (str_of_int i)) b)"
  "serialize_value (opt_val VBool c) = Inr (map_option (\<lambda>b. W (str_of_int (of_bool b))) c)"
  "serialize_value (opt_val VDatetime d) = Inr (map_option WIso d)"
  "serialize_value (opt_val (\<lambda>st. VEnum (job_status_value st)) e) = Inr (map_option (\<lambda>st. W (job_status_value st)) e)"
  by (cases a, simp_all) (cases b, simp_all, cases c, simp_all, cases d, simp_all, cases e, simp_all)

lemma has_type_opt_val [simp]:
  "has_type TStr (opt_val VStr a)"
  "has_type TInt (opt_val VInt b)"
  "has_type TBool (opt_val VBool c)"
  "has_type TDatetime (opt_val VDatetime d)"
  "(\<And>x. f x \<in> set vs) \<Longrightarrow> has_type (TEnum vs) (opt_val (\<lambda>st. VEnum (f st)) e)"
  by (cases a, simp_all) (cases b, simp_all, cases c, simp_all, cases d, simp_all, cases e, simp_all)

lemma job_status_values [simp]: "job_status_value st \<in> job_status_value ` set job_statuses"
  by (cases st) (simp_all add: job_statuses_def)

lemma job_fields_all_typed:
  "list_all (\<lambda>(k, v). k \<in> set job_non_serializable \<or>
     (case map_of job_field_types k of None \<Rightarrow> False | Some ty \<Rightarrow> has_type ty v)) (job_fields j)"
  by (simp add: job_fields_def job_field_types_def job_non_serializable_def del: opt_val_simps)

lemma job_fields_typed:
  assumes "(k, v) \<in> set (job_fields j)" "k \<notin> set job_non_serializable"
  shows "\<exists>ty. map_of job_field_types k = Some ty \<and> has_type ty v"
  using job_fields_all_typed [of j] assms by (fastforce simp: list_all_iff split: option.splits)

lemma map_of_base_deserialize:
  "map_of (base_deserialize nonser types data) k =
     map_option (\<lambda>w. if k \<in> set nonser then raw_text w
                     else case map_of types k of None \<Rightarrow> raw_text w
                          | Some ty \<Rightarrow> deserialize_value (Some w) ty) (map_of data k)"
  unfolding base_deserialize_def by (induction data) (auto split: option.splits)

lemma job_serialize_cases:
  "job_serialize True j = (if jsonable (VDict (j_kwargs j)) \<and> jsonable (VDict (j_meta j))
     then Inr (AList.update ''kwargs'' (Some (WPickle (VDict (j_kwargs j))))
              (AList.update ''args'' (Some (WPickle (VList (j_args j)))) (projr (serialize_fields (job_fields j)))))
     else Inl TypeError)"
  by (simp add: job_serialize_def base_serialize_def job_fields_def del: opt_val_simps)

definition or_default :: "'a \<Rightarrow> 'a option \<Rightarrow> 'a option"
  where "or_default d v = (case v of None \<Rightarrow> Some d | Some x \<Rightarrow> Some x)"

lemma field_simps:
  "kw k = map_option VStr a \<Longrightarrow> optional to_str kw k = Inr a"
  "kw k = map_option VInt b \<Longrightarrow> optional to_int kw k = Inr b"
  "kw k = map_option VDatetime c \<Longrightarrow> optional to_datetime kw k = Inr c"
  "kw k = map_option VInt b \<Longrightarrow> defaulted to_int d kw k = Inr (the (or_default d b))"
  "kw k = map_option VBool e \<Longrightarrow> defaulted to_bool f kw k = Inr (the (or_default f e))"
  "kw k = Some v \<Longrightarrow> required conv kw k = conv v"
  "kw k = Some v \<Longrightarrow> defaulted conv g kw k = conv v"
  by (auto simp: optional_def defaulted_def required_def or_default_def split: option.splits)

lemma Some_the_or_default [simp]: "Some (the (or_default d v)) = or_default d v"
  by (simp add: or_default_def split: option.splits)

definition reloaded :: "scheduler_config \<Rightarrow> job_model \<Rightarrow> job_model"
  \<comment> \<open>a job as it is read back: the fields stored as None take the class's defaults\<close>
  where "reloaded cfg j =
    j\<lparr>dirty_fields := {''args'', ''kwargs''}, save_all_flag := False,
          j_at_front := or_default False (j_at_front j),
          j_success_callback_timeout := or_default (CALLBACK_TIMEOUT cfg) (j_success_callback_timeout j),
          j_failure_callback_timeout := or_default (CALLBACK_TIMEOUT cfg) (j_failure_callback_timeout j),
          j_stopped_callback_timeout := or_default (CALLBACK_TIMEOUT cfg) (j_stopped_callback_timeout j)\<rparr>"

definition storable :: "job_model \<Rightarrow> bool"
  where "storable j \<longleftrightarrow> jsonable (VDict (j_kwargs j)) \<and> jsonable (VDict (j_meta j))"

lemma job_serialize_ok_iff: "(\<exists>mapping. job_serialize True j = Inr mapping) \<longleftrightarrow> storable j"
  by (simp add: job_serialize_cases storable_def)

lemma job_serialize_error: "job_serialize True j = Inl e \<longleftrightarrow> \<not> storable j \<and> e = TypeError"
  by (auto simp: job_serialize_cases storable_def)

lemma job_serialize_lookup:
  assumes ser: "job_serialize True j = Inr mapping"
  shows "map fst mapping = map fst (job_fields j)"
    and "map_of mapping ''args'' = Some (Some (WPickle (VList (j_args j))))"
    and "map_of mapping ''kwargs'' = Some (Some (WPickle (VDict (j_kwargs j))))"
    and "(k, v) \<in> set (job_fields j) \<Longrightarrow> k \<notin> set job_non_serializable \<Longrightarrow>
         \<exists>w. serialize_value v = Inr w \<and> map_of mapping k = Some w"
proof -
  from ser obtain ws where ws: "serialize_fields (job_fields j) = Inr ws"
    and mapping: "mapping = AList.update ''kwargs'' (Some (WPickle (VDict (j_kwargs j))))
              (AList.update ''args'' (Some (WPickle (VList (j_args j)))) ws)"
    by (auto simp: job_serialize_def base_serialize_def rbind_def split: sum.splits)
  have keys: "map fst ws = map fst (job_fields j)" using ws by (rule serialize_fields_keys)
  have mem: "''args'' \<in> set (map fst (job_fields j))" "''kwargs'' \<in> set (map fst (job_fields j))"
    by (simp_all add: job_fields_def)
  show "map fst mapping = map fst (job_fields j)"
    by (simp only: mapping update_keys keys mem if_True)
  show "map_of mapping ''args'' = Some (Some (WPickle (VList (j_args j))))"
    "map_of mapping ''kwargs'' = Some (Some (WPickle (VDict (j_kwargs j))))"
    by (simp_all add: mapping update_conv')
  assume "(k, v) \<in> set (job_fields j)" and k: "k \<notin> set job_non_serializable"
  then have "map_of (job_fields j) k = Some v" by (simp add: map_of_eq_Some_iff)
  with serialize_fields_lookup [OF ws] k
  show "\<exists>w. serialize_value v = Inr w \<and> map_of mapping k = Some w"
    by (auto simp: mapping update_conv' job_non_serializable_def)
qed

lemma distinct_job_serialize: "job_serialize True j = Inr mapping \<Longrightarrow> distinct (map fst mapping)"
  by (simp add: job_serialize_lookup)

lemma reloaded_field:
  assumes ser: "job_serialize True j = Inr mapping"
    and agrees: "\<forall>(k, w) \<in> set mapping. h k = w"
    and h: "map_of data = h"
    and k: "(k, v) \<in> set (job_fields j)" "k \<notin> set job_non_serializable"
  shows "map_of (base_deserialize job_non_serializable job_field_types data) k = (if v = VNone then None else Some v)"
proof -
  obtain w where w: "serialize_value v = Inr w" "map_of mapping k = Some w"
    using job_serialize_lookup(4) [OF ser k] by blast
  then have hk: "h k = w" using agrees by (auto dest!: map_of_SomeD)
  obtain ty where ty: "map_of job_field_types k = Some ty" "has_type ty v"
    using job_fields_typed [OF k] by blast
  have inverse: "deserialize_value w ty = v" using ty(2) w(1) by (rule deserialize_serialize)
  show ?thesis
  proof (cases w)
    case None
    with w have "v = VNone" by simp
    with None hk h show ?thesis by (simp add: map_of_base_deserialize)
  next
    case (Some x)
    with w have "v \<noteq> VNone" by auto
    with Some hk h ty k inverse show ?thesis by (simp add: map_of_base_deserialize)
  qed
qed

lemma job_deserialize_saved:
  assumes ser: "job_serialize True j = Inr mapping"
    and agrees: "\<forall>(k, w) \<in> set mapping. map_of data k = w"
    and known: "fst ` set data \<subseteq> fst ` set (job_fields j)"
    and "created_at j = Some t" "j_status j = Some st"
  shows "job_deserialize cfg data = Inr (reloaded cfg j)"
proof -
  let ?kw = "map_of (base_deserialize job_non_serializable job_field_types data)"
  have field: "?kw k = (if v = VNone then None else Some v)"
    if "(k, v) \<in> set (job_fields j)" "k \<notin> set job_non_serializable" for k v
    using reloaded_field [OF ser agrees refl that] .
  have names: "fst ` set (job_fields j) = set (job_non_serializable @ map fst job_field_types)"
    by (simp add: job_fields_def job_non_serializable_def job_field_types_def insert_commute)
  have pickled: "map_of data ''args'' = Some (WPickle (VList (j_args j)))"
    "map_of data ''kwargs'' = Some (WPickle (VDict (j_kwargs j)))"
    using agrees job_serialize_lookup(2,3) [OF ser] by (auto dest!: map_of_SomeD)
  have opt: "(if opt_val f x = VNone then None else Some (opt_val f x)) = map_option f x"
    if "\<And>a. f a \<noteq> VNone" for f :: "'a \<Rightarrow> pyval" and x using that by (cases x) simp_all
  obtain kw where kw: "?kw = kw" by simp
  have "list_all (\<lambda>(k, v). k \<in> set job_non_serializable \<or> kw k = (if v = VNone then None else Some v)) (job_fields j)"
    unfolding list_all_iff using field [unfolded kw] by blast
  then have fields: "job_init cfg kw (j_args j) (j_kwargs j) = Inr (hash_post_init (reloaded cfg j))"
    by (simp add: job_fields_def job_non_serializable_def assms opt job_init_def field_simps reloaded_def
        hash_post_init_def del: opt_val_simps) 
  show ?thesis
    using known pickled unfolding names
    by (simp add: job_deserialize_def kw fields reloaded_def hash_post_init_def mark_dirty_def hash_deserialized_def insert_commute)
qed

definition job_key :: "string \<Rightarrow> key"
  where "job_key n = '':jobs:'' @ n"

definition job_children_key :: "string \<Rightarrow> key"
  where "job_children_key p = '':'' @ p @ '':jobs:''"

lemma job_class_sel [simp]:
  "list_key (job_class cfg) = '':jobs:ALL:''"
  "children_key (job_class cfg) = job_children_key"
  "element_key (job_class cfg) = job_key"
  "field_types (job_class cfg) = job_field_types"
  "serialize_m (job_class cfg) = job_serialize"
  "deserialize_m (job_class cfg) = job_deserialize cfg"
  by (simp_all add: job_class_def job_key_def job_children_key_def fun_eq_iff)

lemma key_of_job [simp]: "key_of (job_class cfg) j = job_key (m_name j)"
  by (simp add: key_of_def)

lemma job_key_inject [simp]: "job_key a = job_key b \<longleftrightarrow> a = b"
  by (simp add: job_key_def)

lemma job_key_reg_key [simp, key_simps]: "job_key n \<noteq> reg_key r" "reg_key r \<noteq> job_key n"
  by (simp_all add: job_key_def reg_key_def)

context broker
begin

lemma job_get_stored:
  assumes "job_serialize True j = Inr mapping"
    and "agrees_on UNIV mapping (hashes (view s) (job_key (m_name j)))"
    and "dom (hashes (view s) (job_key (m_name j))) \<subseteq> fst ` set (job_fields j)"
    and "created_at j = Some t" "j_status j = Some st"
  shows "model_get (job_class cfg) B (m_name j) s = Some (reloaded cfg j)"
proof -
  let ?data = "e_hgetall B (job_key (m_name j)) s"
  have "fst ` set ?data \<subseteq> fst ` set (job_fields j)"
    using assms(3) by (simp add: dom_map_of_conv_image_fst flip: hgetall)
  moreover have "\<forall>(k, w) \<in> set mapping. map_of ?data k = w"
    using assms(2) by (auto simp: agrees_on_def hgetall)
  ultimately have "job_deserialize cfg ?data = Inr (reloaded cfg j)"
    using assms(1,4,5) by (intro job_deserialize_saved)
  moreover from this have "?data \<noteq> []"
    by (auto simp: job_deserialize_def)
  ultimately show ?thesis by (simp add: model_get_def)
qed

lemma job_save_dom:
  assumes "job_serialize True j = Inr mapping"
    and "dom (hashes (view s) (job_key (m_name j))) \<subseteq> fst ` set (job_fields j)"
  shows "dom (hashes (view (snd (hash_save (job_class cfg) B sa j s))) (job_key (m_name j))) \<subseteq> fst ` set (job_fields j)"
proof -
  have keys: "fst ` set mapping = fst ` set (job_fields j)"
    using job_serialize_lookup(1) [OF assms(1)] by (metis list.set_map)
  let ?w = "written (job_class cfg) sa j mapping" and ?h = "hashes (view s) (job_key (m_name j))"
  have "dom (overlay ?h ?w) \<subseteq> dom ?h \<union> fst ` set ?w" by (rule dom_overlay)
  also have "\<dots> \<subseteq> fst ` set (job_fields j)"
    using assms(2) fst_written [of "job_class cfg" sa j mapping] unfolding keys by (rule Un_least)
  finally have "dom (overlay ?h ?w) \<subseteq> fst ` set (job_fields j)" .
  moreover have "hashes (view (snd (hash_save (job_class cfg) B sa j s))) (job_key (m_name j)) =
      overlay (hashes (view s) (job_key (m_name j))) (written (job_class cfg) sa j mapping)"
    using hash_save_view(1) [where C = "job_class cfg" and m = j and mapping = mapping]
      assms(1) distinct_job_serialize [OF assms(1)] by simp
  ultimately show ?thesis by simp
qed

text \<open>Whatever a save writes, a whole job or the changed fields of one that was in step with its hash, reads back.\<close>

lemma job_save_get:
  assumes ser: "job_serialize True j = Inr mapping"
    and dom: "dom (hashes (view s) (job_key (m_name j))) \<subseteq> fst ` set (job_fields j)"
    and sync: "\<not> sa \<Longrightarrow> \<not> save_all_flag j \<Longrightarrow>
       agrees_on (- dirty_fields j) mapping (hashes (view s) (job_key (m_name j)))"
    and "created_at j = Some t" "j_status j = Some st"
  shows "model_get (job_class cfg) B (m_name j) (snd (hash_save (job_class cfg) B sa j s)) = Some (reloaded cfg j)"
proof (rule job_get_stored [OF ser _ _ assms(4,5)])
  show "agrees_on UNIV mapping (hashes (view (snd (hash_save (job_class cfg) B sa j s))) (job_key (m_name j)))"
    using hash_save_agrees [where C = "job_class cfg" and m = j and s = s and sa = sa and mapping = mapping]
      ser distinct_job_serialize [OF ser] sync by simp
  show "dom (hashes (view (snd (hash_save (job_class cfg) B sa j s))) (job_key (m_name j))) \<subseteq> fst ` set (job_fields j)"
    using ser dom by (rule job_save_dom)
qed

end

section \<open>Creating a job\<close>

record creation =
  c_func :: func_ref
  c_queue_name :: string
  c_args :: "pyval list option"
  c_kwargs :: "(string \<times> pyval) list option"
  c_result_ttl :: pyval
  c_job_info_ttl :: pyval
  c_status :: "job_status option"
  c_description :: "string option"
  c_timeout :: pyval
  c_name :: "string option"
  c_task_type :: "string option"
  c_scheduled_task_id :: "int option"
  c_meta :: "(string \<times> pyval) list option"
  c_on_success :: "callback option"
  c_on_failure :: "callback option"
  c_on_stopped :: "callback option"
  c_at_front :: "bool option"

definition or_empty :: "'a list option \<Rightarrow> 'a list"
  where "or_empty v = (case v of None \<Rightarrow> [] | Some x \<Rightarrow> x)"

definition or_int :: "int option \<Rightarrow> int \<Rightarrow> int"
  \<comment> \<open>\<open>v or d\<close>\<close>
  where "or_int v d = (case v of None \<Rightarrow> d | Some i \<Rightarrow> if i = 0 then d else i)"

fun func_ref_name :: "func_ref \<Rightarrow> string result" where
  "func_ref_name (FMethod name) = Inr name"
| "func_ref_name (FFunction qualname) = Inr qualname"
| "func_ref_name (FStr s) = Inr s"
| "func_ref_name (FCallableObject _) = Inr ''__call__''"
| "func_ref_name (FNotCallable _) = Inl TypeError"

definition default_job_name :: "string \<Rightarrow> int option \<Rightarrow> time \<Rightarrow> string"
  where "default_job_name queue_name task_id now =
    queue_name @ '':'' @ (case task_id of None \<Rightarrow> [] | Some i \<Rightarrow> if i = 0 then [] else str_of_int i)
      @ '':'' @ compact_stamp now"

definition job_create :: "('s, 'x) host_env_scheme \<Rightarrow> creation \<Rightarrow> 's \<Rightarrow> ('s, job_model) outcome"
  where "job_create H c s =
    (let cfg = e_cfg H; C = job_class cfg; args = or_empty (c_args c); kwargs = or_empty (c_kwargs c) in
     case parse_timeout (c_timeout c) of Inl e \<Rightarrow> (Inl e, s) | Inr t \<Rightarrow>
     (let timeout = or_int t (DEFAULT_JOB_TIMEOUT cfg) in
     if timeout = 0 then (Inl ValueError, s) else
     case parse_timeout (if c_job_info_ttl c \<noteq> VNone then c_job_info_ttl c else VInt (DEFAULT_JOB_TTL cfg)) of
       Inl e \<Rightarrow> (Inl e, s) | Inr job_info_ttl \<Rightarrow>
     case parse_timeout (if c_result_ttl c \<noteq> VNone then c_result_ttl c else VInt (DEFAULT_SUCCESS_TTL cfg)) of
       Inl e \<Rightarrow> (Inl e, s) | Inr result_ttl \<Rightarrow>
     if c_name c \<noteq> None \<and> model_exists C H (c_name c) s then (Inl ValueError, s) else
     (let (name, s1) = (case c_name c of Some n \<Rightarrow> (n, s)
            | None \<Rightarrow> apfst (default_job_name (c_queue_name c) (c_scheduled_task_id c)) (utcnow H s)) in
     case func_ref_name (c_func c) of Inl e \<Rightarrow> (Inl e, s1) | Inr func_name \<Rightarrow>
     (let description = (if truthy_str (c_description c) then the (c_description c)
            else call_string (h_repr H) (case c_func c of FStr f \<Rightarrow> f | f \<Rightarrow> h_func_str H f) args kwargs (Some 75));
          (now, s2) = utcnow H s1;
          model = hash_post_init
            \<lparr> m_name = name, created_at = Some now, parent = None, dirty_fields = {}, save_all_flag = True,
              j_args = args, j_kwargs = kwargs, j_queue_name = c_queue_name c, j_description = description,
              j_func_name = func_name, j_timeout = timeout,
              j_success_ttl = (case result_ttl of None \<Rightarrow> 0 | Some i \<Rightarrow> i),
              j_job_info_ttl = (case job_info_ttl of None \<Rightarrow> DEFAULT_JOB_TTL cfg | Some i \<Rightarrow> i),
              j_at_front = c_at_front c, j_last_heartbeat = None, j_worker_name = None,
              j_started_at = None, j_enqueued_at = None, j_ended_at = None,
              j_success_callback_name = map_option cb_func (c_on_success c),
              j_success_callback_timeout = map_option cb_timeout (c_on_success c),
              j_failure_callback_name = map_option cb_func (c_on_failure c),
              j_failure_callback_timeout = map_option cb_timeout (c_on_failure c),
              j_stopped_callback_name = map_option cb_func (c_on_stopped c),
              j_stopped_callback_timeout = map_option cb_timeout (c_on_stopped c),
              j_task_type = c_task_type c, j_scheduled_task_id = c_scheduled_task_id c,
              j_status = c_status c, j_meta = or_empty (c_meta c) \<rparr>
      in hash_save C H False model s2))))"

section \<open>The life of a job\<close>

definition set_status :: "job_status \<Rightarrow> job_model \<Rightarrow> job_model"
  where "set_status st j = mark_dirty ''status'' (j\<lparr>j_status := Some st\<rparr>)"

definition set_worker_name :: "string option \<Rightarrow> job_model \<Rightarrow> job_model"
  where "set_worker_name w j = mark_dirty ''worker_name'' (j\<lparr>j_worker_name := w\<rparr>)"

definition set_last_heartbeat :: "time option \<Rightarrow> job_model \<Rightarrow> job_model"
  where "set_last_heartbeat t j = mark_dirty ''last_heartbeat'' (j\<lparr>j_last_heartbeat := t\<rparr>)"

definition set_started_at :: "time option \<Rightarrow> job_model \<Rightarrow> job_model"
  where "set_started_at t j = mark_dirty ''started_at'' (j\<lparr>j_started_at := t\<rparr>)"

definition set_ended_at :: "time option \<Rightarrow> job_model \<Rightarrow> job_model"
  where "set_ended_at t j = mark_dirty ''ended_at'' (j\<lparr>j_ended_at := t\<rparr>)"

definition set_enqueued_at :: "time option \<Rightarrow> job_model \<Rightarrow> job_model"
  where "set_enqueued_at t j = mark_dirty ''enqueued_at'' (j\<lparr>j_enqueued_at := t\<rparr>)"

lemmas job_setters = set_status_def set_worker_name_def set_last_heartbeat_def set_started_at_def
  set_ended_at_def set_enqueued_at_def mark_dirty_def

type_synonym 's job_step = "job_model \<times> ('s, unit) outcome"
  \<comment> \<open>what a method leaves: the job object, whether it raised, the outside world\<close>

definition job_save :: "('s, 'x) env_scheme \<Rightarrow> bool \<Rightarrow> job_model \<Rightarrow> 's \<Rightarrow> 's job_step"
  where "job_save B save_all j s =
    (case hash_save (job_class (e_cfg B)) B save_all j s of
       (Inl e, s') \<Rightarrow> (j, Inl e, s')
     | (Inr j', s') \<Rightarrow> (j', Inr (), s'))"

definition job_get :: "('s, 'x) env_scheme \<Rightarrow> string \<Rightarrow> 's \<Rightarrow> job_model option"
  where "job_get B n s = model_get (job_class (e_cfg B)) B n s"

definition job_exists :: "('s, 'x) env_scheme \<Rightarrow> string \<Rightarrow> 's \<Rightarrow> bool"
  where "job_exists B n s = model_exists (job_class (e_cfg B)) B (Some n) s"

definition job_expire :: "('s, 'x) env_scheme \<Rightarrow> int \<Rightarrow> job_model \<Rightarrow> 's \<Rightarrow> job_model \<times> cmd list \<times> 's"
  \<comment> \<open>with the commands left for the connection given, which may be a pipeline: a deletion opens a
     pipeline of its own and takes effect at once\<close>
  where "job_expire B ttl j s =
    (if ttl = 0 then (let (j', s') = hash_delete (job_class (e_cfg B)) B j s in (j', [], s'))
     else if ttl > 0 then (j, [EXPIRE (key_of (job_class (e_cfg B)) j) ttl], s)
     else (j, [], s))"

definition job_persist :: "('s, 'x) env_scheme \<Rightarrow> job_model \<Rightarrow> 's \<Rightarrow> 's"
  where "job_persist B j s = run_all B [PERSIST (key_of (job_class (e_cfg B)) j)] s"

definition prepare_for_execution ::
    "('s, 'x) env_scheme \<Rightarrow> string \<Rightarrow> registry \<Rightarrow> job_model \<Rightarrow> 's \<Rightarrow> 's job_step"
  where "prepare_for_execution B worker_name r j s =
    (let (now, s1) = utcnow B s;
         j1 = set_status JobStarted (set_started_at (Some now) (set_last_heartbeat (Some now)
                (set_worker_name (Some worker_name) j)));
         s2 = reg_add B r (m_name j) (now + secs (j_timeout j)) s1
     in job_save B False j1 s2)"

definition after_execution ::
    "('s, 'x) env_scheme \<Rightarrow> int \<Rightarrow> job_status \<Rightarrow> registry option \<Rightarrow> registry option \<Rightarrow> job_model \<Rightarrow> 's
      \<Rightarrow> 's job_step"
  where "after_execution B job_info_ttl status prev_registry new_registry j s =
    (let (now, s1) = utcnow B s;
         j1 = set_last_heartbeat (Some now) (set_ended_at (Some now) (set_status status j));
         s2 = (case prev_registry of None \<Rightarrow> s1 | Some r \<Rightarrow> reg_delete B r (m_name j) s1);
         s3 = (case new_registry of None \<Rightarrow> s2 | Some r \<Rightarrow>
                 if job_info_ttl \<noteq> 0 then
                   (let (ts, s2') = current_timestamp B s2
                    in reg_add B r (m_name j) (secs (ts + job_info_ttl)) s2')
                 else s2)
     in job_save B False j1 s3)"

end
