(* ===== verification/Results.thy ===== *)
theory Results
  imports JobModels
begin

text \<open>
  \<open>scheduler/redis_models/result.py\<close>: the outcome of a run of a job, appended to the job's stream of
  results, and the latest of them.
\<close>

datatype result_type = ResultSuccessful | ResultFailed | ResultStopped

fun result_type_value :: "result_type \<Rightarrow> string" where
  "result_type_value ResultSuccessful = ''successful''"
| "result_type_value ResultFailed = ''failed''"
| "result_type_value ResultStopped = ''stopped''"

record job_result =
  r_parent :: string
  r_type :: result_type
  r_worker_name :: string
  r_ttl :: "int option"
  r_name :: "string option"
  r_created_at :: time
  r_return_value :: pyval
  r_exc_string :: "string option"

definition result_children_key :: "string \<Rightarrow> key"
  where "result_children_key job_name = '':job-results:'' @ job_name @ '':''"

definition result_fields :: "job_result \<Rightarrow> (string \<times> pyval) list"
  where "result_fields r =
    [(''name'', opt_val VStr (r_name r)),
     (''parent'', VStr (r_parent r)),
     (''type'', VEnum (result_type_value (r_type r))),
     (''worker_name'', VStr (r_worker_name r)),
     (''ttl'', opt_val VInt (r_ttl r)),
     (''created_at'', VDatetime (r_created_at r)),
     (''return_value'', r_return_value r),
     (''exc_string'', opt_val VStr (r_exc_string r))]"

definition result_serialize :: "job_result \<Rightarrow> (string \<times> wire) list result"
  where "result_serialize r =
    rbind (base_serialize [] False (result_fields r))
      (\<lambda>m. Inr (List.map_filter (\<lambda>(k, v). map_option (Pair k) v) m))"

definition result_save :: "('s, 'x) env_scheme \<Rightarrow> int option \<Rightarrow> job_result \<Rightarrow> 's \<Rightarrow> ('s, bool) outcome"
  where "result_save B ttl r s =
    (let t = (if ttl = None then r_ttl r else ttl)
     in if t = Some 0 then apfst Inr (stream_save B (result_children_key (r_parent r)) [] t s)
        else case result_serialize r of Inl e \<Rightarrow> (Inl e, s)
             | Inr entry \<Rightarrow> apfst Inr (stream_save B (result_children_key (r_parent r)) entry t s))"

definition result_create ::
    "('s, 'x) env_scheme \<Rightarrow> string \<Rightarrow> string option \<Rightarrow> result_type \<Rightarrow> int \<Rightarrow> pyval \<Rightarrow> string option \<Rightarrow> 's
      \<Rightarrow> ('s, job_result) outcome"
  where "result_create B job_name worker_name type ttl return_value exc_string s =
    (let w = (case worker_name of None \<Rightarrow> ''unknown_worker'' | Some n \<Rightarrow> n);
         (now, s1) = utcnow B s;
         r = \<lparr> r_parent = job_name, r_type = type, r_worker_name = w, r_ttl = Some ttl, r_name = None,
               r_created_at = now, r_return_value = return_value, r_exc_string = exc_string \<rparr>
     in and_then (result_save B None r s1) (\<lambda>_ s2. (Inr r, s2)))"

definition result_type_of :: "string \<Rightarrow> result_type option"
  where "result_type_of v = find (\<lambda>t. result_type_value t = v) [ResultSuccessful, ResultFailed, ResultStopped]"

definition result_field_types :: "(string \<times> pytype) list"
  where "result_field_types =
    [(''name'', TStr), (''parent'', TStr),
     (''type'', TEnum (map result_type_value [ResultSuccessful, ResultFailed, ResultStopped])),
     (''worker_name'', TStr), (''ttl'', TInt), (''created_at'', TDatetime),
     (''return_value'', TJson), (''exc_string'', TStr)]"

fun to_result_type :: "pyval \<Rightarrow> result_type result" where
  "to_result_type (VEnum v) = (case result_type_of v of None \<Rightarrow> Inl TypeError | Some t \<Rightarrow> Inr t)"
| "to_result_type _ = Inl TypeError"

definition result_deserialize :: "('s, 'x) env_scheme \<Rightarrow> (string \<times> wire) list \<Rightarrow> 's \<Rightarrow> ('s, job_result) outcome"
  \<comment> \<open>a missing creation time defaults to the current one\<close>
  where "result_deserialize B data s =
    (if \<not> fst ` set data \<subseteq> set (map fst result_field_types) then (Inl TypeError, s)
     else (let kw = map_of (base_deserialize [] result_field_types data);
               (now, s1) = (if kw ''created_at'' = None then utcnow B s else (0, s))
           in (rbind (required to_str kw ''parent'') (\<lambda>parent.
               rbind (required to_result_type kw ''type'') (\<lambda>type.
               rbind (required to_str kw ''worker_name'') (\<lambda>worker_name.
               rbind (optional to_int kw ''ttl'') (\<lambda>ttl.
               rbind (optional to_str kw ''name'') (\<lambda>name.
               rbind (defaulted to_datetime now kw ''created_at'') (\<lambda>created_at.
               rbind (optional to_str kw ''exc_string'') (\<lambda>exc_string.
                 Inr \<lparr> r_parent = parent, r_type = type, r_worker_name = worker_name, r_ttl = ttl,
                       r_name = name, r_created_at = created_at,
                       r_return_value = (case kw ''return_value'' of None \<Rightarrow> VNone | Some v \<Rightarrow> v),
                       r_exc_string = exc_string \<rparr>))))))), s1)))"

definition fetch_latest :: "('s, 'x) env_scheme \<Rightarrow> string \<Rightarrow> 's \<Rightarrow> ('s, job_result option) outcome"
  where "fetch_latest B job_name s =
    (case e_xrevrange B (result_children_key job_name) (Some 1) s of
       [] \<Rightarrow> (Inr None, s)
     | payload # _ \<Rightarrow> and_then (result_deserialize B payload s) (\<lambda>r s1. (Inr (Some r), s1)))"

section \<open>What is written is what is fetched\<close>

lemma key_exists_stream: "streams st k \<noteq> [] \<Longrightarrow> key_exists st k"
  by (simp add: key_exists_def)

context broker
begin

lemma stream_save_view:
  assumes "ttl \<noteq> Some 0"
  shows "fst (stream_save B k entry ttl s)"
    and "\<exists>xs. streams (view (snd (stream_save B k entry ttl s))) k = xs @ [entry]"
proof -
  obtain d where d: "view (e_run B (XADD k entry 10) s) =
      (view s)\<lparr>streams := (streams (view s))(k := drop d (streams (view s) k @ [entry]))\<rparr>"
    "d = 0 \<or> (0 < (10::nat) \<and> 10 \<le> Suc (length (streams (view s) k)) - d)"
    using view_xadd [of k entry 10 s] by blast
  then have "d \<le> length (streams (view s) k)" by auto
  then have last: "drop d (streams (view s) k @ [entry]) = drop d (streams (view s) k) @ [entry]" by simp
  show "fst (stream_save B k entry ttl s)" using assms by (simp add: stream_save_def)
  show "\<exists>xs. streams (view (snd (stream_save B k entry ttl s))) k = xs @ [entry]"
    using assms d(1) last
    by (cases ttl) (auto simp: stream_save_def stream_save_cmds_def view_run key_exists_stream)
qed

lemma stream_save_zero: "streams (view (snd (stream_save B k entry (Some 0) s))) k = []"
  by (simp add: stream_save_def view_run del_key_def)

end

lemma map_of_value_fields:
  assumes "distinct (map fst m)"
  shows "map_of (value_fields m) k = (case map_of m k of Some (Some w) \<Rightarrow> Some w | _ \<Rightarrow> None)"
proof -
  have "map_of (value_fields m) k = Some w \<longleftrightarrow> map_of m k = Some (Some w)" for w
    using assms distinct_value_fields [OF assms] by (simp add: map_of_eq_Some_iff set_value_fields)
  then show ?thesis by (auto split: option.splits intro: option.expand) (metis option.exhaust)+
qed

lemma result_serialize_lookup:
  assumes ser: "result_serialize r = Inr entry"
  shows "fst ` set entry \<subseteq> set (map fst result_field_types)"
    and "(k, v) \<in> set (result_fields r) \<Longrightarrow> \<exists>w. serialize_value v = Inr w \<and> map_of entry k = w"
proof -
  let ?fs = "filter (\<lambda>(k, v). v \<noteq> VNone) (result_fields r)"
  from ser obtain ws where ws: "serialize_fields ?fs = Inr ws" and entry: "entry = value_fields ws"
    by (auto simp: result_serialize_def base_serialize_def rbind_def value_fields_def split: sum.splits)
  have d: "distinct (map fst (result_fields r))" by (simp add: result_fields_def)
  have keys: "map fst ws = map fst ?fs" using ws by (rule serialize_fields_keys)
  have dw: "distinct (map fst ws)" unfolding keys using d by (rule distinct_fst_filter)
  have names: "fst ` set (result_fields r) = set (map fst result_field_types)"
    by (simp add: result_fields_def result_field_types_def)
  have "fst ` set ws = fst ` set ?fs" using keys by (metis list.set_map)
  then show "fst ` set entry \<subseteq> set (map fst result_field_types)"
    unfolding names [symmetric] by (force simp: entry set_value_fields)
  assume kv: "(k, v) \<in> set (result_fields r)"
  show "\<exists>w. serialize_value v = Inr w \<and> map_of entry k = w"
  proof (cases "v = VNone")
    case True
    have "map_of ws k = None"
      using True kv d \<open>fst ` set ws = fst ` set ?fs\<close>
      by (auto simp: map_of_eq_None_iff dest: eq_key_imp_eq_value)
    with True dw show ?thesis by (simp add: entry map_of_value_fields)
  next
    case False
    with kv have "(k, v) \<in> set ?fs" by simp
    then have "map_of ?fs k = Some v" using d by (simp add: map_of_eq_Some_iff distinct_fst_filter)
    from serialize_fields_lookup [OF ws this]
    obtain w where w: "serialize_value v = Inr w" "map_of ws k = Some w" by blast
    with False obtain x where "w = Some x" by (cases w) auto
    with w dw show ?thesis by (simp add: entry map_of_value_fields)
  qed
qed

text \<open>An entry reads back as the result it was written for, if its return value survives JSON.\<close>

lemma result_deserialize_entry:
  assumes ser: "result_serialize r = Inr entry"
    and rv: "serialize_value (r_return_value r) = Inr w" "deserialize_value w TJson = r_return_value r"
  shows "result_deserialize B entry s = (Inr r, s)"
proof -
  let ?kw = "map_of (base_deserialize [] result_field_types entry)"
  have field: "?kw k = (if v = VNone then None else Some v)"
    if kv: "(k, v) \<in> set (result_fields r)" and ty: "map_of result_field_types k = Some ty"
      and inv: "\<And>w. serialize_value v = Inr w \<Longrightarrow> deserialize_value w ty = v" for k v ty
    using result_serialize_lookup(2) [OF ser kv] ty inv
    by (auto simp: map_of_base_deserialize) (metis option.exhaust serialize_value_None_iff)
  have opt: "(if opt_val f x = VNone then None else Some (opt_val f x)) = map_option f x"
    if "\<And>a. f a \<noteq> VNone" for f :: "'field \<Rightarrow> pyval" and x using that by (cases x) simp_all
  have typed: "list_all (\<lambda>(k, v). \<exists>ty. map_of result_field_types k = Some ty \<and>
      (\<forall>w. serialize_value v = Inr w \<longrightarrow> deserialize_value w ty = v)) (result_fields r)"
    using rv by (cases "r_type r") (auto simp: result_fields_def result_field_types_def intro!: deserialize_serialize)
  obtain kw where kw_def: "kw = ?kw" by simp
  have "list_all (\<lambda>(k, v). kw k = (if v = VNone then None else Some v)) (result_fields r)"
    using typed field unfolding list_all_iff kw_def by fastforce
  then have kw: "kw ''name'' = map_option VStr (r_name r)"
    "kw ''parent'' = Some (VStr (r_parent r))"
    "kw ''type'' = Some (VEnum (result_type_value (r_type r)))"
    "kw ''worker_name'' = Some (VStr (r_worker_name r))"
    "kw ''ttl'' = map_option VInt (r_ttl r)"
    "kw ''created_at'' = Some (VDatetime (r_created_at r))"
    "kw ''return_value'' = (if r_return_value r = VNone then None else Some (r_return_value r))"
    "kw ''exc_string'' = map_option VStr (r_exc_string r)"
    by (simp_all add: result_fields_def opt del: opt_val_simps)
  show ?thesis
    using result_serialize_lookup(1) [OF ser] kw unfolding kw_def [symmetric]
    by (cases "r_type r") (simp_all add: result_deserialize_def kw_def [symmetric] field_simps result_type_of_def)
qed


context broker
begin

lemma fetch_latest_created:
  assumes ttl: "ttl \<noteq> 0"
    and created: "result_create B job_name worker_name type ttl v exc s = (Inr r, s')"
    and rv: "serialize_value v = Inr w" "deserialize_value w TJson = v"
  shows "fetch_latest B job_name s' = (Inr (Some r), s')"
proof -
  obtain now s1 where now: "utcnow B s = (now, s1)" by (cases "utcnow B s")
  let ?w = "case worker_name of None \<Rightarrow> ''unknown_worker'' | Some n \<Rightarrow> n"
  let ?r = "\<lparr> r_parent = job_name, r_type = type, r_worker_name = ?w, r_ttl = Some ttl, r_name = None,
               r_created_at = now, r_return_value = v, r_exc_string = exc \<rparr>"
  obtain entry where entry: "result_serialize ?r = Inr entry"
    and r: "r = ?r" and s': "s' = snd (stream_save B (result_children_key job_name) entry (Some ttl) s1)"
    using created ttl
    by (auto simp: result_create_def now result_save_def Let_def and_then_def apfst_def map_prod_def
        split: sum.splits prod.splits)
  obtain xs where "streams (view s') (result_children_key job_name) = xs @ [entry]"
    using stream_save_view(2) [of "Some ttl" "result_children_key job_name" entry s1] ttl unfolding s' by auto
  then have "fetch_latest B job_name s' = and_then (result_deserialize B entry s') (\<lambda>r s1. (Inr (Some r), s1))"
    by (simp add: fetch_latest_def xrevrange z_limit_def)
  also have "result_deserialize B entry s' = (Inr r, s')"
    unfolding r using rv by (intro result_deserialize_entry [OF entry]) simp_all
  finally show ?thesis by simp
qed

end

end
