(* ===== verification/Locks.thy ===== *)
theory Locks
  imports Registries
begin

text \<open>
  \<open>scheduler/redis_models/lock.py\<close>: the lock the schedulers of different workers contend for, a broker
  string that is set only if it is absent.  \<open>lock_ops\<close> is the contract: of the processes that try, one
  holds the lock until it releases it or the service expires it.
\<close>

record kv_lock =
  l_name :: string
  l_acquired :: bool

definition kv_lock_init :: "string \<Rightarrow> kv_lock"
  where "kv_lock_init name = \<lparr> l_name = name, l_acquired = False \<rparr>"

definition locking_key :: "kv_lock \<Rightarrow> key"
  where "locking_key l = ''_lock:'' @ l_name l"

definition lock_acquire :: "('s, 'x) env_scheme \<Rightarrow> string \<Rightarrow> int option \<Rightarrow> kv_lock \<Rightarrow> 's \<Rightarrow> bool \<times> kv_lock \<times> 's"
  where "lock_acquire B val expire l s =
    (let (ok, s1) = e_setnx B (locking_key l) val expire s in (ok, l\<lparr>l_acquired := ok\<rparr>, s1))"

definition lock_expire :: "('s, 'x) env_scheme \<Rightarrow> int \<Rightarrow> kv_lock \<Rightarrow> 's \<Rightarrow> 's"
  where "lock_expire B expire l s = e_run B (EXPIRE (locking_key l) expire) s"

definition lock_release :: "('s, 'x) env_scheme \<Rightarrow> kv_lock \<Rightarrow> 's \<Rightarrow> 's"
  where "lock_release B l s = e_run B (DEL (locking_key l)) s"

definition lock_value :: "('s, 'x) env_scheme \<Rightarrow> kv_lock \<Rightarrow> 's \<Rightarrow> string option"
  where "lock_value B l s = e_get B (locking_key l) s"

definition scheduler_lock :: "string \<Rightarrow> kv_lock"
  where "scheduler_lock queue_name = kv_lock_init (''lock:scheduler:'' @ queue_name)"

definition queue_lock :: "string \<Rightarrow> kv_lock"
  where "queue_lock queue_name = kv_lock_init (''queue:'' @ queue_name)"

lemma scheduler_lock_inject [simp]: "locking_key (scheduler_lock a) = locking_key (scheduler_lock b) \<longleftrightarrow> a = b"
  by (simp add: locking_key_def scheduler_lock_def kv_lock_init_def)

lemma lock_kinds_distinct [simp]: "locking_key (scheduler_lock a) \<noteq> locking_key (queue_lock b)"
  by (simp add: locking_key_def scheduler_lock_def queue_lock_def kv_lock_init_def)

section \<open>Mutual exclusion\<close>

fun attempts :: "(string \<Rightarrow> 'l \<Rightarrow> 's \<Rightarrow> bool \<times> 's) \<Rightarrow> string list \<Rightarrow> 'l \<Rightarrow> 's \<Rightarrow> string list \<times> 's"
  \<comment> \<open>the processes, tried in turn, that got the lock\<close>
where
  "attempts acquire [] l s = ([], s)"
| "attempts acquire (v # vs) l s =
     (let (ok, s1) = acquire v l s; (won, s2) = attempts acquire vs l s1 in (if ok then v # won else won, s2))"

locale lock_ops =
  fixes owner :: "'s \<Rightarrow> 'l \<Rightarrow> string option"
    and acquire :: "string \<Rightarrow> 'l \<Rightarrow> 's \<Rightarrow> bool \<times> 's"
    and release :: "'l \<Rightarrow> 's \<Rightarrow> 's"
  assumes acquire_fst: "fst (acquire v l s) \<longleftrightarrow> owner s l = None"
    and owner_acquire: "owner (snd (acquire v l s)) l' =
          (if l' = l \<and> owner s l = None then Some v else owner s l')"
    and owner_release: "owner (release l s) l' = (if l' = l then None else owner s l')"
begin

lemma attempts_held: "owner s l = Some v \<Longrightarrow> fst (attempts acquire vs l s) = [] \<and> owner (snd (attempts acquire vs l s)) l = Some v"
proof (induction vs arbitrary: s)
  case (Cons u us)
  obtain ok s1 where a: "acquire u l s = (ok, s1)" by fastforce
  with Cons.prems acquire_fst [of u l s] owner_acquire [of u l s l] have "\<not> ok" "owner s1 l = Some v" by simp_all
  with Cons.IH [of s1] a show ?case by (simp add: split: prod.splits)
qed simp

lemma one_winner:
  assumes "owner s l = None" shows "fst (attempts acquire (v # vs) l s) = [v]"
proof -
  obtain ok s1 where a: "acquire v l s = (ok, s1)" by fastforce
  with assms acquire_fst [of v l s] owner_acquire [of v l s l] have "ok" "owner s1 l = Some v" by simp_all
  with attempts_held [of s1 l v vs] a show ?thesis by (cases "attempts acquire vs l s1") simp
qed

lemma acquire_after_release: "fst (acquire v l (release l s))"
  by (simp add: acquire_fst owner_release)

end

definition lock_acquire_at :: "('s, 'x) env_scheme \<Rightarrow> int option \<Rightarrow> string \<Rightarrow> string \<Rightarrow> 's \<Rightarrow> bool \<times> 's"
  \<comment> \<open>one process making a lock object of its own for the name and trying it\<close>
  where "lock_acquire_at B expire val name s =
    (let (ok, _, s1) = lock_acquire B val expire (kv_lock_init name) s in (ok, s1))"

lemma lock_acquire_at_eq: "lock_acquire_at B ex v n s = e_setnx B (''_lock:'' @ n) v ex s"
  by (simp add: lock_acquire_at_def lock_acquire_def locking_key_def kv_lock_init_def split_beta)

sublocale broker \<subseteq> locks: lock_ops "\<lambda>s n. lock_value B (kv_lock_init n) s" "lock_acquire_at B ex"
    "\<lambda>n. lock_release B (kv_lock_init n)"
  for ex :: "int option"
  by unfold_locales
    (auto simp: lock_value_def lock_release_def lock_acquire_at_eq locking_key_def kv_lock_init_def get setnx_fst
      setnx_view view_run del_key_def)

interpretation mem_locks: lock_ops "\<lambda>s n. lock_value (mem_env_ext cfg x) (kv_lock_init n) s"
    "lock_acquire_at (mem_env_ext cfg x) ex" "\<lambda>n. lock_release (mem_env_ext cfg x) (kv_lock_init n)"
  for cfg :: scheduler_config and x :: 'x and ex :: "int option"
  by (rule mem_broker.locks.lock_ops_axioms)

context broker
begin

lemmas lock_one_winner = locks.one_winner
  and lock_free_again = locks.acquire_after_release

end

end
