(* ===== verification/Queues.thy ===== *)
theory Queues
  imports Results Locks
begin

text \<open>
  \<open>scheduler/helpers/queues/queue_logic.py\<close>, and the operations of \<open>QueuedJobRegistry\<close> that look at jobs:
  how a job enters a queue, is taken from it, performed, and moved between the queue's registries.

  A queue is its name and whether its jobs are left to workers; its connection is the broker's record.
  Methods that Python runs on a pipeline are lists of commands until the pipeline is executed; saving or
  deleting a model always executes at once, on a pipeline of its own.
\<close>

record queue =
  q_name :: string
  q_is_async :: bool

definition queue_registry :: "registry_kind \<Rightarrow> queue \<Rightarrow> registry"
  where "queue_registry k q = \<lparr> reg_kind = k, reg_name = q_name q \<rparr>"

lemma queue_registry_sel [simp]: "reg_kind (queue_registry k q) = k" "reg_name (queue_registry k q) = q_name q"
  by (simp_all add: queue_registry_def)

lemma queue_registry_inject [simp]: "queue_registry k q = queue_registry k' q' \<longleftrightarrow> k = k' \<and> q_name q = q_name q'"
  by (simp add: queue_registry_def)

definition REGISTRIES :: "(string \<times> registry_kind) list"
  where "REGISTRIES =
    [(''finished'', FinishedJobs), (''failed'', FailedJobs), (''scheduled'', ScheduledJobs),
     (''active'', ActiveJobs), (''canceled'', CanceledJobs), (''queued'', QueuedJobs)]"

definition get_registry :: "queue \<Rightarrow> string \<Rightarrow> registry result"
  where "get_registry q name =
    (case map_of REGISTRIES (py_lower name) of None \<Rightarrow> Inl NoSuchRegistryError
     | Some k \<Rightarrow> Inr (queue_registry k q))"

section \<open>The queued-jobs registry and the jobs it names\<close>

definition reg_compact :: "('s, 'x) env_scheme \<Rightarrow> registry \<Rightarrow> 's \<Rightarrow> 's"
  where "reg_compact B r s =
    (let (jobs_with_ts, s1) = reg_all_with_timestamps B r 0 (-1) s
     in fold (\<lambda>(job_name, _) s. if job_exists B job_name s then s else reg_delete B r job_name s) jobs_with_ts s1)"

definition empty_offsets :: "nat \<Rightarrow> nat list"
  \<comment> \<open>\<open>range(0, n, 1000)\<close>\<close>
  where "empty_offsets n = map (\<lambda>i. 1000 * i) [0 ..< (n + 999) div 1000]"

fun empty_chunks :: "('s, 'x) env_scheme \<Rightarrow> registry \<Rightarrow> nat list \<Rightarrow> cmd list \<Rightarrow> 's \<Rightarrow> cmd list \<times> 's" where
  "empty_chunks B r [] pipe s = (pipe, s)"
| "empty_chunks B r (offset # offsets) pipe s =
     (let (job_names, s1) = reg_all B r (int offset) 1000 s;
          s2 = delete_many (job_class (e_cfg B)) B job_names s1
      in empty_chunks B r offsets (pipe @ map (reg_delete_cmd r) job_names) s2)"

definition reg_empty :: "('s, 'x) env_scheme \<Rightarrow> registry \<Rightarrow> 's \<Rightarrow> 's"
  where "reg_empty B r s =
    (let (queued_jobs_count, s1) = reg_count B r s;
         (pipe, s2) = empty_chunks B r (empty_offsets queued_jobs_count) [] s1
     in run_all B pipe s2)"

section \<open>Reading a queue\<close>

definition scheduler_pid :: "('s, 'x) env_scheme \<Rightarrow> queue \<Rightarrow> 's \<Rightarrow> int option result"
  where "scheduler_pid B q s =
    (case lock_value B (scheduler_lock (q_name q)) s of
       None \<Rightarrow> Inr None
     | Some pid \<Rightarrow> (case int_of_str pid of None \<Rightarrow> Inl ValueError | Some i \<Rightarrow> Inr (Some i)))"

definition first_queued_job_name :: "('s, 'x) env_scheme \<Rightarrow> queue \<Rightarrow> 's \<Rightarrow> string option \<times> 's"
  where "first_queued_job_name B q s = reg_get_first B (queue_registry QueuedJobs q) s"

fun count_all :: "('s, 'x) env_scheme \<Rightarrow> registry list \<Rightarrow> 's \<Rightarrow> nat \<times> 's" where
  "count_all B [] s = (0, s)"
| "count_all B (r # rs) s =
     (let (n, s1) = reg_count B r s; (m, s2) = count_all B rs s1 in (n + m, s2))"

definition queue_count :: "('s, 'x) env_scheme \<Rightarrow> queue \<Rightarrow> 's \<Rightarrow> nat \<times> 's"
  where "queue_count B q s = count_all B (map (\<lambda>(_, k). queue_registry k q) REGISTRIES) s"

fun all_of :: "('s, 'x) env_scheme \<Rightarrow> registry list \<Rightarrow> 's \<Rightarrow> string list \<times> 's" where
  "all_of B [] s = ([], s)"
| "all_of B (r # rs) s =
     (let (ns, s1) = reg_all B r 0 (-1) s; (ms, s2) = all_of B rs s1 in (ns @ ms, s2))"

definition get_all_job_names :: "('s, 'x) env_scheme \<Rightarrow> queue \<Rightarrow> 's \<Rightarrow> string list \<times> 's"
  where "get_all_job_names B q s =
    (let (names, s1) = all_of B (map (\<lambda>k. queue_registry k q)
            [QueuedJobs, FinishedJobs, ActiveJobs, FailedJobs, ScheduledJobs, CanceledJobs]) s
     in (filter (\<lambda>n. job_exists B n s1) names, s1))"

definition get_all_jobs :: "('s, 'x) env_scheme \<Rightarrow> queue \<Rightarrow> 's \<Rightarrow> ('s, job_model option list) outcome"
  where "get_all_jobs B q s =
    (let (names, s1) = get_all_job_names B q s
     in (model_get_many (job_class (e_cfg B)) B names s1, s1))"

section \<open>Performing a job\<close>

definition perform_call :: "('s, 'x) host_env_scheme \<Rightarrow> job_model \<Rightarrow> 's \<Rightarrow> job_model \<times> ('s, pyval) outcome"
  \<comment> \<open>the body of the \<open>try\<close>\<close>
  where "perform_call H j s =
    (case job_func H j of
       Inl e \<Rightarrow> (j, Inl e, s)
     | Inr f \<Rightarrow>
         (case h_call H f (j_args j) (j_kwargs j) j s of
            (j1, Inl e, s1) \<Rightarrow> (j1, Inl e, s1)
          | (j1, Inr result, s1) \<Rightarrow>
              (case job_save H True j1 s1 of
                 (j2, Inl e, s2) \<Rightarrow> (j2, Inl e, s2)
               | (j2, Inr _, s2) \<Rightarrow>
                   (case (if h_is_coroutine H result then h_await H result j2 s2 else (j2, Inr result, s2)) of
                      (j3, Inl e, s3) \<Rightarrow> (j3, Inl e, s3)
                    | (j3, Inr result', s3) \<Rightarrow>
                        (case call_success_callback H result' j3 s3 of
                           (j4, Inl e, s4) \<Rightarrow> (j4, Inl e, s4)
                         | (j4, Inr _, s4) \<Rightarrow> (j4, Inr result', s4))))))"

definition exc_arg :: "exn \<Rightarrow> pyval"
  \<comment> \<open>the exception, as the argument of a failure callback\<close>
  where "exc_arg e = VObj (case e of UserError m \<Rightarrow> m | _ \<Rightarrow> [])"

definition get_current_job :: "job_model list \<Rightarrow> job_model option"
  \<comment> \<open>of the stack of the jobs that are running\<close>
  where "get_current_job stack = (if stack = [] then None else Some (last stack))"

definition queue_perform_job :: "('s, 'x) host_env_scheme \<Rightarrow> job_model \<Rightarrow> 's \<Rightarrow> job_model \<times> ('s, pyval) outcome"
  \<comment> \<open>the job is on the stack during the run; the stack is part of the world the call sees, and is left as it was\<close>
  where "queue_perform_job H j s =
    (case perform_call H j (job_persist H j s) of
       (j1, Inr v, s1) \<Rightarrow> (j1, Inr v, s1)
     | (j1, Inl e, s1) \<Rightarrow>
         if is_Exception e then
           (case call_failure_callback H (exc_arg e) j1 s1 of
              (j2, Inl e2, s2) \<Rightarrow> (j2, Inl e2, s2)
            | (j2, Inr _, s2) \<Rightarrow> (j2, Inl e, s2))
         else (j1, Inl e, s1))"

section \<open>After a run\<close>

definition job_handle_success ::
    "('s, 'x) env_scheme \<Rightarrow> queue \<Rightarrow> pyval \<Rightarrow> int \<Rightarrow> int \<Rightarrow> job_model \<Rightarrow> 's \<Rightarrow> 's job_step"
  where "job_handle_success B q result job_info_ttl result_ttl j s =
    (case after_execution B job_info_ttl JobFinished (Some (queue_registry ActiveJobs q))
            (Some (queue_registry FinishedJobs q)) j s of
       (j1, Inl e, s1) \<Rightarrow> (j1, Inl e, s1)
     | (j1, Inr _, s1) \<Rightarrow>
         (case result_create B (m_name j1) (j_worker_name j1) ResultSuccessful result_ttl result None s1 of
            (Inl e, s2) \<Rightarrow> (j1, Inl e, s2)
          | (Inr _, s2) \<Rightarrow> (j1, Inr (), s2)))"

definition job_handle_failure ::
    "('s, 'x) env_scheme \<Rightarrow> queue \<Rightarrow> job_status \<Rightarrow> string \<Rightarrow> job_model \<Rightarrow> 's \<Rightarrow> 's job_step"
  where "job_handle_failure B q status exc_string j s =
    (case after_execution B (DEFAULT_FAILURE_TTL (e_cfg B)) status (Some (queue_registry ActiveJobs q))
            (Some (queue_registry FailedJobs q)) j s of
       (j1, Inl e, s1) \<Rightarrow> (j1, Inl e, s1)
     | (j1, Inr _, s1) \<Rightarrow>
         (case result_create B (m_name j1) (j_worker_name j1) ResultFailed (DEFAULT_FAILURE_TTL (e_cfg B))
                 VNone (Some exc_string) s1 of
            (Inl e, s2) \<Rightarrow> (j1, Inl e, s2)
          | (Inr _, s2) \<Rightarrow> (j1, Inr (), s2)))"

definition run_sync :: "('s, 'x) host_env_scheme \<Rightarrow> queue \<Rightarrow> job_model \<Rightarrow> 's \<Rightarrow> 's job_step"
  where "run_sync H q j s =
    (case prepare_for_execution H ''sync'' (queue_registry ActiveJobs q) j s of
       (j1, Inl e, s1) \<Rightarrow> (j1, Inl e, s1)
     | (j1, Inr _, s1) \<Rightarrow>
         (case (case queue_perform_job H j1 s1 of
                  (j2, Inl e, s2) \<Rightarrow> (j2, Inl e, s2)
                | (j2, Inr result, s2) \<Rightarrow>
                    job_handle_success H q result (j_job_info_ttl j2) (j_success_ttl j2) j2 s2) of
            (j3, Inr _, s3) \<Rightarrow> (j3, Inr (), s3)
          | (j3, Inl e, s3) \<Rightarrow>
              if is_Exception e then job_handle_failure H q JobFailed (h_traceback H e) j3 s3
              else (j3, Inl e, s3)))"

section \<open>Entering a queue\<close>

definition enqueue_job ::
    "('s, 'x) host_env_scheme \<Rightarrow> queue \<Rightarrow> cmd list \<Rightarrow> bool \<Rightarrow> job_model \<Rightarrow> 's \<Rightarrow> 's job_step"
  \<comment> \<open>with the commands already on the pipeline given, none for a fresh one\<close>
  where "enqueue_job H q pipe at_front j s =
    (let (now, s1) = utcnow H s;
         j1 = set_enqueued_at (Some now) (set_status JobQueued (set_ended_at None (set_started_at None j)))
     in case job_save H False j1 s1 of
          (j2, Inl e, s2) \<Rightarrow> (j2, Inl e, s2)
        | (j2, Inr _, s2) \<Rightarrow>
            if q_is_async q then
              (let (score, s3) =
                     (if at_front then current_timestamp H s2
                      else (case reg_get_last_timestamp H (queue_registry QueuedJobs q) s2 of
                              (last_ts, s2') \<Rightarrow> if or_int last_ts 0 \<noteq> 0 then (or_int last_ts 0, s2')
                                               else current_timestamp H s2'))
               in (j2, Inr (),
                   run_all H (pipe @ [reg_delete_cmd (queue_registry ScheduledJobs q) (m_name j2),
                                      reg_add_cmd (queue_registry QueuedJobs q) (m_name j2) (secs score) False]) s3))
            else
              (case run_sync H q j2 (run_all H pipe s2) of
                 (j3, Inl e, s3) \<Rightarrow> (j3, Inl e, s3)
               | (j3, Inr _, s3) \<Rightarrow>
                   (case job_expire H (j_job_info_ttl j3) j3 s3 of
                      (j4, pipe', s4) \<Rightarrow> (j4, Inr (), run_all H pipe' s4))))"

datatype schedule_when = Immediately | At py_datetime | InvalidWhen

definition create_and_enqueue_job ::
    "('s, 'x) host_env_scheme \<Rightarrow> local_tz \<Rightarrow> queue \<Rightarrow> schedule_when \<Rightarrow> bool \<Rightarrow> creation \<Rightarrow> 's \<Rightarrow> ('s, job_model) outcome"
  \<comment> \<open>of the description of the job to create, \<open>c_status\<close>, \<open>c_queue_name\<close> and \<open>c_at_front\<close> are set here\<close>
  where "create_and_enqueue_job H tz q when at_front c s =
    (let status = (if when = Immediately then JobQueued else JobScheduled)
     in case job_create H (c\<lparr>c_status := Some status, c_queue_name := q_name q, c_at_front := None\<rparr>) s of
          (Inl e, s1) \<Rightarrow> (Inl e, s1)
        | (Inr j, s1) \<Rightarrow>
            (case when of
               Immediately \<Rightarrow>
                 (case enqueue_job H q [] at_front j s1 of
                    (_, Inl e, s2) \<Rightarrow> (Inl e, s2)
                  | (j2, Inr _, s2) \<Rightarrow> (Inr j2, s2))
             | At d \<Rightarrow>
                 (case job_save H False j s1 of
                    (_, Inl e, s2) \<Rightarrow> (Inl e, s2)
                  | (j2, Inr _, s2) \<Rightarrow> (Inr j2, reg_schedule H tz (queue_registry ScheduledJobs q) (m_name j2) d s2))
             | InvalidWhen \<Rightarrow> (Inl TypeError, s1)))"

section \<open>Leaving a queue\<close>

partial_function (option) dequeue_any ::
    "('s, 'x) env_scheme \<Rightarrow> queue list \<Rightarrow> int option \<Rightarrow> 's \<Rightarrow> ('s, (job_model \<times> queue) option) outcome option"
  \<comment> \<open>None if the loop never ends\<close>
where
  "dequeue_any B queues timeout s =
     (let registries = map (queue_registry QueuedJobs) queues;
          s1 = fold (reg_compact B) registries s
      in case reg_pop B registries timeout s1 of
           (Inl e, s2) \<Rightarrow> Some (Inl e, s2)
         | (Inr None, s2) \<Rightarrow> Some (Inr None, s2)
         | (Inr (Some (registry_key, job_name)), s2) \<Rightarrow>
             (case find (\<lambda>q. reg_key (queue_registry QueuedJobs q) = registry_key) queues of
                None \<Rightarrow> Some (Inr None, s2)
              | Some q \<Rightarrow>
                  (case job_get B job_name s2 of
                     None \<Rightarrow> dequeue_any B queues timeout s2
                   | Some j \<Rightarrow> Some (Inr (Some (j, q)), s2))))"

definition remove_from_registries_cmds :: "queue \<Rightarrow> string \<Rightarrow> cmd list"
  where "remove_from_registries_cmds q job_name =
    map (\<lambda>k. reg_delete_cmd (queue_registry k q) job_name)
      [FinishedJobs, ScheduledJobs, ActiveJobs, CanceledJobs, QueuedJobs]"

definition cancel_job :: "('s, 'x) env_scheme \<Rightarrow> queue \<Rightarrow> string \<Rightarrow> 's \<Rightarrow> ('s, unit) outcome"
  where "cancel_job B q job_name s =
    (case job_get B job_name s of
       None \<Rightarrow> (Inl NoSuchJobError, s)
     | Some j \<Rightarrow>
         if j_status j = Some JobCanceled then (Inl InvalidJobOperation, s)
         else
           (let new_status = (if j_status j = Some JobQueued then JobCanceled else JobStopped)
            in case set_field_cmds (job_class (e_cfg B)) j ''status'' (VEnum (job_status_value new_status)) of
                 Inl e \<Rightarrow> (Inl e, s)
               | Inr pipe \<Rightarrow>
                   (let s1 = run_all B (pipe @ remove_from_registries_cmds q job_name) s
                    in if new_status = JobCanceled
                       then (Inr (), run_all B [reg_add_cmd (queue_registry CanceledJobs q) job_name 0 False] s1)
                       else (let (ts, s2) = current_timestamp B s1
                             in (Inr (), run_all B [reg_add_cmd (queue_registry FinishedJobs q) job_name
                                   (secs (ts + DEFAULT_FAILURE_TTL (e_cfg B))) False] s2)))))"

definition delete_job :: "('s, 'x) env_scheme \<Rightarrow> queue \<Rightarrow> string \<Rightarrow> bool \<Rightarrow> 's \<Rightarrow> 's"
  where "delete_job B q job_name expire_job_model s =
    (let pipe = remove_from_registries_cmds q job_name @ [reg_delete_cmd (queue_registry FailedJobs q) job_name]
     in if expire_job_model then
          (case job_get B job_name s of
             None \<Rightarrow> run_all B pipe s
           | Some j \<Rightarrow>
               (case job_expire B (j_job_info_ttl j) j s of
                  (_, pipe', s1) \<Rightarrow> run_all B (pipe @ pipe') s1))
        else run_all B pipe s)"

section \<open>Abandoned jobs\<close>

text \<open>
  The guard \<open>not job.has_failure_callback\<close> of the loop tests a bound method, not its result, and never
  holds: it does not appear here.
\<close>

definition cleanup_all :: "('s, 'x) env_scheme \<Rightarrow> queue \<Rightarrow> time \<Rightarrow> 's \<Rightarrow> 's"
  where "cleanup_all B q before_score s =
    fold (\<lambda>(_, k). reg_cleanup B (queue_registry k q) (Some before_score)) REGISTRIES s"

fun clean_started ::
    "('s, 'x) host_env_scheme \<Rightarrow> queue \<Rightarrow> time \<Rightarrow> (string \<times> time) list \<Rightarrow> 's \<Rightarrow> ('s, unit) outcome"
where
  "clean_started H q before_score [] s = (Inr (), s)"
| "clean_started H q before_score ((job_name, job_score) # started_jobs) s =
     (case job_get H job_name s of
        None \<Rightarrow> clean_started H q before_score started_jobs s
      | Some j \<Rightarrow>
          if job_score + secs (j_timeout j) > before_score then clean_started H q before_score started_jobs s
          else
            (case call_failure_callback H VNone j s of
               (_, Inl e, s1) \<Rightarrow> (Inl e, s1)
             | (j1, Inr _, s1) \<Rightarrow>
                 (let (now, s2) = utcnow H s1;
                      exc_string = ''Moved to '' @ reg_key (queue_registry FailedJobs q)
                        @ '', due to AbandonedJobError, at '' @ datetime_str now
                  in case job_handle_failure H q JobFailed exc_string j1 s2 of
                       (_, Inl e, s3) \<Rightarrow> (Inl e, s3)
                     | (_, Inr _, s3) \<Rightarrow>
                         clean_started H q before_score started_jobs (cleanup_all H q before_score s3))))"

definition clean_registries :: "('s, 'x) host_env_scheme \<Rightarrow> queue \<Rightarrow> time option \<Rightarrow> 's \<Rightarrow> ('s, unit) outcome"
  where "clean_registries H q timestamp s =
    (let (before_score, s1) = timestamp_or_now H timestamp s;
         s2 = reg_compact H (queue_registry QueuedJobs q) s1;
         (started_jobs, s3) = get_job_names_before H (queue_registry ActiveJobs q) (Some before_score) s2
     in clean_started H q before_score started_jobs s3)"

section \<open>How the operations act on the registries\<close>

lemma result_key_reg_key [simp, key_simps]: "result_children_key n \<noteq> reg_key r" "reg_key r \<noteq> result_children_key n"
  by (simp_all add: result_children_key_def reg_key_def)

lemma result_key_job_key [simp, key_simps]: "result_children_key n \<noteq> job_key m" "job_key m \<noteq> result_children_key n"
  by (simp_all add: result_children_key_def job_key_def)

lemma snd_job_save: "snd (snd (job_save B sa j s)) = snd (hash_save (job_class (e_cfg B)) B sa j s)"
  by (cases "hash_save (job_class (e_cfg B)) B sa j s"; cases "fst (hash_save (job_class (e_cfg B)) B sa j s)")
    (simp_all add: job_save_def)

lemma snd_and_then_keep: "snd (and_then m (\<lambda>_ s. (Inr r, s))) = snd m"
  by (cases m; cases "fst m") simp_all

lemma snd_result_save: "snd (result_save B t r s) =
    (let ttl = if t = None then r_ttl r else t
     in if ttl = Some 0 then snd (stream_save B (result_children_key (r_parent r)) [] ttl s)
        else case result_serialize r of Inl e \<Rightarrow> s
             | Inr entry \<Rightarrow> snd (stream_save B (result_children_key (r_parent r)) entry ttl s))"
  by (simp add: result_save_def Let_def split: sum.split)

context broker
begin

lemma reg_entries_cong:
  "zsets (view s) (reg_key r) = zsets (view t) (reg_key r) \<Longrightarrow> reg_entries view s r = reg_entries view t r"
  by (simp add: reg_entries_def)

lemma zsets_job_save [simp, store_simps]: "zsets (view (snd (snd (job_save B sa j s)))) = zsets (view s)"
proof -
  have "zsets (view (snd (hash_save (job_class (e_cfg B)) B sa j s))) = zsets (view s)"
    by (rule hash_save_zsets) (simp add: distinct_job_serialize)
  then show ?thesis by (simp add: snd_job_save)
qed

lemma zsets_stream_save [simp, store_simps]:
  "k \<noteq> k' \<Longrightarrow> zsets (view (snd (stream_save B k entry ttl s))) k' = zsets (view s) k'"
proof -
  assume k: "k \<noteq> k'"
  obtain d where d: "view (e_run B (XADD k entry 10) s) =
      (view s)\<lparr>streams := (streams (view s))(k := drop d (streams (view s) k @ [entry]))\<rparr>"
    using view_xadd [of k entry 10 s] by blast
  show ?thesis using k d
    by (cases ttl) (auto simp: stream_save_def stream_save_cmds_def view_run del_key_def)
qed

lemma zsets_result_save [simp]:
  "zsets (view (snd (result_save B t r s))) (reg_key q) = zsets (view s) (reg_key q)"
  by (auto simp: snd_result_save Let_def split: sum.split)

lemma zsets_result_create [simp, store_simps]:
  "zsets (view (snd (result_create B n w ty ttl v e s))) (reg_key r) = zsets (view s) (reg_key r)"
  using view_utcnow [of s]
  by (cases "utcnow B s") (simp add: result_create_def snd_and_then_keep Let_def)

lemma reg_entries_save [simp]: "reg_entries view (snd (snd (job_save B sa j s))) = reg_entries view s"
  by (simp add: reg_entries_def fun_eq_iff)

lemma reg_entries_result [simp]: "reg_entries view (snd (result_create B n w ty ttl v e s)) = reg_entries view s"
  by (simp add: reg_entries_def fun_eq_iff)

lemma reg_entries_clock [simp]:
  "reg_entries view (snd (utcnow B s)) = reg_entries view s"
  "reg_entries view (snd (current_timestamp B s)) = reg_entries view s"
  by (simp_all add: reg_entries_def fun_eq_iff)

lemma after_execution_entries:
  "reg_entries view (snd (snd (after_execution B ttl st prev new j s))) r =
     (let e = (if prev = Some r then (reg_entries view s r)(m_name j := None) else reg_entries view s r)
      in if new = Some r \<and> ttl \<noteq> 0
         then e(m_name j \<mapsto> secs (fst (current_timestamp B
                (case prev of None \<Rightarrow> snd (utcnow B s) | Some p \<Rightarrow> reg_delete B p (m_name j) (snd (utcnow B s)))) + ttl))
         else e)"
proof -
  obtain now s1 where now: "utcnow B s = (now, s1)" by (cases "utcnow B s")
  have e1: "reg_entries view s1 = reg_entries view s" using reg_entries_clock(1) [of s] by (simp add: now)
  let ?s2 = "case prev of None \<Rightarrow> s1 | Some p \<Rightarrow> reg_delete B p (m_name j) s1"
  obtain ts s3 where ts: "current_timestamp B ?s2 = (ts, s3)" by (cases "current_timestamp B ?s2")
  have e3: "reg_entries view s3 = reg_entries view ?s2" using reg_entries_clock(2) [of ?s2] by (simp add: ts)
  show ?thesis
    using ts e1 e3
    by (cases prev; cases new)
      (auto simp add: after_execution_def now regs.entries_add regs.entries_delete job_setters Let_def)
qed

end

definition stored_status :: "('s \<Rightarrow> store) \<Rightarrow> 's \<Rightarrow> string \<Rightarrow> wire option"
  where "stored_status view s n = hashes (view s) (job_key n) ''status''"

lemma m_name_setters [simp]:
  "m_name (set_status a j) = m_name j" "m_name (set_worker_name b j) = m_name j"
  "m_name (set_last_heartbeat c j) = m_name j" "m_name (set_started_at c j) = m_name j"
  "m_name (set_ended_at c j) = m_name j" "m_name (set_enqueued_at c j) = m_name j"
  by (simp_all add: job_setters)

lemma storable_setters [simp]:
  "storable (set_status a j) = storable j" "storable (set_worker_name b j) = storable j"
  "storable (set_last_heartbeat c j) = storable j" "storable (set_started_at c j) = storable j"
  "storable (set_ended_at c j) = storable j" "storable (set_enqueued_at c j) = storable j"
  by (simp_all add: job_setters storable_def)

lemma job_save_storable:
  "storable j \<Longrightarrow> fst (job_save B sa j s) = clean j \<and> fst (snd (job_save B sa j s)) = Inr ()"
  using job_serialize_ok_iff [of j] by (auto simp: job_save_def hash_save_eq)

lemma job_save_not_storable: "\<not> storable j \<Longrightarrow> job_save B sa j s = (j, Inl TypeError, s)"
  by (simp add: job_save_def hash_save_error job_serialize_error)

lemma job_save_raises_iff: "fst (snd (job_save B sa j s)) = Inr () \<longleftrightarrow> storable j"
  using job_save_storable [of j B sa s] job_save_not_storable [of j B sa s] by (cases "storable j") simp_all

lemma run_all_delete_add:
  "run_all B [reg_delete_cmd r n, reg_add_cmd r' n t False] s = reg_add B r' n t (reg_delete B r n s)"
  by (simp add: reg_add_def reg_delete_def)

lemma run_all_deletes:
  "run_all B (map (\<lambda>r. reg_delete_cmd r n) rs) s = fold (\<lambda>r. reg_delete B r n) rs s"
  by (induction rs arbitrary: s) (simp_all add: reg_delete_def)

lemma remove_from_registries_cmds_eq:
  "remove_from_registries_cmds q n = map (\<lambda>r. reg_delete_cmd r n)
     (map (\<lambda>k. queue_registry k q) [FinishedJobs, ScheduledJobs, ActiveJobs, CanceledJobs, QueuedJobs])"
  by (simp add: remove_from_registries_cmds_def)

context broker
begin

lemma job_save_status:
  assumes "storable j" "sa \<or> save_all_flag j \<or> ''status'' \<in> dirty_fields j"
  shows "stored_status view (snd (snd (job_save B sa j s))) (m_name j) =
    map_option (\<lambda>st. W (job_status_value st)) (j_status j)"
proof -
  obtain mapping where ser: "job_serialize True j = Inr mapping"
    using assms(1) job_serialize_ok_iff by blast
  have d: "distinct (map fst mapping)" using ser by (rule distinct_job_serialize)
  have "(''status'', opt_val (\<lambda>st. VEnum (job_status_value st)) (j_status j)) \<in> set (job_fields j)"
    by (simp add: job_fields_def)
  from job_serialize_lookup(4) [OF ser this]
  have "map_of mapping ''status'' = Some (map_option (\<lambda>st. W (job_status_value st)) (j_status j))"
    by (auto simp: job_non_serializable_def)
  then have "(''status'', map_option (\<lambda>st. W (job_status_value st)) (j_status j)) \<in> set mapping"
    by (rule map_of_SomeD)
  then have "(''status'', map_option (\<lambda>st. W (job_status_value st)) (j_status j)) \<in> set (written (job_class (e_cfg B)) sa j mapping)"
    using assms(2) by (auto simp: written_def)
  then have "map_of (written (job_class (e_cfg B)) sa j mapping) ''status'' = Some (map_option (\<lambda>st. W (job_status_value st)) (j_status j))"
    using d by (simp add: map_of_eq_Some_iff distinct_written)
  moreover have "hashes (view (snd (hash_save (job_class (e_cfg B)) B sa j s))) (job_key (m_name j)) =
      overlay (hashes (view s) (job_key (m_name j))) (written (job_class (e_cfg B)) sa j mapping)"
    using hash_save_view(1) [where C = "job_class (e_cfg B)" and m = j and mapping = mapping] ser d by simp
  ultimately show ?thesis by (simp add: stored_status_def snd_job_save overlay_def)
qed

lemma stored_status_other [simp]:
  "stored_status view (reg_add B r n t s) m = stored_status view s m"
  "stored_status view (reg_delete B r n s) m = stored_status view s m"
  "stored_status view (snd (utcnow B s)) m = stored_status view s m"
  "stored_status view (snd (current_timestamp B s)) m = stored_status view s m"
  by (simp_all add: stored_status_def view_reg_add view_reg_delete)

lemma entries_deletes:
  "reg_entries view (run_all B (map (\<lambda>r. reg_delete_cmd r n) rs) s) r' =
     (if r' \<in> set rs then (reg_entries view s r')(n := None) else reg_entries view s r')"
  unfolding run_all_deletes by (rule regs.entries_delete_across)

lemma stored_status_deletes [simp]:
  "stored_status view (run_all B (map (\<lambda>r. reg_delete_cmd r n) rs) s) m = stored_status view s m"
  by (induction rs arbitrary: s) (simp_all add: reg_delete_def [symmetric])

end

definition enqueue_score :: "('s, 'x) env_scheme \<Rightarrow> queue \<Rightarrow> bool \<Rightarrow> 's \<Rightarrow> int"
  \<comment> \<open>the timestamp, in seconds, that an enqueued job gets\<close>
  where "enqueue_score B q at_front s =
    (if at_front then fst (current_timestamp B s)
     else let last_ts = fst (reg_get_last_timestamp B (queue_registry QueuedJobs q) s)
          in if or_int last_ts 0 \<noteq> 0 then or_int last_ts 0 else fst (current_timestamp B s))"

definition enqueued :: "('s, 'x) env_scheme \<Rightarrow> job_model \<Rightarrow> 's \<Rightarrow> job_model"
  where "enqueued B j s = set_enqueued_at (Some (fst (utcnow B s)))
    (set_status JobQueued (set_ended_at None (set_started_at None j)))"

definition once_saved :: "('s, 'x) env_scheme \<Rightarrow> job_model \<Rightarrow> 's \<Rightarrow> 's"
  where "once_saved B j s = snd (snd (job_save B False (enqueued B j s) (snd (utcnow B s))))"

text \<open>The broker together with the callables a process can reach.\<close>

locale host = broker H view for H :: "('s, 'x) host_env_scheme" and view :: "'s \<Rightarrow> store"
begin

lemma enqueue_job_error:
  "\<not> storable j \<Longrightarrow> enqueue_job H q pipe at_front j s =
     (set_enqueued_at (Some (fst (utcnow H s))) (set_status JobQueued (set_ended_at None (set_started_at None j))),
      Inl TypeError, snd (utcnow H s))"
  by (simp add: enqueue_job_def job_save_not_storable Let_def split: prod.split)

lemma enqueue_job_async:
  assumes "q_is_async q" "storable j"
  shows "fst (snd (enqueue_job H q [] at_front j s)) = Inr ()"
    and "fst (enqueue_job H q [] at_front j s) = clean (enqueued H j s)"
    and "reg_entries view (snd (snd (enqueue_job H q [] at_front j s))) r =
      (if r = queue_registry QueuedJobs q
       then (reg_entries view s r)(m_name j \<mapsto> secs (enqueue_score H q at_front (once_saved H j s)))
       else if r = queue_registry ScheduledJobs q then (reg_entries view s r)(m_name j := None)
       else reg_entries view s r)"
    and "stored_status view (snd (snd (enqueue_job H q [] at_front j s))) (m_name j) = Some (W ''queued'')"
    and "zsets (view (snd (snd (enqueue_job H q [] at_front j s)))) (reg_key (queue_registry QueuedJobs q)) =
      z_add (m_name j) (secs (enqueue_score H q at_front (once_saved H j s))) False
        (zsets (view s) (reg_key (queue_registry QueuedJobs q)))"
proof -
  let ?j = "enqueued H j s" and ?s1 = "once_saved H j s"
  obtain now s0 where now: "utcnow H s = (now, s0)" by (cases "utcnow H s")
  have v0: "view s0 = view s" using view_utcnow [of s] by (simp add: now)
  have st: "storable ?j" using assms(2) by (simp add: enqueued_def)
  have save: "job_save H False ?j s0 = (clean ?j, Inr (), ?s1)"
    using job_save_storable [OF st, of H False s0] by (simp add: once_saved_def now prod_eq_iff)
  let ?last = "reg_get_last_timestamp H (queue_registry QueuedJobs q) ?s1"
  have last: "snd ?last = ?s1" by simp
  obtain sc s2 where score: "(if at_front then current_timestamp H ?s1
                      else (case ?last of
                              (last_ts, s2') \<Rightarrow> if or_int last_ts 0 \<noteq> 0 then (or_int last_ts 0, s2')
                                               else current_timestamp H s2')) = (sc, s2)" by fastforce
  have sc: "sc = enqueue_score H q at_front ?s1" and v2: "view s2 = view ?s1"
    using score last view_current_timestamp [of ?s1]
    by (cases ?last; auto simp: enqueue_score_def Let_def split: if_splits)+
  have eq: "enqueue_job H q [] at_front j s = (clean ?j, Inr (),
      reg_add H (queue_registry QueuedJobs q) (m_name j) (secs sc)
        (reg_delete H (queue_registry ScheduledJobs q) (m_name j) s2))"
    using score save now assms(1)
    by (simp add: enqueue_job_def run_all_delete_add [symmetric] clean_def enqueued_def)
  have z1: "zsets (view ?s1) = zsets (view s)"
    using zsets_job_save [of False ?j s0] by (simp add: once_saved_def now v0)
  then have ent: "reg_entries view s2 = reg_entries view s"
    by (simp add: reg_entries_def v2 fun_eq_iff)
  have status: "stored_status view s2 (m_name j) = Some (W ''queued'')"
    using job_save_status [OF st, of False s0] by (simp add: once_saved_def now stored_status_def v2 enqueued_def job_setters)
  show "fst (snd (enqueue_job H q [] at_front j s)) = Inr ()" by (simp add: eq)
  show "fst (enqueue_job H q [] at_front j s) = clean ?j" by (simp add: eq)
  show "reg_entries view (snd (snd (enqueue_job H q [] at_front j s))) r =
      (if r = queue_registry QueuedJobs q then (reg_entries view s r)(m_name j \<mapsto> secs (enqueue_score H q at_front ?s1))
       else if r = queue_registry ScheduledJobs q then (reg_entries view s r)(m_name j := None)
       else reg_entries view s r)"
    by (auto simp: eq regs.entries_add regs.entries_delete ent sc)
  show "stored_status view (snd (snd (enqueue_job H q [] at_front j s))) (m_name j) = Some (W ''queued'')"
    by (simp add: eq status)
  show "zsets (view (snd (snd (enqueue_job H q [] at_front j s)))) (reg_key (queue_registry QueuedJobs q)) =
      z_add (m_name j) (secs (enqueue_score H q at_front ?s1)) False (zsets (view s) (reg_key (queue_registry QueuedJobs q)))"
    by (simp add: eq view_reg_add view_reg_delete sc v2 z1)
qed

end

lemma z_rem_z_add [simp]: "z_rem n (z_add n t xx xs) = z_rem n xs"
proof -
  have "filter (\<lambda>p. fst p \<noteq> n) (insort_key zkey (n, t) ys) = filter (\<lambda>p. fst p \<noteq> n) ys" for ys
    by (induction ys) auto
  then show ?thesis by (simp add: z_rem_def z_add_def)
qed

lemma zset_last_greatest:
  assumes "zset_ok xs" "p \<in> set xs"
  shows "snd p \<le> snd (last xs)"
proof -
  obtain i where i: "i < length xs" "xs ! i = p" using assms(2) by (auto simp: in_set_conv_nth)
  then have "zkey (xs ! i) \<le> zkey (xs ! (length xs - 1))"
    using assms(1) sorted_nth_mono [of "map zkey xs" i "length xs - 1"] by (auto simp: zset_ok_def)
  moreover have "last xs = xs ! (length xs - 1)" using i by (cases xs rule: rev_cases) simp_all
  ultimately show ?thesis using i by (auto simp: zkey_def less_eq_prod_def)
qed

context host
begin

lemma zsets_once_saved [simp]: "zsets (view (once_saved H j s)) = zsets (view s)"
  by (simp add: once_saved_def)

lemma enqueue_score_last:
  assumes "zsets (view s) (reg_key (queue_registry QueuedJobs q)) \<noteq> []"
    and "snd (last (zsets (view s) (reg_key (queue_registry QueuedJobs q)))) = secs i" "i > 0"
  shows "enqueue_score H q False s = i"
  using assms by (simp add: enqueue_score_def reg_get_last_timestamp_def zrange z_range_last Let_def or_int_def)

lemma enqueue_goes_behind:
  fixes s j q
  defines "s' \<equiv> snd (snd (enqueue_job H q [] False j s))"
    and "waits \<equiv> zsets (view s) (reg_key (queue_registry QueuedJobs q))"
  assumes "q_is_async q" "storable j" and whole: "\<forall>p\<in>set waits. \<exists>i>0. snd p = secs i"
  shows "z_rem (m_name j) (zsets (view s') (reg_key (queue_registry QueuedJobs q))) = z_rem (m_name j) waits"
    and "\<exists>t. reg_entries view s' (queue_registry QueuedJobs q) (m_name j) = Some t \<and> (\<forall>p\<in>set waits. snd p \<le> t)"
proof -
  note async = enqueue_job_async [OF assms(3,4), of False s]
  show "z_rem (m_name j) (zsets (view s') (reg_key (queue_registry QueuedJobs q))) = z_rem (m_name j) waits"
    by (simp add: s'_def waits_def async(5))
  have ok: "zset_ok waits" by (simp add: waits_def zset_ok_view)
  have "snd p \<le> secs (enqueue_score H q False (once_saved H j s))" if p: "p \<in> set waits" for p
  proof -
    have ne: "waits \<noteq> []" using p by auto
    then obtain i where i: "snd (last waits) = secs i" "i > 0" using whole last_in_set by blast
    then have "enqueue_score H q False (once_saved H j s) = i"
      using ne by (intro enqueue_score_last) (simp_all add: waits_def)
    then show ?thesis using zset_last_greatest [OF ok p] i by simp
  qed
  then show "\<exists>t. reg_entries view s' (queue_registry QueuedJobs q) (m_name j) = Some t \<and> (\<forall>p\<in>set waits. snd p \<le> t)"
    by (auto simp: s'_def async(3))
qed

end

section \<open>Compacting and taking from a queue\<close>

definition live :: "('s \<Rightarrow> store) \<Rightarrow> 's \<Rightarrow> (string \<times> time) list \<Rightarrow> (string \<times> time) list"
  \<comment> \<open>the entries whose job exists\<close>
  where "live view s xs = filter (\<lambda>p. key_exists (view s) (job_key (fst p))) xs"

lemma key_exists_zsets [simp]: "key_exists (st\<lparr>zsets := z\<rparr>) k = key_exists st k"
  by (simp add: key_exists_def)

context broker
begin

lemma job_exists_iff: "job_exists B n s \<longleftrightarrow> key_exists (view s) (job_key n)"
  by (simp add: job_exists_def)

lemma view_compact_fold:
  "view (fold (\<lambda>(n, t) s. if job_exists B n s then s else reg_delete B r n s) xs s) =
     (view s)\<lparr>zsets := (zsets (view s))(reg_key r :=
        filter (\<lambda>p. fst p \<in> fst ` set xs \<longrightarrow> key_exists (view s) (job_key (fst p))) (zsets (view s) (reg_key r)))\<rparr>"
proof (induction xs arbitrary: s)
  case (Cons p xs)
  obtain n t where p: "p = (n, t)" by (cases p)
  have f: "filter (\<lambda>p. P p) (z_rem n ys) = filter (\<lambda>p. fst p \<noteq> n \<and> P p) ys" for P and ys :: "(string \<times> time) list"
    by (simp add: z_rem_def)
  show ?case
    using Cons.IH
    by (cases "job_exists B n s")
      (auto simp: p job_exists_iff view_reg_delete f intro!: store_eqI filter_cong)
qed simp

lemma view_reg_compact:
  assumes "keeps_expired (reg_kind r)"
  shows "view (reg_compact B r s) = (view s)\<lparr>zsets := (zsets (view s))(reg_key r := live view s (zsets (view s) (reg_key r)))\<rparr>"
proof -
  have all: "reg_all_with_timestamps B r 0 (-1) s = (zsets (view s) (reg_key r), s)"
    using assms by (simp add: reg_all_with_timestamps_def zrange)
  have "filter (\<lambda>p. fst p \<in> fst ` set xs \<longrightarrow> key_exists (view s) (job_key (fst p))) xs = live view s xs" for xs
    unfolding live_def by (rule filter_cong) auto
  then show ?thesis by (simp add: reg_compact_def all view_compact_fold)
qed

lemma view_compact_all:
  assumes "\<forall>r\<in>set rs. keeps_expired (reg_kind r)"
  shows "view (fold (reg_compact B) rs s) = (view s)\<lparr>zsets := (\<lambda>k. if k \<in> reg_key ` set rs
     then live view s (zsets (view s) k) else zsets (view s) k)\<rparr>"
  using assms
proof (induction rs arbitrary: s)
  case (Cons r rs)
  have "live view t (live view s xs) = live view s xs" if "view t = (view s)\<lparr>zsets := z\<rparr>" for t z xs
    by (simp add: live_def that)
  moreover have "live view t xs = live view s xs" if "view t = (view s)\<lparr>zsets := z\<rparr>" for t z xs
    by (simp add: live_def that)
  ultimately show ?case
    using Cons by (auto simp: view_reg_compact fun_eq_iff live_def intro!: store_eqI)
qed simp

lemma pop_nonblocking_view:
  "case first_nonempty (\<lambda>r. zsets (view s) (reg_key r)) rs of
     None \<Rightarrow> fst (pop_nonblocking B rs s) = None \<and> view (snd (pop_nonblocking B rs s)) = view s
   | Some (r, p) \<Rightarrow> fst (pop_nonblocking B rs s) = Some (reg_key r, fst p) \<and>
       view (snd (pop_nonblocking B rs s)) =
         (view s)\<lparr>zsets := (zsets (view s))(reg_key r := tl (zsets (view s) (reg_key r)))\<rparr>"
proof (induction rs arbitrary: s)
  case Nil
  then show ?case by (simp add: first_nonempty_def)
next
  case (Cons r rs)
  obtain pop s1 where pop: "e_zpopmin B (reg_key r) s = (pop, s1)" by fastforce
  show ?case
  proof (cases "zsets (view s) (reg_key r)")
    case Nil
    then have "pop = None" using zpopmin_fst [of "reg_key r" s] pop by simp
    moreover have "view s1 = view s"
      using zpopmin_view [of "reg_key r" s] pop Nil by (auto intro!: store_eqI)
    moreover have "first_nonempty (\<lambda>r. zsets (view s) (reg_key r)) (r # rs) =
        first_nonempty (\<lambda>r. zsets (view s) (reg_key r)) rs"
      using Nil by (simp add: first_nonempty_def)
    ultimately show ?thesis using Cons [of s1] pop by (auto split: option.splits)
  next
    case (Cons p ps)
    then have "pop = Some p" using zpopmin_fst [of "reg_key r" s] pop by simp
    moreover have "view s1 = (view s)\<lparr>zsets := (zsets (view s))(reg_key r := ps)\<rparr>"
      using zpopmin_view [of "reg_key r" s] pop Cons by simp
    moreover have "first_nonempty (\<lambda>r. zsets (view s) (reg_key r)) (r # rs) = Some (r, p)"
      using Cons by (simp add: first_nonempty_def)
    ultimately show ?thesis using Cons pop by simp
  qed
qed

end


definition taken_from :: "('s, 'x) env_scheme \<Rightarrow> ('s \<Rightarrow> store) \<Rightarrow> queue list \<Rightarrow> 's \<Rightarrow> (job_model \<times> queue) option \<Rightarrow> 's \<Rightarrow> bool"
  \<comment> \<open>what a dequeue returns, and what it leaves\<close>
  where "taken_from B view qs s res s' \<longleftrightarrow>
    (case res of
       None \<Rightarrow> \<forall>q\<in>set qs. zsets (view s') (reg_key (queue_registry QueuedJobs q)) = []
     | Some (j, q) \<Rightarrow> q \<in> set qs \<and>
         (\<exists>n t. job_get B n s' = Some j \<and>
            (n, t) \<in> set (zsets (view s) (reg_key (queue_registry QueuedJobs q))) \<and>
            n \<notin> fst ` set (zsets (view s') (reg_key (queue_registry QueuedJobs q))) \<and>
            (\<forall>p\<in>set (zsets (view s') (reg_key (queue_registry QueuedJobs q))). t \<le> snd p)) \<and>
         (\<forall>q'\<in>set (takeWhile (\<lambda>q'. q_name q' \<noteq> q_name q) qs).
            zsets (view s') (reg_key (queue_registry QueuedJobs q')) = []))"

definition waiting :: "('s \<Rightarrow> store) \<Rightarrow> queue list \<Rightarrow> 's \<Rightarrow> nat"
  where "waiting view qs s = (\<Sum>k\<in>reg_key ` queue_registry QueuedJobs ` set qs. length (zsets (view s) k))"

context broker
begin

lemma dequeue_any_step:
  fixes qs s
  defines "rs \<equiv> map (queue_registry QueuedJobs) qs"
  defines "s1 \<equiv> fold (reg_compact B) rs s"
  shows "(\<forall>r\<in>set rs. live view s (zsets (view s) (reg_key r)) = []) \<and>
           dequeue_any B qs None s = Some (Inr None, snd (pop_nonblocking B rs s1)) \<and>
           view (snd (pop_nonblocking B rs s1)) = view s1
       \<or> (\<exists>q p s2. q \<in> set qs \<and> zsets (view s1) (reg_key (queue_registry QueuedJobs q)) = p # zsets (view s2) (reg_key (queue_registry QueuedJobs q)) \<and>
           first_nonempty (\<lambda>r. zsets (view s1) (reg_key r)) rs = Some (queue_registry QueuedJobs q, p) \<and>
           view s2 = (view s1)\<lparr>zsets := (zsets (view s1))(reg_key (queue_registry QueuedJobs q) :=
              tl (zsets (view s1) (reg_key (queue_registry QueuedJobs q))))\<rparr> \<and>
           (case job_get B (fst p) s2 of None \<Rightarrow> dequeue_any B qs None s = dequeue_any B qs None s2
            | Some j \<Rightarrow> \<exists>q'. q' \<in> set qs \<and> q_name q' = q_name q \<and> dequeue_any B qs None s = Some (Inr (Some (j, q')), s2)))"
proof (cases "first_nonempty (\<lambda>r. zsets (view s1) (reg_key r)) rs")
  case None
  have keep: "\<forall>r\<in>set rs. keeps_expired (reg_kind r)" by (simp add: rs_def)
  obtain s2 where pop: "pop_nonblocking B rs s1 = (None, s2)" and "view s2 = view s1"
    using pop_nonblocking_view [where rs = rs and s = s1] None by (cases "pop_nonblocking B rs s1") auto
  moreover have "\<forall>r\<in>set rs. live view s (zsets (view s) (reg_key r)) = []"
    using None view_compact_all [OF keep, of s] by (simp add: first_nonempty_None_iff s1_def)
  ultimately show ?thesis
    by (subst dequeue_any.simps) (simp add: reg_pop_def flip: rs_def s1_def)
next
  case (Some rp)
  then obtain r p where rp: "first_nonempty (\<lambda>r. zsets (view s1) (reg_key r)) rs = Some (r, p)" by (cases rp) auto
  then have r: "r \<in> set rs" and ne: "zsets (view s1) (reg_key r) \<noteq> []" and p: "p = hd (zsets (view s1) (reg_key r))"
    by (auto simp: first_nonempty_def find_Some_iff)
  then obtain q where q: "q \<in> set qs" "r = queue_registry QueuedJobs q" by (auto simp: rs_def)
  obtain s2 where pop: "pop_nonblocking B rs s1 = (Some (reg_key r, fst p), s2)"
    and v2: "view s2 = (view s1)\<lparr>zsets := (zsets (view s1))(reg_key r := tl (zsets (view s1) (reg_key r)))\<rparr>"
    using pop_nonblocking_view [where rs = rs and s = s1] rp by (cases "pop_nonblocking B rs s1") auto
  obtain q' where find: "find (\<lambda>q. reg_key (queue_registry QueuedJobs q) = reg_key r) qs = Some q'"
    using q by (cases "find (\<lambda>q. reg_key (queue_registry QueuedJobs q) = reg_key r) qs") (auto simp: find_None_iff)
  then have q': "q' \<in> set qs" "q_name q' = q_name q" using q(2) by (auto simp: find_Some_iff)
  have "dequeue_any B qs None s = (case job_get B (fst p) s2 of None \<Rightarrow> dequeue_any B qs None s2
      | Some j \<Rightarrow> Some (Inr (Some (j, q')), s2))"
    by (subst dequeue_any.simps) (simp add: reg_pop_def pop find del: reg_key_inject flip: rs_def s1_def)
  with q q' rp r ne p v2 show ?thesis
    by (intro disjI2 exI [of _ q] exI [of _ p] exI [of _ s2]) (auto split: option.splits)
qed

lemma dequeue_any_cases:
  fixes qs s
  defines "s1 \<equiv> fold (reg_compact B) (map (queue_registry QueuedJobs) qs) s"
  obtains (empty) "dequeue_any B qs None s = Some (Inr None, snd (pop_nonblocking B (map (queue_registry QueuedJobs) qs) s1))"
      "\<forall>r\<in>set (map (queue_registry QueuedJobs) qs). live view s (zsets (view s) (reg_key r)) = []"
      "view (snd (pop_nonblocking B (map (queue_registry QueuedJobs) qs) s1)) = view s1"
  | (popped) q p s2 where "q \<in> set qs"
      "zsets (view s1) (reg_key (queue_registry QueuedJobs q)) = p # zsets (view s2) (reg_key (queue_registry QueuedJobs q))"
      "first_nonempty (\<lambda>r. zsets (view s1) (reg_key r)) (map (queue_registry QueuedJobs) qs) = Some (queue_registry QueuedJobs q, p)"
      "view s2 = (view s1)\<lparr>zsets := (zsets (view s1))(reg_key (queue_registry QueuedJobs q) :=
         tl (zsets (view s1) (reg_key (queue_registry QueuedJobs q))))\<rparr>"
      "case job_get B (fst p) s2 of None \<Rightarrow> dequeue_any B qs None s = dequeue_any B qs None s2
         | Some j \<Rightarrow> \<exists>q'. q' \<in> set qs \<and> q_name q' = q_name q \<and> dequeue_any B qs None s = Some (Inr (Some (j, q')), s2)"
  using dequeue_any_step [of qs s] unfolding s1_def by blast

lemma compacted_sets:
  fixes qs s
  defines "s1 \<equiv> fold (reg_compact B) (map (queue_registry QueuedJobs) qs) s"
  shows "set (zsets (view s1) k) \<subseteq> set (zsets (view s) k)"
    and "length (zsets (view s1) k) \<le> length (zsets (view s) k)"
  using view_compact_all [of "map (queue_registry QueuedJobs) qs" s] by (auto simp: live_def s1_def)

lemma waiting_popped:
  assumes "q \<in> set qs" "zsets (view t) (reg_key (queue_registry QueuedJobs q)) \<noteq> []"
    and "\<And>k. length (zsets (view t) k) \<le> length (zsets (view s) k)"
    and "view t' = (view t)\<lparr>zsets := (zsets (view t))(reg_key (queue_registry QueuedJobs q) :=
      tl (zsets (view t) (reg_key (queue_registry QueuedJobs q))))\<rparr>"
  shows "waiting view qs t' < waiting view qs s"
  unfolding waiting_def
proof (rule sum_strict_mono_ex1)
  let ?k = "reg_key (queue_registry QueuedJobs q)"
  have len: "length (zsets (view t') k) \<le> length (zsets (view s) k)" for k
    using assms(3) [of k] assms(4) by (auto simp: le_diff_conv intro: le_SucI)
  then show "\<forall>k\<in>reg_key ` queue_registry QueuedJobs ` set qs. length (zsets (view t') k) \<le> length (zsets (view s) k)"
    by blast
  have "length (zsets (view t') ?k) < length (zsets (view t) ?k)" using assms(2,4) by simp
  then show "\<exists>k\<in>reg_key ` queue_registry QueuedJobs ` set qs. length (zsets (view t') k) < length (zsets (view s) k)"
    using assms(1) assms(3) [of ?k] by (intro bexI [of _ ?k]) auto
qed simp

lemma dequeue_any_terminates: "\<exists>res. dequeue_any B qs None s = Some res"
proof (induction "waiting view qs s" arbitrary: s rule: less_induct)
  case less
  show ?case
  proof (cases rule: dequeue_any_cases [of qs s])
    case (popped q p s2)
    have "waiting view qs s2 < waiting view qs s"
      using popped(1,2) compacted_sets(2) popped(4) by (intro waiting_popped [of q qs _ s s2]) auto
    then have "\<exists>res. dequeue_any B qs None s2 = Some res" by (rule less)
    with popped(5) show ?thesis by (cases "job_get B (fst p) s2") auto
  qed blast
qed

lemma first_nonempty_before:
  "first_nonempty f ks = Some (k, p) \<Longrightarrow> x \<in> set (takeWhile (\<lambda>x. x \<noteq> k) ks) \<Longrightarrow> f x = []"
  by (induction ks) (auto simp: first_nonempty_def split: if_splits)

lemma zset_head_least:
  assumes "zset_ok (p # ps)"
  shows "fst p \<notin> fst ` set ps" and "\<forall>p'\<in>set ps. snd p \<le> snd p'"
  using assms by (auto simp: zset_ok_def zkey_def less_eq_prod_def)

lemma dequeue_any_result:
  assumes "dequeue_any B qs None s = Some res"
  shows "\<exists>r. fst res = Inr r \<and> taken_from B view qs s r (snd res)"
  using assms
proof (induction "waiting view qs s" arbitrary: s rule: less_induct)
  case less
  let ?rs = "map (queue_registry QueuedJobs) qs"
  let ?s1 = "fold (reg_compact B) ?rs s"
  let ?key = "\<lambda>q. reg_key (queue_registry QueuedJobs q)"
  have keep: "\<forall>r\<in>set ?rs. keeps_expired (reg_kind r)" by simp
  have sub: "set (zsets (view ?s1) k) \<subseteq> set (zsets (view s) k)"
    and len: "length (zsets (view ?s1) k) \<le> length (zsets (view s) k)" for k
    using view_compact_all [OF keep, of s] by (auto simp: live_def)
  show ?case
  proof (cases rule: dequeue_any_cases [of qs s])
    case empty
    then show ?thesis
      using less.prems view_compact_all [OF keep, of s] by (auto simp: taken_from_def)
  next
    case (popped q p s2)
    have z2: "set (zsets (view s2) k) \<subseteq> set (zsets (view s) k)" for k
      using popped(4) sub [of k] by (cases "zsets (view ?s1) k") auto
    show ?thesis
    proof (cases "job_get B (fst p) s2")
      case None
      have "waiting view qs s2 < waiting view qs s"
        using popped(1,2) len popped(4) by (intro waiting_popped [of q qs ?s1]) auto
      moreover have "dequeue_any B qs None s2 = Some res"
        using None popped(5) less.prems by simp
      ultimately obtain r where "fst res = Inr r" "taken_from B view qs s2 r (snd res)"
        using less.hyps by blast
      then show ?thesis
        using z2 by (auto simp: taken_from_def split: option.splits)
    next
      case (Some j)
      then obtain q' where q': "q' \<in> set qs" "q_name q' = q_name q" and res: "res = (Inr (Some (j, q')), s2)"
        using popped(5) less.prems by auto
      then have kq: "?key q' = ?key q" by simp
      have ok: "zset_ok (p # zsets (view s2) (?key q))" using zset_ok_view [of ?s1 "?key q"] popped(2) by simp
      have before: "zsets (view s2) (?key q'') = []" if "q'' \<in> set (takeWhile (\<lambda>x. q_name x \<noteq> q_name q') qs)" for q''
      proof -
        have "queue_registry QueuedJobs q'' \<in> set (takeWhile (\<lambda>r. r \<noteq> queue_registry QueuedJobs q) ?rs)"
          using that q'(2) by (simp add: takeWhile_map comp_def)
        moreover have "q_name q'' \<noteq> q_name q" using set_takeWhileD [OF that] q'(2) by simp
        ultimately show ?thesis using first_nonempty_before [OF popped(3)] popped(4) by simp
      qed
      have "(fst p, snd p) \<in> set (zsets (view s) (?key q))" using sub [of "?key q"] popped(2) by auto
      then show ?thesis
        using Some q' zset_head_least [OF ok] before
        by (auto simp: res taken_from_def kq intro!: exI [of _ "fst p"] exI [of _ "snd p"])
    qed
  qed
qed

end

section \<open>Moves between registries\<close>

lemma snd_job_handle_success:
  "snd (snd (job_handle_success B q v ttl rttl j s)) =
    (let (j1, r, s1) = after_execution B ttl JobFinished (Some (queue_registry ActiveJobs q)) (Some (queue_registry FinishedJobs q)) j s
     in case r of Inl _ \<Rightarrow> s1
        | Inr _ \<Rightarrow> snd (result_create B (m_name j1) (j_worker_name j1) ResultSuccessful rttl v None s1))"
  by (auto simp: job_handle_success_def split: prod.split sum.split)

lemma snd_job_handle_failure:
  "snd (snd (job_handle_failure B q st exc j s)) =
    (let (j1, r, s1) = after_execution B (DEFAULT_FAILURE_TTL (e_cfg B)) st (Some (queue_registry ActiveJobs q)) (Some (queue_registry FailedJobs q)) j s
     in case r of Inl _ \<Rightarrow> s1
        | Inr _ \<Rightarrow> snd (result_create B (m_name j1) (j_worker_name j1) ResultFailed (DEFAULT_FAILURE_TTL (e_cfg B)) VNone (Some exc) s1))"
  by (auto simp: job_handle_failure_def split: prod.split sum.split)

definition expiry_after :: "('s, 'x) env_scheme \<Rightarrow> registry \<Rightarrow> job_model \<Rightarrow> int \<Rightarrow> 's \<Rightarrow> time"
  \<comment> \<open>the expiry time, in whole seconds, given to a job that leaves a registry\<close>
  where "expiry_after B r j ttl s = secs (fst (current_timestamp B (reg_delete B r (m_name j) (snd (utcnow B s)))) + ttl)"

context broker
begin

lemma entries_after_result:
  "reg_entries view (let (j1, r, s1) = p in case r of Inl (_ :: exn) \<Rightarrow> s1
      | Inr (_ :: unit) \<Rightarrow> snd (result_create B (f j1) (g j1) ty ttl v e s1)) = reg_entries view (snd (snd p))"
  by (cases p) (auto split: sum.split)

lemma job_handle_success_entries:
  "reg_entries view (snd (snd (job_handle_success B q v ttl rttl j s))) r =
    (if r = queue_registry ActiveJobs q then (reg_entries view s r)(m_name j := None)
     else if r = queue_registry FinishedJobs q \<and> ttl \<noteq> 0
     then (reg_entries view s r)(m_name j \<mapsto> expiry_after B (queue_registry ActiveJobs q) j ttl s)
     else reg_entries view s r)"
  unfolding snd_job_handle_success entries_after_result
  by (auto simp: after_execution_entries expiry_after_def Let_def)

lemma job_handle_failure_entries:
  "reg_entries view (snd (snd (job_handle_failure B q st exc j s))) r =
    (if r = queue_registry ActiveJobs q then (reg_entries view s r)(m_name j := None)
     else if r = queue_registry FailedJobs q \<and> DEFAULT_FAILURE_TTL (e_cfg B) \<noteq> 0
     then (reg_entries view s r)(m_name j \<mapsto> expiry_after B (queue_registry ActiveJobs q) j (DEFAULT_FAILURE_TTL (e_cfg B)) s)
     else reg_entries view s r)"
  unfolding snd_job_handle_failure entries_after_result
  by (auto simp: after_execution_entries expiry_after_def Let_def)

lemma prepare_entries:
  "reg_entries view (snd (snd (prepare_for_execution B w r j s))) r' =
    (if r' = r then (reg_entries view s r)(m_name j \<mapsto> fst (utcnow B s) + secs (j_timeout j)) else reg_entries view s r')"
proof -
  obtain now s1 where now: "utcnow B s = (now, s1)" by (cases "utcnow B s")
  with reg_entries_clock(1) [of s] have "reg_entries view s1 = reg_entries view s" by simp
  then show ?thesis by (simp add: prepare_for_execution_def now Let_def regs.entries_add)
qed

lemma cancel_pipe:
  "set_field_cmds (job_class cfg) j ''status'' (VEnum v) = Inr [HSET (job_key (m_name j)) [(''status'', W v)]]"
  by (simp add: set_field_cmds_def job_field_types_def)

lemma after_cancel_pipe:
  assumes "s1 = run_all B (HSET (job_key n) [(''status'', W v)] # remove_from_registries_cmds q n) s"
  shows "stored_status view s1 n = Some (W v)"
    and "reg_entries view s1 r =
      (if reg_name r = q_name q \<and> reg_kind r \<noteq> FailedJobs then (reg_entries view s r)(n := None) else reg_entries view s r)"
proof -
  let ?s0 = "e_run B (HSET (job_key n) [(''status'', W v)]) s"
  have "stored_status view ?s0 n = Some (W v)" by (simp add: stored_status_def view_run)
  then show "stored_status view s1 n = Some (W v)"
    by (simp only: assms run_all_simps remove_from_registries_cmds_eq stored_status_deletes)
  have e: "reg_entries view ?s0 = reg_entries view s" by (simp add: reg_entries_def view_run fun_eq_iff)
  have mem: "r \<in> set (map (\<lambda>k. queue_registry k q) [FinishedJobs, ScheduledJobs, ActiveJobs, CanceledJobs, QueuedJobs])
      \<longleftrightarrow> reg_name r = q_name q \<and> reg_kind r \<noteq> FailedJobs"
    by (cases r; cases "reg_kind r") (auto simp: queue_registry_def)
  have "s1 = run_all B (remove_from_registries_cmds q n) ?s0" by (simp add: assms)
  then show "reg_entries view s1 r =
      (if reg_name r = q_name q \<and> reg_kind r \<noteq> FailedJobs then (reg_entries view s r)(n := None) else reg_entries view s r)"
    unfolding remove_from_registries_cmds_eq by (simp only: entries_deletes mem e)
qed

lemma cancel_job_entries:
  assumes get: "job_get B n s = Some j" and "j_status j \<noteq> Some JobCanceled" and name: "m_name j = n"
  shows "fst (cancel_job B q n s) = Inr ()"
    and "stored_status view (snd (cancel_job B q n s)) n =
      Some (W (if j_status j = Some JobQueued then ''canceled'' else ''stopped''))"
    and "\<exists>t. reg_entries view (snd (cancel_job B q n s)) =
      (\<lambda>r. if r = queue_registry (if j_status j = Some JobQueued then CanceledJobs else FinishedJobs) q
       then (reg_entries view s r)(n \<mapsto> t)
       else if reg_name r = q_name q \<and> reg_kind r \<noteq> FailedJobs then (reg_entries view s r)(n := None)
       else reg_entries view s r)"
proof -
  let ?st = "if j_status j = Some JobQueued then JobCanceled else JobStopped"
  let ?v = "job_status_value ?st"
  define s1 where "s1 = run_all B (HSET (job_key n) [(''status'', W ?v)] # remove_from_registries_cmds q n) s"
  note after = after_cancel_pipe [OF s1_def]
  obtain ts s2 where ts: "current_timestamp B s1 = (ts, s2)" by (cases "current_timestamp B s1")
  have v2: "view s2 = view s1" using view_current_timestamp [of s1] by (simp add: ts)
  have eq: "cancel_job B q n s = (Inr (),
      if j_status j = Some JobQueued then reg_add B (queue_registry CanceledJobs q) n 0 s1
      else reg_add B (queue_registry FinishedJobs q) n (secs (ts + DEFAULT_FAILURE_TTL (e_cfg B))) s2)"
    using assms ts by (simp add: cancel_job_def cancel_pipe s1_def Let_def reg_add_def)
  show "fst (cancel_job B q n s) = Inr ()" by (simp add: eq)
  show "stored_status view (snd (cancel_job B q n s)) n =
      Some (W (if j_status j = Some JobQueued then ''canceled'' else ''stopped''))"
    using after(1) v2 by (auto simp: eq stored_status_def view_reg_add)
  have e2: "reg_entries view s2 = reg_entries view s1" by (simp add: reg_entries_def v2 fun_eq_iff)
  show "\<exists>t. reg_entries view (snd (cancel_job B q n s)) =
      (\<lambda>r. if r = queue_registry (if j_status j = Some JobQueued then CanceledJobs else FinishedJobs) q
       then (reg_entries view s r)(n \<mapsto> t)
       else if reg_name r = q_name q \<and> reg_kind r \<noteq> FailedJobs then (reg_entries view s r)(n := None)
       else reg_entries view s r)"
    by (rule exI [of _ "if j_status j = Some JobQueued then 0 else secs (ts + DEFAULT_FAILURE_TTL (e_cfg B))"])
      (auto simp: eq fun_eq_iff regs.entries_add after(2) e2)
qed

lemma reg_entries_del_job [simp]: "reg_entries view (snd (hash_delete (job_class cfg) B j s)) = reg_entries view s"
  by (auto simp: hash_delete_view del_key_def reg_entries_def fun_eq_iff)

lemma delete_job_entries:
  "reg_entries view (delete_job B q n ex s) r = (if reg_name r = q_name q then (reg_entries view s r)(n := None) else reg_entries view s r)"
proof -
  let ?rs = "map (\<lambda>k. queue_registry k q) [FinishedJobs, ScheduledJobs, ActiveJobs, CanceledJobs, QueuedJobs, FailedJobs]"
  have pipe: "remove_from_registries_cmds q n @ [reg_delete_cmd (queue_registry FailedJobs q) n] =
      map (\<lambda>r. reg_delete_cmd r n) ?rs"
    by (simp add: remove_from_registries_cmds_def)
  have mem: "r \<in> set ?rs \<longleftrightarrow> reg_name r = q_name q"
    by (cases r; cases "reg_kind r") (auto simp: queue_registry_def)
  have deletes: "reg_entries view (run_all B (map (\<lambda>r. reg_delete_cmd r n) ?rs) t) r =
      (if reg_name r = q_name q then (reg_entries view t r)(n := None) else reg_entries view t r)" for t
    by (simp only: entries_deletes mem)
  have expire: "reg_entries view (e_run B (EXPIRE (job_key m) ttl) t) = reg_entries view t" for m ttl t
    by (auto simp: reg_entries_def view_run fun_eq_iff del_key_def)
  show ?thesis
  proof (cases "job_get B n s")
    case None
    then show ?thesis by (simp only: delete_job_def Let_def pipe deletes option.case if_cancel)
  next
    case (Some j)
    obtain j' pipe' s1 where ex: "job_expire B (j_job_info_ttl j) j s = (j', pipe', s1)"
      by (cases "job_expire B (j_job_info_ttl j) j s") auto
    have e1: "reg_entries view s1 = reg_entries view s"
      using ex by (auto simp: job_expire_def split: if_splits prod.splits) (metis reg_entries_del_job snd_conv)
    have p1: "pipe' = [] \<or> (\<exists>m ttl. pipe' = [EXPIRE (job_key m) ttl])"
      using ex by (auto simp: job_expire_def split: if_splits prod.splits)
    have run: "reg_entries view (run_all B pipe' t) = reg_entries view t" for t
      using p1 expire by auto
    have "delete_job B q n ex s = (if ex then run_all B pipe' (run_all B (map (\<lambda>r. reg_delete_cmd r n) ?rs) s1)
        else run_all B (map (\<lambda>r. reg_delete_cmd r n) ?rs) s)"
      by (simp only: delete_job_def Let_def pipe Some option.case ex prod.case run_all_append)
    then show ?thesis by (cases ex) (simp_all only: if_True if_False run deletes e1)
  qed
qed

end

section \<open>An in-memory host\<close>

definition mem_host :: "scheduler_config \<Rightarrow> 'm mem_scheme host_env"
  \<comment> \<open>one function, \<open>tasks.ok\<close>, which returns its number of arguments, and one, \<open>tasks.bad\<close>, which raises\<close>
  where "mem_host cfg = mem_env_ext cfg (host_env.fields
     (\<lambda>m. if m = ''tasks'' then Inr (\<lambda>a. if a = ''ok'' then Some (True, ''tasks.ok'')
             else if a = ''bad'' then Some (True, ''tasks.bad'') else None) else Inl ModuleNotFoundError)
     (\<lambda>f args kwargs j s. (j, if f = ''tasks.ok'' then Inr (VInt (int (length args))) else Inl (UserError ''bad''), s))
     (\<lambda>_. False)
     (\<lambda>v j s. (j, Inr v, s))
     (\<lambda>f timeout arg j s. (j, Inr VNone, s))
     (\<lambda>_. ''...'')
     (\<lambda>_. ''<function>'')
     (\<lambda>_. ''traceback''))"

interpretation mem_host: host "mem_host cfg" mem_view
  for cfg :: scheduler_config
  unfolding mem_host_def by (rule host.intro) (rule mem_broker.broker_axioms)

end
