(* ===== verification/Lifecycle.thy ===== *)
theory Lifecycle
  imports Queues
begin

text \<open>
  The life of a queue's jobs as a state machine.  A step is one operation of \<open>queue_logic.py\<close> or of a
  registry, on any job; a guard says where the operation's job is when the program calls it (a worker
  starts only a job it has taken off the queue, and finishes only one it started).  Whatever the
  order of the steps, no job is ever in two registries of the queue.
\<close>

definition placed :: "('s \<Rightarrow> store) \<Rightarrow> queue \<Rightarrow> 's \<Rightarrow> string \<Rightarrow> registry_kind set"
  \<comment> \<open>the registries of the queue that hold the job\<close>
  where "placed view q s n = {k. reg_entries view s (queue_registry k q) n \<noteq> None}"

definition one_place :: "('s \<Rightarrow> store) \<Rightarrow> queue \<Rightarrow> 's \<Rightarrow> bool"
  where "one_place view q s \<longleftrightarrow> (\<forall>n k k'. k \<in> placed view q s n \<longrightarrow> k' \<in> placed view q s n \<longrightarrow> k = k')"

inductive life_step :: "('s, 'x) host_env_scheme \<Rightarrow> ('s \<Rightarrow> store) \<Rightarrow> queue \<Rightarrow> 's \<Rightarrow> 's \<Rightarrow> bool"
  for H view q
where
  schedule: "placed view q s n \<subseteq> {ScheduledJobs} \<Longrightarrow>
     life_step H view q s (reg_schedule H tz (queue_registry ScheduledJobs q) n t s)"
| enqueue: "q_is_async q \<Longrightarrow> storable j \<Longrightarrow> placed view q s (m_name j) \<subseteq> {ScheduledJobs, QueuedJobs} \<Longrightarrow>
     life_step H view q s (snd (snd (enqueue_job H q [] at_front j s)))"
| take: "dequeue_any H qs None s = Some (res, s') \<Longrightarrow> life_step H view q s s'"
| start: "placed view q s (m_name j) \<subseteq> {ActiveJobs} \<Longrightarrow>
     life_step H view q s (snd (snd (prepare_for_execution H w (queue_registry ActiveJobs q) j s)))"
| succeed: "placed view q s (m_name j) \<subseteq> {ActiveJobs} \<Longrightarrow>
     life_step H view q s (snd (snd (job_handle_success H q v ttl rttl j s)))"
| failed: "placed view q s (m_name j) \<subseteq> {ActiveJobs} \<Longrightarrow>
     life_step H view q s (snd (snd (job_handle_failure H q st exc j s)))"
| cancel: "job_get H n s = Some j \<Longrightarrow> m_name j = n \<Longrightarrow> FailedJobs \<notin> placed view q s n \<Longrightarrow>
     life_step H view q s (snd (cancel_job H q n s))"
| delete: "life_step H view q s (delete_job H q n ex s)"
| expire: "life_step H view q s (reg_cleanup H (queue_registry k q) t s)"
| tidy: "life_step H view q s (reg_compact H (queue_registry QueuedJobs q) s)"
| elsewhere: "zsets (view s') = zsets (view s) \<Longrightarrow> life_step H view q s s'"

inductive_cases life_stepE [elim]: "life_step H view q s s'"

lemma one_place_move:
  assumes "one_place view q s"
    and others: "\<And>m. m \<noteq> n \<Longrightarrow> placed view q s' m \<subseteq> placed view q s m"
    and one: "placed view q s' n \<subseteq> {k}"
  shows "one_place view q s'"
  unfolding one_place_def
proof (intro allI impI)
  fix m a b assume ab: "a \<in> placed view q s' m" "b \<in> placed view q s' m"
  show "a = b"
  proof (cases "m = n")
    case True
    then show ?thesis using one ab by blast
  next
    case False
    then have "a \<in> placed view q s m" "b \<in> placed view q s m" using others ab by blast+
    then show ?thesis using assms(1) unfolding one_place_def by blast
  qed
qed

lemma one_place_shrink:
  "one_place view q s \<Longrightarrow> (\<And>m. placed view q s' m \<subseteq> placed view q s m) \<Longrightarrow> one_place view q s'"
  unfolding one_place_def by blast

context broker
begin

lemma dequeue_any_subset:
  assumes "dequeue_any B qs None s = Some res"
  shows "set (zsets (view (snd res)) k) \<subseteq> set (zsets (view s) k)"
  using assms
proof (induction "waiting view qs s" arbitrary: s rule: less_induct)
  case less
  note sub = compacted_sets [of qs s]
  show ?case
  proof (cases rule: dequeue_any_cases [of qs s])
    case empty
    then show ?thesis using less.prems sub by auto
  next
    case (popped q p s2)
    have z2: "set (zsets (view s2) k) \<subseteq> set (zsets (view s) k)"
      using popped(4) sub(1) [of k] by (cases "zsets (view (fold (reg_compact B) (map (queue_registry QueuedJobs) qs) s)) k") auto
    have "waiting view qs s2 < waiting view qs s"
      using popped(1,2) sub(2) popped(4) by (intro waiting_popped [of q qs _ s s2]) auto
    from less.hyps [OF this] popped(5) less.prems z2 show ?thesis by (cases "job_get B (fst p) s2") auto
  qed
qed

lemma placed_shrinks: "(\<And>k. set (zsets (view s') k) \<subseteq> set (zsets (view s) k)) \<Longrightarrow> placed view q s' m \<subseteq> placed view q s m"
  by (fastforce simp: placed_def reg_entries_dom)

end

context host
begin

lemma life_step_one_place:
  assumes "life_step H view q s s'" "one_place view q s"
  shows "one_place view q s'"
  using assms(1)
proof cases
  case (schedule n tz t)
  have p: "placed view q s' m = (if m = n then insert ScheduledJobs (placed view q s m) else placed view q s m)" for m
    by (auto simp: schedule(1) placed_def reg_schedule_def regs.entries_add)
  show ?thesis using assms(2) by (rule one_place_move [where n = n and k = ScheduledJobs]) (use schedule(2) p in auto)
next
  case (enqueue j at_front)
  have p: "placed view q s' m = (if m = m_name j then insert QueuedJobs (placed view q s m - {ScheduledJobs}) else placed view q s m)" for m
    by (auto simp: enqueue(1) placed_def enqueue_job_async(3) [OF enqueue(2,3)])
  show ?thesis using assms(2) by (rule one_place_move [where n = "m_name j" and k = QueuedJobs]) (use enqueue(4) p in auto)
next
  case (take qs res)
  show ?thesis
    using assms(2) by (rule one_place_shrink) (use dequeue_any_subset [OF take] in \<open>simp add: placed_shrinks\<close>)
next
  case (start j w)
  have p: "placed view q s' m \<subseteq> (if m = m_name j then insert ActiveJobs (placed view q s m - {ActiveJobs}) else placed view q s m)" for m
    by (auto simp: start(1) placed_def prepare_entries split: if_splits)
  show ?thesis
  proof (rule one_place_move [OF assms(2), where n = "m_name j" and k = ActiveJobs])
    show "placed view q s' m \<subseteq> placed view q s m" if "m \<noteq> m_name j" for m using p [of m] that by simp
    show "placed view q s' (m_name j) \<subseteq> {ActiveJobs}" using p [of "m_name j"] start(2) by auto
  qed
next
  case (succeed j v ttl rttl)
  have p: "placed view q s' m \<subseteq> (if m = m_name j then insert FinishedJobs (placed view q s m - {ActiveJobs}) else placed view q s m)" for m
    by (auto simp: succeed(1) placed_def job_handle_success_entries split: if_splits)
  show ?thesis
  proof (rule one_place_move [OF assms(2), where n = "m_name j" and k = FinishedJobs])
    show "placed view q s' m \<subseteq> placed view q s m" if "m \<noteq> m_name j" for m using p [of m] that by simp
    show "placed view q s' (m_name j) \<subseteq> {FinishedJobs}" using p [of "m_name j"] succeed(2) by auto
  qed
next
  case (failed j st exc)
  have p: "placed view q s' m \<subseteq> (if m = m_name j then insert FailedJobs (placed view q s m - {ActiveJobs}) else placed view q s m)" for m
    by (auto simp: failed(1) placed_def job_handle_failure_entries split: if_splits)
  show ?thesis
  proof (rule one_place_move [OF assms(2), where n = "m_name j" and k = FailedJobs])
    show "placed view q s' m \<subseteq> placed view q s m" if "m \<noteq> m_name j" for m using p [of m] that by simp
    show "placed view q s' (m_name j) \<subseteq> {FailedJobs}" using p [of "m_name j"] failed(2) by auto
  qed
next
  case (cancel n j)
  show ?thesis
  proof (cases "j_status j = Some JobCanceled")
    case True
    then have "s' = s" using cancel(1,2) by (simp add: cancel_job_def)
    then show ?thesis using assms(2) by simp
  next
    case False
    let ?k = "if j_status j = Some JobQueued then CanceledJobs else FinishedJobs"
    obtain t where t: "reg_entries view s' = (\<lambda>r. if r = queue_registry ?k q then (reg_entries view s r)(n \<mapsto> t)
       else if reg_name r = q_name q \<and> reg_kind r \<noteq> FailedJobs then (reg_entries view s r)(n := None)
       else reg_entries view s r)"
      using cancel_job_entries(3) [OF cancel(2) False cancel(3)] cancel(1) by blast
    have p: "placed view q s' m = (if m = n then insert ?k (placed view q s m \<inter> {FailedJobs}) else placed view q s m)" for m
      by (auto simp: placed_def t)
    show ?thesis using assms(2) by (rule one_place_move [where n = n and k = ?k]) (use cancel(4) p in auto)
  qed
next
  case (delete n ex)
  show ?thesis
    using assms(2) by (rule one_place_shrink) (auto simp: delete placed_def delete_job_entries split: if_splits)
next
  case (expire k t)
  show ?thesis
    using assms(2) by (rule one_place_shrink) (rule placed_shrinks, auto simp: expire view_reg_cleanup unexpired_def)
next
  case tidy
  show ?thesis
    using assms(2) by (rule one_place_shrink) (rule placed_shrinks, auto simp: tidy view_reg_compact live_def)
next
  case elsewhere
  then show ?thesis using assms(2) by (intro one_place_shrink [OF assms(2)] placed_shrinks) simp
qed

lemma life_one_place: "(life_step H view q)\<^sup>*\<^sup>* s s' \<Longrightarrow> one_place view q s \<Longrightarrow> one_place view q s'"
  by (induction rule: rtranclp_induct) (auto intro: life_step_one_place)

end

end
