(* ===== verification/WorkerModels.thy ===== *)
theory WorkerModels
  imports JobModels
begin

text \<open>
  \<open>scheduler/redis_models/worker.py\<close>: what a worker records of itself in the broker, its heartbeat,
  and the removal of the names of workers whose record is gone.
\<close>

datatype worker_status =
    WorkerCreated
  | WorkerStarting
  | WorkerStarted
  | WorkerSuspended
  | WorkerBusy
  | WorkerIdle
  | WorkerStopped

fun worker_status_value :: "worker_status \<Rightarrow> string" where
  "worker_status_value WorkerCreated = ''created''"
| "worker_status_value WorkerStarting = ''starting''"
| "worker_status_value WorkerStarted = ''started''"
| "worker_status_value WorkerSuspended = ''suspended''"
| "worker_status_value WorkerBusy = ''busy''"
| "worker_status_value WorkerIdle = ''idle''"
| "worker_status_value WorkerStopped = ''stopped''"

definition worker_statuses :: "worker_status list"
  where "worker_statuses =
    [WorkerCreated, WorkerStarting, WorkerStarted, WorkerSuspended, WorkerBusy, WorkerIdle, WorkerStopped]"

definition worker_status_of :: "string \<Rightarrow> worker_status option"
  where "worker_status_of v = find (\<lambda>st. worker_status_value st = v) worker_statuses"

lemma worker_status_of_value [simp]: "worker_status_of (worker_status_value st) = Some st"
  by (cases st) (simp_all add: worker_status_of_def worker_statuses_def)

record worker_model = hash_model +
  w_queue_names :: "string list"
  w_pid :: int
  w_hostname :: string
  w_ip_address :: string
  w_version :: string
  w_python_version :: string
  w_state :: worker_status
  w_job_execution_process_pid :: int
  w_successful_job_count :: int
  w_failed_job_count :: int
  w_completed_jobs :: int
  w_birth :: "time option"
  w_last_heartbeat :: "time option"
  w_is_suspended :: bool
  w_current_job_name :: "string option"
  w_stopped_job_name :: "string option"
  w_total_working_time_ms :: rat
  w_current_job_working_time :: rat
  w_last_cleaned_at :: "time option"
  w_shutdown_requested_date :: "time option"
  w_has_scheduler :: bool
  w_death :: "time option"

definition worker_fields :: "worker_model \<Rightarrow> (string \<times> pyval) list"
  where "worker_fields w =
    [(''name'', VStr (m_name w)),
     (''created_at'', opt_val VDatetime (created_at w)),
     (''parent'', opt_val VStr (parent w)),
     (''queue_names'', VList (map VStr (w_queue_names w))),
     (''pid'', VInt (w_pid w)),
     (''hostname'', VStr (w_hostname w)),
     (''ip_address'', VStr (w_ip_address w)),
     (''version'', VStr (w_version w)),
     (''python_version'', VStr (w_python_version w)),
     (''state'', VEnum (worker_status_value (w_state w))),
     (''job_execution_process_pid'', VInt (w_job_execution_process_pid w)),
     (''successful_job_count'', VInt (w_successful_job_count w)),
     (''failed_job_count'', VInt (w_failed_job_count w)),
     (''completed_jobs'', VInt (w_completed_jobs w)),
     (''birth'', opt_val VDatetime (w_birth w)),
     (''last_heartbeat'', opt_val VDatetime (w_last_heartbeat w)),
     (''is_suspended'', VBool (w_is_suspended w)),
     (''current_job_name'', opt_val VStr (w_current_job_name w)),
     (''stopped_job_name'', opt_val VStr (w_stopped_job_name w)),
     (''total_working_time_ms'', VFloat (w_total_working_time_ms w)),
     (''current_job_working_time'', VFloat (w_current_job_working_time w)),
     (''last_cleaned_at'', opt_val VDatetime (w_last_cleaned_at w)),
     (''shutdown_requested_date'', opt_val VDatetime (w_shutdown_requested_date w)),
     (''has_scheduler'', VBool (w_has_scheduler w)),
     (''death'', opt_val VDatetime (w_death w))]"

definition worker_field_types :: "(string \<times> pytype) list"
  where "worker_field_types =
    [(''name'', TStr), (''created_at'', TDatetime), (''parent'', TStr), (''queue_names'', TJson),
     (''pid'', TInt), (''hostname'', TStr), (''ip_address'', TStr), (''version'', TStr),
     (''python_version'', TStr), (''state'', TEnum (map worker_status_value worker_statuses)),
     (''job_execution_process_pid'', TInt), (''successful_job_count'', TInt), (''failed_job_count'', TInt),
     (''completed_jobs'', TInt), (''birth'', TDatetime), (''last_heartbeat'', TDatetime),
     (''is_suspended'', TBool), (''current_job_name'', TStr), (''stopped_job_name'', TStr),
     (''total_working_time_ms'', TFloat), (''current_job_working_time'', TFloat),
     (''last_cleaned_at'', TDatetime), (''shutdown_requested_date'', TDatetime),
     (''has_scheduler'', TBool), (''death'', TDatetime)]"

fun to_str_list :: "pyval \<Rightarrow> string list result" where
  "to_str_list (VList []) = Inr []"
| "to_str_list (VList (v # vs)) =
     rbind (to_str v) (\<lambda>s. rbind (to_str_list (VList vs)) (\<lambda>ss. Inr (s # ss)))"
| "to_str_list _ = Inl TypeError"

fun to_float :: "pyval \<Rightarrow> rat result" where
  "to_float (VFloat r) = Inr r"
| "to_float _ = Inl TypeError"

fun to_worker_status :: "pyval \<Rightarrow> worker_status result" where
  "to_worker_status (VEnum v) = (case worker_status_of v of None \<Rightarrow> Inl TypeError | Some st \<Rightarrow> Inr st)"
| "to_worker_status _ = Inl TypeError"

definition worker_init :: "(string \<rightharpoonup> pyval) \<Rightarrow> worker_model result"
  where "worker_init kw =
    rbind (required to_str kw ''name'') (\<lambda>name.
    rbind (optional to_datetime kw ''created_at'') (\<lambda>created_at.
    rbind (optional to_str kw ''parent'') (\<lambda>parent.
    rbind (required to_str_list kw ''queue_names'') (\<lambda>queue_names.
    rbind (required to_int kw ''pid'') (\<lambda>pid.
    rbind (required to_str kw ''hostname'') (\<lambda>hostname.
    rbind (required to_str kw ''ip_address'') (\<lambda>ip_address.
    rbind (required to_str kw ''version'') (\<lambda>version.
    rbind (required to_str kw ''python_version'') (\<lambda>python_version.
    rbind (required to_worker_status kw ''state'') (\<lambda>state.
    rbind (defaulted to_int 0 kw ''job_execution_process_pid'') (\<lambda>job_execution_process_pid.
    rbind (defaulted to_int 0 kw ''successful_job_count'') (\<lambda>successful_job_count.
    rbind (defaulted to_int 0 kw ''failed_job_count'') (\<lambda>failed_job_count.
    rbind (defaulted to_int 0 kw ''completed_jobs'') (\<lambda>completed_jobs.
    rbind (optional to_datetime kw ''birth'') (\<lambda>birth.
    rbind (optional to_datetime kw ''last_heartbeat'') (\<lambda>last_heartbeat.
    rbind (defaulted to_bool False kw ''is_suspended'') (\<lambda>is_suspended.
    rbind (optional to_str kw ''current_job_name'') (\<lambda>current_job_name.
    rbind (optional to_str kw ''stopped_job_name'') (\<lambda>stopped_job_name.
    rbind (defaulted to_float 0 kw ''total_working_time_ms'') (\<lambda>total_working_time_ms.
    rbind (defaulted to_float 0 kw ''current_job_working_time'') (\<lambda>current_job_working_time.
    rbind (optional to_datetime kw ''last_cleaned_at'') (\<lambda>last_cleaned_at.
    rbind (optional to_datetime kw ''shutdown_requested_date'') (\<lambda>shutdown_requested_date.
    rbind (defaulted to_bool False kw ''has_scheduler'') (\<lambda>has_scheduler.
    rbind (optional to_datetime kw ''death'') (\<lambda>death.
    Inr (hash_post_init
      \<lparr> m_name = name, created_at = created_at, parent = parent, dirty_fields = {}, save_all_flag = True,
        w_queue_names = queue_names, w_pid = pid, w_hostname = hostname, w_ip_address = ip_address,
        w_version = version, w_python_version = python_version, w_state = state,
        w_job_execution_process_pid = job_execution_process_pid,
        w_successful_job_count = successful_job_count, w_failed_job_count = failed_job_count,
        w_completed_jobs = completed_jobs, w_birth = birth, w_last_heartbeat = last_heartbeat,
        w_is_suspended = is_suspended, w_current_job_name = current_job_name,
        w_stopped_job_name = stopped_job_name, w_total_working_time_ms = total_working_time_ms,
        w_current_job_working_time = current_job_working_time, w_last_cleaned_at = last_cleaned_at,
        w_shutdown_requested_date = shutdown_requested_date, w_has_scheduler = has_scheduler,
        w_death = death \<rparr>)
    )))))))))))))))))))))))))"

definition worker_deserialize :: "(string \<times> wire) list \<Rightarrow> worker_model result"
  where "worker_deserialize data =
    (if \<not> fst ` set data \<subseteq> set (map fst worker_field_types) then Inl TypeError
     else rbind (worker_init (map_of (base_deserialize [] worker_field_types data)))
            (\<lambda>w. Inr (hash_deserialized w)))"

definition worker_children_key :: "string \<Rightarrow> key"
  where "worker_children_key q = '':queue-workers:'' @ q @ '':''"

definition worker_key :: "string \<Rightarrow> key"
  where "worker_key n = '':workers:'' @ n"

definition worker_list_key :: key
  where "worker_list_key = '':workers:ALL:''"

definition worker_class :: "worker_model model_class"
  where "worker_class =
    \<lparr> list_key = worker_list_key,
      children_key = worker_children_key,
      element_key = worker_key,
      non_serializable = [],
      field_types = worker_field_types,
      fields_of = worker_fields,
      serialize_m = (\<lambda>with_nones w. base_serialize [] with_nones (worker_fields w)),
      deserialize_m = worker_deserialize \<rparr>"

lemma worker_class_sel [simp]:
  "list_key worker_class = worker_list_key"
  "children_key worker_class = worker_children_key"
  "element_key worker_class = worker_key"
  "field_types worker_class = worker_field_types"
  "serialize_m worker_class b w = base_serialize [] b (worker_fields w)"
  "deserialize_m worker_class = worker_deserialize"
  by (simp_all add: worker_class_def)

lemma key_of_worker [simp]: "key_of worker_class w = worker_key (m_name w)"
  by (simp add: key_of_def)

section \<open>Operations\<close>

type_synonym 's worker_step = "worker_model \<times> ('s, unit) outcome"

definition worker_get :: "('s, 'x) env_scheme \<Rightarrow> string \<Rightarrow> 's \<Rightarrow> worker_model option"
  where "worker_get B n s = model_get worker_class B n s"

definition worker_save :: "('s, 'x) env_scheme \<Rightarrow> bool \<Rightarrow> worker_model \<Rightarrow> 's \<Rightarrow> 's worker_step"
  where "worker_save B save_all w s =
    (case hash_save worker_class B save_all w s of
       (Inl e, s1) \<Rightarrow> (w, Inl e, s1)
     | (Inr w1, s1) \<Rightarrow>
         (w1, Inr (), run_all B (map (\<lambda>q. SADD (worker_children_key q) (m_name w)) (w_queue_names w)
            @ [EXPIRE (worker_key (m_name w)) (DEFAULT_WORKER_TTL (e_cfg B) + 60)]) s1))"

definition worker_delete :: "('s, 'x) env_scheme \<Rightarrow> worker_model \<Rightarrow> 's \<Rightarrow> worker_model \<times> 's"
  where "worker_delete B w s =
    (let (now, s1) = utcnow B s;
         w1 = mark_dirty ''death'' (w\<lparr>w_death := Some now\<rparr>);
         k = worker_key (m_name w)
     in (w1, run_all B ([HSET k [(''death'', WIso now)], EXPIRE k 60, SREM worker_list_key [m_name w]]
           @ map (\<lambda>q. SREM (worker_children_key q) [m_name w]) (w_queue_names w)) s1))"

definition worker_eq :: "worker_model \<Rightarrow> worker_model \<Rightarrow> bool"
  where "worker_eq a b = (worker_key (m_name a) = worker_key (m_name b))"

definition worker_set_field ::
    "('s, 'x) env_scheme \<Rightarrow> string \<Rightarrow> pyval \<Rightarrow> (worker_model \<Rightarrow> worker_model) \<Rightarrow> worker_model \<Rightarrow> 's \<Rightarrow> 's worker_step"
  where "worker_set_field B field value assign w s =
    (case set_field worker_class B field value assign w s of
       (Inl e, s1) \<Rightarrow> (w, Inl e, s1)
     | (Inr w1, s1) \<Rightarrow> (w1, Inr (), s1))"

definition set_current_job_working_time :: "('s, 'x) env_scheme \<Rightarrow> rat \<Rightarrow> worker_model \<Rightarrow> 's \<Rightarrow> 's worker_step"
  where "set_current_job_working_time B t w s =
    worker_set_field B ''current_job_working_time'' (VFloat t) (\<lambda>w. w\<lparr>w_current_job_working_time := t\<rparr>) w s"

definition worker_heartbeat :: "('s, 'x) env_scheme \<Rightarrow> int option \<Rightarrow> worker_model \<Rightarrow> 's \<Rightarrow> 's worker_step"
  where "worker_heartbeat B timeout w s =
    (let (now, s1) = utcnow B s;
         w1 = mark_dirty ''last_heartbeat'' (w\<lparr>w_last_heartbeat := Some now\<rparr>)
     in case worker_save B True w1 s1 of
          (w2, Inl e, s2) \<Rightarrow> (w2, Inl e, s2)
        | (w2, Inr _, s2) \<Rightarrow>
            (w2, Inr (), e_run B (EXPIRE (worker_key (m_name w)) (or_int timeout (DEFAULT_WORKER_TTL (e_cfg B) + 60))) s2))"

function split_list :: "'a list \<Rightarrow> nat \<Rightarrow> 'a list list" where
  "split_list xs n = (if xs = [] \<or> n = 0 then [] else take n xs # split_list (drop n xs) n)"
  by pat_completeness auto
termination by (relation "measure (\<lambda>(xs, _). length xs)") auto

declare split_list.simps [simp del]

definition MAX_KEYS :: nat
  where "MAX_KEYS = 1000"

definition worker_cleanup :: "('s, 'x) env_scheme \<Rightarrow> string option \<Rightarrow> 's \<Rightarrow> 's"
  where "worker_cleanup B queue_name s =
    (let worker_names = all_names worker_class B queue_name s;
         invalid_workers = filter (\<lambda>n. \<not> e_exists B (worker_key n) s) worker_names
     in fold (\<lambda>chunk s. run_all B ([SREM worker_list_key chunk]
          @ (if truthy_str queue_name then [SREM (worker_children_key (the queue_name)) chunk] else [])) s)
        (split_list invalid_workers MAX_KEYS) s)"

section \<open>Facts\<close>

lemma concat_split_list: "n \<noteq> 0 \<Longrightarrow> concat (split_list xs n) = xs"
proof (induction xs n rule: split_list.induct)
  case (1 xs n)
  then show ?case by (cases "xs = []") (simp_all add: split_list.simps [of xs] split_list.simps [of "[]"])
qed

lemma split_list_chunk: "c \<in> set (split_list xs n) \<Longrightarrow> 0 < length c \<and> length c \<le> n"
proof (induction xs n rule: split_list.induct)
  case (1 xs n)
  then show ?case by (cases "xs = [] \<or> n = 0") (auto simp: split_list.simps [of xs])
qed

context broker
begin

lemma worker_cleanup_sets:
  assumes "truthy_str (Some q)"
  shows "sets (view (worker_cleanup B (Some q) s)) k =
    (if k = worker_list_key \<or> k = worker_children_key q
     then sets (view s) k - {n \<in> sets (view s) (worker_children_key q). \<not> key_exists (view s) (worker_key n)}
     else sets (view s) k)"
proof -
  let ?bad = "filter (\<lambda>n. \<not> e_exists B (worker_key n) s) (all_names worker_class B (Some q) s)"
  let ?step = "\<lambda>chunk s. run_all B ([SREM worker_list_key chunk]
          @ (if truthy_str (Some q) then [SREM (worker_children_key (the (Some q))) chunk] else [])) s"
  have step: "sets (view (fold ?step cs t)) k =
     (if k = worker_list_key \<or> k = worker_children_key q then sets (view t) k - set (concat cs) else sets (view t) k)"
    for cs t
    using assms by (induction cs arbitrary: t) (auto simp: view_run)
  have "set ?bad = {n \<in> sets (view s) (worker_children_key q). \<not> key_exists (view s) (worker_key n)}"
    using assms by (auto simp: all_names_def exists smembers)
  moreover have "concat (split_list ?bad MAX_KEYS) = ?bad"
    by (rule concat_split_list) (simp add: MAX_KEYS_def)
  moreover have "worker_cleanup B (Some q) s = fold ?step (split_list ?bad MAX_KEYS) s"
    by (simp only: worker_cleanup_def Let_def)
  ultimately show ?thesis by (simp only: step)
qed

end

end
