(* ===== verification/Getters.thy ===== *)
theory Getters
  imports Queues WorkerModels
begin

text \<open>
  \<open>scheduler/settings.py\<close> (reading the Django settings), \<open>scheduler/helpers/queues/getters.py\<close> and
  \<open>get_queues\<close> of \<open>scheduler/worker/worker.py\<close>: from configuration to connections and queues.
  Opening a connection is the client library's; what it is asked for is a \<open>connection_call\<close>.
\<close>

section \<open>Reading the settings\<close>

datatype queue_setting =
    QueueObject queue_configuration
  | QueueDict queue_configuration
  | QueueOther

datatype scheduler_setting =
    SchedulerObject scheduler_config
  | SchedulerDict "(string \<times> (scheduler_config \<Rightarrow> scheduler_config)) list"
  | SchedulerOther

definition scheduler_config_fields :: "string list"
  where "scheduler_config_fields =
    [''EXECUTIONS_IN_PAGE'', ''SCHEDULER_INTERVAL'', ''BROKER'', ''TOKEN_VALIDATION_METHOD'', ''CALLBACK_TIMEOUT'',
     ''DEFAULT_SUCCESS_TTL'', ''DEFAULT_FAILURE_TTL'', ''DEFAULT_JOB_TTL'', ''DEFAULT_JOB_TIMEOUT'',
     ''DEFAULT_WORKER_TTL'', ''DEFAULT_MAINTENANCE_TASK_INTERVAL'', ''DEFAULT_JOB_MONITORING_INTERVAL'',
     ''SCHEDULER_FALLBACK_PERIOD_SECS'', ''DEATH_PENALTY_CLASS'', ''FAIL_FAST_QUEUE_PROBING'',
     ''QUEUE_PROBE_SOCKET_CONNECT_TIMEOUT'']"

fun conf_queues :: "(string \<times> queue_setting) list \<Rightarrow> queue_table \<Rightarrow> queue_table result" where
  "conf_queues [] qs = Inr qs"
| "conf_queues ((name, QueueObject q) # rest) qs = conf_queues rest (AList.update name q qs)"
| "conf_queues ((name, QueueDict q) # rest) qs =
     rbind (queue_configuration_post_init q) (\<lambda>q'. conf_queues rest (AList.update name q' qs))"
| "conf_queues ((name, QueueOther) # rest) qs = Inl ImproperlyConfigured"

fun conf_scheduler ::
    "(string \<times> (scheduler_config \<Rightarrow> scheduler_config)) list \<Rightarrow> scheduler_config \<Rightarrow> scheduler_config result"
  \<comment> \<open>each setting with the update \<open>setattr\<close> makes of the field it names\<close>
where
  "conf_scheduler [] cfg = Inr cfg"
| "conf_scheduler ((k, assign) # rest) cfg =
     (if k \<notin> set scheduler_config_fields then Inl ImproperlyConfigured else conf_scheduler rest (assign cfg))"

definition conf_settings ::
    "(string \<times> queue_setting) list option \<Rightarrow> scheduler_setting \<Rightarrow> (queue_table \<times> scheduler_config) result"
  \<comment> \<open>None: the setting is missing or not a dict\<close>
  where "conf_settings app_queues user_settings =
    (case app_queues of
       None \<Rightarrow> Inl ImproperlyConfigured
     | Some items \<Rightarrow>
         rbind (conf_queues items []) (\<lambda>qs.
         case user_settings of
           SchedulerObject cfg \<Rightarrow> Inr (qs, cfg)
         | SchedulerDict d \<Rightarrow> rbind (conf_scheduler d default_scheduler_config) (\<lambda>cfg. Inr (qs, cfg))
         | SchedulerOther \<Rightarrow> Inl ImproperlyConfigured))"

section \<open>Connections\<close>

datatype connection_call =
    FromUrl string "int option" "(string \<times> pyval) list"
  | UnixSocket string "int option"
  | SentinelMaster "(string \<times> int) list" "(string \<times> pyval) list" "(string \<times> pyval) list" "string option"
  | Direct "string option" "int option" "int option" "string option" "string option" "(string \<times> pyval) list"

definition setdefault :: "string \<Rightarrow> 'v \<Rightarrow> (string \<times> 'v) list \<Rightarrow> (string \<times> 'v) list"
  where "setdefault k v d = (if k \<in> fst ` set d then d else d @ [(k, v)])"

definition fail_fast_kwargs :: "scheduler_config \<Rightarrow> (string \<times> pyval) list \<Rightarrow> (string \<times> pyval) list"
  where "fail_fast_kwargs cfg kwargs =
    setdefault ''retry'' VNone
      (setdefault ''socket_connect_timeout'' (VFloat (QUEUE_PROBE_SOCKET_CONNECT_TIMEOUT cfg)) kwargs)"

definition update_all :: "(string \<times> 'v) list \<Rightarrow> (string \<times> 'v) list \<Rightarrow> (string \<times> 'v) list"
  \<comment> \<open>\<open>d.update(e)\<close>\<close>
  where "update_all d e = fold (\<lambda>(k, v). AList.update k v) e d"

definition connection_request :: "scheduler_config \<Rightarrow> bool \<Rightarrow> queue_configuration \<Rightarrow> connection_call"
  where "connection_request cfg fail_fast config =
    (let apply_fail_fast = fail_fast \<and> FAIL_FAST_QUEUE_PROBING cfg;
         kwargs0 = or_empty (CONNECTION_KWARGS config);
         connection_kwargs = (if apply_fail_fast then fail_fast_kwargs cfg kwargs0 else kwargs0)
     in if truthy_str (URL config) then FromUrl (the (URL config)) (DB config) connection_kwargs
        else if truthy_str (UNIX_SOCKET_PATH config) then UnixSocket (the (UNIX_SOCKET_PATH config)) (DB config)
        else if truthy_list (SENTINELS config) then
          (let full = update_all [(''db'', opt_val VInt (DB config)), (''password'', opt_val VStr (PASSWORD config)),
                         (''username'', opt_val VStr (USERNAME config))] connection_kwargs;
               sentinel_kwargs0 = or_empty (SENTINEL_KWARGS config);
               sentinel_kwargs = (if apply_fail_fast then fail_fast_kwargs cfg sentinel_kwargs0 else sentinel_kwargs0)
           in SentinelMaster (the (SENTINELS config)) sentinel_kwargs full (MASTER_NAME config))
        else Direct (HOST config) (PORT config) (DB config) (USERNAME config) (PASSWORD config) connection_kwargs)"

definition get_queue_connection :: "queue_table \<Rightarrow> scheduler_config \<Rightarrow> string \<Rightarrow> bool \<Rightarrow> connection_call result"
  where "get_queue_connection qs cfg queue_name fail_fast =
    rbind (get_queue_configuration qs queue_name) (\<lambda>c. Inr (connection_request cfg fail_fast c))"

definition get_queue :: "queue_table \<Rightarrow> string \<Rightarrow> queue result"
  where "get_queue qs name =
    rbind (get_queue_configuration qs name) (\<lambda>c. Inr \<lparr> q_name = name, q_is_async = ASYNC c \<rparr>)"

definition worker_connection_kwargs :: "scheduler_config \<Rightarrow> queue_configuration \<Rightarrow> (string \<times> pyval) list \<Rightarrow> (string \<times> pyval) list"
  \<comment> \<open>the connection pool's arguments after \<open>Worker.connection\<close>\<close>
  where "worker_connection_kwargs cfg config pool_kwargs =
    (if ''socket_timeout'' \<in> fst ` set (or_empty (CONNECTION_KWARGS config)) then pool_kwargs
     else AList.update ''socket_timeout'' (VInt (DEFAULT_WORKER_TTL cfg - 5)) pool_kwargs)"

fun get_queues_rest :: "queue_table \<Rightarrow> queue_configuration \<Rightarrow> string list \<Rightarrow> queue list result" where
  "get_queues_rest qs first [] = Inr []"
| "get_queues_rest qs first (n # ns) =
     rbind (get_queue_configuration qs n) (\<lambda>c.
     if \<not> same_connection_params first c then Inl QueueConnectionDiscrepancyError
     else rbind (get_queue qs n) (\<lambda>q. rbind (get_queues_rest qs first ns) (\<lambda>rest. Inr (q # rest))))"

definition get_queues :: "queue_table \<Rightarrow> string list \<Rightarrow> queue list result"
  where "get_queues qs queue_names =
    rbind (get_queue_configuration qs (hd queue_names)) (\<lambda>c.
    rbind (get_queue qs (hd queue_names)) (\<lambda>q.
    rbind (get_queues_rest qs c (tl queue_names)) (\<lambda>rest. Inr (q # rest))))"

definition get_all_workers :: "('s, 'x) env_scheme \<Rightarrow> queue_table \<Rightarrow> 's \<Rightarrow> worker_model list"
  \<comment> \<open>a set of workers, equal when their keys are\<close>
  where "get_all_workers B qs s =
    fold (\<lambda>_ acc. fold (\<lambda>w acc. if list_ex (worker_eq w) acc then acc else acc @ [w])
        (model_all worker_class B None s) acc) (get_queue_names qs) []"

section \<open>Facts\<close>

lemma get_queue_ok_iff: "is_ok (get_queue qs n) \<longleftrightarrow> n \<in> set (get_queue_names qs)"
  using get_queue_configuration_ok_iff [of qs n]
  by (cases "get_queue_configuration qs n") (simp_all add: get_queue_def)

lemma get_queue_name: "get_queue qs n = Inr q \<Longrightarrow> q_name q = n"
  by (cases "get_queue_configuration qs n") (auto simp: get_queue_def)

lemma map_of_setdefault:
  "map_of (setdefault k v d) = (case map_of d k of None \<Rightarrow> (map_of d)(k \<mapsto> v) | Some _ \<Rightarrow> map_of d)"
proof (cases "map_of d k")
  case None
  then have "k \<notin> fst ` set d" by (simp add: map_of_eq_None_iff)
  with None show ?thesis by (auto simp: setdefault_def map_add_def fun_eq_iff split: option.splits)
next
  case (Some x)
  then have "k \<in> fst ` set d" by (metis map_of_eq_None_iff option.distinct(1))
  with Some show ?thesis by (simp add: setdefault_def)
qed

text \<open>Probing settings never override what the user configured.\<close>

lemma fail_fast_keeps:
  "map_of kwargs k = Some v \<Longrightarrow> map_of (fail_fast_kwargs cfg kwargs) k = Some v"
  by (auto simp: fail_fast_kwargs_def map_of_setdefault split: option.splits)

lemma get_queues_rest_ok:
  "get_queues_rest qs c ns = Inr rest \<Longrightarrow> map q_name rest = ns \<and>
     (\<forall>n\<in>set ns. \<exists>c'. map_of qs n = Some c' \<and> same_connection_params c c')"
proof (induction ns arbitrary: rest)
  case (Cons n ns)
  obtain c' where c': "map_of qs n = Some c'" "same_connection_params c c'"
    using Cons.prems by (auto simp: get_queue_configuration_def split: option.splits if_splits)
  obtain q rest' where q: "get_queue qs n = Inr q" "get_queues_rest qs c ns = Inr rest'" "rest = q # rest'"
    using Cons.prems c'
    by (cases "get_queue qs n"; cases "get_queues_rest qs c ns") (auto simp: get_queue_configuration_def)
  with Cons.IH [OF q(2)] c' get_queue_name show ?case by auto
qed simp

end
