(* ===== verification/Tables.thy ===== *)
theory Tables
  imports Prelude "HOL-Library.AList"
begin

text \<open>
  The database.  It is outside the repository: a table is a parameter, the rows a query over all its objects
  gives, in the order of their keys, and what saving and deleting a row does; the queries of the program are
  its conditions over the rows.  The locale \<open>table\<close> states what the program relies on.  The second half is a
  table kept in a field of a state, which meets the contract and on which witnesses run.
\<close>

section \<open>The contract of a table\<close>

record ('s, 'r) db_table =
  tb_rows :: "'s \<Rightarrow> 'r list"
  tb_save :: "'r \<Rightarrow> 's \<Rightarrow> 'r \<times> 's"
  tb_delete :: "'r \<Rightarrow> 's \<Rightarrow> 's"

locale table =
  fixes T :: "('s, 'r) db_table"
    and rid :: "'r \<Rightarrow> int option"
    and with_id :: "int \<Rightarrow> 'r \<Rightarrow> 'r"
  assumes rid_with_id: "rid (with_id i r) = Some i"
    and rows_distinct: "distinct (map rid (tb_rows T s))"
    and rows_saved: "r \<in> set (tb_rows T s) \<Longrightarrow> rid r \<noteq> None"
    and save_known: "rid r \<in> rid ` set (tb_rows T s) \<Longrightarrow> fst (tb_save T r s) = r \<and>
          tb_rows T (snd (tb_save T r s)) = map (\<lambda>x. if rid x = rid r then r else x) (tb_rows T s)"
    and save_new: "rid r = None \<Longrightarrow> \<exists>i. Some i \<notin> rid ` set (tb_rows T s) \<and> fst (tb_save T r s) = with_id i r \<and>
          tb_rows T (snd (tb_save T r s)) = tb_rows T s @ [with_id i r]"
    and delete_rows: "tb_rows T (tb_delete T r s) = filter (\<lambda>x. rid x \<noteq> rid r) (tb_rows T s)"
begin

lemma saved_in_rows:
  assumes "rid r = None \<or> rid r \<in> rid ` set (tb_rows T s)"
  shows "fst (tb_save T r s) \<in> set (tb_rows T (snd (tb_save T r s)))"
proof (cases "rid r = None")
  case True
  then show ?thesis using save_new [of r s] by auto
next
  case False
  with assms have known: "rid r \<in> rid ` set (tb_rows T s)" by blast
  then show ?thesis using save_known [of r s] by auto
qed

lemma save_others:
  assumes "rid r = None \<or> rid r \<in> rid ` set (tb_rows T s)"
  shows "filter (\<lambda>x. rid x \<noteq> rid (fst (tb_save T r s))) (tb_rows T (snd (tb_save T r s))) =
         filter (\<lambda>x. rid x \<noteq> rid (fst (tb_save T r s))) (tb_rows T s)"
proof (cases "rid r = None")
  case True
  then obtain i where "fst (tb_save T r s) = with_id i r"
      "tb_rows T (snd (tb_save T r s)) = tb_rows T s @ [with_id i r]"
    using save_new [of r s] by blast
  then show ?thesis by (simp add: rid_with_id)
next
  case False
  with assms have "fst (tb_save T r s) = r"
      "tb_rows T (snd (tb_save T r s)) = map (\<lambda>x. if rid x = rid r then r else x) (tb_rows T s)"
    using save_known [of r s] by auto
  moreover have "filter (\<lambda>x. rid x \<noteq> rid r) (map (\<lambda>x. if rid x = rid r then r else x) xs) =
      filter (\<lambda>x. rid x \<noteq> rid r) xs" for xs
    by (induction xs) auto
  ultimately show ?thesis by simp
qed

end

section \<open>A table in memory\<close>

definition row_index :: "('r \<Rightarrow> int option) \<Rightarrow> 'r list \<Rightarrow> (int option \<times> 'r) list"
  where "row_index rid xs = AList.clearjunk (map (\<lambda>x. (rid x, x)) (filter (\<lambda>x. rid x \<noteq> None) xs))"

definition norm_rows :: "('r \<Rightarrow> int option) \<Rightarrow> 'r list \<Rightarrow> 'r list"
  where "norm_rows rid xs = map snd (row_index rid xs)"

definition next_id :: "('r \<Rightarrow> int option) \<Rightarrow> 'r list \<Rightarrow> int"
  where "next_id rid xs = fold max (map (\<lambda>x. case rid x of None \<Rightarrow> 0 | Some i \<Rightarrow> i) xs) 0 + 1"

definition save_row :: "('r \<Rightarrow> int option) \<Rightarrow> 'r \<Rightarrow> 'r list \<Rightarrow> 'r list"
  where "save_row rid r xs =
    (if rid r \<in> rid ` set xs then map (\<lambda>x. if rid x = rid r then r else x) xs else xs @ [r])"

definition mem_table ::
    "('s \<Rightarrow> 'r list) \<Rightarrow> ('r list \<Rightarrow> 's \<Rightarrow> 's) \<Rightarrow> ('r \<Rightarrow> int option) \<Rightarrow> (int \<Rightarrow> 'r \<Rightarrow> 'r) \<Rightarrow> ('s, 'r) db_table"
  where "mem_table rows put rid with_id =
    \<lparr> tb_rows = (\<lambda>s. norm_rows rid (rows s)),
      tb_save = (\<lambda>r s. let xs = norm_rows rid (rows s);
                        r' = (if rid r = None then with_id (next_id rid xs) r else r)
                    in (r', put (save_row rid r' xs) s)),
      tb_delete = (\<lambda>r s. put (filter (\<lambda>x. rid x \<noteq> rid r) (norm_rows rid (rows s))) s) \<rparr>"

lemma set_clearjunk_subset: "p \<in> set (AList.clearjunk al) \<Longrightarrow> p \<in> set al"
  by (metis distinct_clearjunk map_of_SomeD map_of_clearjunk map_of_is_SomeI prod.collapse)

lemma row_index_key: "p \<in> set (row_index rid xs) \<Longrightarrow> fst p = rid (snd p) \<and> fst p \<noteq> None"
  unfolding row_index_def by (drule set_clearjunk_subset) auto

lemma norm_rows_ids: "map rid (norm_rows rid xs) = map fst (row_index rid xs)"
  using row_index_key [where rid = rid and xs = xs] by (auto simp: norm_rows_def)

lemma distinct_norm_rows: "distinct (map rid (norm_rows rid xs))"
  by (simp add: norm_rows_ids row_index_def)

lemma norm_rows_saved: "x \<in> set (norm_rows rid xs) \<Longrightarrow> rid x \<noteq> None"
  using row_index_key [where rid = rid and xs = xs] by (auto simp: norm_rows_def)

lemma norm_rows_id:
  assumes "distinct (map rid xs)" "\<forall>x\<in>set xs. rid x \<noteq> None"
  shows "norm_rows rid xs = xs"
proof -
  have "filter (\<lambda>x. rid x \<noteq> None) xs = xs" using assms(2) by (simp add: filter_id_conv)
  then show ?thesis using assms(1) by (simp add: norm_rows_def row_index_def distinct_clearjunk_id comp_def)
qed

lemma fold_max_ge: "(m :: int) \<le> fold max ms m" "x \<in> set ms \<Longrightarrow> x \<le> fold max ms m"
proof (induction ms arbitrary: m)
  case (Cons a as)
  { case 1 show ?case using Cons.IH(1) [of "max a m"] by simp }
  { case 2 then show ?case using Cons.IH(1) [of "max a m"] Cons.IH(2) [of "max a m"] by auto }
qed simp_all

lemma next_id_fresh: "Some (next_id rid xs) \<notin> rid ` set xs"
proof
  assume "Some (next_id rid xs) \<in> rid ` set xs"
  then obtain x where "x \<in> set xs" "rid x = Some (next_id rid xs)" by auto
  then have "next_id rid xs \<in> set (map (\<lambda>x. case rid x of None \<Rightarrow> 0 | Some i \<Rightarrow> i) xs)"
    by (force intro: rev_image_eqI)
  from fold_max_ge(2) [OF this, of 0] show False by (simp add: next_id_def)
qed

lemma norm_rows_save:
  assumes "distinct (map rid xs)" "\<forall>x\<in>set xs. rid x \<noteq> None" "rid r \<noteq> None"
  shows "norm_rows rid (save_row rid r xs) = save_row rid r xs"
proof (rule norm_rows_id)
  have same: "map (\<lambda>x. rid (if rid x = rid r then r else x)) xs = map rid xs" by (rule map_cong) simp_all
  show "distinct (map rid (save_row rid r xs))"
  proof (cases "rid r \<in> rid ` set xs")
    case True
    show ?thesis by (simp only: save_row_def True if_True map_map comp_def same assms(1))
  qed (use assms(1) in \<open>simp add: save_row_def\<close>)
  show "\<forall>x\<in>set (save_row rid r xs). rid x \<noteq> None" using assms(2,3) by (auto simp: save_row_def)
qed

lemma table_mem_table:
  assumes get_put: "\<And>xs s. rows (put xs s) = xs" and rid: "\<And>i r. rid (with_id i r) = Some i"
  shows "table (mem_table rows put rid with_id) rid with_id"
proof
  note norm = distinct_norm_rows norm_rows_saved
  note simps = mem_table_def Let_def get_put rid
  show "rid (with_id i r) = Some i" for i r by (rule rid)
  show "distinct (map rid (tb_rows (mem_table rows put rid with_id) s))" for s
    by (simp add: simps norm)
  show "r \<in> set (tb_rows (mem_table rows put rid with_id) s) \<Longrightarrow> rid r \<noteq> None" for r s
    by (simp add: simps norm_rows_saved)
  show "rid r \<in> rid ` set (tb_rows (mem_table rows put rid with_id) s) \<Longrightarrow>
      fst (tb_save (mem_table rows put rid with_id) r s) = r \<and>
      tb_rows (mem_table rows put rid with_id) (snd (tb_save (mem_table rows put rid with_id) r s)) =
        map (\<lambda>x. if rid x = rid r then r else x) (tb_rows (mem_table rows put rid with_id) s)" for r s
  proof -
    assume "rid r \<in> rid ` set (tb_rows (mem_table rows put rid with_id) s)"
    then have known: "rid r \<in> rid ` set (norm_rows rid (rows s))" by (simp add: simps)
    then have some: "rid r \<noteq> None" using norm_rows_saved [of _ rid "rows s"] by auto
    have "norm_rows rid (save_row rid r (norm_rows rid (rows s))) = save_row rid r (norm_rows rid (rows s))"
      using norm some by (intro norm_rows_save) auto
    then show ?thesis using known some by (auto simp: simps save_row_def)
  qed
  show "rid r = None \<Longrightarrow> \<exists>i. Some i \<notin> rid ` set (tb_rows (mem_table rows put rid with_id) s) \<and>
      fst (tb_save (mem_table rows put rid with_id) r s) = with_id i r \<and>
      tb_rows (mem_table rows put rid with_id) (snd (tb_save (mem_table rows put rid with_id) r s)) =
        tb_rows (mem_table rows put rid with_id) s @ [with_id i r]" for r s
  proof -
    assume new: "rid r = None"
    let ?xs = "norm_rows rid (rows s)" and ?i = "next_id rid (norm_rows rid (rows s))"
    have "norm_rows rid (save_row rid (with_id ?i r) ?xs) = save_row rid (with_id ?i r) ?xs"
      using norm by (intro norm_rows_save) (auto simp: rid)
    then show ?thesis
      using new next_id_fresh [of rid ?xs] by (intro exI [of _ ?i]) (simp add: simps save_row_def)
  qed
  show "tb_rows (mem_table rows put rid with_id) (tb_delete (mem_table rows put rid with_id) r s) =
      filter (\<lambda>x. rid x \<noteq> rid r) (tb_rows (mem_table rows put rid with_id) s)" for r s
  proof -
    have "norm_rows rid (filter (\<lambda>x. rid x \<noteq> rid r) (norm_rows rid (rows s))) =
        filter (\<lambda>x. rid x \<noteq> rid r) (norm_rows rid (rows s))"
      using norm by (intro norm_rows_id) (auto intro: distinct_map_filter)
    then show ?thesis by (simp add: simps)
  qed
qed

end
