(* ===== verification/Tasks.thy ===== *)
theory Tasks
  imports Getters Tables
begin

text \<open>
  \<open>scheduler/models/task.py\<close> and \<open>scheduler/models/args.py\<close>: the tasks kept in the database, their arguments,
  when a task is due next, and how it is put on its queue.

  The database is outside the repository.  A table is a parameter: the rows a query over all its objects
  gives, in the order of their keys, and what saving and deleting a row does; the queries of the program are
  its conditions over the rows.  \<open>app_env\<close> extends the outside world with the task table, the cron parser,
  calls of functions, and mail.  All queues are taken to share one broker.
  Rows do not include the columns that the database fills in by itself.
\<close>

section \<open>Tasks and their arguments\<close>

record task_arg =
  arg_type :: string
  arg_val :: string

record task =
  t_id :: "int option"
  t_name :: string
  t_task_type :: string
  t_callable :: string
  t_callable_args :: "task_arg list"
  t_callable_kwargs :: "(string \<times> task_arg) list"
  t_enabled :: bool
  t_queue :: string
  t_job_name :: "string option"
  t_at_front :: bool
  t_timeout :: "int option"
  t_result_ttl :: "int option"
  t_failed_runs :: int
  t_successful_runs :: int
  t_last_successful_run :: "time option"
  t_last_failed_run :: "time option"
  t_interval :: "int option"
  t_interval_unit :: "string option"
  t_repeat :: "int option"
  t_scheduled_time :: "time option"
  t_cron_string :: "string option"

record 's app_env = "'s host_env" +
  a_queues :: queue_table
  a_tz :: local_tz
  a_tasks :: "('s, task) db_table"
  a_croniter :: "string option \<Rightarrow> (time \<Rightarrow> time) result"
  a_apply :: "string \<Rightarrow> pyval list \<Rightarrow> (string \<times> pyval) list \<Rightarrow> 's \<Rightarrow> ('s, pyval) outcome"
  a_fromisoformat :: "string \<Rightarrow> time option"
  a_mail_admins :: "string \<Rightarrow> string \<Rightarrow> 's \<Rightarrow> 's"

definition CRON :: string where "CRON = ''CronTaskType''"
definition REPEATABLE :: string where "REPEATABLE = ''RepeatableTaskType''"
definition ONCE :: string where "ONCE = ''OnceTaskType''"

lemma task_type_distinct [simp]:
  "CRON \<noteq> REPEATABLE" "CRON \<noteq> ONCE" "REPEATABLE \<noteq> ONCE" "REPEATABLE \<noteq> CRON" "ONCE \<noteq> CRON" "ONCE \<noteq> REPEATABLE"
  by (simp_all add: CRON_def REPEATABLE_def ONCE_def)

definition ARG_TYPES :: "string list"
  where "ARG_TYPES = [''str'', ''int'', ''bool'', ''datetime'', ''callable'']"

definition arg_clean :: "('s, 'x) app_env_scheme \<Rightarrow> task_arg \<Rightarrow> unit result"
  where "arg_clean A a =
    (if arg_type a \<notin> set ARG_TYPES then Inl ValidationError
     else if arg_type a = ''callable'' then
       (case callable_func A (arg_val a) of Inl e \<Rightarrow> Inl (if is_Exception e then ValidationError else e) | Inr _ \<Rightarrow> Inr ())
     else if arg_type a = ''datetime'' then
       (if a_fromisoformat A (arg_val a) = None then Inl ValidationError else Inr ())
     else if arg_type a = ''bool'' then
       (if py_lower (arg_val a) \<in> {''true'', ''false''} then Inr () else Inl ValidationError)
     else if arg_type a = ''int'' then
       (if int_of_str (arg_val a) = None then Inl ValidationError else Inr ())
     else Inr ())"

definition arg_value :: "('s, 'x) app_env_scheme \<Rightarrow> task_arg \<Rightarrow> 's \<Rightarrow> ('s, pyval) outcome"
  where "arg_value A a s =
    (if arg_type a = ''callable'' then
       (case callable_func A (arg_val a) of Inl e \<Rightarrow> (Inl e, s) | Inr f \<Rightarrow> a_apply A f [] [] s)
     else if arg_type a = ''datetime'' then
       (case a_fromisoformat A (arg_val a) of None \<Rightarrow> (Inl ValueError, s) | Some t \<Rightarrow> (Inr (VDatetime t), s))
     else if arg_type a = ''bool'' then (Inr (VBool (py_lower (arg_val a) = ''true'')), s)
     else if arg_type a = ''int'' then
       (case int_of_str (arg_val a) of None \<Rightarrow> (Inl ValueError, s) | Some i \<Rightarrow> (Inr (VInt i), s))
     else if arg_type a = ''str'' then (Inr (VStr (arg_val a)), s)
     else (Inl KeyError, s))"

fun parse_args :: "('s, 'x) app_env_scheme \<Rightarrow> task_arg list \<Rightarrow> 's \<Rightarrow> ('s, pyval list) outcome" where
  "parse_args A [] s = (Inr [], s)"
| "parse_args A (a # as) s =
     and_then (arg_value A a s) (\<lambda>v s1. and_then (parse_args A as s1) (\<lambda>vs s2. (Inr (v # vs), s2)))"

fun parse_kwargs_items :: "('s, 'x) app_env_scheme \<Rightarrow> (string \<times> task_arg) list \<Rightarrow> 's \<Rightarrow> ('s, (string \<times> pyval) list) outcome" where
  "parse_kwargs_items A [] s = (Inr [], s)"
| "parse_kwargs_items A ((k, a) # as) s =
     and_then (arg_value A a s) (\<lambda>v s1. and_then (parse_kwargs_items A as s1) (\<lambda>vs s2. (Inr ((k, v) # vs), s2)))"

definition parse_kwargs :: "('s, 'x) app_env_scheme \<Rightarrow> (string \<times> task_arg) list \<Rightarrow> 's \<Rightarrow> ('s, (string \<times> pyval) list) outcome"
  where "parse_kwargs A kwargs s =
    and_then (parse_kwargs_items A kwargs s) (\<lambda>items s1. (Inr (fold (\<lambda>(k, v). AList.update k v) items []), s1))"

definition function_string :: "('s, 'x) app_env_scheme \<Rightarrow> task \<Rightarrow> 's \<Rightarrow> ('s, string) outcome"
  where "function_string A t s =
    and_then (parse_args A (t_callable_args t) s) (\<lambda>args s1.
    and_then (parse_kwargs A (t_callable_kwargs t) s1) (\<lambda>kwargs s2.
      (Inr (t_callable t @ ''('' @ py_join '', '' (map (h_repr A) args
          @ map (\<lambda>(k, v). k @ ''='' @ h_repr A v) kwargs) @ '')''), s2)))"

definition task_str :: "('s, 'x) app_env_scheme \<Rightarrow> task \<Rightarrow> 's \<Rightarrow> ('s, string) outcome"
  where "task_str A t s =
    and_then (function_string A t s) (\<lambda>func s1.
      (Inr (t_task_type t @ ''['' @ t_name t @ ''='' @ func @ '']''), s1))"

section \<open>When a task is due\<close>

definition unit_seconds :: "string \<Rightarrow> int option"
  where "unit_seconds u = map_of [(''seconds'', 1), (''minutes'', 60), (''hours'', 3600), (''days'', 86400), (''weeks'', 604800)] u"

definition interval_seconds :: "task \<Rightarrow> int result"
  where "interval_seconds t =
    (case (t_interval_unit t, t_interval t) of
       (Some u, Some n) \<Rightarrow> (case unit_seconds u of None \<Rightarrow> Inl TypeError | Some k \<Rightarrow> Inr (n * k))
     | _ \<Rightarrow> Inl TypeError)"

definition get_next_cron_time :: "('s, 'x) app_env_scheme \<Rightarrow> string option \<Rightarrow> 's \<Rightarrow> ('s, time option) outcome"
  where "get_next_cron_time A cron_string s =
    (case cron_string of None \<Rightarrow> (Inr None, s)
     | Some c \<Rightarrow> (let (now, s1) = utcnow A s
                  in case a_croniter A (Some c) of Inl e \<Rightarrow> (Inl e, s1) | Inr get_next \<Rightarrow> (Inr (Some (get_next now)), s1)))"

definition ceil_div :: "int \<Rightarrow> int \<Rightarrow> int"
  where "ceil_div a b = - ((- a) div b)"

definition next_due :: "int \<Rightarrow> time \<Rightarrow> time \<Rightarrow> int option \<Rightarrow> time \<times> int option"
  \<comment> \<open>of a repeatable task, \<open>interval\<close> apart, that was due at \<open>due\<close> before \<open>now\<close>\<close>
  where "next_due interval now due rep =
    (let gap = ceil_div (now - due) interval
     in case rep of None \<Rightarrow> (due + interval * gap, None)
        | Some n \<Rightarrow> if n \<ge> gap then (due + interval * gap, Some (n - gap)) else (due, rep))"

definition schedule_time :: "('s, 'x) app_env_scheme \<Rightarrow> task \<Rightarrow> 's \<Rightarrow> task \<times> ('s, time option) outcome"
  where "schedule_time A t s =
    (if t_task_type t = CRON then
       (case get_next_cron_time A (t_cron_string t) s of
          (Inl e, s1) \<Rightarrow> (t, Inl e, s1)
        | (Inr due, s1) \<Rightarrow> (t\<lparr>t_scheduled_time := due\<rparr>, Inr due, s1))
     else if t_task_type t = REPEATABLE then
       (let (now, s1) = utcnow A s
        in case t_scheduled_time t of
             None \<Rightarrow> (t, Inl TypeError, s1)
           | Some due \<Rightarrow>
               if due \<ge> now then (t, Inr (Some due), s1)
               else (case interval_seconds t of
                  Inl e \<Rightarrow> (t, Inl e, s1)
                | Inr interval \<Rightarrow>
                    if interval = 0 then (t, Inl ZeroDivisionError, s1)
                    else (let (due', rep') = next_due (secs interval) now due (t_repeat t)
                          in (t\<lparr>t_scheduled_time := Some due', t_repeat := rep'\<rparr>, Inr (Some due'), s1))))
     else (t, Inr (t_scheduled_time t), s))"

section \<open>Scheduling a task\<close>

definition task_super_save :: "('s, 'x) app_env_scheme \<Rightarrow> task \<Rightarrow> 's \<Rightarrow> task \<times> 's"
  where "task_super_save A t s = tb_save (a_tasks A) t s"

definition is_scheduled :: "('s, 'x) app_env_scheme \<Rightarrow> task \<Rightarrow> 's \<Rightarrow> task \<times> ('s, bool) outcome"
  where "is_scheduled A t s =
    (case t_job_name t of
       None \<Rightarrow> (t, Inr False, s)
     | Some n \<Rightarrow>
         (case get_queue (a_queues A) (t_queue t) of
            Inl e \<Rightarrow> (t, Inl e, s)
          | Inr q \<Rightarrow>
              (let res = list_ex (\<lambda>k. reg_exists A (queue_registry k q) n s) [ScheduledJobs, QueuedJobs, ActiveJobs]
               in if res then (t, Inr True, s)
                  else (let (t1, s1) = task_super_save A (t\<lparr>t_job_name := None\<rparr>) s in (t1, Inr False, s1)))))"

definition id_str :: "int option \<Rightarrow> string"
  where "id_str i = (case i of None \<Rightarrow> ''None'' | Some n \<Rightarrow> str_of_int n)"

definition next_job_id :: "('s, 'x) app_env_scheme \<Rightarrow> task \<Rightarrow> 's \<Rightarrow> string \<times> 's"
  where "next_job_id A t s =
    (let (now, s1) = utcnow A s in (t_queue t @ '':'' @ id_str (t_id t) @ '':'' @ compact_stamp now, s1))"

definition enqueue_args :: "('s, 'x) app_env_scheme \<Rightarrow> task \<Rightarrow> 's \<Rightarrow> ('s, creation \<times> bool) outcome"
  \<comment> \<open>what to create and whether at the front of the queue, with the function and its arguments\<close>
  where "enqueue_args A t s =
    (case callback_init A (FFunction ''scheduler.models.task.success_callback'') None of Inl e \<Rightarrow> (Inl e, s)
     | Inr on_success \<Rightarrow>
     (case callback_init A (FFunction ''scheduler.models.task.failure_callback'') None of Inl e \<Rightarrow> (Inl e, s)
     | Inr on_failure \<Rightarrow>
     (let (name, s1) = next_job_id A t s in
     case (if t_task_type t = REPEATABLE
           then rbind (interval_seconds t) (\<lambda>i. Inr [(''interval'', VFloat (of_int i)), (''repeat'', opt_val VInt (t_repeat t))])
           else Inr []) of Inl e \<Rightarrow> (Inl e, s1)
     | Inr meta \<Rightarrow>
       (Inr (\<lparr> c_func = FFunction ''scheduler.models.task.run_task'', c_queue_name = t_queue t,
              c_args = Some [VStr (t_task_type t), opt_val VInt (t_id t)], c_kwargs = None,
              c_result_ttl = opt_val VInt (t_result_ttl t), c_job_info_ttl = VNone, c_status = None,
              c_description = None, c_timeout = (if or_int (t_timeout t) 0 = 0 then VNone else opt_val VInt (t_timeout t)),
              c_name = Some name, c_task_type = Some (t_task_type t), c_scheduled_task_id = t_id t,
              c_meta = Some meta, c_on_success = Some on_success, c_on_failure = Some on_failure,
              c_on_stopped = None, c_at_front = None \<rparr>, t_at_front t), s1))))"

definition enqueue_to_run :: "('s, 'x) app_env_scheme \<Rightarrow> task \<Rightarrow> 's \<Rightarrow> ('s, bool) outcome"
  where "enqueue_to_run A t s =
    and_then (enqueue_args A t s) (\<lambda>(c, at_front) s1.
      case get_queue (a_queues A) (t_queue t) of
        Inl e \<Rightarrow> (Inl e, s1)
      | Inr q \<Rightarrow> and_then (create_and_enqueue_job A (a_tz A) q Immediately at_front c s1) (\<lambda>_ s2. (Inr True, s2)))"

definition task_schedule :: "('s, 'x) app_env_scheme \<Rightarrow> task \<Rightarrow> 's \<Rightarrow> task \<times> ('s, bool) outcome"
  where "task_schedule A t s =
    (case is_scheduled A t s of
       (t1, Inl e, s1) \<Rightarrow> (t1, Inl e, s1)
     | (t1, Inr True, s1) \<Rightarrow> (t1, Inr False, s1)
     | (t1, Inr False, s1) \<Rightarrow>
         if \<not> t_enabled t1 then (t1, and_then (task_str A t1 s1) (\<lambda>_ s2. (Inr False, s2)))
         else (case schedule_time A t1 s1 of
            (t2, Inl e, s2) \<Rightarrow> (t2, Inl e, s2)
          | (t2, Inr due, s2) \<Rightarrow>
              (let (late, s3) = (if t_task_type t2 \<in> {REPEATABLE, ONCE}
                     then (let (now, s2') = utcnow A s2
                           in (case due of None \<Rightarrow> Inl TypeError | Some d \<Rightarrow> Inr (d < now), s2'))
                     else (Inr False, s2))
               in case late of
                    Inl e \<Rightarrow> (t2, Inl e, s3)
                  | Inr True \<Rightarrow> (t2, and_then (task_str A t2 s3) (\<lambda>_ s4. (Inr False, s4)))
                  | Inr False \<Rightarrow>
                      (case enqueue_args A t2 s3 of
                         (Inl e, s4) \<Rightarrow> (t2, Inl e, s4)
                       | (Inr (c, at_front), s4) \<Rightarrow>
                           (case get_queue (a_queues A) (t_queue t2) of
                              Inl e \<Rightarrow> (t2, Inl e, s4)
                            | Inr q \<Rightarrow>
                                (case create_and_enqueue_job A (a_tz A) q
                                        (case due of Some d \<Rightarrow> At (Aware d) | None \<Rightarrow> InvalidWhen) at_front c s4 of
                                   (Inl e, s5) \<Rightarrow> (t2, Inl e, s5)
                                 | (Inr j, s5) \<Rightarrow> (t2\<lparr>t_job_name := Some (m_name j)\<rparr>, Inr True, s5)))))))"

section \<open>Checking and saving a task\<close>

definition clean_callable :: "('s, 'x) app_env_scheme \<Rightarrow> task \<Rightarrow> unit result"
  where "clean_callable A t =
    (case callable_func A (t_callable t) of Inr _ \<Rightarrow> Inr ()
     | Inl e \<Rightarrow> Inl (if is_Exception e then ValidationError else e))"

definition clean_queue :: "('s, 'x) app_env_scheme \<Rightarrow> task \<Rightarrow> unit result"
  where "clean_queue A t =
    (if t_queue t \<in> set (get_queue_names (a_queues A)) then Inr () else Inl ValidationError)"

definition clean_interval_unit :: "scheduler_config \<Rightarrow> task \<Rightarrow> unit result"
  where "clean_interval_unit cfg t =
    rbind (interval_seconds t) (\<lambda>i. if SCHEDULER_INTERVAL cfg > i then Inl ValidationError else Inr ())"

definition clean_result_ttl :: "task \<Rightarrow> unit result"
  where "clean_result_ttl t =
    (case t_result_ttl t of None \<Rightarrow> Inr ()
     | Some ttl \<Rightarrow>
         if ttl \<noteq> 0 \<and> ttl \<noteq> -1 then
           rbind (interval_seconds t) (\<lambda>i.
             if ttl < i \<and> or_int (t_repeat t) 0 \<noteq> 0 then Inl ValidationError else Inr ())
         else Inr ())"

definition clean_cron_string :: "('s, 'x) app_env_scheme \<Rightarrow> task \<Rightarrow> unit result"
  where "clean_cron_string A t =
    (case a_croniter A (t_cron_string t) of Inr _ \<Rightarrow> Inr ()
     | Inl e \<Rightarrow> Inl (if e = ValueError then ValidationError else e))"

definition task_clean :: "('s, 'x) app_env_scheme \<Rightarrow> task \<Rightarrow> 's \<Rightarrow> task \<times> ('s, unit) outcome"
  where "task_clean A t s =
    (let checks =
       (if t_task_type t \<notin> {CRON, REPEATABLE, ONCE} then Inl ValidationError else
        rbind (clean_queue A t) (\<lambda>_.
        rbind (clean_callable A t) (\<lambda>_.
        rbind (if t_task_type t = CRON then clean_cron_string A t else Inr ()) (\<lambda>_.
        if t_task_type t = REPEATABLE
        then rbind (clean_interval_unit (e_cfg A) t) (\<lambda>_. clean_result_ttl t) else Inr ()))))
     in case checks of
          Inl e \<Rightarrow> (t, Inl e, s)
        | Inr _ \<Rightarrow>
            (let (t1, s1) = (if t_task_type t = REPEATABLE \<and> t_scheduled_time t = None
                   then (let (now, s0) = utcnow A s in (t\<lparr>t_scheduled_time := Some (now + secs 2)\<rparr>, s0))
                   else (t, s))
             in if t_task_type t1 = ONCE then
                  (case t_scheduled_time t1 of
                     None \<Rightarrow> (t1, Inl ValidationError, s1)
                   | Some due \<Rightarrow> (let (now, s2) = utcnow A s1
                                 in (t1, if due < now then Inl ValidationError else Inr (), s2)))
                else (t1, Inr (), s1)))"

definition task_save :: "('s, 'x) app_env_scheme \<Rightarrow> bool \<Rightarrow> bool \<Rightarrow> task \<Rightarrow> 's \<Rightarrow> task \<times> ('s, unit) outcome"
  where "task_save A should_clean schedule_job t s =
    (case (if should_clean then task_clean A t s else (t, Inr (), s)) of
       (t1, Inl e, s1) \<Rightarrow> (t1, Inl e, s1)
     | (t1, Inr _, s1) \<Rightarrow>
         (let (t2, s2) = task_super_save A t1 s1
          in if schedule_job then
               (case task_schedule A t2 s2 of
                  (t3, Inl e, s3) \<Rightarrow> (t3, Inl e, s3)
                | (t3, Inr _, s3) \<Rightarrow> (let (t4, s4) = task_super_save A t3 s3 in (t4, Inr (), s4)))
             else (t2, Inr (), s2)))"

definition unschedule :: "('s, 'x) app_env_scheme \<Rightarrow> task \<Rightarrow> 's \<Rightarrow> task \<times> ('s, bool) outcome"
  where "unschedule A t s =
    (case (case t_job_name t of
             None \<Rightarrow> (t, Inr (), s)
           | Some n \<Rightarrow>
               (case get_queue (a_queues A) (t_queue t) of
                  Inl e \<Rightarrow> (t, Inl e, s)
                | Inr q \<Rightarrow> (t\<lparr>t_job_name := None\<rparr>, Inr (), delete_job A q n True s))) of
       (t1, Inl e, s1) \<Rightarrow> (t1, Inl e, s1)
     | (t1, Inr _, s1) \<Rightarrow>
         (case task_save A False False t1 s1 of
            (t2, Inl e, s2) \<Rightarrow> (t2, Inl e, s2)
          | (t2, Inr _, s2) \<Rightarrow> (t2, Inr True, s2)))"

definition task_delete :: "('s, 'x) app_env_scheme \<Rightarrow> task \<Rightarrow> 's \<Rightarrow> ('s, unit) outcome"
  where "task_delete A t s =
    (case unschedule A t s of
       (t1, Inl e, s1) \<Rightarrow> (Inl e, s1)
     | (t1, Inr _, s1) \<Rightarrow> (Inr (), tb_delete (a_tasks A) t1 s1))"

section \<open>Running a task\<close>

definition get_task_for_job :: "('s, 'x) app_env_scheme \<Rightarrow> job_model \<Rightarrow> 's \<Rightarrow> task option"
  where "get_task_for_job A j s =
    (if j_task_type j = None \<or> j_scheduled_task_id j = None then None
     else find (\<lambda>t. t_id t = j_scheduled_task_id j) (tb_rows (a_tasks A) s))"

definition failure_callback :: "('s, 'x) app_env_scheme \<Rightarrow> job_model \<Rightarrow> 's \<Rightarrow> ('s, unit) outcome"
  where "failure_callback A j s =
    (case get_task_for_job A j s of
       None \<Rightarrow> (Inr (), s)
     | Some t \<Rightarrow>
         (let s1 = a_mail_admins A (''Task '' @ id_str (t_id t) @ ''/'' @ t_name t @ '' has failed'')
                     ''See django-admin for logs'' s;
              (now, s2) = utcnow A s1
          in snd (task_save A False True
               (t\<lparr>t_job_name := None, t_failed_runs := t_failed_runs t + 1, t_last_failed_run := Some now\<rparr>) s2)))"

definition success_callback :: "('s, 'x) app_env_scheme \<Rightarrow> job_model \<Rightarrow> 's \<Rightarrow> ('s, unit) outcome"
  where "success_callback A j s =
    (case get_task_for_job A j s of
       None \<Rightarrow> (Inr (), s)
     | Some t \<Rightarrow>
         (let (now, s1) = utcnow A s
          in snd (task_save A False True
               (t\<lparr>t_job_name := None, t_successful_runs := t_successful_runs t + 1, t_last_successful_run := Some now\<rparr>) s1)))"

definition get_scheduled_task :: "('s, 'x) app_env_scheme \<Rightarrow> string \<Rightarrow> int \<Rightarrow> 's \<Rightarrow> task result"
  where "get_scheduled_task A task_type_str task_id s =
    (if task_type_str \<notin> set task_types then Inl ValueError
     else case find (\<lambda>t. t_task_type t = task_type_str \<and> t_id t = Some task_id) (tb_rows (a_tasks A) s) of
            None \<Rightarrow> Inl ValueError | Some t \<Rightarrow> Inr t)"

definition run_task :: "('s, 'x) app_env_scheme \<Rightarrow> string \<Rightarrow> pyval \<Rightarrow> 's \<Rightarrow> ('s, pyval) outcome"
  where "run_task A task_model task_id s =
    (case (case task_id of VStr i \<Rightarrow> (case int_of_str i of None \<Rightarrow> Inl ValueError | Some n \<Rightarrow> Inr n)
           | VInt n \<Rightarrow> Inr n | _ \<Rightarrow> Inl ValueError) of
       Inl e \<Rightarrow> (Inl e, s)
     | Inr n \<Rightarrow>
         (case get_scheduled_task A task_model n s of
            Inl e \<Rightarrow> (Inl e, s)
          | Inr t \<Rightarrow>
              and_then (task_str A t s) (\<lambda>_ s1.
              and_then (parse_args A (t_callable_args t) s1) (\<lambda>args s2.
              and_then (parse_kwargs A (t_callable_kwargs t) s2) (\<lambda>kwargs s3.
                case callable_func A (t_callable t) of Inl e \<Rightarrow> (Inl e, s3)
                | Inr f \<Rightarrow> a_apply A f args kwargs s3)))))"

section \<open>Facts\<close>

text \<open>The next due time is the first one of the task's sequence that is not past.\<close>

lemma ceil_div_bounds:
  assumes "0 < (b::int)"
  shows "a \<le> b * ceil_div a b" and "b * ceil_div a b < a + b"
proof -
  have "b * ((- a) div b) \<le> - a" using assms pos_mod_sign [of b "- a"] mult_div_mod_eq [of b "- a"] by linarith
  then show "a \<le> b * ceil_div a b" by (simp add: ceil_div_def)
  have "- a - b < b * ((- a) div b)"
    using assms pos_mod_bound [of b "- a"] mult_div_mod_eq [of b "- a"] by linarith
  then show "b * ceil_div a b < a + b" by (simp add: ceil_div_def)
qed

lemma next_due_first:
  assumes "0 < interval" "due < now" and rep: "\<And>n. rep = Some n \<Longrightarrow> n \<ge> ceil_div (now - due) interval"
  shows "now \<le> fst (next_due interval now due rep)"
    and "fst (next_due interval now due rep) < now + interval"
    and "(fst (next_due interval now due rep) - due) mod interval = 0"
    and "rep = Some n \<Longrightarrow> \<exists>m. snd (next_due interval now due rep) = Some m \<and> 0 \<le> m \<and> m < n"
proof -
  have val: "fst (next_due interval now due rep) = due + interval * ceil_div (now - due) interval"
    using rep by (auto simp: next_due_def Let_def split: option.splits)
  show "now \<le> fst (next_due interval now due rep)"
    unfolding val using ceil_div_bounds(1) [OF assms(1), of "now - due"] by linarith
  show "fst (next_due interval now due rep) < now + interval"
    unfolding val using ceil_div_bounds(2) [OF assms(1), of "now - due"] by linarith
  show "(fst (next_due interval now due rep) - due) mod interval = 0" unfolding val by simp
  have "0 < interval * ceil_div (now - due) interval"
    using ceil_div_bounds(1) [OF assms(1), of "now - due"] assms(2) by linarith
  then have pos: "0 < ceil_div (now - due) interval" using assms(1) by (simp add: zero_less_mult_iff)
  show "\<exists>m. snd (next_due interval now due rep) = Some m \<and> 0 \<le> m \<and> m < n" if "rep = Some n"
    using that rep [OF that] pos by (auto simp: next_due_def Let_def)
qed

section \<open>Tasks in memory\<close>

record app_mem = mem +
  d_tasks :: "task list"

definition task_with_id :: "int \<Rightarrow> task \<Rightarrow> task"
  where "task_with_id i t = t\<lparr>t_id := Some i\<rparr>"

definition mem_tasks :: "('m app_mem_scheme, task) db_table"
  where "mem_tasks = mem_table d_tasks (\<lambda>xs m. m\<lparr>d_tasks := xs\<rparr>) t_id task_with_id"

interpretation mem_tasks: table mem_tasks t_id task_with_id
  unfolding mem_tasks_def by (rule table_mem_table) (simp_all add: task_with_id_def)

definition mem_queues :: queue_table
  where "mem_queues = [(''default'', \<lparr> DB = Some 0, UNIX_SOCKET_PATH = None, URL = None, HOST = Some ''localhost'',
     PORT = Some 6379, USERNAME = None, PASSWORD = None, ASYNC = True, SENTINELS = None, SENTINEL_KWARGS = None,
     MASTER_NAME = None, CONNECTION_KWARGS = None \<rparr>)]"

definition mem_app :: "scheduler_config \<Rightarrow> 'm app_mem_scheme app_env"
  \<comment> \<open>one queue, one cron schedule, which is due every minute, and functions that return their number of arguments\<close>
  where "mem_app cfg = host_env.extend (mem_host cfg) (app_env.fields mem_queues \<lparr> tz_timezone = 0, tz_altzone = 0, tz_daylight = 0 \<rparr> mem_tasks
     (\<lambda>c. if c = Some ''* * * * *'' then Inr (\<lambda>t. (t div secs 60 + 1) * secs 60) else Inl ValueError)
     (\<lambda>f args kwargs s. (Inr (VInt (int (length args))), s))
     (\<lambda>_. None)
     (\<lambda>subject text s. s))"

lemma mem_app_host: "host (mem_app cfg) mem_view"
proof -
  have "broker (mem_env cfg) mem_view" by (rule mem_broker.broker_axioms)
  then have "broker (mem_app cfg) mem_view"
    by (rule broker_same_commands) (simp_all add: mem_app_def mem_host_def mem_env_ext_def host_env.defs app_env.defs)
  then show ?thesis by (rule host.intro)
qed

interpretation mem_app: host "mem_app cfg" mem_view
  for cfg :: scheduler_config
  by (rule mem_app_host)

end
