(* ===== verification/Schedulers.thy ===== *)
theory Schedulers
  imports Tasks
begin

text \<open>
  \<open>scheduler/worker/scheduler.py\<close>: the thread of a worker that puts due jobs on their queues and gives every
  enabled task its next job.  Of the workers of a queue, the one that holds the queue's lock does it.
  \<open>os_env\<close> extends the outside world with the operating system's processes; sleeping lets the rest of the
  world act.
\<close>

record 's os_env = "'s app_env" +
  o_getpid :: "'s \<Rightarrow> int"
  o_hostname :: "'s \<Rightarrow> string"
  o_sleep :: "rat \<Rightarrow> 's \<Rightarrow> 's"
  o_getpgid :: "int \<Rightarrow> 's \<Rightarrow> int result"
  o_killpg :: "int \<Rightarrow> int \<Rightarrow> 's \<Rightarrow> ('s, unit) outcome"
  o_kill :: "int \<Rightarrow> int \<Rightarrow> 's \<Rightarrow> ('s, unit) outcome"
  o_main_thread :: bool

datatype scheduler_status = SchedulerStarted | SchedulerWorking | SchedulerStopped

record worker_scheduler =
  ws_queues :: "queue list"
  ws_registries :: "registry list"
  ws_lock_acquisition_time :: "time option"
  ws_locks :: "(string \<times> kv_lock) list"
  ws_interval :: int
  ws_stop_requested :: bool
  ws_status :: scheduler_status
  ws_has_thread :: bool
  ws_pid :: "int option"
  ws_worker_name :: string

type_synonym 's scheduler_step = "worker_scheduler \<times> ('s, unit) outcome"

definition scheduler_init :: "scheduler_config \<Rightarrow> queue list \<Rightarrow> string \<Rightarrow> int option \<Rightarrow> worker_scheduler result"
  where "scheduler_init cfg queues worker_name interval =
    (if queues = [] then Inl ValueError
     else Inr \<lparr> ws_queues = queues, ws_registries = [], ws_lock_acquisition_time = None, ws_locks = [],
                ws_interval = or_int interval (SCHEDULER_INTERVAL cfg), ws_stop_requested = False,
                ws_status = SchedulerStopped, ws_has_thread = False, ws_pid = None,
                ws_worker_name = worker_name \<rparr>)"

definition should_reacquire_locks :: "('s, 'x) env_scheme \<Rightarrow> worker_scheduler \<Rightarrow> 's \<Rightarrow> bool \<times> 's"
  where "should_reacquire_locks B w s =
    (case ws_lock_acquisition_time w of
       None \<Rightarrow> (True, s)
     | Some t \<Rightarrow> (let (now, s1) = utcnow B s in (now - t > secs (SCHEDULER_FALLBACK_PERIOD_SECS (e_cfg B)), s1)))"

fun acquire_each ::
    "('s, 'x) env_scheme \<Rightarrow> string \<Rightarrow> int \<Rightarrow> queue list \<Rightarrow> (string \<times> kv_lock) list \<Rightarrow> 's
      \<Rightarrow> string list \<times> (string \<times> kv_lock) list \<times> 's"
where
  "acquire_each B pid expire [] locks s = ([], locks, s)"
| "acquire_each B pid expire (q # qs) locks s =
     (let (ok, lock, s1) = lock_acquire B pid (Some expire) (scheduler_lock (q_name q)) s;
          (won, locks', s2) = acquire_each B pid expire qs (if ok then AList.update (q_name q) lock locks else locks) s1
      in (if ok then q_name q # won else won, locks', s2))"

fun registries_of :: "queue_table \<Rightarrow> string list \<Rightarrow> registry list result" where
  "registries_of qs [] = Inr []"
| "registries_of qs (n # ns) =
     rbind (get_queue qs n) (\<lambda>q. rbind (registries_of qs ns) (\<lambda>rs. Inr (queue_registry ScheduledJobs q # rs)))"

definition acquire_locks ::
    "('s, 'x) os_env_scheme \<Rightarrow> worker_scheduler \<Rightarrow> 's \<Rightarrow> worker_scheduler \<times> ('s, string list) outcome"
  where "acquire_locks A w s =
    (let pid = (case ws_pid w of None \<Rightarrow> o_getpid A s | Some p \<Rightarrow> p);
         (won, locks, s1) = acquire_each A (str_of_int pid) (ws_interval w + 60) (ws_queues w) (ws_locks w) s;
         (now, s2) = utcnow A s1;
         w1 = w\<lparr>ws_pid := Some pid, ws_locks := locks, ws_lock_acquisition_time := Some now, ws_registries := []\<rparr>
     in case registries_of (a_queues A) (map fst locks) of
          Inl e \<Rightarrow> (w1, Inl e, s2)
        | Inr rs \<Rightarrow> (w1\<lparr>ws_registries := rs\<rparr>, Inr won, s2))"

definition scheduler_start :: "('s, 'x) os_env_scheme \<Rightarrow> worker_scheduler \<Rightarrow> 's \<Rightarrow> 's scheduler_step"
  where "scheduler_start A w s =
    (case acquire_locks A w s of
       (w1, Inl e, s1) \<Rightarrow> (w1, Inl e, s1)
     | (w1, Inr won, s1) \<Rightarrow>
         if won = [] then (w1, Inr (), s1)
         else (w1\<lparr>ws_status := SchedulerStarted, ws_has_thread := True\<rparr>, Inr (), s1))"

definition scheduler_request_stop :: "worker_scheduler \<Rightarrow> worker_scheduler"
  where "scheduler_request_stop w = w\<lparr>ws_stop_requested := True\<rparr>"

definition scheduler_heartbeat :: "('s, 'x) env_scheme \<Rightarrow> worker_scheduler \<Rightarrow> 's \<Rightarrow> 's"
  where "scheduler_heartbeat B w s =
    fold (\<lambda>(_, lock). lock_expire B (ws_interval w + 60) lock) (ws_locks w) s"

definition release_locks :: "('s, 'x) env_scheme \<Rightarrow> worker_scheduler \<Rightarrow> 's \<Rightarrow> 's"
  where "release_locks B w s = fold (\<lambda>(_, lock). lock_release B lock) (ws_locks w) s"

definition scheduler_stop :: "('s, 'x) env_scheme \<Rightarrow> worker_scheduler \<Rightarrow> 's \<Rightarrow> worker_scheduler \<times> 's"
  where "scheduler_stop B w s = (w\<lparr>ws_status := SchedulerStopped\<rparr>, release_locks B w s)"

fun save_each :: "('s, 'x) app_env_scheme \<Rightarrow> task list \<Rightarrow> 's \<Rightarrow> ('s, unit) outcome" where
  "save_each A [] s = (Inr (), s)"
| "save_each A (t # ts) s =
     and_then (task_str A t s) (\<lambda>_ s1.
     and_then (snd (task_save A False True t s1)) (\<lambda>_ s2. save_each A ts s2))"

definition reschedule_tasks :: "('s, 'x) app_env_scheme \<Rightarrow> 's \<Rightarrow> ('s, unit) outcome"
  where "reschedule_tasks A s = save_each A (filter t_enabled (tb_rows (a_tasks A) s)) s"

fun enqueue_each :: "('s, 'x) host_env_scheme \<Rightarrow> queue \<Rightarrow> job_model option list \<Rightarrow> 's \<Rightarrow> ('s, unit) outcome" where
  "enqueue_each H q [] s = (Inr (), s)"
| "enqueue_each H q (None # js) s = enqueue_each H q js s"
| "enqueue_each H q (Some j # js) s =
     (case enqueue_job H q [] (j_at_front j = Some True) j s of
        (_, Inl e, s1) \<Rightarrow> (Inl e, s1)
      | (_, Inr _, s1) \<Rightarrow> enqueue_each H q js s1)"

definition enqueue_due :: "('s, 'x) app_env_scheme \<Rightarrow> registry \<Rightarrow> 's \<Rightarrow> ('s, unit) outcome"
  where "enqueue_due A r s =
    (let (timestamp, s1) = current_timestamp A s;
         job_names = get_jobs_to_schedule A r timestamp 1000 s1
     in if job_names = [] then (Inr (), s1)
        else case get_queue (a_queues A) (reg_name r) of
               Inl e \<Rightarrow> (Inl e, s1)
             | Inr q \<Rightarrow>
                 (case model_get_many (job_class (e_cfg A)) A job_names s1 of
                    Inl e \<Rightarrow> (Inl e, s1)
                  | Inr jobs \<Rightarrow> enqueue_each A q jobs s1))"

fun enqueue_due_all :: "('s, 'x) app_env_scheme \<Rightarrow> registry list \<Rightarrow> 's \<Rightarrow> ('s, unit) outcome" where
  "enqueue_due_all A [] s = (Inr (), s)"
| "enqueue_due_all A (r # rs) s = and_then (enqueue_due A r s) (\<lambda>_ s1. enqueue_due_all A rs s1)"

definition enqueue_scheduled_jobs :: "('s, 'x) app_env_scheme \<Rightarrow> worker_scheduler \<Rightarrow> 's \<Rightarrow> 's scheduler_step"
  where "enqueue_scheduled_jobs A w s =
    (let w1 = w\<lparr>ws_status := SchedulerWorking\<rparr>
     in case and_then (reschedule_tasks A s) (\<lambda>_ s1. enqueue_due_all A (ws_registries w) s1) of
          (Inl e, s2) \<Rightarrow> (w1, Inl e, s2)
        | (Inr _, s2) \<Rightarrow> (w1\<lparr>ws_status := SchedulerStarted\<rparr>, Inr (), s2))"

definition scheduler_iteration :: "('s, 'x) os_env_scheme \<Rightarrow> worker_scheduler \<Rightarrow> 's \<Rightarrow> 's scheduler_step"
  \<comment> \<open>the body of the loop when no stop was requested\<close>
  where "scheduler_iteration A w s =
    (let (again, s1) = should_reacquire_locks A w s
     in case (if again then (case acquire_locks A w s1 of
                 (w1, Inl e, s2) \<Rightarrow> (w1, Inl e, s2)
               | (w1, Inr _, s2) \<Rightarrow> (w1, Inr (), s2)) else (w, Inr (), s1)) of
          (w1, Inl e, s2) \<Rightarrow> (w1, Inl e, s2)
        | (w1, Inr _, s2) \<Rightarrow>
            (case enqueue_scheduled_jobs A w1 s2 of
               (w2, Inl e, s3) \<Rightarrow> (w2, Inl e, s3)
             | (w2, Inr _, s3) \<Rightarrow>
                 (w2, Inr (), o_sleep A (of_int (ws_interval w2)) (scheduler_heartbeat A w2 s3))))"

fun scheduler_work :: "('s, 'x) os_env_scheme \<Rightarrow> bool list \<Rightarrow> worker_scheduler \<Rightarrow> 's \<Rightarrow> 's scheduler_step"
  \<comment> \<open>the loop, told at each turn whether another thread requested a stop by then; it leaves the loop
     at the first request, or at the end of the list\<close>
where
  "scheduler_work A [] w s = (w, Inr (), s)"
| "scheduler_work A (stop # stops) w s =
     (let w0 = (if stop then scheduler_request_stop w else w)
      in if ws_stop_requested w0 then (let (w1, s1) = scheduler_stop A w0 s in (w1, Inr (), s1))
         else case scheduler_iteration A w0 s of
                (w1, Inl e, s1) \<Rightarrow> (w1, Inl e, s1)
              | (w1, Inr _, s1) \<Rightarrow> scheduler_work A stops w1 s1)"

section \<open>Facts\<close>

lemma ws_interval_iteration:
  "ws_interval (fst (scheduler_iteration A w s)) = ws_interval w"
  by (auto simp: scheduler_iteration_def enqueue_scheduled_jobs_def acquire_locks_def Let_def
      split: prod.splits sum.splits if_splits)

context broker
begin

lemma release_locks_owner:
  "lock_value B l (release_locks B w s) =
     (if \<exists>l'\<in>snd ` set (ws_locks w). locking_key l' = locking_key l then None else lock_value B l s)"
proof -
  have "lock_value B l (fold (\<lambda>(_, lock). lock_release B lock) ls s) =
     (if \<exists>l'\<in>snd ` set ls. locking_key l' = locking_key l then None else lock_value B l s)" for ls :: "(string \<times> kv_lock) list"
    by (induction ls arbitrary: s) (auto simp: lock_value_def lock_release_def get view_run del_key_def)
  then show ?thesis by (simp add: release_locks_def)
qed

text \<open>Trying for the locks takes those that were free and no others.\<close>

lemma lock_acquire_owner:
  "fst (lock_acquire B v ex l s) \<longleftrightarrow> lock_value B l s = None"
  "lock_value B l' (snd (snd (lock_acquire B v ex l s))) =
     (if locking_key l' = locking_key l \<and> lock_value B l s = None then Some v else lock_value B l' s)"
  by (auto simp: lock_acquire_def lock_value_def get setnx_fst setnx_view split_beta)

lemma acquire_each_won:
  "n \<in> set (fst (acquire_each B pid ex qs locks s)) \<Longrightarrow>
     n \<in> set (map q_name qs) \<and> lock_value B (scheduler_lock n) s = None"
proof (induction qs arbitrary: locks s)
  case (Cons q qs)
  obtain ok lock s1 where a: "lock_acquire B pid (Some ex) (scheduler_lock (q_name q)) s = (ok, lock, s1)"
    by (cases "lock_acquire B pid (Some ex) (scheduler_lock (q_name q)) s") auto
  have o: "ok \<longleftrightarrow> lock_value B (scheduler_lock (q_name q)) s = None"
    "lock_value B (scheduler_lock n) s1 =
       (if n = q_name q \<and> lock_value B (scheduler_lock (q_name q)) s = None then Some pid else lock_value B (scheduler_lock n) s)"
    using lock_acquire_owner(1) [of pid "Some ex" "scheduler_lock (q_name q)" s]
      lock_acquire_owner(2) [of "scheduler_lock n" pid "Some ex" "scheduler_lock (q_name q)" s] by (simp_all add: a)
  show ?case
    using Cons.prems Cons.IH [where s = s1 and locks = "if ok then AList.update (q_name q) lock locks else locks"] o
    by (auto simp: a split_beta split: if_splits)
qed simp

lemma acquire_each_owner:
  "lock_value B (scheduler_lock n) (snd (snd (acquire_each B pid ex qs locks s))) =
     (if n \<in> set (map q_name qs) \<and> lock_value B (scheduler_lock n) s = None then Some pid
      else lock_value B (scheduler_lock n) s)"
proof (induction qs arbitrary: locks s)
  case (Cons q qs)
  obtain ok lock s1 where a: "lock_acquire B pid (Some ex) (scheduler_lock (q_name q)) s = (ok, lock, s1)"
    by (cases "lock_acquire B pid (Some ex) (scheduler_lock (q_name q)) s") auto
  have "lock_value B (scheduler_lock n) s1 =
       (if n = q_name q \<and> lock_value B (scheduler_lock (q_name q)) s = None then Some pid else lock_value B (scheduler_lock n) s)"
    using lock_acquire_owner(2) [of "scheduler_lock n" pid "Some ex" "scheduler_lock (q_name q)" s] by (simp add: a)
  then show ?case
    using Cons.IH [where s = s1 and locks = "if ok then AList.update (q_name q) lock locks else locks"]
    by (auto simp: a split_beta)
qed simp

lemma lock_value_clock [simp]:
  "lock_value B l (snd (utcnow B s)) = lock_value B l s" "lock_value B l (snd (current_timestamp B s)) = lock_value B l s"
  by (simp_all add: lock_value_def get)

lemma acquire_locks_won:
  assumes "acquire_locks A w s = (w', Inr won, s')" and A: "broker A view"
  shows "\<forall>n\<in>set won. lock_value A (scheduler_lock n) s = None \<and> lock_value A (scheduler_lock n) s' \<noteq> None"
    and "lock_value A (scheduler_lock n) s \<noteq> None \<Longrightarrow> lock_value A (scheduler_lock n) s' = lock_value A (scheduler_lock n) s"
proof -
  let ?pid = "str_of_int (case ws_pid w of None \<Rightarrow> o_getpid A s | Some p \<Rightarrow> p)"
  obtain won' locks s1 where each: "acquire_each A ?pid (ws_interval w + 60) (ws_queues w) (ws_locks w) s = (won', locks, s1)"
    by (cases "acquire_each A ?pid (ws_interval w + 60) (ws_queues w) (ws_locks w) s") auto
  have eqs: "won = won'" "s' = snd (utcnow A s1)"
    using assms(1) each by (auto simp: acquire_locks_def Let_def split: prod.splits sum.splits)
  note facts = broker.acquire_each_won [OF A, of _ ?pid "ws_interval w + 60" "ws_queues w" "ws_locks w" s]
    broker.acquire_each_owner [OF A, of _ ?pid "ws_interval w + 60" "ws_queues w" "ws_locks w" s]
    broker.lock_value_clock(1) [OF A]
  show "\<forall>n\<in>set won. lock_value A (scheduler_lock n) s = None \<and> lock_value A (scheduler_lock n) s' \<noteq> None"
    using facts by (auto simp: eqs each)
  show "lock_value A (scheduler_lock n) s \<noteq> None \<Longrightarrow> lock_value A (scheduler_lock n) s' = lock_value A (scheduler_lock n) s"
    using facts by (auto simp: eqs each)
qed

end

section \<open>A process in memory\<close>

definition mem_os :: "scheduler_config \<Rightarrow> 'm app_mem_scheme os_env"
  \<comment> \<open>process 42 of the host \<open>host\<close>; sleeping is the clock moving on\<close>
  where "mem_os cfg = app_env.extend (mem_app cfg)
     (os_env.fields (\<lambda>_. 42) (\<lambda>_. ''host'') (\<lambda>d m. m\<lparr>m_clock := m_clock m + \<lfloor>d * 1000000\<rfloor>\<rparr>)
       (\<lambda>pid m. Inr pid) (\<lambda>pgid sig m. (Inr (), m)) (\<lambda>pid sig m. (Inr (), m)) True)"

interpretation mem_os: host "mem_os cfg" mem_view
  for cfg :: scheduler_config
proof -
  have "broker (mem_env cfg) mem_view" by (rule mem_broker.broker_axioms)
  then have "broker (mem_os cfg) mem_view"
    by (rule broker_same_commands)
      (simp_all add: mem_os_def mem_app_def mem_host_def mem_env_ext_def host_env.defs app_env.defs os_env.defs)
  then show "host (mem_os cfg) mem_view" by (rule host.intro)
qed

end
