(* ===== verification/Workers.thy ===== *)
theory Workers
  imports Schedulers
begin

text \<open>
  \<open>scheduler/worker/worker.py\<close>: the worker process.  A worker is the record \<open>worker\<close>; its methods are
  operations on it and on the outside world, written with \<open>op_bind\<close> and its companions.  The process it
  forks for a job runs \<open>worker_perform_job\<close>; what the worker sees of it is what \<open>waitpid\<close> returns.
  Loops that may run forever are partial functions: None means that the loop never ends.
\<close>

section \<open>The worker\<close>

datatype wait_result =
    Exited "int option"
  | MonitorTimeout
  | Interrupted
  | WaitFailed

record 's worker_env = "'s os_env" +
  k_client_addresses :: "'s \<Rightarrow> (string \<times> string) list option"
  k_shuffle :: "queue list \<Rightarrow> 's \<Rightarrow> queue list \<times> 's"
  k_fork :: "'s \<Rightarrow> int \<times> 's"
  k_waitpid :: "int \<Rightarrow> 's \<Rightarrow> wait_result \<times> 's"
  k_unmonitored_wait :: "int \<Rightarrow> 's \<Rightarrow> 's"
  k_wait_message :: "int option \<Rightarrow> string"
  k_version :: string
  k_python_version :: string

definition DEFAULT_STRATEGY :: string where "DEFAULT_STRATEGY = ''default''"
definition ROUND_ROBIN :: string where "ROUND_ROBIN = ''round_robin''"
definition RANDOM :: string where "RANDOM = ''random''"

datatype signal_action = DefaultAction | IgnoreSignal | RequestStop | RequestForceStop

record listener =
  \<comment> \<open>\<open>WorkerCommandsChannelListener\<close>: whether its thread runs, None before it was ever started\<close>
  pubsub_channel_name :: key
  pubsub_running :: "bool option"

record worker =
  k_queues :: "queue list"
  k_name :: string
  k_ordered_queues :: "queue list"
  k_is_job_execution_process :: bool
  k_scheduler :: "worker_scheduler option"
  k_dequeue_strategy :: "string option"
  k_with_scheduler :: bool
  k_burst :: bool
  k_fork_job_execution :: bool
  k_job_monitoring_interval :: int
  k_maintenance_interval :: int
  k_listener :: listener
  k_on_sigint :: signal_action
  k_on_sigterm :: signal_action
  k_model :: worker_model

type_synonym ('s, 'a) worker_op = "(worker, 's, 'a) op"

definition model_op :: "(worker_model, 's, 'a) op \<Rightarrow> ('s, 'a) worker_op"
  where "model_op m = op_sub k_model (\<lambda>w k. k\<lparr>k_model := w\<rparr>) m"

definition assign :: "string \<Rightarrow> (worker_model \<Rightarrow> worker_model) \<Rightarrow> ('s, unit) worker_op"
  \<comment> \<open>\<open>self._model.field = value\<close>\<close>
  where "assign field f = op_obj (\<lambda>k. k\<lparr>k_model := mark_dirty field (f (k_model k))\<rparr>)"

definition model_save :: "('s, 'x) env_scheme \<Rightarrow> bool \<Rightarrow> ('s, unit) worker_op"
  where "model_save B save_all = model_op (worker_save B save_all)"

definition heartbeat :: "('s, 'x) env_scheme \<Rightarrow> int option \<Rightarrow> ('s, unit) worker_op"
  where "heartbeat B timeout = model_op (worker_heartbeat B timeout)"

definition set_state :: "('s, 'x) env_scheme \<Rightarrow> worker_status \<Rightarrow> ('s, unit) worker_op"
  where "set_state B st =
    model_op (worker_set_field B ''state'' (VEnum (worker_status_value st)) (\<lambda>w. w\<lparr>w_state := st\<rparr>))"

definition now_op :: "('s, 'x) env_scheme \<Rightarrow> ('k, 's, time) op"
  where "now_op B = op_lift (\<lambda>_ s. apfst Inr (utcnow B s))"

section \<open>The listener of a worker's commands\<close>

definition commands_channel :: "string \<Rightarrow> key"
  where "commands_channel worker_name = '':workers:pubsub:'' @ worker_name"

definition listener_init :: "string \<Rightarrow> listener"
  where "listener_init worker_name = \<lparr> pubsub_channel_name = commands_channel worker_name, pubsub_running = None \<rparr>"

definition listener_start :: "('s, unit) worker_op"
  where "listener_start = op_obj (\<lambda>k. k\<lparr>k_listener := (k_listener k)\<lparr>pubsub_running := Some True\<rparr>\<rparr>)"

definition listener_stop :: "('s, unit) worker_op"
  where "listener_stop k s =
    (case pubsub_running (k_listener k) of
       None \<Rightarrow> (k, Inl AttributeError, s)
     | Some _ \<Rightarrow> (k\<lparr>k_listener := (k_listener k)\<lparr>pubsub_running := Some False\<rparr>\<rparr>, Inr (), s))"

section \<open>Signals\<close>

definition on_signals :: "signal_action \<Rightarrow> signal_action \<Rightarrow> ('s, unit) worker_op"
  \<comment> \<open>what the process does on SIGINT and on SIGTERM\<close>
  where "on_signals sigint sigterm = op_obj (\<lambda>k. k\<lparr>k_on_sigint := sigint, k_on_sigterm := sigterm\<rparr>)"

definition install_signal_handlers :: "('s, 'x) os_env_scheme \<Rightarrow> ('s, unit) worker_op"
  where "install_signal_handlers A =
    (if \<not> o_main_thread A then op_return () else on_signals RequestStop RequestStop)"

definition setup_job_execution_process_signals :: "('s, unit) worker_op"
  where "setup_job_execution_process_signals = on_signals IgnoreSignal DefaultAction"

section \<open>Creating a worker\<close>

definition ip_address_from_connection :: "('s, 'x) worker_env_scheme \<Rightarrow> string \<Rightarrow> 's \<Rightarrow> string"
  where "ip_address_from_connection K client_name s =
    (case k_client_addresses K s of
       None \<Rightarrow> ''unknown''
     | Some clients \<Rightarrow>
         (case map snd (filter (\<lambda>(n, _). n = client_name) clients) of [] \<Rightarrow> ''unknown'' | a # _ \<Rightarrow> a))"

definition validate_name_uniqueness :: "('s, 'x) env_scheme \<Rightarrow> string \<Rightarrow> 's \<Rightarrow> unit result"
  where "validate_name_uniqueness B name s =
    (case worker_get B name s of
       Some w \<Rightarrow> if w_death w = None then Inl ValueError else Inr ()
     | None \<Rightarrow> Inr ())"

record worker_options =
  wo_name :: string
  wo_maintenance_interval :: int
  wo_job_monitoring_interval :: int
  wo_dequeue_strategy :: "string option"
  wo_fork_job_execution :: bool
  wo_with_scheduler :: bool
  wo_burst :: bool

definition new_worker_model :: "('s, 'x) worker_env_scheme \<Rightarrow> queue list \<Rightarrow> string \<Rightarrow> 's \<Rightarrow> worker_model"
  where "new_worker_model K queues name s = hash_post_init
    \<lparr> m_name = name, created_at = None, parent = None, dirty_fields = {}, save_all_flag = True,
      w_queue_names = map q_name queues, w_pid = o_getpid K s, w_hostname = o_hostname K s,
      w_ip_address = ip_address_from_connection K name s, w_version = k_version K,
      w_python_version = k_python_version K, w_state = WorkerCreated,
      w_job_execution_process_pid = 0, w_successful_job_count = 0, w_failed_job_count = 0,
      w_completed_jobs = 0, w_birth = None, w_last_heartbeat = None, w_is_suspended = False,
      w_current_job_name = None, w_stopped_job_name = None, w_total_working_time_ms = 0,
      w_current_job_working_time = 0, w_last_cleaned_at = None, w_shutdown_requested_date = None,
      w_has_scheduler = False, w_death = None \<rparr>"

definition worker_new ::
    "('s, 'x) worker_env_scheme \<Rightarrow> queue list \<Rightarrow> worker_options \<Rightarrow> worker_model option \<Rightarrow> 's \<Rightarrow> ('s, worker) outcome"
  where "worker_new K queues opts model s =
    (case (case model of None \<Rightarrow> rbind (validate_name_uniqueness K (wo_name opts) s)
              (\<lambda>_. Inr (new_worker_model K queues (wo_name opts) s))
           | Some m \<Rightarrow> Inr m) of
       Inl e \<Rightarrow> (Inl e, s)
     | Inr m \<Rightarrow>
         (case worker_save K True m s of
            (_, Inl e, s1) \<Rightarrow> (Inl e, s1)
          | (m1, Inr _, s1) \<Rightarrow>
              (Inr \<lparr> k_queues = queues, k_name = wo_name opts, k_ordered_queues = queues,
                     k_is_job_execution_process = False, k_scheduler = None,
                     k_dequeue_strategy = wo_dequeue_strategy opts, k_with_scheduler = wo_with_scheduler opts,
                     k_burst = wo_burst opts, k_fork_job_execution = wo_fork_job_execution opts,
                     k_job_monitoring_interval = wo_job_monitoring_interval opts,
                     k_maintenance_interval = wo_maintenance_interval opts,
                     k_listener = listener_init (wo_name opts), k_on_sigint = DefaultAction,
                     k_on_sigterm = DefaultAction, k_model = m1 \<rparr>, s1)))"

definition default_options :: "scheduler_config \<Rightarrow> string \<Rightarrow> worker_options"
  where "default_options cfg name =
    \<lparr> wo_name = name, wo_maintenance_interval = DEFAULT_MAINTENANCE_TASK_INTERVAL cfg,
      wo_job_monitoring_interval = DEFAULT_JOB_MONITORING_INTERVAL cfg,
      wo_dequeue_strategy = Some DEFAULT_STRATEGY, wo_fork_job_execution = True,
      wo_with_scheduler = True, wo_burst = False \<rparr>"

fun get_each_queue :: "queue_table \<Rightarrow> string list \<Rightarrow> queue list result" where
  "get_each_queue qs [] = Inr []"
| "get_each_queue qs (n # ns) =
     rbind (get_queue qs n) (\<lambda>q. rbind (get_each_queue qs ns) (\<lambda>rest. Inr (q # rest)))"

definition from_model :: "('s, 'x) worker_env_scheme \<Rightarrow> worker_model \<Rightarrow> 's \<Rightarrow> ('s, worker) outcome"
  where "from_model K m s =
    (case get_each_queue (a_queues K) (w_queue_names m) of
       Inl e \<Rightarrow> (Inl e, s)
     | Inr queues \<Rightarrow>
         worker_new K queues ((default_options (e_cfg K) (m_name m))\<lparr>wo_with_scheduler := False\<rparr>) (Some m) s)"

definition worker_name_number :: "string \<Rightarrow> nat \<Rightarrow> string"
  where "worker_name_number hostname c = hostname @ ''-worker.'' @ str_of_int (int c)"

function calc_worker_name_from :: "string \<Rightarrow> string list \<Rightarrow> nat \<Rightarrow> string" where
  "calc_worker_name_from hostname existing c =
     (if worker_name_number hostname c \<in> set existing
      then calc_worker_name_from hostname existing (c + 1) else worker_name_number hostname c)"
  by pat_completeness auto

definition calc_worker_name :: "string \<Rightarrow> string list \<Rightarrow> string"
  where "calc_worker_name hostname existing = calc_worker_name_from hostname existing 1"

definition replace_slashes :: "string \<Rightarrow> string"
  where "replace_slashes s = map (\<lambda>c. if c = CHR ''/'' then CHR ''.'' else c) s"

definition create_worker ::
    "('s, 'x) worker_env_scheme \<Rightarrow> string list \<Rightarrow> string option \<Rightarrow> (worker_options \<Rightarrow> worker_options) \<Rightarrow> 's \<Rightarrow> ('s, worker) outcome"
  \<comment> \<open>\<open>options\<close> sets the keyword arguments given; the others have their defaults\<close>
  where "create_worker K queue_names name options s =
    (case get_queues (a_queues K) queue_names of
       Inl e \<Rightarrow> (Inl e, s)
     | Inr queues \<Rightarrow>
         (let existing = all_names worker_class K None s;
              n = (case name of None \<Rightarrow> calc_worker_name (o_hostname K s) existing | Some n \<Rightarrow> n)
          in if n \<in> set existing then (Inl ValueError, s)
             else worker_new K queues
                    (options ((default_options (e_cfg K) (replace_slashes n))\<lparr>
                       wo_fork_job_execution := BROKER (e_cfg K) \<noteq> FAKEREDIS, wo_with_scheduler := False\<rparr>)) None s))"

section \<open>Names are fresh\<close>

lemma worker_name_number_inj: "worker_name_number h a = worker_name_number h b \<Longrightarrow> a = b"
proof -
  assume "worker_name_number h a = worker_name_number h b"
  then have "int_of_str (str_of_int (int a)) = int_of_str (str_of_int (int b))"
    by (simp add: worker_name_number_def)
  then show "a = b" by simp
qed

definition numbered_above :: "string \<Rightarrow> string list \<Rightarrow> nat \<Rightarrow> nat set"
  where "numbered_above h existing c = {n. c \<le> n \<and> worker_name_number h n \<in> set existing}"

lemma finite_numbered_above: "finite (numbered_above h existing c)"
proof (rule finite_subset)
  show "numbered_above h existing c \<subseteq> worker_name_number h -` set existing \<inter> UNIV"
    by (auto simp: numbered_above_def)
  show "finite (worker_name_number h -` set existing \<inter> UNIV)"
    by (rule finite_vimage_IntI) (auto intro: injI worker_name_number_inj)
qed

termination calc_worker_name_from
proof (relation "measure (\<lambda>(h, existing, c). card (numbered_above h existing c))")
  fix h existing c
  assume taken: "worker_name_number h c \<in> set existing"
  have "numbered_above h existing (c + 1) \<subset> numbered_above h existing c"
  proof
    show "numbered_above h existing (c + 1) \<subseteq> numbered_above h existing c" by (auto simp: numbered_above_def)
    have "c \<in> numbered_above h existing c" "c \<notin> numbered_above h existing (c + 1)"
      using taken by (auto simp: numbered_above_def)
    then show "numbered_above h existing (c + 1) \<noteq> numbered_above h existing c" by blast
  qed
  then show "((h, existing, c + 1), h, existing, c) \<in> measure (\<lambda>(h, existing, c). card (numbered_above h existing c))"
    using finite_numbered_above [of h existing c] by (simp add: psubset_card_mono)
qed simp

declare calc_worker_name_from.simps [simp del]

lemma calc_worker_name_from_spec:
  "\<exists>n\<ge>c. calc_worker_name_from h existing c = worker_name_number h n \<and> worker_name_number h n \<notin> set existing \<and>
     (\<forall>m. c \<le> m \<and> m < n \<longrightarrow> worker_name_number h m \<in> set existing)"
proof (induction h existing c rule: calc_worker_name_from.induct)
  case (1 h existing c)
  show ?case
  proof (cases "worker_name_number h c \<in> set existing")
    case True
    with 1 obtain n where n: "n \<ge> c + 1" "calc_worker_name_from h existing (c + 1) = worker_name_number h n"
        "worker_name_number h n \<notin> set existing" "\<forall>m. c + 1 \<le> m \<and> m < n \<longrightarrow> worker_name_number h m \<in> set existing"
      by blast
    with True have "\<forall>m. c \<le> m \<and> m < n \<longrightarrow> worker_name_number h m \<in> set existing"
      by (metis Suc_eq_plus1 Suc_leI le_neq_implies_less)
    with n True show ?thesis
      by (intro exI [of _ n]) (simp add: calc_worker_name_from.simps [of h existing c])
  next
    case False
    then show ?thesis by (intro exI [of _ c]) (auto simp: calc_worker_name_from.simps [of h existing c])
  qed
qed

section \<open>Choosing the next queue\<close>

definition strategies :: "string list"
  where "strategies = [DEFAULT_STRATEGY, ROUND_ROBIN, RANDOM]"

definition rotate_after :: "queue \<Rightarrow> queue list \<Rightarrow> queue list result"
  where "rotate_after reference qs =
    (let pos = length (takeWhile (\<lambda>q. q \<noteq> reference) qs)
     in if pos < length qs then Inr (drop (pos + 1) qs @ take (pos + 1) qs) else Inl ValueError)"

definition shuffle_queues :: "('s, 'x) worker_env_scheme \<Rightarrow> ('s, unit) worker_op"
  where "shuffle_queues K k s =
    (let (qs, s1) = k_shuffle K (k_ordered_queues k) s in (k\<lparr>k_ordered_queues := qs\<rparr>, Inr (), s1))"

definition rotate_queues :: "queue \<Rightarrow> ('s, unit) worker_op"
  where "rotate_queues reference k s =
    (case rotate_after reference (k_ordered_queues k) of
       Inl e \<Rightarrow> (k, Inl e, s)
     | Inr qs \<Rightarrow> (k\<lparr>k_ordered_queues := qs\<rparr>, Inr (), s))"

definition reorder_queues :: "('s, 'x) worker_env_scheme \<Rightarrow> queue \<Rightarrow> ('s, unit) worker_op"
  where "reorder_queues K reference k s =
    (let strategy = (case k_dequeue_strategy k of None \<Rightarrow> DEFAULT_STRATEGY | Some st \<Rightarrow> st);
         k0 = k\<lparr>k_dequeue_strategy := Some strategy\<rparr>
     in if strategy \<notin> set strategies then (k0, Inl ValueError, s)
        else if strategy = DEFAULT_STRATEGY then (k0, Inr (), s)
        else if strategy = ROUND_ROBIN then rotate_queues reference k0 s
        else shuffle_queues K k0 s)"

definition round_robin_reorder :: "queue \<Rightarrow> ('s, unit) worker_op"
  \<comment> \<open>\<open>RoundRobinWorker.reorder_queues\<close>\<close>
  where "round_robin_reorder reference = rotate_queues reference"

definition random_reorder :: "('s, 'x) worker_env_scheme \<Rightarrow> ('s, unit) worker_op"
  \<comment> \<open>\<open>RandomWorker.reorder_queues\<close>\<close>
  where "random_reorder K = shuffle_queues K"

section \<open>Maintenance\<close>

definition should_run_maintenance_tasks :: "('s, 'x) env_scheme \<Rightarrow> ('s, bool) worker_op"
  where "should_run_maintenance_tasks B k s =
    (case w_last_cleaned_at (k_model k) of
       None \<Rightarrow> (k, Inr True, s)
     | Some t \<Rightarrow> (let (now, s1) = utcnow B s in (k, Inr (now - t > secs (k_maintenance_interval k)), s1)))"

definition clean_queue_registries :: "('s, 'x) host_env_scheme \<Rightarrow> queue \<Rightarrow> ('s, unit) worker_op"
  \<comment> \<open>the body of the loop: the lock is named after the worker\<close>
  where "clean_queue_registries H q = op_lift (\<lambda>k s.
    (let (ok, lock, s1) = lock_acquire H ''1'' (Some 899) (queue_lock (k_name k)) s
     in if ok then
          and_then (Queues.clean_registries H q None s1) (\<lambda>_ s2.
            (Inr (), lock_release H lock (worker_cleanup H (Some (q_name q)) s2)))
        else (Inr (), s1)))"

definition worker_clean_registries :: "('s, 'x) host_env_scheme \<Rightarrow> ('s, unit) worker_op"
  where "worker_clean_registries H =
    op_bind (op_get (\<lambda>k _. k_queues k)) (\<lambda>queues.
    op_then (op_each (clean_queue_registries H) queues)
      (op_bind (now_op H) (\<lambda>now. assign ''last_cleaned_at'' (\<lambda>w. w\<lparr>w_last_cleaned_at := Some now\<rparr>))))"

definition scheduler_op :: "(worker_scheduler, 's, unit) op \<Rightarrow> ('s, unit) worker_op"
  where "scheduler_op m k s =
    (case k_scheduler k of None \<Rightarrow> (k, Inl AttributeError, s)
     | Some w \<Rightarrow> (case m w s of (w1, r, s1) \<Rightarrow> (k\<lparr>k_scheduler := Some w1\<rparr>, r, s1)))"

definition request_stop_and_wait :: "('s, 'x) os_env_scheme \<Rightarrow> (worker_scheduler, 's, unit) op"
  \<comment> \<open>the thread, if one was started, sees the request, releases its locks and ends\<close>
  where "request_stop_and_wait A w s =
    (let w1 = scheduler_request_stop w
     in if ws_has_thread w then (let (w2, s2) = scheduler_stop A w1 s in (w2, Inr (), s2)) else (w1, Inr (), s))"

definition run_maintenance_tasks :: "('s, 'x) os_env_scheme \<Rightarrow> ('s, unit) worker_op"
  where "run_maintenance_tasks A =
    op_then (worker_clean_registries A)
      (op_bind (op_get (\<lambda>k _. k)) (\<lambda>k.
        if \<not> k_with_scheduler k then op_return ()
        else case k_scheduler k of
            None \<Rightarrow> op_raise TypeError
          | Some w \<Rightarrow>
              op_then (op_when (ws_status w = SchedulerStopped)
                 (op_then (scheduler_op (scheduler_start A))
                    (assign ''has_scheduler'' (\<lambda>w. w\<lparr>w_has_scheduler := True\<rparr>))))
              (op_then (op_when (k_burst k)
                 (op_then (scheduler_op (request_stop_and_wait A))
                    (assign ''has_scheduler'' (\<lambda>w. w\<lparr>w_has_scheduler := False\<rparr>))))
              (model_save A False))))"

definition stop_scheduler :: "('s, 'x) os_env_scheme \<Rightarrow> ('s, unit) worker_op"
  where "stop_scheduler A k s =
    (case k_scheduler k of
       None \<Rightarrow> (k, Inr (), s)
     | Some w \<Rightarrow> (case request_stop_and_wait A w s of (_, _, s1) \<Rightarrow> (k\<lparr>k_scheduler := None\<rparr>, Inr (), s1)))"

section \<open>Starting, refreshing and ending\<close>

definition worker_start :: "('s, 'x) env_scheme \<Rightarrow> ('s, unit) worker_op"
  where "worker_start B =
    op_bind (now_op B) (\<lambda>now.
    op_then (assign ''birth'' (\<lambda>w. w\<lparr>w_birth := Some now\<rparr>))
    (op_then (assign ''last_heartbeat'' (\<lambda>w. w\<lparr>w_last_heartbeat := Some now\<rparr>))
    (op_then (assign ''state'' (\<lambda>w. w\<lparr>w_state := WorkerStarted\<rparr>))
    (model_save B False))))"

definition worker_refresh :: "('s, 'x) env_scheme \<Rightarrow> ('s, unit) worker_op"
  where "worker_refresh B k s =
    (case worker_get B (k_name k) s of
       None \<Rightarrow> (k, Inl WorkerNotFound, s)
     | Some w \<Rightarrow> (k\<lparr>k_model := w\<rparr>, Inr (), s))"

definition bootstrap :: "('s, 'x) os_env_scheme \<Rightarrow> ('s, unit) worker_op"
  where "bootstrap A =
    op_then (worker_start A)
    (op_then listener_start
    (op_bind (op_get (\<lambda>k _. k)) (\<lambda>k.
    op_then (op_when (k_with_scheduler k)
       (case scheduler_init (e_cfg A) (k_queues k) (k_name k) None of
          Inl e \<Rightarrow> op_raise e
        | Inr w \<Rightarrow>
            op_then (op_obj (\<lambda>k. k\<lparr>k_scheduler := Some w\<rparr>))
            (op_then (scheduler_op (scheduler_start A))
            (op_then (assign ''has_scheduler'' (\<lambda>w. w\<lparr>w_has_scheduler := True\<rparr>)) (model_save A False)))))
    (op_when (k_with_scheduler k \<and> k_burst k)
       (op_then (scheduler_op (request_stop_and_wait A))
       (op_then (assign ''has_scheduler'' (\<lambda>w. w\<lparr>w_has_scheduler := False\<rparr>)) (model_save A False)))))))"

definition teardown :: "('s, 'x) os_env_scheme \<Rightarrow> ('s, unit) worker_op"
  where "teardown A =
    op_bind (op_get (\<lambda>k _. k_is_job_execution_process k)) (\<lambda>child.
    if child then op_return ()
    else op_then (stop_scheduler A)
      (op_then listener_stop (model_op (\<lambda>w s. case worker_delete A w s of (w1, s1) \<Rightarrow> (w1, Inr (), s1)))))"

section \<open>Suspension\<close>

partial_function (option) wait_while_suspended ::
    "('s, 'x) os_env_scheme \<Rightarrow> bool \<Rightarrow> worker_model \<Rightarrow> 's \<Rightarrow> 's option"
  \<comment> \<open>the loop once the worker has been marked suspended\<close>
where
  "wait_while_suspended A burst w s =
     (if w_is_suspended w then wait_while_suspended A burst w (o_sleep A 1 s) else Some s)"

definition check_for_suspension ::
    "('s, 'x) os_env_scheme \<Rightarrow> bool \<Rightarrow> worker \<Rightarrow> 's \<Rightarrow> (worker \<times> ('s, unit) outcome) option"
  where "check_for_suspension A burst k s =
    (if \<not> w_is_suspended (k_model k) then Some (k, Inr (), s)
     else if burst then Some (k, Inl StopRequested, s)
     else (case set_state A WorkerSuspended k s of
             (k1, Inl e, s1) \<Rightarrow> Some (k1, Inl e, s1)
           | (k1, Inr _, s1) \<Rightarrow>
               (case wait_while_suspended A burst (k_model k1) (o_sleep A 1 s1) of
                  None \<Rightarrow> None
                | Some s2 \<Rightarrow> Some (set_state A (w_state (k_model k)) k1 s2))))"

section \<open>Facts about workers\<close>

text \<open>A worker's own fields can always be stored.\<close>

lemma worker_serialize_ok: "\<exists>mapping. serialize_m worker_class True w = Inr mapping"
  by (simp add: worker_class_def base_serialize_def worker_fields_def)

lemma worker_save_ok: "fst (snd (worker_save B sa w s)) = Inr ()"
  using worker_serialize_ok [of w] by (auto simp: worker_save_def hash_save_def Let_def)

lemma worker_heartbeat_ok: "fst (snd (worker_heartbeat B t w s)) = Inr ()"
  using worker_save_ok [of B True] by (auto simp: worker_heartbeat_def Let_def split: prod.splits sum.splits) (metis fst_conv snd_conv sum.distinct(1))+

lemma set_state_result:
  "\<exists>s'. set_state B st k s = (k\<lparr>k_model := mark_dirty ''state'' ((k_model k)\<lparr>w_state := st\<rparr>)\<rparr>, Inr (), s')"
  by (simp add: set_state_def model_op_def op_sub_def worker_set_field_def set_field_def set_field_cmds_def
      worker_class_def worker_field_types_def)

text \<open>A suspended worker waits for a flag of its own copy of the record, which nothing changes.\<close>

lemma wait_while_suspended_resumed: "wait_while_suspended A burst w s = Some s' \<Longrightarrow> \<not> w_is_suspended w"
  by (rule wait_while_suspended.raw_induct [where P = "\<lambda>A burst w s s'. \<not> w_is_suspended w"]) (auto split: if_splits)

lemma wait_while_suspended_stuck: "w_is_suspended w \<Longrightarrow> wait_while_suspended A burst w s = None"
  using wait_while_suspended_resumed [of A burst w s] by (cases "wait_while_suspended A burst w s") auto

lemma check_for_suspension_cases:
  "check_for_suspension A burst k s =
     (if \<not> w_is_suspended (k_model k) then Some (k, Inr (), s)
      else if burst then Some (k, Inl StopRequested, s) else None)"
proof -
  obtain s1 where "set_state A WorkerSuspended k s =
      (k\<lparr>k_model := mark_dirty ''state'' ((k_model k)\<lparr>w_state := WorkerSuspended\<rparr>)\<rparr>, Inr (), s1)"
    using set_state_result [of A WorkerSuspended k s] by blast
  then show ?thesis
    by (auto simp: check_for_suspension_def mark_dirty_def wait_while_suspended_stuck)
qed

text \<open>The rotation.\<close>

lemma rotate_after_cases:
  "rotate_after reference qs =
     (if reference \<in> set qs
      then Inr (rotate (Suc (length (takeWhile (\<lambda>q. q \<noteq> reference) qs))) qs) else Inl ValueError)"
proof -
  let ?n = "length (takeWhile (\<lambda>q. q \<noteq> reference) qs)"
  have iff: "?n < length qs \<longleftrightarrow> reference \<in> set qs"
  proof
    assume "?n < length qs"
    then have "qs ! ?n \<in> set qs" "\<not> (qs ! ?n \<noteq> reference)" by (auto dest: nth_length_takeWhile)
    then show "reference \<in> set qs" by simp
  next
    assume "reference \<in> set qs"
    then show "?n < length qs" by (induction qs) auto
  qed
  have rot: "rotate (Suc n) xs = drop (n + 1) xs @ take (n + 1) xs" if "n < length xs" for n and xs :: "queue list"
  proof (cases "Suc n = length xs")
    case True
    then show ?thesis by (simp add: rotate_conv_mod)
  next
    case False
    with that have "Suc n mod length xs = Suc n" by simp
    then show ?thesis by (simp only: rotate_drop_take Suc_eq_plus1)
  qed
  show ?thesis using rot [of ?n qs] by (simp add: rotate_after_def Let_def iff del: rotate_Suc)
qed

lemma last_rotate_after:
  assumes "rotate_after reference qs = Inr qs'"
  shows "last qs' = reference" and "mset qs' = mset qs" and "length qs' = length qs"
proof -
  let ?n = "length (takeWhile (\<lambda>q. q \<noteq> reference) qs)"
  have n: "?n < length qs" "qs' = drop (?n + 1) qs @ take (?n + 1) qs"
    using assms by (auto simp: rotate_after_def Let_def split: if_splits)
  then have "take (?n + 1) qs = take ?n qs @ [qs ! ?n]" by (simp add: take_Suc_conv_app_nth)
  then show "last qs' = reference" using nth_length_takeWhile [OF n(1)] n(2) by simp
  show "mset qs' = mset qs"
    by (metis append_take_drop_id mset_append n(2) union_commute)
  then show "length qs' = length qs" by (metis size_mset)
qed

section \<open>A worker's process in memory\<close>

definition mem_worker :: "scheduler_config \<Rightarrow> 'm app_mem_scheme worker_env"
  \<comment> \<open>queues are shuffled by reversing them; a child exits with status 0 at once\<close>
  where "mem_worker cfg = os_env.extend (mem_os cfg)
     (worker_env.fields (\<lambda>_. Some []) (\<lambda>qs m. (rev qs, m)) (\<lambda>m. (43, m)) (\<lambda>pid m. (Exited (Some 0), m))
       (\<lambda>pid m. m) (\<lambda>status. ''terminated'') ''4.0'' ''3.12'')"

interpretation mem_worker: host "mem_worker cfg" mem_view
  for cfg :: scheduler_config
proof -
  have "broker (mem_env cfg) mem_view" by (rule mem_broker.broker_axioms)
  then have "broker (mem_worker cfg) mem_view"
    by (rule broker_same_commands)
      (simp_all add: mem_worker_def mem_os_def mem_app_def mem_host_def mem_env_ext_def
        host_env.defs app_env.defs os_env.defs worker_env.defs)
  then show "host (mem_worker cfg) mem_view" by (rule host.intro)
qed

end
