(* ===== verification/JobExecution.thy ===== *)
theory JobExecution
  imports Workers
begin

text \<open>
  The rest of \<open>scheduler/worker/worker.py\<close>: a worker taking jobs, running each, in its own process or in one it
  forks and watches, and recording how the run ended; the requests to stop; and the work loop.
\<close>

section \<open>Running a job\<close>

definition get_heartbeat_ttl :: "worker \<Rightarrow> job_model \<Rightarrow> int"
  where "get_heartbeat_ttl k j =
    (if j_timeout j > 0
     then (let r = of_int (j_timeout j) - w_current_job_working_time (k_model k);
               remaining = (if 0 \<le> r then \<lfloor>r\<rfloor> else \<lceil>r\<rceil>)
           in min remaining (k_job_monitoring_interval k) + 60)
     else k_job_monitoring_interval k + 60)"

definition timedelta_microseconds :: "time \<Rightarrow> int"
  \<comment> \<open>\<open>timedelta.microseconds\<close>: the part of a duration below a second\<close>
  where "timedelta_microseconds d = d mod 1000000"

definition add_working_time :: "job_model \<Rightarrow> ('s, unit) worker_op"
  where "add_working_time j =
    (case (j_started_at j, j_ended_at j) of
       (Some a, Some b) \<Rightarrow>
         assign ''total_working_time_ms'' (\<lambda>w. w\<lparr>w_total_working_time_ms :=
            w_total_working_time_ms w + of_int (timedelta_microseconds (b - a)) / 1000\<rparr>)
     | _ \<Rightarrow> op_return ())"

definition job_op :: "(job_model \<Rightarrow> 's \<Rightarrow> job_model \<times> ('s, 'a) outcome) \<Rightarrow> (worker \<times> job_model, 's, 'a) op"
  where "job_op m = op_sub snd (\<lambda>j (k, _). (k, j)) m"

definition worker_part :: "('s, 'a) worker_op \<Rightarrow> (worker \<times> job_model, 's, 'a) op"
  where "worker_part m = op_sub fst (\<lambda>k (_, j). (k, j)) m"

definition stopped_job_name :: "('s, 'x) env_scheme \<Rightarrow> worker \<Rightarrow> 's \<Rightarrow> string option result"
  where "stopped_job_name B k s =
    (case get_field worker_class B (k_model k) ''stopped_job_name'' s of
       Inl e \<Rightarrow> Inl e
     | Inr (VStr n) \<Rightarrow> Inr (Some n)
     | Inr _ \<Rightarrow> Inr None)"

definition handle_job_failure ::
    "('s, 'x) env_scheme \<Rightarrow> queue \<Rightarrow> string \<Rightarrow> (worker \<times> job_model, 's, unit) op"
  where "handle_job_failure B q exc_string =
    op_bind (op_lift (\<lambda>(k, j) s. (stopped_job_name B k s, s))) (\<lambda>stopped.
    op_then (worker_part (assign ''current_job_name'' (\<lambda>w. w\<lparr>w_current_job_name := None\<rparr>)))
    (op_bind (op_get (\<lambda>(k, j) _. j)) (\<lambda>j.
    op_then (job_op (job_handle_failure B q (if stopped = Some (m_name j) then JobStopped else JobFailed) exc_string))
    (op_bind (op_get (\<lambda>(k, j) _. j)) (\<lambda>j.
    worker_part
      (op_then (assign ''current_job_working_time'' (\<lambda>w. w\<lparr>w_current_job_working_time := 0\<rparr>))
      (op_then (op_when (j_status j = Some JobFailed)
         (op_then (assign ''failed_job_count'' (\<lambda>w. w\<lparr>w_failed_job_count := w_failed_job_count w + 1\<rparr>))
                  (assign ''completed_jobs'' (\<lambda>w. w\<lparr>w_completed_jobs := w_completed_jobs w + 1\<rparr>))))
      (op_then (add_working_time j) (model_save B False)))))))))"

definition handle_job_success ::
    "('s, 'x) env_scheme \<Rightarrow> queue \<Rightarrow> pyval \<Rightarrow> (worker \<times> job_model, 's, unit) op"
  where "handle_job_success B q return_value =
    op_bind (op_get (\<lambda>(k, j) _. j)) (\<lambda>j.
    op_then (job_op (job_handle_success B q return_value (j_job_info_ttl j) (j_success_ttl j)))
    (op_bind (op_get (\<lambda>(k, j) _. j)) (\<lambda>j.
    op_then (worker_part
      (op_then (assign ''current_job_name'' (\<lambda>w. w\<lparr>w_current_job_name := None\<rparr>))
      (op_then (assign ''successful_job_count'' (\<lambda>w. w\<lparr>w_successful_job_count := w_successful_job_count w + 1\<rparr>))
      (op_then (assign ''completed_jobs'' (\<lambda>w. w\<lparr>w_completed_jobs := w_completed_jobs w + 1\<rparr>))
      (op_then (add_working_time j) (model_save B False))))))
    (job_op (\<lambda>j s. case job_expire B (j_success_ttl j) j s of (j1, cmds, s1) \<Rightarrow> (j1, Inr (), run_all B cmds s1))))))"

definition worker_before_execution :: "('s, 'x) os_env_scheme \<Rightarrow> job_model \<Rightarrow> ('s, unit) worker_op"
  where "worker_before_execution A j =
    op_bind (op_get (\<lambda>_ s. o_getpid A s)) (\<lambda>pid.
    op_then (assign ''current_job_name'' (\<lambda>w. w\<lparr>w_current_job_name := Some (m_name j)\<rparr>))
    (op_then (assign ''current_job_working_time'' (\<lambda>w. w\<lparr>w_current_job_working_time := 0\<rparr>))
    (op_then (assign ''job_execution_process_pid'' (\<lambda>w. w\<lparr>w_job_execution_process_pid := pid\<rparr>))
    (op_bind (op_get (\<lambda>k _. get_heartbeat_ttl k j)) (\<lambda>ttl.
    op_then (heartbeat A (Some ttl)) (model_save A False))))))"

definition worker_perform_job :: "('s, 'x) os_env_scheme \<Rightarrow> queue \<Rightarrow> (worker \<times> job_model, 's, bool) op"
  where "worker_perform_job A q =
    op_catch
      (op_bind (op_get (\<lambda>(k, j) _. (k, j))) (\<lambda>(k, j).
       op_then (worker_part (worker_before_execution A j))
       (op_then (job_op (prepare_for_execution A (k_name k) (queue_registry ActiveJobs q)))
       (op_bind (job_op (queue_perform_job A)) (\<lambda>rv.
       op_then (handle_job_success A q rv) (op_return True))))))
      (\<lambda>e. op_then (handle_job_failure A q (h_traceback A e)) (op_return False))"

section \<open>Watching a forked run\<close>

definition kill_job_execution_process :: "('s, 'x) os_env_scheme \<Rightarrow> ('s, unit) worker_op"
  \<comment> \<open>signal 9; an OSError for a process that is gone is ignored\<close>
  where "kill_job_execution_process A = op_lift (\<lambda>k s.
    (case o_getpgid A (w_job_execution_process_pid (k_model k)) s of
       Inl e \<Rightarrow> (if e = ProcessLookupError then Inr () else Inl e, s)
     | Inr pgid \<Rightarrow>
         (case o_killpg A pgid 9 s of
            (Inl e, s1) \<Rightarrow> (if e = ProcessLookupError then Inr () else Inl e, s1)
          | (Inr _, s1) \<Rightarrow> (Inr (), s1))))"

definition fork_job_execution_process :: "('s, 'x) worker_env_scheme \<Rightarrow> ('s, unit) worker_op"
  \<comment> \<open>in the parent\<close>
  where "fork_job_execution_process K =
    op_bind (op_lift (\<lambda>_ s. apfst Inr (k_fork K s))) (\<lambda>child_pid.
    op_then (assign ''job_execution_process_pid'' (\<lambda>w. w\<lparr>w_job_execution_process_pid := child_pid\<rparr>))
      (model_save K False))"

definition execute_in_separate_process :: "('s, 'x) worker_env_scheme \<Rightarrow> queue \<Rightarrow> job_model \<Rightarrow> worker \<Rightarrow> 's \<Rightarrow> int \<times> 's"
  \<comment> \<open>in the child, with its exit status\<close>
  where "execute_in_separate_process K q j k s =
    (let pid = o_getpid K s
     in case op_then setup_job_execution_process_signals
               (op_then (assign ''job_execution_process_pid'' (\<lambda>w. w\<lparr>w_job_execution_process_pid := pid\<rparr>))
               (op_then (model_save K False) (op_obj (\<lambda>k. k\<lparr>k_is_job_execution_process := True\<rparr>)))) k s of
          (k1, Inl e, s1) \<Rightarrow> (1, s1)
        | (k1, Inr _, s1) \<Rightarrow>
            (case job_get K (m_name j) s1 of
               None \<Rightarrow> (1, s1)
             | Some j1 \<Rightarrow>
                 (case worker_perform_job K q (k1, j1) s1 of
                    (_, Inl e, s2) \<Rightarrow> (1, s2)
                  | (_, Inr _, s2) \<Rightarrow> (0, s2))))"

definition forked_child :: "('s, 'x) worker_env_scheme \<Rightarrow> queue \<Rightarrow> job_model \<Rightarrow> worker \<Rightarrow> 's \<Rightarrow> int \<times> 's"
  \<comment> \<open>the branch of \<open>fork_job_execution_process\<close> that runs in the child; none of its errors reaches the parent\<close>
  where "forked_child K q j k s =
    (case from_model K (k_model k) s of
       (Inl e, s1) \<Rightarrow> (1, s1)
     | (Inr w, s1) \<Rightarrow> execute_in_separate_process K q j w s1)"

definition after_monitoring :: "('s, 'x) worker_env_scheme \<Rightarrow> queue \<Rightarrow> int option \<Rightarrow> (worker \<times> job_model, 's, unit) op"
  where "after_monitoring K q ret_val =
    op_then (worker_part
      (op_then (worker_refresh K)
      (op_then (assign ''current_job_working_time'' (\<lambda>w. w\<lparr>w_current_job_working_time := 0\<rparr>))
        (model_save K False))))
    (if ret_val = Some 0 then op_return ()
     else op_bind (op_get (\<lambda>(k, j) _. j)) (\<lambda>j.
       op_bind (op_lift (\<lambda>_ s. (get_field (job_class (e_cfg K)) K j ''status'' s, s))) (\<lambda>job_status.
       op_bind (op_lift (\<lambda>(k, _) s. (stopped_job_name K k s, s))) (\<lambda>stopped.
       if job_status = VNone then op_return ()
       else if stopped = Some (m_name j) then
         op_then (job_op (call_stopped_callback K VNone))
           (handle_job_failure K q ''Job stopped by user, job execution process terminated.'')
       else if job_status \<notin> {VEnum ''finished'', VEnum ''failed''} then
         handle_job_failure K q (k_wait_message K ret_val)
       else op_return ()))))"

definition monitor_turn :: "('s, 'x) worker_env_scheme \<Rightarrow> job_model \<Rightarrow> ('s, bool) worker_op"
  \<comment> \<open>the handler of \<open>JobExecutionMonitorTimeoutException\<close>; the result is whether the loop is left\<close>
  where "monitor_turn K j =
    op_then
      (case j_started_at j of
         None \<Rightarrow> op_return ()
       | Some started \<Rightarrow>
           op_bind (now_op K) (\<lambda>now.
             model_op (set_current_job_working_time K (of_int (now - started) / 1000000))))
      (op_bind (op_get (\<lambda>k _. k)) (\<lambda>k.
         if j_timeout j \<noteq> -1 \<and> w_current_job_working_time (k_model k) > of_int (j_timeout j + 60) then
           op_then (heartbeat K (Some (k_job_monitoring_interval k + 60)))
           (op_then (kill_job_execution_process K)
           (op_then (op_world (\<lambda>k s. k_unmonitored_wait K (w_job_execution_process_pid (k_model k)) s))
             (op_return True)))
         else op_then (heartbeat K (Some (k_job_monitoring_interval k + 60))) (op_return False)))"

partial_function (option) monitor_loop ::
    "('s, 'x) worker_env_scheme \<Rightarrow> job_model \<Rightarrow> worker \<Rightarrow> 's \<Rightarrow> (worker \<times> ('s, int option) outcome) option"
where
  "monitor_loop K j k s =
     (case k_waitpid K (w_job_execution_process_pid (k_model k)) s of
        (Exited ret_val, s1) \<Rightarrow> Some (k, Inr ret_val, s1)
      | (MonitorTimeout, s1) \<Rightarrow>
          (case monitor_turn K j k s1 of
             (k1, Inl e, s2) \<Rightarrow> Some (k1, Inl e, s2)
           | (k1, Inr left, s2) \<Rightarrow> if left then Some (k1, Inr None, s2) else monitor_loop K j k1 s2)
      | (Interrupted, s1) \<Rightarrow>
          (case heartbeat K None k s1 of
             (k1, Inl e, s2) \<Rightarrow> Some (k1, Inl e, s2)
           | (k1, Inr _, s2) \<Rightarrow> monitor_loop K j k1 s2)
      | (WaitFailed, s1) \<Rightarrow> Some (k, Inl OSError, s1))"

definition monitor_job_execution_process ::
    "('s, 'x) worker_env_scheme \<Rightarrow> queue \<Rightarrow> job_model \<Rightarrow> worker \<Rightarrow> 's \<Rightarrow> (worker \<times> ('s, unit) outcome) option"
  where "monitor_job_execution_process K q j k s =
    (case monitor_loop K j k s of
       None \<Rightarrow> None
     | Some (k1, Inl e, s1) \<Rightarrow> Some (k1, Inl e, s1)
     | Some (k1, Inr ret_val, s1) \<Rightarrow>
         (case after_monitoring K q ret_val (k1, j) s1 of ((k2, _), r, s2) \<Rightarrow> Some (k2, r, s2)))"

definition execute_job ::
    "('s, 'x) worker_env_scheme \<Rightarrow> queue \<Rightarrow> job_model \<Rightarrow> worker \<Rightarrow> 's \<Rightarrow> (worker \<times> ('s, unit) outcome) option"
  where "execute_job K q j k s =
    (case set_state K WorkerBusy k s of
       (k1, Inl e, s1) \<Rightarrow> Some (k1, Inl e, s1)
     | (k1, Inr _, s1) \<Rightarrow>
         (if k_fork_job_execution k then
            (case fork_job_execution_process K k1 s1 of
               (k2, Inl e, s2) \<Rightarrow> Some (k2, Inl e, s2)
             | (k2, Inr _, s2) \<Rightarrow>
                 (case monitor_job_execution_process K q j k2 s2 of
                    None \<Rightarrow> None
                  | Some (k3, Inl e, s3) \<Rightarrow> Some (k3, Inl e, s3)
                  | Some (k3, Inr _, s3) \<Rightarrow> Some (set_state K WorkerIdle k3 s3)))
          else
            (case worker_perform_job K q (k1, j) s1 of
               ((k2, _), Inl e, s2) \<Rightarrow> Some (k2, Inl e, s2)
             | ((k2, _), Inr _, s2) \<Rightarrow> Some (set_state K WorkerIdle k2 s2))))"

definition simple_execute_job ::
    "('s, 'x) os_env_scheme \<Rightarrow> queue \<Rightarrow> (worker \<times> job_model, 's, unit) op"
  \<comment> \<open>\<open>SimpleWorker.execute_job\<close>\<close>
  where "simple_execute_job A q =
    op_then (worker_part (set_state A WorkerBusy))
    (op_then (worker_perform_job A q)
      (worker_part (set_state A WorkerIdle)))"

section \<open>Taking jobs\<close>

definition idle_left :: "int \<Rightarrow> time \<Rightarrow> time \<Rightarrow> int"
  \<comment> \<open>\<open>math.ceil(max_idle_time - idle_for)\<close>\<close>
  where "idle_left max_idle_time since now = ceil_div (secs max_idle_time - (now - since)) 1000000"

definition next_wait :: "rat \<Rightarrow> rat"
  where "next_wait connection_wait_time = min (connection_wait_time * 2) 60"

definition before_fetch :: "('s, 'x) os_env_scheme \<Rightarrow> ('s, unit) worker_op"
  where "before_fetch A =
    op_then (heartbeat A None)
      (op_bind (should_run_maintenance_tasks A) (\<lambda>due. op_when due (run_maintenance_tasks A)))"

partial_function (option) dequeue_loop ::
    "('s, 'x) worker_env_scheme \<Rightarrow> int option \<Rightarrow> time \<Rightarrow> int option \<Rightarrow> int option \<Rightarrow> worker \<Rightarrow> 's
      \<Rightarrow> (worker \<times> ('s, (job_model \<times> queue) option) outcome) option"
  \<comment> \<open>connection errors, after which it waits and tries again, are the broker's and do not occur in the model\<close>
where
  "dequeue_loop K max_idle_time idle_since timeout idle_time_left k s =
     (case before_fetch K k s of
        (k1, Inl e, s1) \<Rightarrow> Some (k1, Inl e, s1)
      | (k1, Inr _, s1) \<Rightarrow>
          (let timeout' = (case (timeout, idle_time_left) of (Some a, Some b) \<Rightarrow> Some (min a b) | _ \<Rightarrow> timeout)
           in case dequeue_any K (k_ordered_queues k1) timeout' s1 of
                None \<Rightarrow> None
              | Some (Inr None, s2) \<Rightarrow> Some (k1, Inr None, s2)
              | Some (Inr (Some (j, q)), s2) \<Rightarrow>
                  (case reorder_queues K q k1 s2 of
                     (k2, Inl e, s3) \<Rightarrow> Some (k2, Inl e, s3)
                   | (k2, Inr _, s3) \<Rightarrow> Some (k2, Inr (Some (j, q)), s3))
              | Some (Inl e, s2) \<Rightarrow>
                  if e \<noteq> DequeueTimeout then Some (k1, Inl e, s2)
                  else (case max_idle_time of
                          None \<Rightarrow> dequeue_loop K max_idle_time idle_since timeout' idle_time_left k1 s2
                        | Some m \<Rightarrow>
                            (case utcnow K s2 of
                               (now, s3) \<Rightarrow>
                                 if idle_left m idle_since now \<le> 0 then Some (k1, Inr None, s3)
                                 else dequeue_loop K max_idle_time idle_since timeout' (Some (idle_left m idle_since now)) k1 s3))))"

definition dequeue_job_and_maintain_ttl ::
    "('s, 'x) worker_env_scheme \<Rightarrow> int option \<Rightarrow> int option \<Rightarrow> worker \<Rightarrow> 's
      \<Rightarrow> (worker \<times> ('s, (job_model \<times> queue) option) outcome) option"
  where "dequeue_job_and_maintain_ttl K timeout max_idle_time k s =
    (case set_state K WorkerIdle k s of
       (k1, Inl e, s1) \<Rightarrow> Some (k1, Inl e, s1)
     | (k1, Inr _, s1) \<Rightarrow>
         (let (idle_since, s2) = utcnow K s1
          in case dequeue_loop K max_idle_time idle_since timeout max_idle_time k1 s2 of
               None \<Rightarrow> None
             | Some (k2, Inl e, s3) \<Rightarrow> Some (k2, Inl e, s3)
             | Some (k2, Inr res, s3) \<Rightarrow>
                 (case heartbeat K None k2 s3 of
                    (k3, Inl e, s4) \<Rightarrow> Some (k3, Inl e, s4)
                  | (k3, Inr _, s4) \<Rightarrow> Some (k3, Inr res, s4))))"

section \<open>Stopping\<close>

definition set_shutdown_requested :: "('s, 'x) env_scheme \<Rightarrow> ('s, unit) worker_op"
  where "set_shutdown_requested B =
    op_bind (now_op B) (\<lambda>now. model_op (worker_set_field B ''shutdown_requested_date'' (VDatetime now)
      (\<lambda>w. w\<lparr>w_shutdown_requested_date := Some now\<rparr>)))"

definition request_stop :: "('s, 'x) os_env_scheme \<Rightarrow> ('s, unit) worker_op"
  \<comment> \<open>signal handlers can be installed in the main thread only\<close>
  where "request_stop A =
    op_then (set_shutdown_requested A)
    (if \<not> o_main_thread A then op_raise ValueError
     else op_then (on_signals RequestForceStop RequestForceStop)
       (op_then (stop_scheduler A)
       (op_bind (op_get (\<lambda>k _. w_state (k_model k))) (\<lambda>st.
          if st = WorkerBusy then set_shutdown_requested A else op_raise StopRequested))))"

definition request_force_stop :: "('s, 'x) worker_env_scheme \<Rightarrow> ('s, unit) worker_op"
  where "request_force_stop K =
    op_bind (op_get (\<lambda>k _. w_shutdown_requested_date (k_model k))) (\<lambda>d.
    op_bind (case d of None \<Rightarrow> op_return False | Some t \<Rightarrow> op_bind (now_op K) (\<lambda>now. op_return (now - t < secs 1)))
      (\<lambda>ignored.
        if ignored then op_return ()
        else op_bind (op_get (\<lambda>k _. w_job_execution_process_pid (k_model k))) (\<lambda>pid.
          op_then (op_when (pid \<noteq> 0)
             (op_then (kill_job_execution_process K) (op_world (\<lambda>k s. k_unmonitored_wait K pid s))))
          (op_raise SystemExit))))"

definition handle_signal :: "('s, 'x) worker_env_scheme \<Rightarrow> signal_action \<Rightarrow> ('s, unit) worker_op"
  \<comment> \<open>what Python does when the signal comes; the default action is that of SIGINT\<close>
  where "handle_signal K a =
    (case a of
       DefaultAction \<Rightarrow> op_raise KeyboardInterrupt
     | IgnoreSignal \<Rightarrow> op_return ()
     | RequestStop \<Rightarrow> request_stop K
     | RequestForceStop \<Rightarrow> request_force_stop K)"

definition on_sigint :: "('s, 'x) worker_env_scheme \<Rightarrow> ('s, unit) worker_op"
  where "on_sigint K k = handle_signal K (k_on_sigint k) k"

section \<open>The work loop\<close>

definition before_dequeue :: "('s, 'x) worker_env_scheme \<Rightarrow> ('s, bool) worker_op"
  \<comment> \<open>after the suspension check; the result is whether to stop on request\<close>
  where "before_dequeue K =
    op_bind (should_run_maintenance_tasks K) (\<lambda>due.
    op_then (op_when due (run_maintenance_tasks K))
      (op_get (\<lambda>k _. w_shutdown_requested_date (k_model k) \<noteq> None)))"

definition after_job :: "('s, 'x) env_scheme \<Rightarrow> ('s, unit) worker_op"
  where "after_job B = op_then (worker_refresh B) (op_then (heartbeat B None) (model_save B False))"

partial_function (option) work_loop ::
    "('s, 'x) worker_env_scheme \<Rightarrow> int option \<Rightarrow> int option \<Rightarrow> worker \<Rightarrow> 's \<Rightarrow> (worker \<times> ('s, bool) outcome) option"
where
  "work_loop K max_jobs max_idle_time k s =
     (case worker_refresh K k s of
        (k1, Inl e, s1) \<Rightarrow> Some (k1, Inl e, s1)
      | (k1, Inr _, s1) \<Rightarrow>
     (case check_for_suspension K (k_burst k) k1 s1 of
        None \<Rightarrow> None
      | Some (k2, Inl e, s2) \<Rightarrow> Some (k2, Inl e, s2)
      | Some (k2, Inr _, s2) \<Rightarrow>
     (case before_dequeue K k2 s2 of
        (k3, Inl e, s3) \<Rightarrow> Some (k3, Inl e, s3)
      | (k3, Inr stop, s3) \<Rightarrow>
     if stop then Some (k3, Inr (w_completed_jobs (k_model k3) > 0), s3)
     else
     (case dequeue_job_and_maintain_ttl K (if k_burst k then None else Some (DEFAULT_WORKER_TTL (e_cfg K) - 15))
              max_idle_time k3 s3 of
        None \<Rightarrow> None
      | Some (k4, Inl e, s4) \<Rightarrow> Some (k4, Inl e, s4)
      | Some (k4, Inr None, s4) \<Rightarrow>
          if k_burst k \<or> max_idle_time \<noteq> None then Some (k4, Inr (w_completed_jobs (k_model k4) > 0), s4)
          else work_loop K max_jobs max_idle_time k4 s4
      | Some (k4, Inr (Some (j, q)), s4) \<Rightarrow>
     (case execute_job K q j k4 s4 of
        None \<Rightarrow> None
      | Some (k5, Inl e, s5) \<Rightarrow> Some (k5, Inl e, s5)
      | Some (k5, Inr _, s5) \<Rightarrow>
     (case after_job K k5 s5 of
        (k6, Inl e, s6) \<Rightarrow> Some (k6, Inl e, s6)
      | (k6, Inr _, s6) \<Rightarrow>
          if (case max_jobs of None \<Rightarrow> False | Some m \<Rightarrow> w_completed_jobs (k_model k6) \<ge> m)
          then Some (k6, Inr (w_completed_jobs (k_model k6) > 0), s6)
          else work_loop K max_jobs max_idle_time k6 s6))))))"

definition worker_work ::
    "('s, 'x) worker_env_scheme \<Rightarrow> int option \<Rightarrow> int option \<Rightarrow> worker \<Rightarrow> 's \<Rightarrow> (worker \<times> ('s, bool) outcome) option"
  where "worker_work K max_jobs max_idle_time k s =
    (case op_then (bootstrap K) (install_signal_handlers K) k s of
       (k1, Inl e, s1) \<Rightarrow> Some (k1, Inl e, s1)
     | (k1, Inr _, s1) \<Rightarrow>
         (case work_loop K max_jobs max_idle_time k1 s1 of
            None \<Rightarrow> None
          | Some (k2, r, s2) \<Rightarrow>
              (case teardown K k2 s2 of
                 (k3, Inl e, s3) \<Rightarrow> Some (k3, Inl e, s3)
               | (k3, Inr _, s3) \<Rightarrow>
                   Some (k3, (case r of Inr b \<Rightarrow> Inr b | Inl e \<Rightarrow> if is_Exception e then Inr False else Inl e), s3))))"

section \<open>Facts\<close>

lemma get_heartbeat_ttl_bounds:
  assumes "0 \<le> k_job_monitoring_interval k"
  shows "get_heartbeat_ttl k j \<le> k_job_monitoring_interval k + 60"
    and "0 < j_timeout j \<Longrightarrow> w_current_job_working_time (k_model k) \<le> of_int (j_timeout j) \<Longrightarrow>
      60 \<le> get_heartbeat_ttl k j"
    and "0 < j_timeout j \<Longrightarrow> w_current_job_working_time (k_model k) \<le> of_int (j_timeout j) \<Longrightarrow>
      of_int (get_heartbeat_ttl k j) \<le> of_int (j_timeout j) - w_current_job_working_time (k_model k) + 60"
  using assms by (auto simp: get_heartbeat_ttl_def Let_def le_floor_iff min_def) linarith+

lemma idle_left_covers:
  assumes "idle_left m since now = n"
  shows "since + secs m \<le> now + secs n" and "now + secs n < since + secs m + 1000000"
  using ceil_div_bounds [of 1000000 "secs m - (now - since)"] assms by (simp_all add: idle_left_def secs_def)

section \<open>Facts about stopping\<close>

lemma set_shutdown_requested_result:
  "\<exists>s'. set_shutdown_requested A k s =
     (k\<lparr>k_model := mark_dirty ''shutdown_requested_date'' ((k_model k)\<lparr>w_shutdown_requested_date := Some (fst (utcnow A s))\<rparr>)\<rparr>,
      Inr (), s')"
  by (cases "utcnow A s") (simp add: set_shutdown_requested_def op_bind_def now_op_def model_op_def op_sub_def
      worker_set_field_def set_field_def set_field_cmds_def worker_field_types_def)

lemma stop_scheduler_result: "\<exists>s'. stop_scheduler A k s = (k\<lparr>k_scheduler := None\<rparr>, Inr (), s') \<or> stop_scheduler A k s = (k, Inr (), s')"
  by (auto simp: stop_scheduler_def request_stop_and_wait_def split: option.splits prod.splits)

lemma request_stop_main:
  assumes "o_main_thread A"
  obtains t s' where "fst (snd (request_stop A k s)) \<in> {Inr (), Inl StopRequested}"
    "k_on_sigint (fst (request_stop A k s)) = RequestForceStop"
    "k_on_sigterm (fst (request_stop A k s)) = RequestForceStop"
    "w_shutdown_requested_date (k_model (fst (request_stop A k s))) = Some t"
    "w_job_execution_process_pid (k_model (fst (request_stop A k s))) = w_job_execution_process_pid (k_model k)"
proof -
  define t where "t = fst (utcnow A s)"
  obtain s1 where 1: "set_shutdown_requested A k s =
     (k\<lparr>k_model := mark_dirty ''shutdown_requested_date'' ((k_model k)\<lparr>w_shutdown_requested_date := Some t\<rparr>)\<rparr>, Inr (), s1)"
    using set_shutdown_requested_result [of A k s] unfolding t_def by blast
  define k1 where "k1 = k\<lparr>k_model := mark_dirty ''shutdown_requested_date'' ((k_model k)\<lparr>w_shutdown_requested_date := Some t\<rparr>)\<rparr>"
  let ?k2 = "k1\<lparr>k_on_sigint := RequestForceStop, k_on_sigterm := RequestForceStop\<rparr>"
  obtain k3 s3 where 3: "stop_scheduler A ?k2 s1 = (k3, Inr (), s3)" "k_model k3 = k_model k1"
      "k_on_sigint k3 = RequestForceStop" "k_on_sigterm k3 = RequestForceStop"
    using stop_scheduler_result [of A ?k2 s1] by auto
  define t' where "t' = fst (utcnow A s3)"
  obtain s4 where 4: "set_shutdown_requested A k3 s3 =
     (k3\<lparr>k_model := mark_dirty ''shutdown_requested_date'' ((k_model k3)\<lparr>w_shutdown_requested_date := Some t'\<rparr>)\<rparr>, Inr (), s4)"
    using set_shutdown_requested_result [of A k3 s3] unfolding t'_def by blast
  show ?thesis
    by (rule that [of "if w_state (k_model k) = WorkerBusy then t' else t"])
      (use assms 1 3 4 in \<open>simp_all add: request_stop_def op_bind_def on_signals_def k1_def mark_dirty_def\<close>)
qed

lemma force_stop_result:
  assumes "w_shutdown_requested_date (k_model k) = Some t" "utcnow K s = (now, s1)"
  shows "request_force_stop K k s =
    (if now - t < secs 1 then (k, Inr (), s1)
     else if w_job_execution_process_pid (k_model k) = 0 then (k, Inl SystemExit, s1)
     else case kill_job_execution_process K k s1 of
         (k2, Inl e, s2) \<Rightarrow> (k2, Inl e, s2)
       | (k2, Inr _, s2) \<Rightarrow> (k2, Inl SystemExit, k_unmonitored_wait K (w_job_execution_process_pid (k_model k)) s2))"
  using assms by (simp add: request_force_stop_def op_bind_def now_op_def op_when_def split: prod.splits sum.splits)

end
