(* ===== verification/Samples.thy ===== *)
theory Samples
  imports Lifecycle JobExecution
begin

text \<open>Concrete queues, jobs and broker contents, at which the properties are instantiated.\<close>

definition sample_queue :: queue
  where "sample_queue = \<lparr> q_name = ''default'', q_is_async = True \<rparr>"

definition sync_queue :: queue
  where "sync_queue = \<lparr> q_name = ''default'', q_is_async = False \<rparr>"

definition sample_job :: "string \<Rightarrow> job_model"
  where "sample_job n =
    \<lparr> m_name = n, created_at = Some (secs 100), parent = None, dirty_fields = {}, save_all_flag = True,
      j_args = [VInt 1], j_kwargs = [], j_queue_name = ''default'', j_description = ''tasks.ok(1)'',
      j_func_name = ''tasks.ok'', j_timeout = 300, j_success_ttl = 600, j_job_info_ttl = 600,
      j_at_front = Some False, j_last_heartbeat = None, j_worker_name = None, j_started_at = None,
      j_enqueued_at = None, j_ended_at = None, j_success_callback_name = None,
      j_success_callback_timeout = Some 60, j_failure_callback_name = None, j_failure_callback_timeout = Some 60,
      j_stopped_callback_name = None, j_stopped_callback_timeout = Some 60, j_task_type = None,
      j_scheduled_task_id = None, j_status = Some JobQueued, j_meta = [] \<rparr>"

lemma sample_job_sel [simp]:
  "m_name (sample_job n) = n" "created_at (sample_job n) = Some (secs 100)" "j_status (sample_job n) = Some JobQueued"
  "save_all_flag (sample_job n)" "j_success_ttl (sample_job n) = 600" "j_job_info_ttl (sample_job n) = 600"
  "j_timeout (sample_job n) = 300"
  by (simp_all add: sample_job_def)

lemma storable_sample_job [simp]: "storable (sample_job n)"
  by (simp add: storable_def sample_job_def)

lemma sample_queue_sel [simp]: "q_is_async sample_queue" "q_name sample_queue = ''default''"
  by (simp_all add: sample_queue_def)

abbreviation cfg0 :: scheduler_config
  where "cfg0 \<equiv> default_scheduler_config"

definition mem0 :: mem
  \<comment> \<open>an empty broker, 1000 seconds after the epoch\<close>
  where "mem0 = \<lparr> m_clock = secs 1000, m_zsets = (\<lambda>_. []), m_hashes = (\<lambda>_. []), m_sets = (\<lambda>_. []),
     m_strs = (\<lambda>_. None), m_streams = (\<lambda>_. []), m_ttls = (\<lambda>_. None), m_outbox = [] \<rparr>"

definition mem_saved :: "string \<Rightarrow> mem"
  \<comment> \<open>with a stored job\<close>
  where "mem_saved n = snd (snd (job_save (mem_host cfg0) True (sample_job n) mem0))"

lemma mem0_empty [simp]:
  "m_zset mem0 k = []" "m_hashes mem0 k = []" "m_strs mem0 k = None" "m_sets mem0 k = []" "m_streams mem0 k = []"
  by (simp_all add: mem0_def m_zset_def z_norm_def)

lemma mem0_entries [simp]: "reg_entries mem_view mem0 r = Map.empty"
  by (simp add: reg_entries_def)

lemma one_place_mem0: "one_place mem_view q mem0"
  by (simp add: one_place_def placed_def)

definition sample_scheduler :: worker_scheduler
  where "sample_scheduler = \<lparr> ws_queues = [sample_queue], ws_registries = [], ws_lock_acquisition_time = None,
     ws_locks = [], ws_interval = 10, ws_stop_requested = False, ws_status = SchedulerStopped,
     ws_has_thread = False, ws_pid = None, ws_worker_name = ''worker'' \<rparr>"

definition sample_app_mem :: app_mem
  where "sample_app_mem = mem.extend mem0 \<lparr> d_tasks = [] \<rparr>"

definition sample_worker_model :: worker_model
  where "sample_worker_model = new_worker_model (mem_worker cfg0) [sample_queue] ''worker'' sample_app_mem"

definition sample_worker :: worker
  where "sample_worker = \<lparr> k_queues = [sample_queue], k_name = ''worker'', k_ordered_queues = [sample_queue],
     k_is_job_execution_process = False, k_scheduler = None, k_dequeue_strategy = Some ROUND_ROBIN,
     k_with_scheduler = False, k_burst = True, k_fork_job_execution = False, k_job_monitoring_interval = 30,
     k_maintenance_interval = 600, k_listener = listener_init ''worker'',
     k_on_sigint = DefaultAction, k_on_sigterm = DefaultAction, k_model = sample_worker_model \<rparr>"

lemma sample_worker_sel [simp]:
  "k_job_monitoring_interval sample_worker = 30" "w_current_job_working_time (k_model sample_worker) = 0"
  by (simp_all add: sample_worker_def sample_worker_model_def new_worker_model_def hash_post_init_def)

lemma e_cfg_mem [simp]: "e_cfg (mem_env_ext cfg x) = cfg" "e_cfg (mem_host cfg) = cfg"
  by (simp_all add: mem_env_ext_def mem_host_def)

lemma mem_os_queues [simp]: "a_queues (mem_os cfg) = mem_queues"
  by (simp add: mem_os_def mem_app_def app_env.defs host_env.defs os_env.defs mem_host_def mem_env_ext_def)

lemma get_default_queue [simp]: "get_queue mem_queues ''default'' = Inr sample_queue"
  by (simp add: get_queue_def get_queue_configuration_def mem_queues_def sample_queue_def)

lemma sample_acquire:
  "\<exists>w' won s'. acquire_locks (mem_os cfg0) sample_scheduler (s :: app_mem) = (w', Inr won, s')"
proof -
  let ?each = "acquire_each (mem_os cfg0) (str_of_int (o_getpid (mem_os cfg0) s)) 70 [sample_queue] [] s"
  obtain won locks s1 where each: "?each = (won, locks, s1)" by (cases ?each) auto
  then have "locks = [] \<or> (\<exists>l. locks = [(''default'', l)])"
    by (auto simp: split_beta split: if_splits)
  then have "\<exists>rs. registries_of mem_queues (map fst locks) = Inr rs" by auto
  then obtain rs where "registries_of mem_queues (map fst locks) = Inr rs" by blast
  then show ?thesis using each by (simp add: acquire_locks_def sample_scheduler_def Let_def split_beta)
qed

end
