(* ===== verification/Queue_Properties.thy ===== *)
theory Queue_Properties
  imports Samples JobExecution
begin

text \<open>
  The properties of jobs, queues, registries, results, locks and workers.  The broker, and the functions
  jobs run, are hypotheses; each property with a hypothesis is instantiated at the in-memory broker.
\<close>

section \<open>Taking jobs off queues\<close>



section \<open>The life of a job\<close>



text \<open>
  C5.  Enqueuing a job of a queue served by workers succeeds if the job can be stored: the job is then
  in the registry of queued jobs, no longer in the one of scheduled jobs, its stored status is \<open>queued\<close>,
  and no other registry changes.
\<close>

theorem enqueue_job_enters:
  assumes "host H view" "q_is_async q" "storable j"
  shows "\<exists>s'. enqueue_job H q [] at_front j s = (clean (enqueued H j s), Inr (), s') \<and>
     stored_status view s' (m_name j) = Some (W ''queued'') \<and>
     (\<forall>r. reg_entries view s' r =
       (if r = queue_registry QueuedJobs q
        then (reg_entries view s r)(m_name j \<mapsto> secs (enqueue_score H q at_front (once_saved H j s)))
        else if r = queue_registry ScheduledJobs q then (reg_entries view s r)(m_name j := None)
        else reg_entries view s r))"
  using host.enqueue_job_async(1-4) [OF assms, of at_front s] by (cases "enqueue_job H q [] at_front j s") auto

theorem enqueue_job_enters_witness:
  "\<exists>s'. enqueue_job (mem_host cfg0) sample_queue [] False (sample_job ''a'') mem0 =
       (clean (enqueued (mem_host cfg0) (sample_job ''a'') mem0), Inr (), s') \<and>
     stored_status mem_view s' ''a'' = Some (W ''queued'')"
  using enqueue_job_enters [OF mem_host.host_axioms, of sample_queue "sample_job ''a''" cfg0 False mem0] by auto

text \<open>
  C6.  A job that is not put at the front goes behind the jobs that wait: the others keep their order, and
  none of them gets a later timestamp than it.  (Entries of a queue have whole, positive seconds: it is
  enqueuing that sets them.)
\<close>

theorem enqueue_job_behind:
  assumes "host H view" "q_is_async q" "storable j"
    and whole: "\<forall>p\<in>set (zsets (view s) (reg_key (queue_registry QueuedJobs q))). \<exists>i>0. snd p = secs i"
  shows "\<exists>t s'. enqueue_job H q [] False j s = (clean (enqueued H j s), Inr (), s') \<and>
      z_rem (m_name j) (zsets (view s') (reg_key (queue_registry QueuedJobs q))) =
        z_rem (m_name j) (zsets (view s) (reg_key (queue_registry QueuedJobs q))) \<and>
      reg_entries view s' (queue_registry QueuedJobs q) (m_name j) = Some t \<and>
      (\<forall>p\<in>set (zsets (view s) (reg_key (queue_registry QueuedJobs q))). snd p \<le> t)"
  using host.enqueue_goes_behind [OF assms(1-4)] host.enqueue_job_async(1,2) [OF assms(1-3), of False s]
  by (cases "enqueue_job H q [] False j s") auto

theorem enqueue_job_behind_witness:
  "\<exists>t s'. enqueue_job (mem_host cfg0) sample_queue [] False (sample_job ''a'') mem0 =
      (clean (enqueued (mem_host cfg0) (sample_job ''a'') mem0), Inr (), s') \<and>
    reg_entries mem_view s' (queue_registry QueuedJobs sample_queue) ''a'' = Some t"
  using enqueue_job_behind [OF mem_host.host_axioms, of sample_queue "sample_job ''a''" mem0 cfg0] by auto

text \<open>
  C7.  A job that ended well leaves the registry of active jobs for the one of finished jobs, where
  it stays until its time to live has passed; nothing else moves.
\<close>

theorem job_handle_success_moves:
  assumes "broker B view"
  shows "reg_entries view (snd (snd (job_handle_success B q v ttl rttl j s))) r =
    (if r = queue_registry ActiveJobs q then (reg_entries view s r)(m_name j := None)
     else if r = queue_registry FinishedJobs q \<and> ttl \<noteq> 0
     then (reg_entries view s r)(m_name j \<mapsto> expiry_after B (queue_registry ActiveJobs q) j ttl s)
     else reg_entries view s r)"
  by (rule broker.job_handle_success_entries [OF assms])

theorem job_handle_success_moves_witness:
  "reg_entries mem_view (snd (snd (job_handle_success (mem_env cfg0) sample_queue (VInt 1) 600 600 (sample_job ''a'') mem0)))
     (queue_registry ActiveJobs sample_queue) ''a'' = None"
  using job_handle_success_moves [OF mem_broker.broker_axioms, of cfg0 "()" sample_queue "VInt 1" 600 600 "sample_job ''a''" mem0
      "queue_registry ActiveJobs sample_queue"] by simp

text \<open>
  C8.  A job that failed, or was stopped, leaves the registry of active jobs for the one of failed jobs.
\<close>

theorem job_handle_failure_moves:
  assumes "broker B view"
  shows "reg_entries view (snd (snd (job_handle_failure B q st exc j s))) r =
    (if r = queue_registry ActiveJobs q then (reg_entries view s r)(m_name j := None)
     else if r = queue_registry FailedJobs q \<and> DEFAULT_FAILURE_TTL (e_cfg B) \<noteq> 0
     then (reg_entries view s r)(m_name j \<mapsto>
       expiry_after B (queue_registry ActiveJobs q) j (DEFAULT_FAILURE_TTL (e_cfg B)) s)
     else reg_entries view s r)"
  by (rule broker.job_handle_failure_entries [OF assms])

theorem job_handle_failure_moves_witness:
  "reg_entries mem_view (snd (snd (job_handle_failure (mem_env cfg0) sample_queue JobFailed ''boom'' (sample_job ''a'') mem0)))
     (queue_registry FailedJobs sample_queue) ''a'' \<noteq> None"
  using job_handle_failure_moves [OF mem_broker.broker_axioms, of cfg0 "()" sample_queue JobFailed "''boom''" "sample_job ''a''" mem0
      "queue_registry FailedJobs sample_queue"]
  by (simp add: mem_env_ext_def default_scheduler_config_def)

text \<open>
  C9.  Cancelling an unknown job, or one that is cancelled, is an error that changes nothing.  Any other
  job is removed from every registry of the queue but that of failed jobs; if it was queued it becomes
  cancelled, otherwise it counts as finished and its status is \<open>stopped\<close>.
\<close>

theorem cancel_job_stops:
  assumes "broker B view"
  shows "(job_get B n s = None \<longrightarrow> cancel_job B q n s = (Inl NoSuchJobError, s)) \<and>
    (\<forall>j. job_get B n s = Some j \<and> j_status j = Some JobCanceled \<longrightarrow> cancel_job B q n s = (Inl InvalidJobOperation, s)) \<and>
    (\<forall>j. job_get B n s = Some j \<and> m_name j = n \<and> j_status j \<noteq> Some JobCanceled \<longrightarrow>
      (\<exists>s' t. cancel_job B q n s = (Inr (), s') \<and>
        stored_status view s' n = Some (W (if j_status j = Some JobQueued then ''canceled'' else ''stopped'')) \<and>
        reg_entries view s' =
          (\<lambda>r. if r = queue_registry (if j_status j = Some JobQueued then CanceledJobs else FinishedJobs) q
           then (reg_entries view s r)(n \<mapsto> t)
           else if reg_name r = q_name q \<and> reg_kind r \<noteq> FailedJobs then (reg_entries view s r)(n := None)
           else reg_entries view s r)))"
proof (intro conjI allI impI; (elim conjE)?)
  fix j assume *: "job_get B n s = Some j" "m_name j = n" "j_status j \<noteq> Some JobCanceled"
  obtain s' where s': "cancel_job B q n s = (Inr (), s')"
    using broker.cancel_job_entries(1) [OF assms *(1,3,2), of q] by (cases "cancel_job B q n s") simp
  with broker.cancel_job_entries(2,3) [OF assms *(1,3,2), of q] show "\<exists>s' t. cancel_job B q n s = (Inr (), s') \<and>
        stored_status view s' n = Some (W (if j_status j = Some JobQueued then ''canceled'' else ''stopped'')) \<and>
        reg_entries view s' =
          (\<lambda>r. if r = queue_registry (if j_status j = Some JobQueued then CanceledJobs else FinishedJobs) q
           then (reg_entries view s r)(n \<mapsto> t)
           else if reg_name r = q_name q \<and> reg_kind r \<noteq> FailedJobs then (reg_entries view s r)(n := None)
           else reg_entries view s r)" by auto
qed (simp_all add: cancel_job_def)

theorem cancel_job_stops_witness:
  "cancel_job (mem_env cfg0) sample_queue ''a'' mem0 = (Inl NoSuchJobError, mem0)"
  using cancel_job_stops [OF mem_broker.broker_axioms, of cfg0 "()" "''a''" mem0 sample_queue]
  by (simp add: job_get_def model_get_def mem_env_ext_def m_hash_def)

text \<open>
  C10.  A deleted job is in no registry of its queue; the other jobs stay where they are.
\<close>

theorem delete_job_removes:
  assumes "broker B view"
  shows "reg_entries view (delete_job B q n ex s) r =
    (if reg_name r = q_name q then (reg_entries view s r)(n := None) else reg_entries view s r)"
  by (rule broker.delete_job_entries [OF assms])

theorem delete_job_removes_witness:
  "reg_entries mem_view (delete_job (mem_env cfg0) sample_queue ''a'' True mem0) (queue_registry FailedJobs sample_queue) ''a'' = None"
  using delete_job_removes [OF mem_broker.broker_axioms, of cfg0 "()" sample_queue "''a''" True mem0
      "queue_registry FailedJobs sample_queue"] by simp

section \<open>What is stored\<close>

text \<open>
  C11.  A job reads back as it was saved, whether all of it was written or only the fields changed since
  its hash and the object agreed; a \<open>None\<close> in \<open>at_front\<close> or in a callback's timeout reads back as the default.
\<close>

theorem job_saved_reads_back:
  assumes "broker B view"
    and "job_serialize True j = Inr mapping"
    and "dom (hashes (view s) (job_key (m_name j))) \<subseteq> fst ` set (job_fields j)"
    and "\<not> sa \<Longrightarrow> \<not> save_all_flag j \<Longrightarrow>
       agrees_on (- dirty_fields j) mapping (hashes (view s) (job_key (m_name j)))"
    and "created_at j = Some t" "j_status j = Some st"
  shows "job_get B (m_name j) (snd (snd (job_save B sa j s))) = Some (reloaded (e_cfg B) j)"
  unfolding job_get_def snd_job_save by (rule broker.job_save_get [OF assms])

theorem job_saved_reads_back_witness:
  "job_get (mem_host cfg0) ''a'' (mem_saved ''a'') = Some (reloaded cfg0 (sample_job ''a''))"
proof -
  obtain mapping where "job_serialize True (sample_job ''a'') = Inr mapping"
    using job_serialize_ok_iff [of "sample_job ''a''"] by auto
  from job_saved_reads_back [OF mem_host.broker_axioms [of cfg0] this, where s = mem0 and sa = True and t = "secs 100" and st = JobQueued]
  show ?thesis unfolding mem_saved_def by simp
qed



text \<open>
  Compacting the queued registry drops the entries of jobs that no longer exist, and nothing else.
\<close>

theorem compact_keeps_live:
  assumes "broker B view"
  shows "view (reg_compact B (queue_registry QueuedJobs q) s) =
    (view s)\<lparr>zsets := (zsets (view s))(reg_key (queue_registry QueuedJobs q) :=
       filter (\<lambda>p. key_exists (view s) (job_key (fst p))) (zsets (view s) (reg_key (queue_registry QueuedJobs q))))\<rparr>"
  using broker.view_reg_compact [OF assms, of "queue_registry QueuedJobs q" s] by (simp add: live_def)

theorem compact_keeps_live_witness:
  "zsets (mem_view (reg_compact (mem_env cfg0) (queue_registry QueuedJobs sample_queue) mem0))
     (reg_key (queue_registry QueuedJobs sample_queue)) = []"
  by (simp only: compact_keeps_live [OF mem_broker.broker_axioms]) simp

section \<open>Locks, schedulers and workers\<close>

text \<open>
  C30.  Of the processes that try for a free lock one after the other, the first gets it and no other.
\<close>

theorem one_lock_winner:
  assumes "broker B view" "lock_value B (kv_lock_init n) s = None"
  shows "fst (attempts (lock_acquire_at B ex) (v # vs) n s) = [v]"
  using broker.lock_one_winner [OF assms] .

theorem one_lock_winner_witness:
  "fst (attempts (lock_acquire_at (mem_env cfg0) (Some 70)) [''41'', ''42''] ''lock:scheduler:default'' mem0) = [''41'']"
  using one_lock_winner [OF mem_broker.broker_axioms, of cfg0 "()" "''lock:scheduler:default''" mem0 "Some 70" "''41''" "[''42'']"]
  by (simp add: lock_value_def mem_env_ext_def)



text \<open>
  C32.  Cleaning up a queue's workers forgets exactly the workers whose record has expired, in the
  queue's set and in the set of all workers, however many there are (they are removed a thousand at a time).
\<close>

theorem worker_cleanup_forgets:
  assumes "broker B view" "q \<noteq> []"
  shows "sets (view (worker_cleanup B (Some q) s)) k =
    (if k = worker_list_key \<or> k = worker_children_key q
     then sets (view s) k - {n \<in> sets (view s) (worker_children_key q). \<not> key_exists (view s) (worker_key n)}
     else sets (view s) k)"
  using assms(2) by (intro broker.worker_cleanup_sets [OF assms(1)]) (simp add: truthy_str_def)

theorem worker_cleanup_forgets_witness:
  "sets (mem_view (worker_cleanup (mem_env cfg0) (Some ''default'')
     (mem_run (SADD (worker_children_key ''default'') ''gone'') mem0))) (worker_children_key ''default'') = {}"
  using worker_cleanup_forgets [OF mem_broker.broker_axioms [of cfg0 "()"], of "''default''"
      "mem_run (SADD (worker_children_key ''default'') ''gone'') mem0" "worker_children_key ''default''"]
  by (simp add: key_exists_def)

text \<open>
  C33.  The name made up for a worker is one no worker has, and the first such number is taken.
\<close>

theorem worker_names_fresh:
  "calc_worker_name h existing \<notin> set existing \<and>
   (\<exists>n\<ge>1. calc_worker_name h existing = worker_name_number h n \<and>
      (\<forall>m\<ge>1. worker_name_number h m \<notin> set existing \<longrightarrow> n \<le> m))"
proof -
  obtain n where "n \<ge> 1" "calc_worker_name_from h existing 1 = worker_name_number h n"
      "worker_name_number h n \<notin> set existing"
      "\<forall>m. 1 \<le> m \<and> m < n \<longrightarrow> worker_name_number h m \<in> set existing"
    using calc_worker_name_from_spec [of 1 h existing] by blast
  then show ?thesis unfolding calc_worker_name_def by (metis not_less)
qed

theorem worker_names_fresh_witness:
  "calc_worker_name ''host'' [''host-worker.1''] \<noteq> ''host-worker.1''"
  using worker_names_fresh [of "''host''" "[''host-worker.1'']"] by simp

text \<open>
  C34.  A worker's record is given, at the start of a job, at least a minute and at most a minute more
  than the monitoring interval and than the job may still run.
\<close>

theorem heartbeat_outlives_job:
  assumes "0 \<le> k_job_monitoring_interval k" "0 < j_timeout j"
    and "w_current_job_working_time (k_model k) \<le> of_int (j_timeout j)"
  shows "60 \<le> get_heartbeat_ttl k j \<and> get_heartbeat_ttl k j \<le> k_job_monitoring_interval k + 60 \<and>
    of_int (get_heartbeat_ttl k j) \<le> of_int (j_timeout j) - w_current_job_working_time (k_model k) + 60"
  using get_heartbeat_ttl_bounds [OF assms(1)] assms(2,3) by blast

theorem heartbeat_outlives_job_witness:
  "60 \<le> get_heartbeat_ttl sample_worker (sample_job ''a'') \<and> get_heartbeat_ttl sample_worker (sample_job ''a'') \<le> 90"
  using heartbeat_outlives_job [of sample_worker "sample_job ''a''"] by simp

text \<open>
  Round robin puts the queue just served last and keeps the others, in their cyclic order; a queue the
  worker does not have is an error.
\<close>

theorem round_robin_fair:
  "case rotate_after q qs of
     Inl e \<Rightarrow> e = ValueError \<and> q \<notin> set qs
   | Inr qs' \<Rightarrow> q \<in> set qs \<and> last qs' = q \<and> mset qs' = mset qs \<and> (\<exists>n. qs' = rotate n qs)"
proof (cases "q \<in> set qs")
  case True
  then obtain n where n: "rotate_after q qs = Inr (rotate n qs)" using rotate_after_cases [of q qs] by metis
  then show ?thesis using True last_rotate_after [OF n] by (simp del: rotate_Suc) blast
qed (simp add: rotate_after_cases)

text \<open>
  A worker told to suspend, and not in burst mode, never leaves the check: it sleeps for ever, as
  it does not read its record again.  A worker that is not suspended goes on at once.
\<close>

theorem suspension_never_ends:
  "check_for_suspension A burst k s =
     (if \<not> w_is_suspended (k_model k) then Some (k, Inr (), s)
      else if burst then Some (k, Inl StopRequested, s) else None)"
  by (rule check_for_suspension_cases)

end
