(* ===== verification/Floats.thy ===== *)
theory Floats
  imports Prelude
begin

text \<open>
  Python's floats where their rounding can be seen: IEEE double precision on positive rationals, rounding to the
  nearest double, ties to even.  \<open>float_round\<close> is the double nearest a rational between \<open>2 ^ -900\<close> and
  \<open>2 ^ 900\<close>; zero is itself.  The fuel of the search for the exponent is enough for that range
  (\<open>mantissa_range\<close>).  Elsewhere in the development the floats are rationals, unrounded.
\<close>

definition round_half_even :: "rat \<Rightarrow> int"
  where "round_half_even r =
    (let f = \<lfloor>r\<rfloor>; d = r - of_int f
     in if d < 1 / 2 then f else if d > 1 / 2 then f + 1 else if f mod 2 = 0 then f else f + 1)"

lemma round_half_even_error: "\<bar>of_int (round_half_even r) - r\<bar> \<le> 1 / 2"
proof -
  have "of_int \<lfloor>r\<rfloor> \<le> r" "r < of_int \<lfloor>r\<rfloor> + 1" by linarith+
  then show ?thesis by (auto simp: round_half_even_def Let_def)
qed

lemma round_half_even_near: "\<bar>of_int i - r\<bar> < 1 / 2 \<Longrightarrow> round_half_even r = i"
proof -
  assume near: "\<bar>of_int i - r\<bar> < 1 / 2"
  then consider "of_int i \<le> r" "\<lfloor>r\<rfloor> = i" | "r < of_int i" "\<lfloor>r\<rfloor> = i - 1"
    by (cases "of_int i \<le> r") (auto simp: floor_eq_iff)
  then show ?thesis using near by cases (auto simp: round_half_even_def Let_def)
qed

lemma round_half_even_int [simp]: "round_half_even (of_int i) = i"
  by (simp add: round_half_even_def)

fun normalise :: "nat \<Rightarrow> rat \<Rightarrow> rat \<Rightarrow> rat \<times> rat"
  \<comment> \<open>a number and a power of two with the product given, the number between \<open>2 ^ 52\<close> and \<open>2 ^ 53\<close>\<close>
where
  "normalise 0 m p = (m, p)"
| "normalise (Suc n) m p =
     (if m \<ge> 2 ^ 53 then normalise n (m / 2) (p * 2)
      else if m < 2 ^ 52 then normalise n (m * 2) (p / 2)
      else (m, p))"

definition float_round :: "rat \<Rightarrow> rat"
  where "float_round r =
    (if r = 0 then 0 else (case normalise 1000 r 1 of (m, p) \<Rightarrow> of_int (round_half_even m) * p))"

definition float_div :: "nat \<Rightarrow> nat \<Rightarrow> rat"
  where "float_div a b = float_round (of_nat a / of_nat b)"

definition float_percent :: "nat \<Rightarrow> nat \<Rightarrow> rat"
  \<comment> \<open>\<open>(completed / total) * 100\<close>\<close>
  where "float_percent a b = float_round (float_div a b * 100)"

lemma normalise_product: "normalise n m p = (m', p') \<Longrightarrow> m' * p' = m * p"
  by (induction n m p rule: normalise.induct) (auto split: if_splits)

lemma normalise_pos: "normalise n m p = (m', p') \<Longrightarrow> 0 < m \<Longrightarrow> 0 < p \<Longrightarrow> 0 < m' \<and> 0 < p'"
  by (induction n m p rule: normalise.induct) (auto split: if_splits)

lemma normalise_halves:
  "m < 2 ^ 53 * 2 ^ n \<Longrightarrow> 2 ^ 52 \<le> m \<Longrightarrow> 2 ^ 52 \<le> fst (normalise n m p) \<and> fst (normalise n m p) < 2 ^ 53"
proof (induction n arbitrary: m p)
  case (Suc n)
  show ?case
  proof (cases "m \<ge> 2 ^ 53")
    case True
    then have "2 ^ 52 \<le> m / 2" "m / 2 < 2 ^ 53 * 2 ^ n" using Suc.prems(1) by simp_all
    then show ?thesis using Suc.IH [of "m / 2" "p * 2"] True by simp
  qed (use Suc.prems in simp)
qed simp

lemma normalise_doubles:
  "2 ^ 52 \<le> m * 2 ^ n \<Longrightarrow> m < 2 ^ 53 \<Longrightarrow> 2 ^ 52 \<le> fst (normalise n m p) \<and> fst (normalise n m p) < 2 ^ 53"
proof (induction n arbitrary: m p)
  case (Suc n)
  show ?case
  proof (cases "m < 2 ^ 52")
    case True
    then have "2 ^ 52 \<le> m * 2 * 2 ^ n" "m * 2 < 2 ^ 53" using Suc.prems(1) by simp_all
    then show ?thesis using Suc.IH [of "m * 2" "p / 2"] True by simp
  qed (use Suc.prems in simp)
qed simp

lemma mantissa_range:
  assumes "1 / 2 ^ 900 \<le> r" "r \<le> 2 ^ 900"
  shows "2 ^ 52 \<le> fst (normalise 1000 r 1) \<and> fst (normalise 1000 r 1) < 2 ^ 53"
proof (cases "2 ^ 52 \<le> r")
  case True
  have "r < 2 ^ 53 * 2 ^ 1000" using assms(2) by (rule le_less_trans) simp
  with True show ?thesis by (intro normalise_halves)
next
  case False
  have "(2::rat) ^ 52 \<le> 1 / 2 ^ 900 * 2 ^ 1000" by simp
  also have "\<dots> \<le> r * 2 ^ 1000" using assms(1) by (intro mult_right_mono) simp_all
  finally show ?thesis using False by (intro normalise_doubles) simp_all
qed

text \<open>The error of a rounding, relative to the number.\<close>

lemma float_round_error:
  assumes "1 / 2 ^ 900 \<le> r" "r \<le> 2 ^ 900"
  shows "\<bar>float_round r - r\<bar> \<le> r / 2 ^ 53"
proof -
  have pos: "0 < r" using assms(1) by (rule less_le_trans [rotated]) simp
  obtain m p where mp: "normalise 1000 r 1 = (m, p)" by fastforce
  have m: "2 ^ 52 \<le> m" using mantissa_range [OF assms] mp by simp
  have p: "0 < p" "m * p = r" using normalise_pos [OF mp pos] normalise_product [OF mp] by simp_all
  have "float_round r - r = (of_int (round_half_even m) - m) * p"
    using p pos by (simp add: float_round_def mp left_diff_distrib)
  then have "\<bar>float_round r - r\<bar> = \<bar>of_int (round_half_even m) - m\<bar> * p"
    using p(1) by (simp add: abs_mult)
  also have "\<dots> \<le> 1 / 2 * p" using round_half_even_error [of m] p(1) by (intro mult_right_mono) simp_all
  also have "\<dots> \<le> (m / 2 ^ 53) * p" using m p(1) by (intro mult_right_mono) simp_all
  also have "\<dots> = r / 2 ^ 53" using p(2) by simp
  finally show ?thesis .
qed

lemma float_round_zero [simp]: "float_round 0 = 0"
  by (simp add: float_round_def)

lemma normalise_up:
  "k < n \<Longrightarrow> 2 ^ 52 \<le> m * 2 ^ k \<Longrightarrow> m * 2 ^ k < 2 ^ 53 \<Longrightarrow> normalise n m p = (m * 2 ^ k, p / 2 ^ k)"
proof (induction k arbitrary: n m p)
  case 0
  then show ?case by (cases n) simp_all
next
  case (Suc k)
  obtain j where n: "n = Suc j" using Suc.prems(1) by (cases n) auto
  have "m * 1 \<le> m * 2 ^ k" if "0 \<le> m" using that by (intro mult_left_mono) simp_all
  moreover have "m * 2 ^ k < 2 ^ 52" using Suc.prems(3) by simp
  ultimately have "m < 2 ^ 52" by (cases "0 \<le> m") (auto simp: not_le intro: less_trans)
  moreover have "normalise j (m * 2) (p / 2) = (m * 2 * 2 ^ k, p / 2 / 2 ^ k)"
    using Suc.prems n by (intro Suc.IH) (simp_all add: mult.assoc)
  ultimately show ?case by (simp add: n mult.assoc)
qed

text \<open>The double nearest a number, once its exponent is known.\<close>

lemma float_round_at:
  "k < 1000 \<Longrightarrow> 2 ^ 52 \<le> r * 2 ^ k \<Longrightarrow> r * 2 ^ k < 2 ^ 53 \<Longrightarrow> float_round r = of_int (round_half_even (r * 2 ^ k)) / 2 ^ k"
  by (auto simp: float_round_def normalise_up)

lemma float_round_exact: "float_round 1 = 1" "float_round 100 = 100"
  using float_round_at [of 52 1] float_round_at [of 46 100] round_half_even_int [of "2 ^ 52"] round_half_even_int [of "100 * 2 ^ 46"]
  by simp_all

text \<open>A float below the exact share can cost a whole point: 29 of 50 are less than 58 per cent.\<close>

lemma float_percent_29_50: "\<lfloor>float_percent 29 50\<rfloor> = 57"
proof -
  have d: "float_div 29 50 = 5224175567749775 / 2 ^ 53"
    using float_round_at [of 53 "29 / 50"] round_half_even_near [of 5224175567749775 "29 / 50 * 2 ^ 53"]
    by (simp add: float_div_def)
  have e: "float_percent 29 50 = 8162774324609023 / 2 ^ 47"
    unfolding float_percent_def d using float_round_at [of 47 "5224175567749775 / 2 ^ 53 * 100"]
      round_half_even_near [of 8162774324609023 "5224175567749775 / 2 ^ 53 * 100 * 2 ^ 47"] by simp
  show ?thesis unfolding e by (simp add: floor_eq_iff)
qed

lemma float_percent_all [simp]: "0 < n \<Longrightarrow> float_percent n n = 100"
  by (simp add: float_percent_def float_div_def float_round_exact)

lemma float_percent_none [simp]: "float_percent 0 n = 0"
  by (simp add: float_percent_def float_div_def)

text \<open>A computed percentage is within a hair of the true one.\<close>

lemma float_percent_error:
  assumes "a \<le> b" "0 < b" "b \<le> 2 ^ 64"
  shows "\<bar>float_percent a b - of_nat a / of_nat b * 100\<bar> \<le> 1 / 2 ^ 40"
proof (cases "a = 0")
  case False
  define q :: rat where "q = of_nat a / of_nat b"
  define f where "f = float_round q"
  have q1: "q \<le> 1" using assms by (simp add: q_def)
  have "of_nat b \<le> (of_nat (2 ^ 64) :: rat)" using assms(3) of_nat_le_iff by blast
  then have b: "of_nat b \<le> (2 ^ 64 :: rat)" by simp
  have "1 / 2 ^ 64 \<le> (1 / of_nat b :: rat)" using b assms(2) by (simp add: divide_simps)
  also have "\<dots> \<le> q" unfolding q_def using False assms(2) by (simp add: divide_right_mono)
  finally have q0: "1 / 2 ^ 64 \<le> q" .
  have f: "\<bar>f - q\<bar> \<le> q / 2 ^ 53"
    unfolding f_def using q0 q1 by (intro float_round_error) (simp_all add: field_simps)
  have qpos: "0 < q" using q0 by (rule less_le_trans [rotated]) simp
  then have "q / 2 ^ 53 \<le> q / 2" by (intro divide_left_mono) simp_all
  with f have bounds: "q / 2 \<le> f" "f \<le> q * 2" using qpos by linarith+
  have "\<bar>float_round (f * 100) - f * 100\<bar> \<le> f * 100 / 2 ^ 53"
    using bounds q0 q1 by (intro float_round_error) (simp_all add: field_simps)
  moreover have "f * 100 / 2 ^ 53 \<le> 200 / 2 ^ 53" using bounds q1 by simp
  moreover have "\<bar>f * 100 - q * 100\<bar> \<le> 100 / 2 ^ 53"
  proof -
    have "q / 2 ^ 53 \<le> 1 / 2 ^ 53" using q1 by (intro divide_right_mono) simp_all
    with f have "\<bar>f - q\<bar> \<le> 1 / 2 ^ 53" by (rule order_trans)
    then have "\<bar>f - q\<bar> * 100 \<le> 1 / 2 ^ 53 * 100" by (rule mult_right_mono) simp
    moreover have "\<bar>f * 100 - q * 100\<bar> = \<bar>f - q\<bar> * 100"
      by (simp only: left_diff_distrib [symmetric] abs_mult abs_numeral)
    ultimately show ?thesis by simp
  qed
  ultimately have "\<bar>float_round (f * 100) - q * 100\<bar> \<le> 300 / 2 ^ 53" by linarith
  also have "(300 :: rat) / 2 ^ 53 \<le> 1 / 2 ^ 40" by simp
  finally show ?thesis unfolding float_percent_def float_div_def q_def f_def .
qed simp

end
