(* ===== verification/PlannerModels.thy ===== *)
theory PlannerModels
  imports Calendar Tables Floats
begin

text \<open>
  The daily planner's data, \<open>scheduler/models/personal_task.py\<close>: personal tasks with their subtasks and the
  history of their completion, prayers, and projects with their tasks and weekly schedules; and what its
  views share: requests, responses, and the parts of Django they call.

  Dates are ordinals, times of day are microseconds since midnight, strings are their UTF-8 bytes.  The
  database is a table per model, a parameter as in the rest of the development; \<open>planner\<close> is the outside
  world of the views.  What deleting a row takes with it is the models' own (\<open>on_delete=CASCADE\<close>).
  The columns Django fills in by itself, such as \<open>created_at\<close>, are left out.
\<close>

section \<open>Rows\<close>

record personal_task =
  pt_id :: "int option"
  pt_title :: string
  pt_description :: "string option"
  pt_date :: day
  pt_start_time :: clock_time
  pt_end_time :: clock_time
  pt_category :: string
  pt_is_completed :: bool
  pt_is_break :: bool
  pt_parent_task :: "int option"

record subtask =
  sb_id :: "int option"
  sb_personal_task :: int
  sb_title :: string
  sb_is_completed :: bool
  sb_order :: int

record task_completion =
  tc_id :: "int option"
  tc_task :: int
  tc_is_completed :: bool
  tc_performance_rating :: "string option"

record prayer_schedule =
  ps_id :: "int option"
  ps_prayer_name :: string
  ps_start_time :: clock_time
  ps_end_time :: clock_time

record prayer_completion =
  pc_id :: "int option"
  pc_prayer_name :: string
  pc_date :: day
  pc_is_completed :: bool
  pc_status :: string
  pc_completed_at :: "time option"

record project =
  pj_id :: "int option"
  pj_title :: string
  pj_description :: "string option"
  pj_start_date :: day
  pj_end_date :: day
  pj_status :: string

record project_task =
  jt_id :: "int option"
  jt_project :: int
  jt_title :: string
  jt_description :: "string option"
  jt_duration_hours :: rat
  jt_order :: int
  jt_is_scheduled :: bool

record project_schedule =
  js_id :: "int option"
  js_project_task :: int
  js_day_of_week :: int
  js_start_time :: clock_time
  js_duration_hours :: rat
  js_weeks :: int
  js_is_active :: bool

definition NON_NEGOTIABLE :: string where "NON_NEGOTIABLE = ''non_negotiable''"
definition SECONDARY :: string where "SECONDARY = ''secondary''"
definition FUN :: string where "FUN = ''fun''"

definition TASK_CATEGORIES :: "(string \<times> string) list"
  where "TASK_CATEGORIES =
    [(NON_NEGOTIABLE, ''Non-Negotiable''), (SECONDARY, ''Secondary''), (FUN, ''Fun Activity'')]"

definition PRAYER_NAMES :: "(string \<times> string) list"
  where "PRAYER_NAMES = [(''fajr'', ''Fajr''), (''zhor'', ''Zhor''), (''asr'', ''Asr''),
    (''magrib'', ''Magrib''), (''eisha'', ''Eisha'')]"

definition PRAYED :: string where "PRAYED = ''prayed''"
definition NOT_YET :: string where "NOT_YET = ''not_yet''"
definition MISSED :: string where "MISSED = ''missed''"

definition PROJECT_STATUSES :: "(string \<times> string) list"
  where "PROJECT_STATUSES = [(''planned'', ''Planned''), (''in_progress'', ''In Progress''),
    (''completed'', ''Completed''), (''on_hold'', ''On Hold'')]"

definition WEEKDAY_CHOICES :: "(int \<times> string) list"
  where "WEEKDAY_CHOICES = [(0, ''Monday''), (1, ''Tuesday''), (2, ''Wednesday''), (3, ''Thursday''),
    (4, ''Friday''), (5, ''Saturday''), (6, ''Sunday'')]"

definition display :: "(string \<times> string) list \<Rightarrow> string \<Rightarrow> string"
  \<comment> \<open>\<open>get_<field>_display()\<close>\<close>
  where "display choices v = (case map_of choices v of None \<Rightarrow> v | Some d \<Rightarrow> d)"

section \<open>The outside world\<close>

record 's planner =
  p_now :: "'s \<Rightarrow> time \<times> 's"
  p_tasks :: "('s, personal_task) db_table"
  p_subtasks :: "('s, subtask) db_table"
  p_completions :: "('s, task_completion) db_table"
  p_prayers :: "('s, prayer_schedule) db_table"
  p_prayer_completions :: "('s, prayer_completion) db_table"
  p_projects :: "('s, project) db_table"
  p_project_tasks :: "('s, project_task) db_table"
  p_schedules :: "('s, project_schedule) db_table"
  p_bool :: "pyval \<Rightarrow> bool result"
  p_time :: "string \<Rightarrow> clock_time result"
  p_float :: "string \<Rightarrow> rat result"
  p_text :: "pyval \<Rightarrow> string result"
  p_order :: "pyval \<Rightarrow> int result"
  p_key :: "pyval \<Rightarrow> int option result"
  p_repr :: "pyval \<Rightarrow> string"
  p_loads :: "string \<Rightarrow> pyval option"
  p_str :: "exn \<Rightarrow> string"

definition today :: "('s, 'x) planner_scheme \<Rightarrow> 's \<Rightarrow> day \<times> 's"
  \<comment> \<open>\<open>timezone.now().date()\<close>\<close>
  where "today P s = (let (t, s1) = p_now P s in (day_of t, s1))"

definition create :: "('s, 'r) db_table \<Rightarrow> 'r \<Rightarrow> 's \<Rightarrow> 'r \<times> 's"
  where "create T r s = tb_save T r s"

definition get_by_id :: "('r \<Rightarrow> int option) \<Rightarrow> ('s, 'r) db_table \<Rightarrow> int \<Rightarrow> 's \<Rightarrow> 'r option"
  where "get_by_id rid T i s = find (\<lambda>r. rid r = Some i) (tb_rows T s)"

definition object_or_404 :: "('r \<Rightarrow> int option) \<Rightarrow> ('s, 'r) db_table \<Rightarrow> int \<Rightarrow> 's \<Rightarrow> ('r \<Rightarrow> ('s, 'a) outcome) \<Rightarrow> ('s, 'a) outcome"
  where "object_or_404 rid T i s k = (case get_by_id rid T i s of None \<Rightarrow> (Inl Http404, s) | Some r \<Rightarrow> k r)"

definition delete_rows :: "('s, 'r) db_table \<Rightarrow> ('r \<Rightarrow> bool) \<Rightarrow> 's \<Rightarrow> 's"
  where "delete_rows T P s = fold (tb_delete T) (filter P (tb_rows T s)) s"

definition tasks_by_start :: "personal_task list \<Rightarrow> personal_task list"
  \<comment> \<open>\<open>order_by("start_time")\<close>\<close>
  where "tasks_by_start ts = sort_key pt_start_time ts"

definition default_order :: "personal_task list \<Rightarrow> personal_task list"
  \<comment> \<open>the model's \<open>Meta.ordering\<close>\<close>
  where "default_order ts = sort_key (\<lambda>t. (pt_date t, pt_start_time t)) ts"

definition subtasks_of :: "('s, 'x) planner_scheme \<Rightarrow> int \<Rightarrow> 's \<Rightarrow> subtask list"
  where "subtasks_of P i s = sort_key sb_order (filter (\<lambda>b. sb_personal_task b = i) (tb_rows (p_subtasks P) s))"

definition in_range :: "day \<Rightarrow> day \<Rightarrow> day \<Rightarrow> bool"
  \<comment> \<open>\<open>date__range=[a, b]\<close>\<close>
  where "in_range a b d \<longleftrightarrow> a \<le> d \<and> d \<le> b"

definition tasks_of_project :: "('s, 'x) planner_scheme \<Rightarrow> int \<Rightarrow> 's \<Rightarrow> project_task list"
  where "tasks_of_project P i s = sort_key jt_order (filter (\<lambda>t. jt_project t = i) (tb_rows (p_project_tasks P) s))"

section \<open>What goes with a deleted row\<close>

primrec with_breaks :: "nat \<Rightarrow> personal_task list \<Rightarrow> int list \<Rightarrow> int list"
  \<comment> \<open>the tasks with the given keys, their breaks, the breaks' breaks, and so on, up to a depth\<close>
where
  "with_breaks 0 ts ids = ids"
| "with_breaks (Suc n) ts ids =
     with_breaks n ts (remdups (ids @ map (\<lambda>t. the (pt_id t))
       (filter (\<lambda>t. pt_id t \<noteq> None \<and> (\<exists>i\<in>set ids. pt_parent_task t = Some i)) ts)))"

definition cascade_tasks :: "('s, 'x) planner_scheme \<Rightarrow> int list \<Rightarrow> 's \<Rightarrow> 's"
  where "cascade_tasks P ids s =
    (let gone = with_breaks (length (tb_rows (p_tasks P) s)) (tb_rows (p_tasks P) s) ids
     in delete_rows (p_tasks P) (\<lambda>t. \<exists>i\<in>set gone. pt_id t = Some i)
          (delete_rows (p_completions P) (\<lambda>c. tc_task c \<in> set gone)
            (delete_rows (p_subtasks P) (\<lambda>b. sb_personal_task b \<in> set gone) s)))"

definition delete_project_tasks :: "('s, 'x) planner_scheme \<Rightarrow> int list \<Rightarrow> 's \<Rightarrow> 's"
  where "delete_project_tasks P ids s =
    delete_rows (p_project_tasks P) (\<lambda>t. \<exists>i\<in>set ids. jt_id t = Some i)
      (delete_rows (p_schedules P) (\<lambda>c. js_project_task c \<in> set ids) s)"

definition cascade_project :: "('s, 'x) planner_scheme \<Rightarrow> int \<Rightarrow> 's \<Rightarrow> 's"
  where "cascade_project P i s =
    delete_rows (p_projects P) (\<lambda>p. pj_id p = Some i)
      (delete_project_tasks P (List.map_filter jt_id (tasks_of_project P i s)) s)"

section \<open>Numbers and text\<close>

definition percentage :: "nat \<Rightarrow> nat \<Rightarrow> rat"
  \<comment> \<open>\<open>(completed / total * 100) if total > 0 else 0\<close>\<close>
  where "percentage completed n = (if n > 0 then float_percent completed n else 0)"

definition percent_text :: "rat \<Rightarrow> string"
  \<comment> \<open>\<open>f"{r:.0f}%"\<close>\<close>
  where "percent_text r = str_of_int (round_half_even r) @ ''%''"

definition format_hhmm :: "clock_time \<Rightarrow> string"
  \<comment> \<open>\<open>strftime("%H:%M")\<close>\<close>
  where "format_hhmm t = pad 2 (t div 3600000000) @ '':'' @ pad 2 (t div 60000000 mod 60)"

definition short_number :: "nat \<Rightarrow> string \<Rightarrow> int option"
  \<comment> \<open>one to \<open>n\<close> digits\<close>
  where "short_number n ds =
    (if ds \<noteq> [] \<and> length ds \<le> n \<and> list_all is_digit ds then map_option int (read_digits ds) else None)"

definition parse_hhmm :: "pyval \<Rightarrow> clock_time result"
  \<comment> \<open>\<open>datetime.strptime(v, "%H:%M").time()\<close>\<close>
  where "parse_hhmm v =
    (case v of
       VStr s \<Rightarrow>
         (case py_split (CHR '':'') s of
            [h, m] \<Rightarrow>
              (case (short_number 2 h, short_number 2 m) of
                 (Some a, Some b) \<Rightarrow> if a < 24 \<and> b < 60 then Inr (a * 3600000000 + minutes b) else Inl ValueError
               | _ \<Rightarrow> Inl ValueError)
          | _ \<Rightarrow> Inl ValueError)
     | _ \<Rightarrow> Inl TypeError)"

definition date_of :: "int \<Rightarrow> int \<Rightarrow> int \<Rightarrow> day result"
  \<comment> \<open>\<open>datetime(year, month, day).date()\<close>\<close>
  where "date_of y m d = (if valid_date y m d then Inr (toordinal (YMD y m d)) else Inl ValueError)"

definition day_number :: "string \<Rightarrow> int option"
  \<comment> \<open>the pattern of \<open>%d\<close>, in which a blank may stand for a leading zero\<close>
  where "day_number s = (case s of c # d # [] \<Rightarrow> if c = CHR '' '' then short_number 1 [d] else short_number 2 s | _ \<Rightarrow> short_number 2 s)"

definition parse_date :: "pyval \<Rightarrow> day result"
  \<comment> \<open>\<open>datetime.strptime(v, "%Y-%m-%d").date()\<close>\<close>
  where "parse_date v =
    (case v of
       VStr s \<Rightarrow>
         (case py_split (CHR ''-'') s of
            [y, m, d] \<Rightarrow>
              (case (short_number 4 y, short_number 2 m, day_number d) of
                 (Some a, Some b, Some c) \<Rightarrow> if length y = 4 then date_of a b c else Inl ValueError
               | _ \<Rightarrow> Inl ValueError)
          | _ \<Rightarrow> Inl ValueError)
     | _ \<Rightarrow> Inl TypeError)"

definition shift_date :: "day \<Rightarrow> int \<Rightarrow> day result"
  \<comment> \<open>\<open>date + timedelta(days=n)\<close>\<close>
  where "shift_date d n = (if 1 \<le> d + n \<and> d + n \<le> max_ordinal then Inr (d + n) else Inl OverflowError)"

definition date_iso :: "day \<Rightarrow> string"
  where "date_iso d = (let x = fromordinal d in pad 4 (y_year x) @ ''-'' @ pad 2 (y_month x) @ ''-'' @ pad 2 (y_day x))"

section \<open>Requests and responses\<close>

record request =
  rq_method :: string
  rq_get :: "(string \<times> string) list"
  rq_post :: "(string \<times> string) list"
  rq_is_json :: bool
  rq_json :: "pyval option"

datatype response =
    Json nat pyval
  | Redirect "(string \<times> string) list" string "int list"
  | Page "(string \<times> string) list" string
  | NotAllowed

definition require_http_methods :: "string list \<Rightarrow> request \<Rightarrow> ('s \<Rightarrow> ('s, response) outcome) \<Rightarrow> 's \<Rightarrow> ('s, response) outcome"
  where "require_http_methods allowed rq k s = (if rq_method rq \<in> set allowed then k s else (Inr NotAllowed, s))"

definition json_error :: "nat \<Rightarrow> string \<Rightarrow> response"
  where "json_error code text = Json code (VDict [(''error'', VStr text)])"

definition json_failure :: "nat \<Rightarrow> string \<Rightarrow> response"
  where "json_failure code text = Json code (VDict [(''success'', VBool False), (''error'', VStr text)])"

fun dict_get :: "pyval \<Rightarrow> string \<Rightarrow> pyval \<Rightarrow> pyval result"
  \<comment> \<open>\<open>data.get(key, default)\<close>\<close>
where
  "dict_get (VDict kvs) key d = Inr (case map_of kvs key of None \<Rightarrow> d | Some v \<Rightarrow> v)"
| "dict_get _ key d = Inl AttributeError"

fun stripped :: "pyval \<Rightarrow> string result"
  \<comment> \<open>\<open>value.strip()\<close>\<close>
where
  "stripped (VStr s) = Inr (py_strip s)"
| "stripped _ = Inl AttributeError"

definition or_failure :: "('s, 'x) planner_scheme \<Rightarrow> nat \<Rightarrow> ('s, response) outcome \<Rightarrow> ('s, response) outcome"
  \<comment> \<open>\<open>except Exception as e: return JsonResponse({"success": False, "error": str(e)}, status=code)\<close>\<close>
  where "or_failure P code r =
    (case r of
       (Inl e, s) \<Rightarrow> if is_Exception e then (Inr (json_failure code (p_str P e)), s) else (Inl e, s)
     | (Inr x, s) \<Rightarrow> (Inr x, s))"

fun py_iter :: "pyval \<Rightarrow> pyval list result"
  \<comment> \<open>what a \<open>for\<close> loop over a decoded JSON value goes through\<close>
where
  "py_iter (VList vs) = Inr vs"
| "py_iter (VDict kvs) = Inr (map (VStr \<circ> fst) kvs)"
| "py_iter (VStr cs) = Inr (map (\<lambda>c. VStr [c]) cs)"
| "py_iter _ = Inl TypeError"

fun py_truthy :: "pyval \<Rightarrow> bool" where
  "py_truthy VNone = False"
| "py_truthy (VBool b) = b"
| "py_truthy (VInt i) = (i \<noteq> 0)"
| "py_truthy (VFloat r) = (r \<noteq> 0)"
| "py_truthy (VStr s) = (s \<noteq> [])"
| "py_truthy (VEnum s) = (s \<noteq> [])"
| "py_truthy (VList vs) = (vs \<noteq> [])"
| "py_truthy (VDict kvs) = (kvs \<noteq> [])"
| "py_truthy _ = True"

definition truthy_text :: "string option \<Rightarrow> bool"
  where "truthy_text v = (case v of None \<Rightarrow> False | Some t \<Rightarrow> t \<noteq> [])"

definition substring :: "string \<Rightarrow> string \<Rightarrow> bool"
  where "substring k t = list_ex (\<lambda>n. take (length k) (drop n t) = k) [0..<Suc (length t)]"

fun py_in :: "string \<Rightarrow> pyval \<Rightarrow> bool result"
  \<comment> \<open>\<open>key in value\<close>, of a decoded JSON value\<close>
where
  "py_in k (VDict kvs) = Inr (map_of kvs k \<noteq> None)"
| "py_in k (VList vs) = Inr (VStr k \<in> set vs)"
| "py_in k (VStr t) = Inr (substring k t)"
| "py_in k _ = Inl TypeError"

fun py_item :: "pyval \<Rightarrow> string \<Rightarrow> pyval result"
  \<comment> \<open>\<open>value[key]\<close>\<close>
where
  "py_item (VDict kvs) k = (case map_of kvs k of None \<Rightarrow> Inl KeyError | Some v \<Rightarrow> Inr v)"
| "py_item _ k = Inl TypeError"

fun py_str :: "('s, 'x) planner_scheme \<Rightarrow> pyval \<Rightarrow> string"
  \<comment> \<open>\<open>str(value)\<close>\<close>
where
  "py_str P (VStr t) = t"
| "py_str P (VInt i) = str_of_int i"
| "py_str P VNone = ''None''"
| "py_str P (VBool b) = (if b then ''True'' else ''False'')"
| "py_str P v = p_repr P v"

fun py_int :: "pyval \<Rightarrow> int result"
  \<comment> \<open>\<open>int(value)\<close>\<close>
where
  "py_int (VInt i) = Inr i"
| "py_int (VBool b) = Inr (if b then 1 else 0)"
| "py_int (VFloat r) = Inr (if r < 0 then \<lceil>r\<rceil> else \<lfloor>r\<rfloor>)"
| "py_int (VStr t) = (case int_of_str t of None \<Rightarrow> Inl ValueError | Some i \<Rightarrow> Inr i)"
| "py_int _ = Inl TypeError"

fun py_float :: "('s, 'x) planner_scheme \<Rightarrow> pyval \<Rightarrow> rat result"
  \<comment> \<open>\<open>float(value)\<close>\<close>
where
  "py_float P (VFloat r) = Inr r"
| "py_float P (VInt i) = Inr (if i < 0 then - float_round (of_int (- i)) else float_round (of_int i))"
| "py_float P (VBool b) = Inr (if b then 1 else 0)"
| "py_float P (VStr t) = p_float P t"
| "py_float P _ = Inl TypeError"

definition text_json :: "string option \<Rightarrow> pyval"
  where "text_json t = (case t of None \<Rightarrow> VNone | Some x \<Rightarrow> VStr x)"

definition with_json :: "request \<Rightarrow> response \<Rightarrow> (pyval \<Rightarrow> ('s, response) outcome) \<Rightarrow> 's \<Rightarrow> ('s, response) outcome"
  \<comment> \<open>\<open>json.loads(request.body)\<close> under an \<open>except json.JSONDecodeError\<close>\<close>
  where "with_json rq bad k s = (case rq_json rq of None \<Rightarrow> (Inr bad, s) | Some data \<Rightarrow> k data)"

definition time_iso :: "clock_time \<Rightarrow> string"
  where "time_iso t = pad 2 (t div 3600000000) @ '':'' @ pad 2 (t div 60000000 mod 60) @ '':''
    @ pad 2 (t div 1000000 mod 60) @ (if t mod 1000000 = 0 then [] else ''.'' @ pad 6 (t mod 1000000))"

definition time_json :: "clock_time \<Rightarrow> pyval"
  \<comment> \<open>as Django's encoder writes it, to the millisecond\<close>
  where "time_json t = VStr (if t mod 1000000 = 0 then time_iso t else take 12 (time_iso t))"

definition id_json :: "int option \<Rightarrow> pyval"
  where "id_json i = (case i of None \<Rightarrow> VNone | Some n \<Rightarrow> VInt n)"

section \<open>Methods of the models\<close>

record performance =
  pf_rating :: string
  pf_percentage :: rat
  pf_label :: string
  pf_emoji :: "string option"

definition rate :: "rat \<Rightarrow> performance"
  where "rate p =
    (if p = 0 then \<lparr> pf_rating = ''0%'', pf_percentage = 0, pf_label = ''No Performance'',
       pf_emoji = Some [CHR 0xE2, CHR 0x9D, CHR 0x8C] \<rparr>
     else if p < 50 then \<lparr> pf_rating = percent_text p, pf_percentage = p, pf_label = ''Poor Performance'',
       pf_emoji = Some [CHR 0xE2, CHR 0x9A, CHR 0xA0, CHR 0xEF, CHR 0xB8, CHR 0x8F] \<rparr>
     else if p < 60 then \<lparr> pf_rating = ''50%'', pf_percentage = 50, pf_label = ''Average Performance'',
       pf_emoji = Some [CHR 0xF0, CHR 0x9F, CHR 0x93, CHR 0x8A] \<rparr>
     else if p < 70 then \<lparr> pf_rating = ''60%'', pf_percentage = 60, pf_label = ''Above Average'',
       pf_emoji = Some [CHR 0xF0, CHR 0x9F, CHR 0x91, CHR 0x8D] \<rparr>
     else if p < 80 then \<lparr> pf_rating = ''70%'', pf_percentage = p, pf_label = ''Fairly Successful'',
       pf_emoji = Some [CHR 0xF0, CHR 0x9F, CHR 0x98, CHR 0x8A] \<rparr>
     else if p < 90 then \<lparr> pf_rating = ''80%'', pf_percentage = p, pf_label = ''Excellent'',
       pf_emoji = Some [CHR 0xE2, CHR 0xAD, CHR 0x90] \<rparr>
     else \<lparr> pf_rating = ''90%+'', pf_percentage = 100, pf_label = ''Fully Successful'',
       pf_emoji = Some [CHR 0xF0, CHR 0x9F, CHR 0x8F, CHR 0x86] \<rparr>)"

definition performance_rating :: "subtask list \<Rightarrow> performance"
  where "performance_rating subtasks =
    (if subtasks = [] then \<lparr> pf_rating = ''N/A'', pf_percentage = 0, pf_label = ''No subtasks'', pf_emoji = None \<rparr>
     else rate (float_percent (length (filter sb_is_completed subtasks)) (length subtasks)))"

definition get_performance_rating :: "('s, 'x) planner_scheme \<Rightarrow> int \<Rightarrow> 's \<Rightarrow> performance"
  where "get_performance_rating P i s = performance_rating (subtasks_of P i s)"

definition performance_json :: "performance \<Rightarrow> pyval"
  \<comment> \<open>an int and the float equal to it are the same JSON number\<close>
  where "performance_json p =
    VDict ([(''rating'', VStr (pf_rating p)), (''percentage'', VFloat (pf_percentage p)), (''label'', VStr (pf_label p))]
      @ (case pf_emoji p of None \<Rightarrow> [] | Some e \<Rightarrow> [(''emoji'', VStr e)]))"

definition progress_percentage :: "project \<Rightarrow> project_task list \<Rightarrow> int"
  where "progress_percentage p tasks =
    (if pj_end_date p - pj_start_date p + 1 \<le> 0 then 0
     else if tasks = [] then 0
     else \<lfloor>float_percent (length (filter jt_is_scheduled tasks)) (length tasks)\<rfloor>)"

definition get_progress_percentage :: "('s, 'x) planner_scheme \<Rightarrow> project \<Rightarrow> 's \<Rightarrow> int"
  where "get_progress_percentage P p s =
    progress_percentage p (filter (\<lambda>t. Some (jt_project t) = pj_id p) (tb_rows (p_project_tasks P) s))"

definition hours :: "rat \<Rightarrow> int"
  \<comment> \<open>\<open>timedelta(hours=h)\<close>, rounded to microseconds\<close>
  where "hours h = round_half_even (h * 3600000000)"

definition combine_add :: "day \<Rightarrow> clock_time \<Rightarrow> int \<Rightarrow> clock_time result"
  \<comment> \<open>\<open>(datetime.combine(d, t) + delta).time()\<close>\<close>
  where "combine_add d t delta = rbind (shift_date d ((t + delta) div day_micros)) (\<lambda>_. Inr (add_clock t delta))"

definition get_end_time :: "day \<Rightarrow> project_schedule \<Rightarrow> clock_time result"
  where "get_end_time now c = combine_add now (js_start_time c) (hours (js_duration_hours c))"

definition personal_task_str :: "personal_task \<Rightarrow> string"
  where "personal_task_str t = pt_title t @ '' ('' @ date_iso (pt_date t) @ '' '' @ time_iso (pt_start_time t) @ '')''"

definition prayer_schedule_str :: "prayer_schedule \<Rightarrow> string"
  where "prayer_schedule_str p = display PRAYER_NAMES (ps_prayer_name p) @ '' ('' @ time_iso (ps_start_time p) @ '' - ''
    @ time_iso (ps_end_time p) @ '')''"

definition subtask_str :: "subtask \<Rightarrow> string"
  where "subtask_str b =
    (if sb_is_completed b then [CHR 0xE2, CHR 0x9C, CHR 0x93] else [CHR 0xE2, CHR 0x97, CHR 0x8B]) @ '' '' @ sb_title b"

definition prayer_completion_str :: "prayer_completion \<Rightarrow> string"
  where "prayer_completion_str c =
    (if pc_is_completed c then [CHR 0xE2, CHR 0x9C, CHR 0x93] else [CHR 0xE2, CHR 0x9C, CHR 0x97]) @ '' ''
      @ display PRAYER_NAMES (pc_prayer_name c) @ '' ('' @ date_iso (pc_date c) @ '')''"

definition project_str :: "project \<Rightarrow> string"
  where "project_str p = pj_title p @ '' ('' @ date_iso (pj_start_date p) @ '' - '' @ date_iso (pj_end_date p) @ '')''"

definition task_completion_str :: "personal_task \<Rightarrow> task_completion \<Rightarrow> time \<Rightarrow> string"
  \<comment> \<open>with the task and the time of the record\<close>
  where "task_completion_str t c completed_at =
    pt_title t @ '' - '' @ (if tc_is_completed c then [CHR 0xE2, CHR 0x9C, CHR 0x93] @ '' Completed''
      else [CHR 0xE2, CHR 0x9C, CHR 0x97] @ '' Not Completed'')
    @ (if truthy_text (tc_performance_rating c) then '' - '' @ the (tc_performance_rating c) else [])
    @ '' ('' @ datetime_str completed_at @ '')''"

definition project_task_str :: "project \<Rightarrow> project_task \<Rightarrow> string"
  where "project_task_str p t = jt_title t @ '' ('' @ pj_title p @ '')''"

definition project_schedule_str :: "project_task \<Rightarrow> project_schedule \<Rightarrow> string result"
  where "project_schedule_str t c =
    (case map_of WEEKDAY_CHOICES (js_day_of_week c) of None \<Rightarrow> Inl KeyError
     | Some d \<Rightarrow> Inr (jt_title t @ '' - '' @ d @ '' '' @ time_iso (js_start_time c)))"

end
