(* ===== verification/Commands.thy ===== *)
theory Commands
  imports JobExecution PlannerModels
begin

text \<open>
  \<open>scheduler/worker/commands/\<close>: what one sends to a running worker over its channel of the broker.  A
  command is a class with a name in a registry; its payload is a JSON object that names it, and the worker
  builds the command back from the payload and processes it, in the thread that listens to the channel.

  The values a payload carries are whatever its JSON holds, so a worker's name may be any value; where the
  program formats it into a key, \<open>str\<close> of it is used.
\<close>

section \<open>Instants as text\<close>

definition epoch_ordinal :: int
  where "epoch_ordinal = 719163"

definition isoformat_utc :: "time \<Rightarrow> string"
  \<comment> \<open>\<open>isoformat()\<close> of an instant in UTC\<close>
  where "isoformat_utc t =
    date_iso (epoch_ordinal + t div day_micros) @ ''T'' @ time_iso (t mod day_micros) @ ''+00:00''"

section \<open>Commands and their registry\<close>

datatype command_class = KillWorker | Shutdown | StopJob | SuspendWork | ResumeWork

fun command_name :: "command_class \<Rightarrow> string" where
  "command_name KillWorker = ''kill-worker''"
| "command_name Shutdown = ''shutdown''"
| "command_name StopJob = ''stop-job''"
| "command_name SuspendWork = ''suspend''"
| "command_name ResumeWork = ''resume''"

type_synonym command_registry = "(string \<times> command_class) list"

definition register_command :: "command_class \<Rightarrow> command_registry \<Rightarrow> command_registry result"
  \<comment> \<open>what \<open>__init_subclass__\<close> does when a subclass is defined\<close>
  where "register_command c reg =
    (if command_name c = [] then Inl NotImplementedError else Inr (AList.update (command_name c) c reg))"

definition commands_registry :: command_registry
  \<comment> \<open>after importing the package, which imports three of the classes' modules\<close>
  where "commands_registry =
    (case rbind (register_command KillWorker []) (\<lambda>reg. rbind (register_command Shutdown reg) (register_command StopJob)) of
       Inl _ \<Rightarrow> [] | Inr reg \<Rightarrow> reg)"

lemma commands_registry_eq [simp]:
  "commands_registry = [(''kill-worker'', KillWorker), (''shutdown'', Shutdown), (''stop-job'', StopJob)]"
  by (simp add: commands_registry_def register_command_def)

record command =
  c_class :: command_class
  c_worker_name :: pyval
  c_job_name :: pyval

definition stop_job_init :: "pyval \<Rightarrow> pyval \<Rightarrow> command result"
  where "stop_job_init job_name worker_name =
    (if job_name = VNone then Inl WorkerCommandError
     else Inr \<lparr> c_class = StopJob, c_worker_name = worker_name, c_job_name = job_name \<rparr>)"

definition command_init :: "command_class \<Rightarrow> (string \<times> pyval) list \<Rightarrow> command result"
  \<comment> \<open>the class called with the items as keyword arguments\<close>
  where "command_init c kw =
    (if ''self'' \<in> fst ` set kw then Inl TypeError
     else case map_of kw ''worker_name'' of
       None \<Rightarrow> Inl TypeError
     | Some w \<Rightarrow>
         if c = StopJob then
           (case map_of kw ''job_name'' of None \<Rightarrow> Inl TypeError | Some j \<Rightarrow> stop_job_init j w)
         else Inr \<lparr> c_class = c, c_worker_name = w, c_job_name = VNone \<rparr>)"

section \<open>Payloads\<close>

definition value_text :: "('s, 'x) host_env_scheme \<Rightarrow> pyval \<Rightarrow> string"
  \<comment> \<open>\<open>str(v)\<close>\<close>
  where "value_text H v = (case v of VStr s \<Rightarrow> s | _ \<Rightarrow> h_repr H v)"

definition command_payload :: "('s, 'x) host_env_scheme \<Rightarrow> command \<Rightarrow> 's \<Rightarrow> (string \<times> pyval) list \<times> 's"
  where "command_payload H c s =
    (let (now, s1) = utcnow H s
     in ([(''command'', VStr (command_name (c_class c))),
          (''worker_name'', c_worker_name c),
          (''channel_name'', VStr (commands_channel (value_text H (c_worker_name c)))),
          (''created_at'', VStr (isoformat_utc now))]
         @ (if c_class c = StopJob then [(''job_name'', c_job_name c)] else []), s1))"

definition from_payload :: "pyval \<Rightarrow> command result"
  \<comment> \<open>a command that is no string is looked up like one; a list or an object is not hashable\<close>
  where "from_payload payload =
    (case payload of
       VDict kw \<Rightarrow>
         (case map_of kw ''command'' of
            None \<Rightarrow> Inl WorkerCommandError
          | Some VNone \<Rightarrow> Inl WorkerCommandError
          | Some (VStr n) \<Rightarrow>
              (case map_of commands_registry n of
                 None \<Rightarrow> Inl WorkerCommandError
               | Some c \<Rightarrow> command_init c kw)
          | Some (VList _) \<Rightarrow> Inl TypeError
          | Some (VDict _) \<Rightarrow> Inl TypeError
          | Some _ \<Rightarrow> Inl WorkerCommandError)
     | _ \<Rightarrow> Inl AttributeError)"

definition send_command :: "('s, 'x) host_env_scheme \<Rightarrow> command \<Rightarrow> 's \<Rightarrow> ('s, unit) outcome"
  where "send_command H c s =
    (let (payload, s1) = command_payload H c s
     in if jsonable (VDict payload)
        then (Inr (), e_run H (PUBLISH (commands_channel (value_text H (c_worker_name c))) (WJson (VDict payload))) s1)
        else (Inl TypeError, s1))"

section \<open>Processing\<close>

definition SIGINT :: int where "SIGINT = 2"
definition SIGTERM :: int where "SIGTERM = 15"

definition process_kill_worker :: "('s, 'x) worker_env_scheme \<Rightarrow> string \<Rightarrow> 's \<Rightarrow> ('s, unit) outcome"
  where "process_kill_worker K worker_name s =
    (case worker_get K worker_name s of
       None \<Rightarrow> (Inl ValueError, s)
     | Some m \<Rightarrow>
         (case (case from_model K m s of
              (Inl e, s1) \<Rightarrow> (Inl e, s1)
            | (Inr k, s1) \<Rightarrow>
                (case request_stop K k s1 of
                   (_, Inl e, s2) \<Rightarrow> (Inl e, s2)
                 | (_, Inr _, s2) \<Rightarrow>
                     (case o_getpgid K (w_pid m) s2 of
                        Inl e \<Rightarrow> (Inl e, s2)
                      | Inr pgid \<Rightarrow> o_killpg K pgid SIGTERM s2))) of
            (Inl e, s3) \<Rightarrow> (if e = ProcessLookupError then Inr () else Inl e, s3)
          | (Inr _, s3) \<Rightarrow> (Inr (), s3)))"

definition process_shutdown :: "('s, 'x) os_env_scheme \<Rightarrow> 's \<Rightarrow> ('s, unit) outcome"
  where "process_shutdown A s = o_kill A (o_getpid A s) SIGINT s"

definition process_stop_job :: "('s, 'x) os_env_scheme \<Rightarrow> pyval \<Rightarrow> string \<Rightarrow> 's \<Rightarrow> ('s, unit) outcome"
  where "process_stop_job A job_name worker_name s =
    (case worker_get A worker_name s of
       None \<Rightarrow> (Inr (), s)
     | Some w \<Rightarrow>
     (case job_get A (value_text A job_name) s of
       None \<Rightarrow> (Inr (), s)
     | Some j \<Rightarrow>
         if w_job_execution_process_pid w = 0 then (Inr (), s)
         else if w_pid w = w_job_execution_process_pid w then (Inr (), s)
         else if opt_val VStr (w_current_job_name w) \<noteq> job_name then (Inr (), s)
         else
           (case worker_set_field A ''stopped_job_name'' job_name
                   (\<lambda>w. w\<lparr>w_stopped_job_name := Some (value_text A job_name)\<rparr>) w s of
              (_, Inl e, s1) \<Rightarrow> (Inl e, s1)
            | (w1, Inr _, s1) \<Rightarrow>
                (case o_getpgid A (w_job_execution_process_pid w1) s1 of
                   Inl e \<Rightarrow> (if e = ProcessLookupError then Inr () else Inl e, s1)
                 | Inr pgid \<Rightarrow>
                     if pgid = w_pid w1 then (Inr (), s1)
                     else (case o_killpg A pgid SIGTERM s1 of
                             (Inl e, s2) \<Rightarrow> (if e = ProcessLookupError then Inr () else Inl e, s2)
                           | (Inr _, s2) \<Rightarrow> (Inr (), s2))))))"

definition process_suspend :: "('s, 'x) env_scheme \<Rightarrow> string \<Rightarrow> 's \<Rightarrow> ('s, unit) outcome"
  where "process_suspend B worker_name s =
    (case worker_get B worker_name s of
       None \<Rightarrow> (Inr (), s)
     | Some w \<Rightarrow>
         if w_is_suspended w then (Inr (), s)
         else snd (worker_set_field B ''is_suspended'' (VBool True) (\<lambda>w. w\<lparr>w_is_suspended := True\<rparr>) w s))"

definition process_resume :: "('s, 'x) env_scheme \<Rightarrow> string \<Rightarrow> 's \<Rightarrow> ('s, unit) outcome"
  where "process_resume B worker_name s =
    (case worker_get B worker_name s of
       None \<Rightarrow> (Inr (), s)
     | Some w \<Rightarrow>
         if \<not> w_is_suspended w then (Inr (), s)
         else snd (worker_set_field B ''is_suspended'' (VBool False) (\<lambda>w. w\<lparr>w_is_suspended := False\<rparr>) w s))"

definition process_command :: "('s, 'x) worker_env_scheme \<Rightarrow> command \<Rightarrow> 's \<Rightarrow> ('s, unit) outcome"
  where "process_command K c s =
    (let worker_name = value_text K (c_worker_name c)
     in case c_class c of
          KillWorker \<Rightarrow> process_kill_worker K worker_name s
        | Shutdown \<Rightarrow> process_shutdown K s
        | StopJob \<Rightarrow> process_stop_job K (c_job_name c) worker_name s
        | SuspendWork \<Rightarrow> process_suspend K worker_name s
        | ResumeWork \<Rightarrow> process_resume K worker_name s)"

definition in_listener_thread :: "('s, 'x) os_env_scheme \<Rightarrow> ('s, 'x) os_env_scheme"
  where "in_listener_thread A = A\<lparr>o_main_thread := False\<rparr>"

definition handle_payload :: "('s, 'x) worker_env_scheme \<Rightarrow> wire \<Rightarrow> 's \<Rightarrow> ('s, unit) outcome"
  \<comment> \<open>in the listener's thread; text that is not JSON raises a ValueError.  Writing the command to the log
     builds its payload once more, which reads the clock.\<close>
  where "handle_payload K data s =
    (case data of
       WJson payload \<Rightarrow>
         (case from_payload payload of
            Inl e \<Rightarrow> (Inl e, s)
          | Inr c \<Rightarrow> process_command (in_listener_thread K) c (snd (command_payload K c s)))
     | _ \<Rightarrow> (Inl ValueError, s))"

section \<open>Facts\<close>

definition well_formed_command :: "command \<Rightarrow> bool"
  where "well_formed_command c = (if c_class c = StopJob then c_job_name c \<noteq> VNone else c_job_name c = VNone)"

definition is_registered :: "command_class \<Rightarrow> bool"
  where "is_registered c = (c \<in> snd ` set commands_registry)"

lemma command_init_sound: "command_init c kw = Inr x \<Longrightarrow> c_class x = c \<and> well_formed_command x"
  by (auto simp: command_init_def stop_job_init_def well_formed_command_def split: if_splits option.splits)

lemma from_payload_sound:
  assumes "from_payload p = Inr c"
  shows "is_registered (c_class c) \<and> well_formed_command c"
proof -
  obtain n kw cl where "map_of commands_registry n = Some cl" "command_init cl kw = Inr c"
    using assms by (auto simp: from_payload_def split: pyval.splits option.splits simp del: commands_registry_eq)
  then show ?thesis using command_init_sound [of cl kw c] by (auto simp: is_registered_def split: if_splits)
qed

lemma from_payload_command:
  assumes "well_formed_command c"
  shows "from_payload (VDict (fst (command_payload H c s))) =
    (if is_registered (c_class c) then Inr c else Inl WorkerCommandError)"
  using assms
  by (cases c; cases "c_class c"; cases "utcnow H s")
    (auto simp: from_payload_def command_payload_def command_init_def stop_job_init_def is_registered_def
      well_formed_command_def)

lemma set_shutdown_requested_ok: "\<exists>k' s'. set_shutdown_requested A k s = (k', Inr (), s')"
  by (cases "utcnow A s") (simp add: set_shutdown_requested_def op_bind_def now_op_def model_op_def op_sub_def
      worker_set_field_def set_field_def set_field_cmds_def worker_field_types_def)

lemma request_stop_not_main:
  "\<not> o_main_thread A \<Longrightarrow> \<exists>k' s'. request_stop A k s = (k', Inl ValueError, s')"
  using set_shutdown_requested_ok [of A k s] by (auto simp: request_stop_def op_bind_def)

lemma worker_new_given: "\<exists>k s'. worker_new K qs opts (Some m) s = (Inr k, s')"
  using worker_save_ok [of K True m s] by (auto simp: worker_new_def split: prod.splits)

lemma get_each_queue_error: "get_each_queue qs ns = Inl e \<Longrightarrow> e = QueueNotFoundError"
  by (induction ns) (auto simp: get_queue_def get_queue_configuration_def rbind_def split: option.splits sum.splits)

lemma from_model_cases:
  "(\<exists>k s'. from_model K m s = (Inr k, s')) \<or> from_model K m s = (Inl QueueNotFoundError, s)"
  using worker_new_given get_each_queue_error
  by (cases "get_each_queue (a_queues K) (w_queue_names m)") (fastforce simp: from_model_def)+

lemma kill_worker_fails:
  assumes "\<not> o_main_thread K"
  shows "fst (process_kill_worker K n s) = Inl ValueError \<or> fst (process_kill_worker K n s) = Inl QueueNotFoundError"
proof (cases "worker_get K n s")
  case (Some m)
  show ?thesis
    using from_model_cases [of K m s]
  proof
    assume "\<exists>k s'. from_model K m s = (Inr k, s')"
    then obtain k s1 where k: "from_model K m s = (Inr k, s1)" by blast
    obtain k2 s2 where "request_stop K k s1 = (k2, Inl ValueError, s2)"
      using request_stop_not_main [OF assms] by blast
    with Some k show ?thesis by (simp add: process_kill_worker_def)
  qed (use Some in \<open>simp add: process_kill_worker_def\<close>)
qed (simp add: process_kill_worker_def)

section \<open>Stopping a job\<close>

lemma set_stopped_job_name:
  "worker_set_field B ''stopped_job_name'' (VStr n) f w s =
    (mark_dirty ''stopped_job_name'' (f w), Inr (), run_all B [HSET (worker_key (m_name w)) [(''stopped_job_name'', W n)]] s)"
  by (simp add: worker_set_field_def set_field_def set_field_cmds_def worker_field_types_def)

definition stoppable :: "('s, 'x) env_scheme \<Rightarrow> string \<Rightarrow> string \<Rightarrow> 's \<Rightarrow> bool"
  \<comment> \<open>the worker's record says that another process of it runs the job\<close>
  where "stoppable A n worker_name s =
    (case worker_get A worker_name s of
       None \<Rightarrow> False
     | Some w \<Rightarrow> job_get A n s \<noteq> None \<and> w_job_execution_process_pid w \<noteq> 0 \<and>
         w_pid w \<noteq> w_job_execution_process_pid w \<and> w_current_job_name w = Some n)"

lemma stop_job_refused: "\<not> stoppable A n worker_name s \<Longrightarrow> process_stop_job A (VStr n) worker_name s = (Inr (), s)"
  by (auto simp: stoppable_def process_stop_job_def value_text_def opt_val_def split: option.splits)

lemma opt_val_eq_VStr [simp]: "opt_val VStr x = VStr n \<longleftrightarrow> x = Some n"
  by (cases x) (auto simp: opt_val_def)

lemma stopped_job_name_eq:
  "stopped_job_name B k s = Inr (case e_hget B (worker_key (m_name (k_model k))) ''stopped_job_name'' s of
     Some (W n) \<Rightarrow> Some n | _ \<Rightarrow> None)"
  by (simp add: stopped_job_name_def get_field_def worker_field_types_def deserialize_value_def raw_text_def
      split: option.splits wire.splits)

lemma stop_job_done:
  assumes "stoppable A n worker_name s" "worker_get A worker_name s = Some w"
  defines "s1 \<equiv> e_run A (HSET (worker_key (m_name w)) [(''stopped_job_name'', W n)]) s"
  shows "process_stop_job A (VStr n) worker_name s =
    (case o_getpgid A (w_job_execution_process_pid w) s1 of
       Inl e \<Rightarrow> (if e = ProcessLookupError then Inr () else Inl e, s1)
     | Inr pgid \<Rightarrow> if pgid = w_pid w then (Inr (), s1)
         else (if fst (o_killpg A pgid SIGTERM s1) = Inl ProcessLookupError then Inr () else fst (o_killpg A pgid SIGTERM s1),
               snd (o_killpg A pgid SIGTERM s1)))"
  using assms(1,2) unfolding s1_def
  by (auto simp: stoppable_def process_stop_job_def value_text_def set_stopped_job_name mark_dirty_def
      split: sum.splits prod.splits)

end
