(* ===== verification/AdminViews.thy ===== *)
theory AdminViews
  imports Commands
begin

text \<open>
  The pages that administer queues, jobs and workers: \<open>scheduler/views/queue_views.py\<close>,
  \<open>queue_job_actions.py\<close>, \<open>queue_registry_actions.py\<close>, \<open>job_views.py\<close>, \<open>worker_views.py\<close> and
  \<open>helpers.py\<close>.  A view takes a request and the outside world and returns the messages it leaves for the
  user with its response; a page is what its template is given.  Django's resolving of URLs, and its check
  of a URL's host, are parameters, in \<open>site\<close>; splitting pages into sheets is left to Django.
  The queues share one broker, whose commands do not fail.
\<close>

section \<open>Responses\<close>

datatype message = Info string | Warning string

record queue_data =
  qd_name :: string
  qd_queued_jobs :: nat
  qd_oldest_job_timestamp :: "string option"
  qd_scheduler_pid :: "int option"
  qd_workers :: nat
  qd_finished_jobs :: nat
  qd_started_jobs :: nat
  qd_failed_jobs :: nat
  qd_scheduled_jobs :: nat
  qd_canceled_jobs :: nat

datatype admin_response =
    RedirectUrl string
  | RedirectView string "string list"
  | NotFoundResponse
  | BadRequest string
  | JobsPage "job_model list" nat int "int list" string
  | WorkersPage "worker_model list"
  | StatsPage "queue_data list"
  | StatsJson "queue_data list"
  | ConfirmPage string "job_model option list" nat string
  | JobPage job_model "job_result option" "job_result list"
  | JobActionPage job_model string
  | WorkerPage worker_model "job_model option" "job_model option list"

type_synonym 's view = "('s, message list \<times> admin_response) outcome"

record site =
  u_allowed :: "string \<Rightarrow> bool"
  u_resolves :: "string \<Rightarrow> bool"
  u_reverse :: "string \<Rightarrow> string list \<Rightarrow> string"
  u_python_312 :: bool

definition post_get :: "request \<Rightarrow> string \<Rightarrow> string option"
  \<comment> \<open>the last value of the field\<close>
  where "post_get rq k = map_of (rev (rq_post rq)) k"

definition post_getlist :: "request \<Rightarrow> string \<Rightarrow> string list"
  where "post_getlist rq k = map snd (filter (\<lambda>p. fst p = k) (rq_post rq))"

definition upper_char :: "char \<Rightarrow> char"
  where "upper_char c = (let n = (of_char c :: nat) in if 97 \<le> n \<and> n \<le> 122 then char_of (n - 32) else c)"

definition py_capitalize :: "string \<Rightarrow> string"
  where "py_capitalize s = (case s of [] \<Rightarrow> [] | c # cs \<Rightarrow> upper_char c # py_lower cs)"

section \<open>Where a form goes next\<close>

definition is_alpha :: "char \<Rightarrow> bool"
  where "is_alpha c = (let n = (of_char c :: nat) in 65 \<le> n \<and> n \<le> 90 \<or> 97 \<le> n \<and> n \<le> 122)"

definition is_scheme_char :: "char \<Rightarrow> bool"
  where "is_scheme_char c \<longleftrightarrow> is_alpha c \<or> is_digit c \<or> c \<in> {CHR ''+'', CHR ''-'', CHR ''.''}"

definition url_clean :: "string \<Rightarrow> string"
  \<comment> \<open>what \<open>urlparse\<close> removes first: control characters and blanks in front, tabs and ends of line anywhere\<close>
  where "url_clean u = filter (\<lambda>c. c \<notin> {CHR 0x09, CHR 0x0A, CHR 0x0D}) (dropWhile (\<lambda>c. (of_char c :: nat) \<le> 32) u)"

definition url_split :: "string \<Rightarrow> string \<times> string"
  \<comment> \<open>the scheme and what follows it\<close>
  where "url_split u =
    (let v = url_clean u; s = takeWhile (\<lambda>c. c \<noteq> CHR '':'') v
     in if length s < length v \<and> s \<noteq> [] \<and> is_alpha (hd s) \<and> list_all is_scheme_char s
        then (py_lower s, drop (length s + 1) v) else ([], v))"

definition url_scheme :: "string \<Rightarrow> string"
  where "url_scheme u = fst (url_split u)"

definition url_netloc :: "string \<Rightarrow> string"
  where "url_netloc u =
    (let rest = snd (url_split u)
     in if take 2 rest = ''//'' then takeWhile (\<lambda>c. c \<notin> {CHR ''/'', CHR ''?'', CHR ''#''}) (drop 2 rest) else [])"

definition check_next_url :: "site \<Rightarrow> request \<Rightarrow> string \<Rightarrow> message list \<times> string"
  where "check_next_url U rq default_next_url =
    (let next0 = (case post_get rq ''next_url'' of None \<Rightarrow> default_next_url | Some u \<Rightarrow> u);
         next1 = filter (\<lambda>c. c \<noteq> CHR 0x5C) next0;
         bad = (\<not> u_allowed U next1 \<or> url_netloc next1 \<noteq> [] \<or> url_scheme next1 \<noteq> []);
         next2 = (if bad then default_next_url else next1);
         lost = (\<not> u_resolves U next2)
     in ((if bad then [Warning ''Bad followup URL''] else []) @ (if lost then [Warning ''Bad followup URL''] else []),
         if lost then default_next_url else next2))"

section \<open>Shared steps\<close>

definition get_queue_or_404 :: "queue_table \<Rightarrow> string \<Rightarrow> queue result"
  where "get_queue_or_404 qs name =
    (case get_queue qs name of Inl e \<Rightarrow> Inl (if e = QueueNotFoundError then Http404 else e) | Inr q \<Rightarrow> Inr q)"

definition with_queue :: "queue_table \<Rightarrow> string \<Rightarrow> (queue \<Rightarrow> 's \<Rightarrow> ('s, 'a) outcome) \<Rightarrow> 's \<Rightarrow> ('s, 'a) outcome"
  where "with_queue qs name k s = (case get_queue_or_404 qs name of Inl e \<Rightarrow> (Inl e, s) | Inr q \<Rightarrow> k q s)"

definition get_jobs :: "('s, 'x) env_scheme \<Rightarrow> string list \<Rightarrow> 's \<Rightarrow> job_model option list result"
  where "get_jobs B names s = model_get_many (job_class (e_cfg B)) B names s"

definition find_job :: "('s, 'x) app_env_scheme \<Rightarrow> string \<Rightarrow> 's \<Rightarrow> (queue \<times> job_model) option"
  where "find_job A job_name s =
    (case find (\<lambda>queue_name. is_ok (get_queue (a_queues A) queue_name) \<and>
             (case job_get A job_name s of None \<Rightarrow> False | Some j \<Rightarrow> j_queue_name j = queue_name))
          (get_queue_names (a_queues A)) of
       None \<Rightarrow> None
     | Some queue_name \<Rightarrow>
         (case (get_queue (a_queues A) queue_name, job_get A job_name s) of
            (Inr q, Some j) \<Rightarrow> Some (q, j) | _ \<Rightarrow> None))"

fun enqueue_found :: "('s, 'x) host_env_scheme \<Rightarrow> queue \<Rightarrow> bool \<Rightarrow> job_model option list \<Rightarrow> 's \<Rightarrow> ('s, nat) outcome" where
  "enqueue_found H q at_front [] s = (Inr 0, s)"
| "enqueue_found H q at_front (None # jobs) s = enqueue_found H q at_front jobs s"
| "enqueue_found H q at_front (Some j # jobs) s =
     (case job_save H False j s of
        (_, Inl e, s1) \<Rightarrow> (Inl e, s1)
      | (j1, Inr _, s1) \<Rightarrow>
          (case enqueue_job H q [] at_front j1 s1 of
             (_, Inl e, s2) \<Rightarrow> (Inl e, s2)
           | (_, Inr _, s2) \<Rightarrow>
               (case enqueue_found H q at_front jobs s2 of (Inl e, s3) \<Rightarrow> (Inl e, s3) | (Inr n, s3) \<Rightarrow> (Inr (n + 1), s3))))"

definition enqueue_multiple_jobs :: "('s, 'x) host_env_scheme \<Rightarrow> queue \<Rightarrow> string list \<Rightarrow> bool \<Rightarrow> 's \<Rightarrow> ('s, nat) outcome"
  \<comment> \<open>enqueuing a job executes the pipeline, so that it is empty for the next one\<close>
  where "enqueue_multiple_jobs H q job_names at_front s =
    (case get_jobs H job_names s of Inl e \<Rightarrow> (Inl e, s) | Inr jobs \<Rightarrow> enqueue_found H q at_front jobs s)"

section \<open>Listing the jobs of a registry\<close>

definition get_registry_job_list ::
    "('s, 'x) env_scheme \<Rightarrow> registry \<Rightarrow> int \<Rightarrow> 's \<Rightarrow> ('s, job_model list \<times> nat \<times> int list) outcome"
  where "get_registry_job_list B r page s =
    (let items_per_page = EXECUTIONS_IN_PAGE (e_cfg B);
         (num_jobs, s1) = reg_count B r s
     in if num_jobs = 0 then (Inr ([], num_jobs, []), s1)
        else if items_per_page = 0 then (Inl ZeroDivisionError, s1)
        else
          (let last_page = ceil_div (int num_jobs) items_per_page;
               offset = items_per_page * (page - 1);
               (job_names, s2) = reg_all B r offset (offset + items_per_page - 1) s1
           in case get_jobs B job_names s2 of
                Inl e \<Rightarrow> (Inl e, s2)
              | Inr job_list \<Rightarrow>
                  (let remove_job_names = map fst (filter (\<lambda>(_, j). j = None) (zip job_names job_list))
                   in (Inr (List.map_filter id job_list, num_jobs, [1 .. last_page]),
                       fold (reg_delete B r) remove_job_names s2))))"

definition list_registry_jobs :: "('s, 'x) app_env_scheme \<Rightarrow> request \<Rightarrow> string \<Rightarrow> string \<Rightarrow> 's \<Rightarrow> 's view"
  where "list_registry_jobs A rq queue_name registry_name =
    with_queue (a_queues A) queue_name (\<lambda>q s.
    case get_registry q registry_name of
      Inl _ \<Rightarrow> (Inr ([], NotFoundResponse), s)
    | Inr r \<Rightarrow>
        (case (case map_of (rev (rq_get rq)) ''page'' of None \<Rightarrow> Some 1 | Some t \<Rightarrow> int_of_str t) of
           None \<Rightarrow> (Inl ValueError, s)
         | Some page \<Rightarrow>
             and_then (get_registry_job_list A r page s) (\<lambda>(jobs, num_jobs, page_range) s1.
               (Inr ([], JobsPage jobs num_jobs page page_range (py_capitalize registry_name)), s1))))"

section \<open>Queues and workers\<close>

definition queue_workers :: "('s, 'x) app_env_scheme \<Rightarrow> string \<Rightarrow> 's \<Rightarrow> 's view"
  where "queue_workers A queue_name =
    with_queue (a_queues A) queue_name (\<lambda>q s.
    and_then (clean_registries A q None s) (\<lambda>_ s1.
      (Inr ([], WorkersPage (filter (\<lambda>w. q_name q \<in> set (w_queue_names w)) (model_all worker_class A None s1))), s1)))"

definition count_worker :: "string list \<Rightarrow> (string \<times> nat) list \<Rightarrow> (string \<times> nat) list"
  where "count_worker queue_names counts =
    fold (\<lambda>n c. AList.update n (case map_of c n of None \<Rightarrow> 1 | Some k \<Rightarrow> k + 1) c) queue_names counts"

definition queue_workers_count :: "queue_table \<Rightarrow> worker_model list \<Rightarrow> (string \<times> nat) list"
  where "queue_workers_count qs workers =
    fold (\<lambda>w. count_worker (w_queue_names w)) workers (map (\<lambda>n. (n, 0)) (get_queue_names qs))"

definition queue_statistics ::
    "('s, 'x) app_env_scheme \<Rightarrow> bool \<Rightarrow> (string \<times> nat) list \<Rightarrow> queue \<Rightarrow> 's \<Rightarrow> ('s, queue_data) outcome"
  \<comment> \<open>the body of the loop over the queues\<close>
  where "queue_statistics A run_maintenance counts q s =
    and_then (if run_maintenance then clean_registries A q None s else (Inr (), s)) (\<lambda>_ s1.
    let (last_job_name, s2) = first_queued_job_name A q s1;
        last_job = (case last_job_name of None \<Rightarrow> None | Some n \<Rightarrow> if n = [] then None else job_get A n s2);
        oldest = (case last_job of None \<Rightarrow> None | Some j \<Rightarrow> map_option isoformat_utc (j_enqueued_at j));
        (queued, s3) = reg_count A (queue_registry QueuedJobs q) s2
    in case scheduler_pid A q s3 of
         Inl e \<Rightarrow> (Inl e, s3)
       | Inr pid \<Rightarrow>
           (let (finished, s4) = reg_count A (queue_registry FinishedJobs q) s3;
                (started, s5) = reg_count A (queue_registry ActiveJobs q) s4;
                (failed, s6) = reg_count A (queue_registry FailedJobs q) s5;
                (scheduled, s7) = reg_count A (queue_registry ScheduledJobs q) s6;
                (canceled, s8) = reg_count A (queue_registry CanceledJobs q) s7
            in (Inr \<lparr> qd_name = q_name q, qd_queued_jobs = queued, qd_oldest_job_timestamp = oldest,
                  qd_scheduler_pid = pid, qd_workers = (case map_of counts (q_name q) of None \<Rightarrow> 0 | Some n \<Rightarrow> n),
                  qd_finished_jobs = finished, qd_started_jobs = started, qd_failed_jobs = failed,
                  qd_scheduled_jobs = scheduled, qd_canceled_jobs = canceled \<rparr>, s8)))"

fun statistics_of ::
    "('s, 'x) app_env_scheme \<Rightarrow> bool \<Rightarrow> (string \<times> nat) list \<Rightarrow> string list \<Rightarrow> 's \<Rightarrow> ('s, queue_data list) outcome"
where
  "statistics_of A run_maintenance counts [] s = (Inr [], s)"
| "statistics_of A run_maintenance counts (n # ns) s =
     with_queue (a_queues A) n (\<lambda>q s.
     and_then (queue_statistics A run_maintenance counts q s) (\<lambda>d s1.
     and_then (statistics_of A run_maintenance counts ns s1) (\<lambda>ds s2. (Inr (d # ds), s2)))) s"

definition get_statistics :: "('s, 'x) app_env_scheme \<Rightarrow> bool \<Rightarrow> 's \<Rightarrow> ('s, queue_data list) outcome"
  where "get_statistics A run_maintenance s =
    statistics_of A run_maintenance (queue_workers_count (a_queues A) (get_all_workers A (a_queues A) s))
      (get_queue_names (a_queues A)) s"

definition stats_json :: "('s, 'x) app_env_scheme \<Rightarrow> bool \<Rightarrow> string option \<Rightarrow> 's \<Rightarrow> 's view"
  \<comment> \<open>whether the user is of the staff, and the value of the header \<open>Authorization\<close>\<close>
  where "stats_json A is_staff auth_token s =
    (if is_staff \<or> (case TOKEN_VALIDATION_METHOD (e_cfg A) of None \<Rightarrow> False
         | Some valid \<Rightarrow> truthy_str auth_token \<and> valid (the auth_token))
     then and_then (get_statistics A False s) (\<lambda>ds s1. (Inr ([], StatsJson ds), s1))
     else (Inr ([], NotFoundResponse), s))"

definition stats :: "('s, 'x) app_env_scheme \<Rightarrow> 's \<Rightarrow> 's view"
  where "stats A s =
    (case get_statistics A True s of
       (Inr ds, s1) \<Rightarrow> (Inr ([], StatsPage ds), s1)
     | (Inl e, s1) \<Rightarrow> if is_Exception e then (Inr ([], StatsPage []), s1) else (Inl e, s1))"

fun executions_of :: "('s, 'x) app_env_scheme \<Rightarrow> string \<Rightarrow> string list \<Rightarrow> 's \<Rightarrow> ('s, job_model option list) outcome" where
  "executions_of A worker_name [] s = (Inr [], s)"
| "executions_of A worker_name (n # ns) s =
     with_queue (a_queues A) n (\<lambda>q s.
     and_then (get_all_jobs A q s) (\<lambda>jobs s1.
       if None \<in> set jobs then (Inl AttributeError, s1)
       else and_then (executions_of A worker_name ns s1) (\<lambda>rest s2.
         (Inr (filter (\<lambda>j. j_worker_name (the j) = Some worker_name) jobs @ rest), s2)))) s"

definition get_worker_executions :: "('s, 'x) app_env_scheme \<Rightarrow> worker_model \<Rightarrow> 's \<Rightarrow> ('s, job_model option list) outcome"
  where "get_worker_executions A w s = executions_of A (m_name w) (w_queue_names w) s"

definition worker_details :: "('s, 'x) app_env_scheme \<Rightarrow> string \<Rightarrow> 's \<Rightarrow> 's view"
  where "worker_details A name s =
    (case find (\<lambda>w. m_name w = name) (get_all_workers A (a_queues A) s) of
       None \<Rightarrow> (Inl Http404, s)
     | Some w \<Rightarrow>
         and_then (get_worker_executions A w s) (\<lambda>executions s1.
         case w_current_job_name w of
           None \<Rightarrow> (Inr ([], WorkerPage w None executions), s1)
         | Some n \<Rightarrow>
             (case w_queue_names w of
                [] \<Rightarrow> (Inl IndexError, s1)
              | queue_name # _ \<Rightarrow>
                  with_queue (a_queues A) queue_name (\<lambda>q s. (Inr ([], WorkerPage w (job_get A n s) executions), s)) s1)))"

definition workers_list :: "('s, 'x) app_env_scheme \<Rightarrow> 's \<Rightarrow> 's view"
  where "workers_list A s = (Inr ([], WorkersPage (get_all_workers A (a_queues A) s)), s)"

end
