(* ===== verification/AdminActions.thy ===== *)
theory AdminActions
  imports AdminViews
begin

text \<open>
  What the administration pages do: the actions on selected jobs, on a whole registry and on one job
  (\<open>queue_job_actions.py\<close>, \<open>queue_registry_actions.py\<close>, \<open>job_views.py\<close>), the admin of tasks
  (\<open>scheduler/admin/task_admin.py\<close>), and what templates ask of a job (\<open>scheduler/templatetags/\<close>).
\<close>

section \<open>Selected jobs\<close>

definition queue_job_action_values :: "string list"
  where "queue_job_action_values = [''delete'', ''requeue'', ''stop'']"

fun delete_each :: "('s, 'x) env_scheme \<Rightarrow> queue \<Rightarrow> job_model option list \<Rightarrow> 's \<Rightarrow> 's" where
  "delete_each B q [] s = s"
| "delete_each B q (None # jobs) s = delete_each B q jobs s"
| "delete_each B q (Some j # jobs) s = delete_each B q jobs (delete_job B q (m_name j) True s)"

definition send_and_cancel :: "('s, 'x) host_env_scheme \<Rightarrow> queue \<Rightarrow> job_model \<Rightarrow> 's \<Rightarrow> ('s, unit) outcome"
  \<comment> \<open>the command is sent to the worker the job's record names, \<open>None\<close> if it has none\<close>
  where "send_and_cancel H q j s =
    (case stop_job_init (VStr (m_name j)) (opt_val VStr (j_worker_name j)) of
       Inl e \<Rightarrow> (Inl e, s)
     | Inr c \<Rightarrow> and_then (send_command H c s) (\<lambda>_ s1. cancel_job H q (m_name j) s1))"

fun stop_each :: "('s, 'x) host_env_scheme \<Rightarrow> queue \<Rightarrow> job_model option list \<Rightarrow> 's \<Rightarrow> ('s, nat) outcome" where
  "stop_each H q [] s = (Inr 0, s)"
| "stop_each H q (None # jobs) s = stop_each H q jobs s"
| "stop_each H q (Some j # jobs) s =
     (case send_and_cancel H q j s of
        (Inr _, s1) \<Rightarrow> (case stop_each H q jobs s1 of (Inl e, s2) \<Rightarrow> (Inl e, s2) | (Inr n, s2) \<Rightarrow> (Inr (n + 1), s2))
      | (Inl e, s1) \<Rightarrow> if is_Exception e then stop_each H q jobs s1 else (Inl e, s1))"

definition count_text :: "nat \<Rightarrow> string"
  where "count_text n = str_of_int (int n)"

definition queue_job_actions :: "('s, 'x) app_env_scheme \<Rightarrow> site \<Rightarrow> request \<Rightarrow> string \<Rightarrow> 's \<Rightarrow> 's view"
  where "queue_job_actions A U rq queue_name =
    with_queue (a_queues A) queue_name (\<lambda>q s.
    let (ms, next_url) = check_next_url U rq (u_reverse U ''queue_registry_jobs'' [queue_name, ''queued'']);
        action = post_get rq ''action''
    in if rq_method rq \<noteq> ''POST'' \<or> \<not> truthy_str action \<or> \<not> truthy_str (post_get rq ''job_names'')
          \<or> the action \<notin> set queue_job_action_values
       then (Inr (ms, RedirectUrl next_url), s)
       else
         (let job_names = post_getlist rq ''job_names''
          in if action = Some ''delete'' then
               (case get_jobs A job_names s of
                  Inl e \<Rightarrow> (Inl e, s)
                | Inr jobs \<Rightarrow>
                    (Inr (ms @ [Info (''You have successfully deleted '' @ count_text (length job_names) @ '' jobs!'')],
                      RedirectUrl next_url), delete_each A q jobs s))
             else if action = Some ''requeue'' then
               and_then (enqueue_multiple_jobs A q job_names False s) (\<lambda>n s1.
                 (Inr (ms @ [Info (''You have successfully re-queued '' @ count_text n @ ''/''
                     @ count_text (length job_names) @ ''  jobs!'')], RedirectUrl next_url), s1))
             else
               (case get_jobs A job_names s of
                  Inl e \<Rightarrow> (Inl e, s)
                | Inr jobs \<Rightarrow>
                    and_then (stop_each A q jobs s) (\<lambda>n s1.
                      (Inr (ms @ [Info (''You have successfully stopped '' @ count_text n @ ''  jobs!'')],
                        RedirectUrl next_url), s1)))))"

definition queue_confirm_job_action :: "('s, 'x) app_env_scheme \<Rightarrow> site \<Rightarrow> request \<Rightarrow> string \<Rightarrow> 's \<Rightarrow> 's view"
  \<comment> \<open>before Python 3.12 a string is not looked for among an enumeration's values\<close>
  where "queue_confirm_job_action A U rq queue_name =
    with_queue (a_queues A) queue_name (\<lambda>q s.
    let (ms, next_url) = check_next_url U rq (u_reverse U ''queue_registry_jobs'' [queue_name, ''queued'']);
        action = post_get rq ''action'';
        job_names = post_getlist rq ''_selected_action''
    in if rq_method rq \<noteq> ''POST'' \<or> action = None then (Inr (ms, RedirectUrl next_url), s)
       else if \<not> u_python_312 U then (Inl TypeError, s)
       else if the action \<notin> set queue_job_action_values then (Inr (ms, RedirectUrl next_url), s)
       else (Inr (ms, ConfirmPage (the action) (map (\<lambda>n. job_get A n s) job_names) (length job_names) next_url), s))"

section \<open>A whole registry\<close>

definition clear_registry :: "('s, 'x) env_scheme \<Rightarrow> registry \<Rightarrow> 's \<Rightarrow> 's"
  where "clear_registry B r s =
    (let (job_names, s1) = reg_all B r 0 (-1) s
     in fold (\<lambda>n s.
          let s' = reg_delete B r n s
          in case job_get B n s' of None \<Rightarrow> s' | Some j \<Rightarrow> snd (hash_delete (job_class (e_cfg B)) B j s'))
        job_names s1)"

definition requeue_job_names :: "('s, 'x) host_env_scheme \<Rightarrow> queue \<Rightarrow> string \<Rightarrow> 's \<Rightarrow> ('s, message list) outcome"
  where "requeue_job_names H q registry_name s =
    (case get_registry q registry_name of
       Inl _ \<Rightarrow> (Inr [], s)
     | Inr r \<Rightarrow>
         (let (job_names, s1) = reg_all H r 0 (-1) s
          in and_then (enqueue_multiple_jobs H q job_names False s1) (\<lambda>n s2.
               (Inr [Info (''You have successfully re-queued '' @ count_text n @ '' jobs!'')], s2))))"

definition queue_registry_actions :: "('s, 'x) app_env_scheme \<Rightarrow> site \<Rightarrow> request \<Rightarrow> string \<Rightarrow> string \<Rightarrow> string \<Rightarrow> 's \<Rightarrow> 's view"
  where "queue_registry_actions A U rq queue_name registry_name action =
    with_queue (a_queues A) queue_name (\<lambda>q s.
    case get_registry q registry_name of
      Inl _ \<Rightarrow> (Inr ([], NotFoundResponse), s)
    | Inr r \<Rightarrow>
        (let (ms, next_url) = check_next_url U rq (u_reverse U ''queue_registry_jobs'' [queue_name, registry_name])
         in if action \<notin> {''empty'', ''requeue''} then (Inr (ms, RedirectUrl next_url), s)
            else if rq_method rq = ''POST'' then
              and_then (if action = ''empty''
                then (Inr [Info (''You have successfully cleared the '' @ registry_name @ '' jobs in queue '' @ q_name q)],
                      clear_registry A r s)
                else requeue_job_names A q registry_name s) (\<lambda>ms' s1.
                (Inr (ms @ ms', RedirectView ''queue_registry_jobs'' [queue_name, registry_name]), s1))
            else
              (let (job_names, s1) = reg_all A r 0 (-1) s
               in case get_jobs A job_names s1 of
                    Inl e \<Rightarrow> (Inl e, s1)
                  | Inr jobs \<Rightarrow>
                      (let (n, s2) = reg_count A r s1 in (Inr (ms, ConfirmPage action jobs n next_url), s2)))))"

section \<open>One job\<close>

fun results_of :: "('s, 'x) env_scheme \<Rightarrow> (string \<times> wire) list list \<Rightarrow> 's \<Rightarrow> ('s, job_result list) outcome" where
  "results_of B [] s = (Inr [], s)"
| "results_of B (d # ds) s =
     and_then (result_deserialize B d s) (\<lambda>r s1. and_then (results_of B ds s1) (\<lambda>rs s2. (Inr (r # rs), s2)))"

definition result_all :: "('s, 'x) env_scheme \<Rightarrow> string \<Rightarrow> 's \<Rightarrow> ('s, job_result list) outcome"
  where "result_all B job_name s = results_of B (stream_all B (result_children_key job_name) s) s"

definition html_escape :: "string \<Rightarrow> string"
  \<comment> \<open>\<open>html.escape(s)\<close>\<close>
  where "html_escape s = concat (map (\<lambda>c.
    if c = CHR ''&'' then ''&amp;'' else if c = CHR ''<'' then ''&lt;'' else if c = CHR ''>'' then ''&gt;''
    else if c = CHR 0x22 then ''&quot;'' else if c = CHR 0x27 then ''&#x27;'' else [c]) s)"

definition no_such_job :: "string \<Rightarrow> message list \<times> admin_response"
  where "no_such_job job_name =
    ([Warning (''Job '' @ html_escape job_name @ '' does not exist, maybe its TTL has passed'')], RedirectView ''queues_home'' [])"

definition job_detail :: "('s, 'x) app_env_scheme \<Rightarrow> string \<Rightarrow> 's \<Rightarrow> 's view"
  where "job_detail A job_name s =
    (case find_job A job_name s of
       None \<Rightarrow> (Inr (no_such_job job_name), s)
     | Some (q, j) \<Rightarrow>
         and_then (case fetch_latest A (m_name j) s of
             (Inl e, s1) \<Rightarrow> (if e = AttributeError then Inr None else Inl e, s1)
           | (Inr r, s1) \<Rightarrow> (Inr r, s1)) (\<lambda>last_result s1.
         and_then (result_all A (m_name j) s1) (\<lambda>results s2.
           (Inr ([], JobPage j last_result results), s2))))"

definition perform_job_action :: "('s, 'x) app_env_scheme \<Rightarrow> queue \<Rightarrow> job_model \<Rightarrow> string \<Rightarrow> string \<Rightarrow> 's \<Rightarrow> 's view"
  \<comment> \<open>the body of the \<open>try\<close>\<close>
  where "perform_job_action A q j job_name action s =
    (if action = ''delete'' then
       (Inr ([Info (''You have successfully deleted '' @ m_name j)], RedirectView ''queue_registry_jobs'' [q_name q, ''queued'']),
        delete_job A q (m_name j) True s)
     else if action = ''enqueue'' then
       (case enqueue_job A q [] False j (delete_job A q (m_name j) False s) of
          (_, Inl e, s1) \<Rightarrow> (Inl e, s1)
        | (j1, Inr _, s1) \<Rightarrow>
            (Inr ([Info (''You have successfully enqueued '' @ m_name j1)], RedirectView ''job_details'' [job_name]), s1))
     else
       and_then (send_and_cancel A q j s) (\<lambda>_ s1.
         (Inr ([Info (''You have successfully cancelled '' @ m_name j)], RedirectView ''job_details'' [job_name]), s1)))"

definition job_action :: "('s, 'x) app_env_scheme \<Rightarrow> request \<Rightarrow> string \<Rightarrow> string \<Rightarrow> 's \<Rightarrow> 's view"
  \<comment> \<open>the warning goes on with the text of the exception, which is left out\<close>
  where "job_action A rq job_name action s =
    (case find_job A job_name s of
       None \<Rightarrow> (Inr (no_such_job job_name), s)
     | Some (q, j) \<Rightarrow>
         if action \<notin> {''delete'', ''enqueue'', ''cancel''}
         then (Inr ([], BadRequest (''Action '' @ html_escape action @ '' is not supported'')), s)
         else if rq_method rq \<noteq> ''POST'' then (Inr ([], JobActionPage j action), s)
         else (case perform_job_action A q j job_name action s of
                 (Inr res, s1) \<Rightarrow> (Inr res, s1)
               | (Inl e, s1) \<Rightarrow>
                   if e = InvalidJobOperation
                   then (Inr ([Warning ''Could not perform action''], RedirectView ''job_details'' [job_name]), s1)
                   else (Inl e, s1)))"

end
