(* ===== verification/AdminTasks.thy ===== *)
theory AdminTasks
  imports AdminActions
begin

text \<open>
  The admin of tasks, \<open>scheduler/admin/task_admin.py\<close>; saving and deleting a task's arguments
  (\<open>scheduler/models/args.py\<close>), which saves the task; and the filters templates apply to jobs,
  \<open>scheduler/templatetags/\<close>.
\<close>

section \<open>The executions of a task\<close>

definition job_execution_of :: "job_model \<Rightarrow> task \<Rightarrow> bool"
  where "job_execution_of j t \<longleftrightarrow> j_scheduled_task_id j = t_id t \<and> j_task_type j = Some (t_task_type t)"

definition newest_first :: "job_model list \<Rightarrow> job_model list result"
  \<comment> \<open>\<open>sorted(..., key=lambda j: j.created_at, reverse=True)\<close>: None compares with nothing\<close>
  where "newest_first js =
    (if length js > 1 \<and> (\<exists>j\<in>set js. created_at j = None) then Inl TypeError
     else Inr (sort_key (\<lambda>j. case created_at j of None \<Rightarrow> 0 | Some t \<Rightarrow> - t) js))"

definition get_job_executions_for_task :: "('s, 'x) app_env_scheme \<Rightarrow> string \<Rightarrow> task \<Rightarrow> 's \<Rightarrow> ('s, job_model list) outcome"
  where "get_job_executions_for_task A queue_name t s =
    (case get_queue (a_queues A) queue_name of
       Inl e \<Rightarrow> (Inl e, s)
     | Inr q \<Rightarrow>
         (let (names, s1) = get_all_job_names A q s
          in case get_jobs A names s1 of
               Inl e \<Rightarrow> (Inl e, s1)
             | Inr jobs \<Rightarrow> (newest_first (filter (\<lambda>j. job_execution_of j t) (List.map_filter id jobs)), s1)))"

definition change_view_context :: "('s, 'x) app_env_scheme \<Rightarrow> task option \<Rightarrow> 's \<Rightarrow> ('s, job_model list \<times> bool) outcome"
  \<comment> \<open>what the page of a task is given beside Django's own: its executions, split into sheets by Django,
     and whether there is more than one sheet\<close>
  where "change_view_context A obj s =
    (case obj of
       None \<Rightarrow> (Inl AttributeError, s)
     | Some t \<Rightarrow>
         and_then (get_job_executions_for_task A (t_queue t) t s) (\<lambda>executions s1.
           (Inr (executions, int (length executions) > EXECUTIONS_IN_PAGE (e_cfg A)), s1)))"

section \<open>Columns\<close>

definition display_choice :: "(string \<times> string) list \<Rightarrow> string \<Rightarrow> string"
  where "display_choice choices v = (case map_of choices v of None \<Rightarrow> v | Some d \<Rightarrow> d)"

definition TIME_UNITS :: "(string \<times> string) list"
  where "TIME_UNITS =
    [(''seconds'', ''seconds''), (''minutes'', ''minutes''), (''hours'', ''hours''), (''days'', ''days''), (''weeks'', ''weeks'')]"

definition task_schedule_column :: "(time \<Rightarrow> string) \<Rightarrow> task \<Rightarrow> string result"
  \<comment> \<open>with Django's formatting of a date and time\<close>
  where "task_schedule_column date_format t =
    (if t_task_type t = ONCE then
       (case t_scheduled_time t of None \<Rightarrow> Inl AttributeError | Some d \<Rightarrow> Inr (''Run once: '' @ date_format d))
     else if t_task_type t = CRON then
       Inr (''Cron: '' @ (case t_cron_string t of None \<Rightarrow> ''None'' | Some c \<Rightarrow> c))
     else
       (case (t_interval t, t_interval_unit t) of
          (Some i, Some u) \<Rightarrow> Inr (''Repeatable: '' @ str_of_int i @ '' '' @ display_choice TIME_UNITS u)
        | _ \<Rightarrow> Inr []))"

definition next_run :: "('s, 'x) app_env_scheme \<Rightarrow> task \<Rightarrow> 's \<Rightarrow> ('s, time option) outcome"
  \<comment> \<open>None is the text \<open>Not scheduled\<close>; showing a task that was due saves it, and so schedules it\<close>
  where "next_run A t s =
    (case t_scheduled_time t of
       None \<Rightarrow> (Inr None, s)
     | Some due \<Rightarrow>
         (let (now, s1) = utcnow A s
          in if due < now then
               (case task_save A False True t s1 of
                  (_, Inl e, s2) \<Rightarrow> (Inl e, s2)
                | (t1, Inr _, s2) \<Rightarrow> (Inr (t_scheduled_time t1), s2))
             else (Inr (Some due), s1)))"

section \<open>Actions\<close>

fun unschedule_each :: "('s, 'x) app_env_scheme \<Rightarrow> task list \<Rightarrow> 's \<Rightarrow> ('s, unit) outcome" where
  "unschedule_each A [] s = (Inr (), s)"
| "unschedule_each A (t # ts) s =
     (case unschedule A t s of
        (_, Inl e, s1) \<Rightarrow> (Inl e, s1)
      | (_, Inr _, s1) \<Rightarrow> unschedule_each A ts s1)"

definition delete_queryset :: "('s, 'x) app_env_scheme \<Rightarrow> task list \<Rightarrow> 's \<Rightarrow> ('s, unit) outcome"
  \<comment> \<open>then the rows are deleted at once, without their own \<open>delete\<close>\<close>
  where "delete_queryset A ts s =
    and_then (unschedule_each A ts s) (\<lambda>_ s1. (Inr (), fold (tb_delete (a_tasks A)) ts s1))"

definition delete_model :: "('s, 'x) app_env_scheme \<Rightarrow> task \<Rightarrow> 's \<Rightarrow> ('s, unit) outcome"
  where "delete_model A t s =
    (case unschedule A t s of
       (_, Inl e, s1) \<Rightarrow> (Inl e, s1)
     | (t1, Inr _, s1) \<Rightarrow> task_delete A t1 s1)"

definition get_message_bit :: "nat \<Rightarrow> string"
  where "get_message_bit n = (if n = 1 then ''1 task was'' else count_text n @ '' tasks were'')"

definition rows_message :: "nat \<Rightarrow> string \<Rightarrow> message"
  where "rows_message n what =
    (if n = 0 then Warning (get_message_bit n @ what) else Info (get_message_bit n @ what))"

definition disable_selected :: "('s, 'x) app_env_scheme \<Rightarrow> task list \<Rightarrow> 's \<Rightarrow> ('s, message) outcome"
  where "disable_selected A ts s =
    (let selected = filter t_enabled ts
     in and_then (unschedule_each A (map (\<lambda>t. t\<lparr>t_enabled := False\<rparr>) selected) s) (\<lambda>_ s1.
          (Inr (rows_message (length selected) '' successfully disabled and unscheduled.''), s1)))"

fun save_selected :: "('s, 'x) app_env_scheme \<Rightarrow> task list \<Rightarrow> 's \<Rightarrow> ('s, unit) outcome" where
  "save_selected A [] s = (Inr (), s)"
| "save_selected A (t # ts) s =
     (case task_save A True True t s of
        (_, Inl e, s1) \<Rightarrow> (Inl e, s1)
      | (_, Inr _, s1) \<Rightarrow> save_selected A ts s1)"

definition enable_selected :: "('s, 'x) app_env_scheme \<Rightarrow> task list \<Rightarrow> 's \<Rightarrow> ('s, message) outcome"
  where "enable_selected A ts s =
    (let selected = filter (\<lambda>t. \<not> t_enabled t) ts
     in and_then (save_selected A (map (\<lambda>t. t\<lparr>t_enabled := True\<rparr>) selected) s) (\<lambda>_ s1.
          (Inr (rows_message (length selected) '' successfully enabled and scheduled.''), s1)))"

fun enqueue_selected :: "('s, 'x) app_env_scheme \<Rightarrow> task list \<Rightarrow> 's \<Rightarrow> ('s, string list) outcome" where
  "enqueue_selected A [] s = (Inr [], s)"
| "enqueue_selected A (t # ts) s =
     and_then (enqueue_to_run A t s) (\<lambda>_ s1. and_then (enqueue_selected A ts s1) (\<lambda>ns s2. (Inr (t_name t # ns), s2)))"

definition enqueue_job_now :: "('s, 'x) app_env_scheme \<Rightarrow> task list \<Rightarrow> 's \<Rightarrow> ('s, message) outcome"
  where "enqueue_job_now A ts s =
    and_then (enqueue_selected A ts s) (\<lambda>ns s1.
      (Inr (Info (''The following jobs have been enqueued: '' @ py_join '', '' ns)), s1))"

section \<open>Arguments\<close>

definition stored_task :: "('s, 'x) app_env_scheme \<Rightarrow> int option \<Rightarrow> 's \<Rightarrow> task option"
  where "stored_task A i s = find (\<lambda>t. t_id t = i) (tb_rows (a_tasks A) s)"

definition arg_save :: "('s, 'x) app_env_scheme \<Rightarrow> int option \<Rightarrow> (task \<Rightarrow> task) \<Rightarrow> 's \<Rightarrow> ('s, unit) outcome"
  \<comment> \<open>\<open>save\<close> and \<open>delete\<close> of an argument, whose effect on the arguments the task has is given: the row of the
     argument is written, then the task it belongs to is read and saved\<close>
  where "arg_save A task_id change s =
    (case stored_task A task_id s of
       None \<Rightarrow> (Inl AttributeError, s)
     | Some t \<Rightarrow> snd (task_save A True True (change t) (snd (task_super_save A (change t) s))))"

definition arg_str :: "('s, 'x) app_env_scheme \<Rightarrow> task_arg \<Rightarrow> 's \<Rightarrow> ('s, string) outcome"
  \<comment> \<open>\<open>TaskArg.__str__\<close>\<close>
  where "arg_str A a s =
    and_then (arg_value A a s) (\<lambda>v s1.
      (Inr (''TaskArg[arg_type='' @ arg_type a @ '',value='' @ value_text A v @ '']''), s1))"

definition kwarg_str :: "('s, 'x) app_env_scheme \<Rightarrow> string \<times> task_arg \<Rightarrow> 's \<Rightarrow> ('s, string) outcome"
  \<comment> \<open>\<open>TaskKwarg.__str__\<close>, which evaluates the argument and shows the text it was given as\<close>
  where "kwarg_str A ka s =
    and_then (arg_value A (snd ka) s) (\<lambda>_ s1.
      (Inr (''TaskKwarg[key='' @ fst ka @ '',arg_type='' @ arg_type (snd ka) @ '',value='' @ arg_val (snd ka) @ '']''), s1))"

section \<open>Filters of templates\<close>

definition task_of_args :: "('s, 'x) app_env_scheme \<Rightarrow> pyval list \<Rightarrow> 's \<Rightarrow> task result"
  \<comment> \<open>\<open>get_scheduled_task(*job.args)\<close>; the database compares the key as the number it spells\<close>
  where "task_of_args A args s =
    (case args of
       [VStr ty, i] \<Rightarrow>
         if ty \<notin> set task_types then Inl ValueError
         else rbind (py_int i) (\<lambda>n. get_scheduled_task A ty n s)
     | [ty, i] \<Rightarrow> Inl ValueError
     | _ \<Rightarrow> Inl TypeError)"

definition show_func_name :: "('s, 'x) app_env_scheme \<Rightarrow> (exn \<Rightarrow> string) \<Rightarrow> job_model \<Rightarrow> 's \<Rightarrow> ('s, string) outcome"
  where "show_func_name A repr_exn j s =
    (case (case job_func A j of
             Inl e \<Rightarrow> (Inl e, s)
           | Inr f \<Rightarrow>
               if f = ''scheduler.models.task.run_task'' then
                 (case task_of_args A (j_args j) s of Inl e \<Rightarrow> (Inl e, s) | Inr t \<Rightarrow> function_string A t s)
               else (Inr (j_func_name j), s)) of
       (Inr text, s1) \<Rightarrow> (Inr text, s1)
     | (Inl e, s1) \<Rightarrow> (if is_Exception e then Inr (repr_exn e) else Inl e, s1))"

definition scheduled_task_url :: "('s, 'x) app_env_scheme \<Rightarrow> site \<Rightarrow> job_model \<Rightarrow> 's \<Rightarrow> string option result"
  \<comment> \<open>with \<open>Task.get_absolute_url\<close>\<close>
  where "scheduled_task_url A U j s =
    (case task_of_args A (j_args j) s of
       Inl e \<Rightarrow> if e = ValueError then Inr None else Inl e
     | Inr t \<Rightarrow> Inr (Some (u_reverse U ''admin:scheduler_task_change'' [id_str (t_id t)])))"

definition latest_result :: "('s, 'x) app_env_scheme \<Rightarrow> job_model \<Rightarrow> 's \<Rightarrow> ('s, job_result option) outcome"
  where "latest_result A j = with_queue (a_queues A) (j_queue_name j) (\<lambda>q. fetch_latest A (m_name j))"

fun result_type_name :: "result_type \<Rightarrow> string" where
  "result_type_name ResultSuccessful = ''SUCCESSFUL''"
| "result_type_name ResultFailed = ''FAILED''"
| "result_type_name ResultStopped = ''STOPPED''"

definition job_result_text :: "('s, 'x) app_env_scheme \<Rightarrow> job_model \<Rightarrow> 's \<Rightarrow> ('s, string option) outcome"
  where "job_result_text A j s =
    and_then (latest_result A j s) (\<lambda>r s1. (Inr (map_option (\<lambda>r. py_capitalize (result_type_name (r_type r))) r), s1))"

definition job_scheduled_task :: "('s, 'x) app_env_scheme \<Rightarrow> job_model \<Rightarrow> 's \<Rightarrow> string option"
  where "job_scheduled_task A j s =
    (if j_scheduled_task_id j = None then None else map_option t_name (stored_task A (j_scheduled_task_id j) s))"

definition job_status_text :: "job_model \<Rightarrow> string result"
  where "job_status_text j =
    (case j_status j of None \<Rightarrow> Inl AttributeError | Some st \<Rightarrow> Inr (py_capitalize (job_status_value st)))"

definition job_runtime :: "job_model \<Rightarrow> string result"
  \<comment> \<open>of the time a job ran, only the part below a second is shown\<close>
  where "job_runtime j =
    (case j_ended_at j of
       Some ended \<Rightarrow>
         (case j_started_at j of
            None \<Rightarrow> Inl TypeError
          | Some started \<Rightarrow> Inr (str_of_int (timedelta_microseconds (ended - started) div 1000) @ ''ms''))
     | None \<Rightarrow> Inr (if j_started_at j \<noteq> None then ''Still running'' else ''-''))"

definition job_scheduled_time :: "('s, 'x) env_scheme \<Rightarrow> queue \<Rightarrow> job_model \<Rightarrow> 's \<Rightarrow> time option"
  where "job_scheduled_time B q j s = get_scheduled_time B (queue_registry ScheduledJobs q) (m_name j) s"

end
