(* ===== verification/Places.thy ===== *)
theory Places
  imports Lifecycle
begin

text \<open>
  What a queue promises of its jobs, without brokers and timestamps: each job is at one place or nowhere,
  and the places it may go to from where it is.  Every history of the queue's operations is a history of
  this machine (\<open>host.life_refines\<close>).
\<close>

section \<open>The abstract machine\<close>

type_synonym places = "string \<Rightarrow> registry_kind option"

inductive place_step :: "places \<Rightarrow> places \<Rightarrow> bool" where
  schedule: "p n \<in> {None, Some ScheduledJobs} \<Longrightarrow> place_step p (p(n \<mapsto> ScheduledJobs))"
| enqueue: "p n \<in> {None, Some ScheduledJobs, Some QueuedJobs} \<Longrightarrow> place_step p (p(n \<mapsto> QueuedJobs))"
| taken: "(\<And>n. n \<in> A \<Longrightarrow> p n = Some QueuedJobs) \<Longrightarrow> place_step p (p |` (- A))"
| start: "p n \<in> {None, Some ActiveJobs} \<Longrightarrow> place_step p (p(n \<mapsto> ActiveJobs))"
| ended: "p n \<in> {None, Some ActiveJobs} \<Longrightarrow> k \<in> {None, Some FinishedJobs, Some FailedJobs} \<Longrightarrow> place_step p (p(n := k))"
| cancel: "p n \<noteq> Some FailedJobs \<Longrightarrow> k \<in> {CanceledJobs, FinishedJobs} \<Longrightarrow> place_step p (p(n \<mapsto> k))"
| delete: "place_step p (p(n := None))"
| expire: "k \<in> {FinishedJobs, FailedJobs, ActiveJobs} \<Longrightarrow> (\<And>n. n \<in> A \<Longrightarrow> p n = Some k) \<Longrightarrow> place_step p (p |` (- A))"
| stay: "place_step p p"

section \<open>Simulation\<close>

locale simulation =
  fixes step :: "'s \<Rightarrow> 's \<Rightarrow> bool" and astep :: "'a \<Rightarrow> 'a \<Rightarrow> bool" and abs :: "'s \<Rightarrow> 'a" and inv :: "'s \<Rightarrow> bool"
  assumes keeps: "step s s' \<Longrightarrow> inv s \<Longrightarrow> inv s'"
    and simulates: "step s s' \<Longrightarrow> inv s \<Longrightarrow> astep (abs s) (abs s')"
begin

lemma run: "step\<^sup>*\<^sup>* s s' \<Longrightarrow> inv s \<Longrightarrow> inv s' \<and> astep\<^sup>*\<^sup>* (abs s) (abs s')"
  by (induction rule: rtranclp_induct) (auto intro: keeps rtranclp.rtrancl_into_rtrancl simulates)

end

section \<open>Where a job is\<close>

definition place :: "('s \<Rightarrow> store) \<Rightarrow> queue \<Rightarrow> 's \<Rightarrow> places"
  where "place view q s n = find (\<lambda>k. reg_entries view s (queue_registry k q) n \<noteq> None)
    [QueuedJobs, FinishedJobs, FailedJobs, CanceledJobs, ScheduledJobs, ActiveJobs]"

definition at_most :: "'a option \<Rightarrow> 'a set"
  where "at_most x = (case x of None \<Rightarrow> {} | Some k \<Rightarrow> {k})"

lemma at_most_simps [simp]: "at_most None = {}" "at_most (Some k) = {k}"
  by (simp_all add: at_most_def)

lemma place_None_iff: "place view q s n = None \<longleftrightarrow> placed view q s n = {}"
proof -
  have "k \<in> set [QueuedJobs, FinishedJobs, FailedJobs, CanceledJobs, ScheduledJobs, ActiveJobs]" for k by (cases k) simp_all
  then show ?thesis unfolding place_def placed_def find_None_iff by blast
qed

lemma place_SomeD: "place view q s n = Some k \<Longrightarrow> k \<in> placed view q s n"
  unfolding place_def placed_def find_Some_iff by blast

lemma placed_place: "one_place view q s \<Longrightarrow> placed view q s n = at_most (place view q s n)"
  using place_SomeD [of view q s n] place_None_iff [of view q s n]
  by (cases "place view q s n") (auto simp: one_place_def)

lemma place_eqI: "placed view q s n = at_most k \<Longrightarrow> place view q s n = k"
  using place_SomeD [of view q s n] place_None_iff [of view q s n] by (cases k; cases "place view q s n") auto

lemma place_upd:
  assumes "one_place view q s" "\<And>m. m \<noteq> n \<Longrightarrow> placed view q s' m = placed view q s m"
    and "placed view q s' n = at_most k"
  shows "place view q s' = (place view q s)(n := k)"
proof
  fix m
  show "place view q s' m = ((place view q s)(n := k)) m"
    using assms(2) [of m] assms(3) placed_place [OF assms(1), of m] by (cases "m = n") (auto intro: place_eqI)
qed

lemma place_restrict:
  assumes "one_place view q s" "\<And>m. placed view q s' m = (if m \<in> A then {} else placed view q s m)"
  shows "place view q s' = place view q s |` (- A)"
proof
  fix m
  show "place view q s' m = (place view q s |` (- A)) m"
    by (rule place_eqI) (simp only: assms(2) placed_place [OF assms(1)] restrict_map_def Compl_iff if_distrib
        [where f = at_most] at_most_simps if_not_P not_not split: if_split, simp)
qed

lemma place_leave:
  assumes "one_place view q s" "\<And>m. placed view q s' m \<subseteq> placed view q s m"
    and "\<And>m k'. k' \<noteq> k \<Longrightarrow> k' \<in> placed view q s m \<Longrightarrow> k' \<in> placed view q s' m"
  obtains A where "\<And>n. n \<in> A \<Longrightarrow> place view q s n = Some k" "place view q s' = place view q s |` (- A)"
proof
  let ?A = "{n. place view q s n = Some k \<and> k \<notin> placed view q s' n}"
  show "place view q s n = Some k" if "n \<in> ?A" for n using that by simp
  show "place view q s' = place view q s |` (- ?A)"
  proof (rule place_restrict [OF assms(1)])
    fix m
    show "placed view q s' m = (if m \<in> ?A then {} else placed view q s m)"
      using assms(2) [of m] assms(3) [where m = m] placed_place [OF assms(1), of m]
      by (cases "place view q s m") auto
  qed
qed

section \<open>The steps of a queue\<close>

context broker
begin

lemma dequeue_any_elsewhere:
  assumes "dequeue_any B qs None s = Some res" "k \<notin> reg_key ` queue_registry QueuedJobs ` set qs"
  shows "zsets (view (snd res)) k = zsets (view s) k"
  using assms(1)
proof (induction "waiting view qs s" arbitrary: s rule: less_induct)
  case less
  let ?rs = "map (queue_registry QueuedJobs) qs"
  have z1: "zsets (view (fold (reg_compact B) ?rs s)) k = zsets (view s) k"
    using view_compact_all [of ?rs s] assms(2) by simp
  show ?case
  proof (cases rule: dequeue_any_cases [of qs s])
    case empty
    then show ?thesis using less.prems z1 by auto
  next
    case (popped q p s2)
    have "k \<noteq> reg_key (queue_registry QueuedJobs q)" using assms(2) popped(1) by blast
    then have z2: "zsets (view s2) k = zsets (view s) k" using popped(4) z1 by simp
    have "waiting view qs s2 < waiting view qs s"
      using popped(1,2) compacted_sets(2) popped(4) by (intro waiting_popped [of q qs _ s s2]) auto
    from less.hyps [OF this] popped(5) less.prems z2 show ?thesis by (cases "job_get B (fst p) s2") auto
  qed
qed

lemma placed_kept: "zsets (view s') (reg_key (queue_registry k q)) = zsets (view s) (reg_key (queue_registry k q)) \<Longrightarrow>
    k \<in> placed view q s m \<Longrightarrow> k \<in> placed view q s' m"
  by (simp add: placed_def reg_entries_def)

end

context host
begin

lemma life_step_refines:
  assumes "life_step H view q s s'" "one_place view q s"
  shows "place_step (place view q s) (place view q s')"
  using assms(1)
proof cases
  case (schedule n tz t)
  have p: "placed view q s' m = (if m = n then insert ScheduledJobs (placed view q s m) else placed view q s m)" for m
    by (auto simp: schedule(1) placed_def reg_schedule_def regs.entries_add)
  have "place view q s' = (place view q s)(n \<mapsto> ScheduledJobs)"
    by (rule place_upd [OF assms(2)]) (use schedule(2) p in auto)
  then show ?thesis using schedule(2) placed_place [OF assms(2), of n]
    by (cases "place view q s n") (auto intro: place_step.schedule)
next
  case (enqueue j at_front)
  have p: "placed view q s' m = (if m = m_name j then insert QueuedJobs (placed view q s m - {ScheduledJobs}) else placed view q s m)" for m
    by (auto simp: enqueue(1) placed_def enqueue_job_async(3) [OF enqueue(2,3)])
  have "place view q s' = (place view q s)(m_name j \<mapsto> QueuedJobs)"
    by (rule place_upd [OF assms(2)]) (use enqueue(4) p in auto)
  then show ?thesis using enqueue(4) placed_place [OF assms(2), of "m_name j"]
    by (cases "place view q s (m_name j)") (auto intro: place_step.enqueue)
next
  case (take qs res)
  have sub: "placed view q s' m \<subseteq> placed view q s m" for m
    using dequeue_any_subset [OF take] by (simp add: placed_shrinks)
  have keep: "k' \<in> placed view q s' m" if "k' \<noteq> QueuedJobs" "k' \<in> placed view q s m" for m k'
  proof (rule placed_kept [where s = s])
    show "zsets (view s') (reg_key (queue_registry k' q)) = zsets (view s) (reg_key (queue_registry k' q))"
      using dequeue_any_elsewhere [OF take, of "reg_key (queue_registry k' q)"] that(1) by (auto simp: image_iff)
  qed (rule that(2))
  show ?thesis
    by (rule place_leave [OF assms(2) sub keep, where k = QueuedJobs]) (assumption | simp only: place_step.taken)+
next
  case (start j w)
  have p: "placed view q s' m = (if m = m_name j then insert ActiveJobs (placed view q s m) else placed view q s m)" for m
    by (auto simp: start(1) placed_def prepare_entries split: if_splits)
  have "place view q s' = (place view q s)(m_name j \<mapsto> ActiveJobs)"
    by (rule place_upd [OF assms(2)]) (use start(2) p in auto)
  then show ?thesis using start(2) placed_place [OF assms(2), of "m_name j"]
    by (cases "place view q s (m_name j)") (auto intro: place_step.start)
next
  case (succeed j v ttl rttl)
  let ?k = "if ttl = 0 then None else Some FinishedJobs"
  have p: "placed view q s' m = (if m = m_name j then at_most ?k \<union> (placed view q s m - {ActiveJobs}) else placed view q s m)" for m
    by (auto simp: succeed(1) placed_def job_handle_success_entries split: if_splits)
  have "place view q s' = (place view q s)(m_name j := ?k)"
    by (rule place_upd [OF assms(2)]) (use succeed(2) p in auto)
  then show ?thesis using succeed(2) placed_place [OF assms(2), of "m_name j"]
    by (cases "place view q s (m_name j)") (auto intro: place_step.ended)
next
  case (failed j st exc)
  let ?k = "if DEFAULT_FAILURE_TTL (e_cfg H) = 0 then None else Some FailedJobs"
  have p: "placed view q s' m = (if m = m_name j then at_most ?k \<union> (placed view q s m - {ActiveJobs}) else placed view q s m)" for m
    by (auto simp: failed(1) placed_def job_handle_failure_entries split: if_splits)
  have "place view q s' = (place view q s)(m_name j := ?k)"
    by (rule place_upd [OF assms(2)]) (use failed(2) p in auto)
  then show ?thesis using failed(2) placed_place [OF assms(2), of "m_name j"]
    by (cases "place view q s (m_name j)") (auto intro: place_step.ended)
next
  case (cancel n j)
  show ?thesis
  proof (cases "j_status j = Some JobCanceled")
    case True
    then have "s' = s" using cancel(1,2) by (simp add: cancel_job_def)
    then show ?thesis by (simp add: place_step.stay)
  next
    case False
    let ?k = "if j_status j = Some JobQueued then CanceledJobs else FinishedJobs"
    obtain t where t: "reg_entries view s' = (\<lambda>r. if r = queue_registry ?k q then (reg_entries view s r)(n \<mapsto> t)
       else if reg_name r = q_name q \<and> reg_kind r \<noteq> FailedJobs then (reg_entries view s r)(n := None)
       else reg_entries view s r)"
      using cancel_job_entries(3) [OF cancel(2) False cancel(3)] cancel(1) by blast
    have p: "placed view q s' m = (if m = n then insert ?k (placed view q s m \<inter> {FailedJobs}) else placed view q s m)" for m
      by (auto simp: placed_def t)
    have "place view q s' = (place view q s)(n \<mapsto> ?k)"
      by (rule place_upd [OF assms(2)]) (use cancel(4) p in auto)
    moreover have "place view q s n \<noteq> Some FailedJobs" using cancel(4) by (metis place_SomeD)
    ultimately show ?thesis by (simp only:) (rule place_step.cancel, simp_all)
  qed
next
  case (delete n ex)
  have "place view q s' = (place view q s)(n := None)"
    by (rule place_upd [OF assms(2)]) (auto simp: delete placed_def delete_job_entries)
  then show ?thesis by (simp add: place_step.delete)
next
  case (expire k t)
  have sub: "placed view q s' m \<subseteq> placed view q s m" for m
    by (rule placed_shrinks) (auto simp: expire view_reg_cleanup unexpired_def)
  have keep: "k' \<in> placed view q s' m" if "k' \<noteq> k" "k' \<in> placed view q s m" for m k'
    by (rule placed_kept [where s = s]) (use that in \<open>simp_all add: expire view_reg_cleanup\<close>)
  show ?thesis
  proof (cases "keeps_expired k")
    case True
    then have "s' = s" by (simp add: expire)
    then show ?thesis by (simp add: place_step.stay)
  next
    case False
    then have "k \<in> {FinishedJobs, FailedJobs, ActiveJobs}" by (cases k) simp_all
    show ?thesis by (rule place_leave [OF assms(2) sub keep, where k = k]) (assumption | simp only: place_step.expire [OF \<open>k \<in> _\<close>])+
  qed
next
  case tidy
  have sub: "placed view q s' m \<subseteq> placed view q s m" for m
    by (rule placed_shrinks) (auto simp: tidy view_reg_compact live_def)
  have keep: "k' \<in> placed view q s' m" if "k' \<noteq> QueuedJobs" "k' \<in> placed view q s m" for m k'
    by (rule placed_kept [where s = s]) (use that in \<open>simp_all add: tidy view_reg_compact\<close>)
  show ?thesis by (rule place_leave [OF assms(2) sub keep, where k = QueuedJobs]) (assumption | simp only: place_step.taken)+
next
  case elsewhere
  then have "place view q s' = place view q s" by (simp add: place_def reg_entries_def fun_eq_iff)
  then show ?thesis by (simp add: place_step.stay)
qed

end

sublocale host \<subseteq> life: simulation "life_step H view q" place_step "place view q" "one_place view q" for q :: queue
  by unfold_locales (auto intro: life_step_one_place life_step_refines)

context host
begin

lemma life_refines:
  "(life_step H view q)\<^sup>*\<^sup>* s s' \<Longrightarrow> one_place view q s \<Longrightarrow>
     one_place view q s' \<and> place_step\<^sup>*\<^sup>* (place view q s) (place view q s')"
  by (rule life.run)

end

interpretation mem_life: simulation "life_step (mem_host cfg) mem_view q" place_step "place mem_view q" "one_place mem_view q"
  for cfg :: scheduler_config and q :: queue
  by (rule mem_host.life.simulation_axioms)

end
