(* ===== verification/AdminFacts.thy ===== *)
theory AdminFacts
  imports AdminTasks Places
begin

text \<open>What the pages show of a registry, and what requeuing its jobs does.\<close>

section \<open>Reading many jobs\<close>

definition readable :: "('s, 'x) env_scheme \<Rightarrow> 's \<Rightarrow> string \<Rightarrow> bool"
  \<comment> \<open>a name of no job, or of a job whose record can be read\<close>
  where "readable B s n \<longleftrightarrow> e_hgetall B (job_key n) s = [] \<or> job_get B n s \<noteq> None"

lemma job_get_SomeD: "job_get B n s = Some j \<Longrightarrow>
    e_hgetall B (job_key n) s \<noteq> [] \<and> job_deserialize (e_cfg B) (e_hgetall B (job_key n) s) = Inr j"
  by (simp add: job_get_def model_get_def Let_def split: if_splits sum.splits)

lemma job_get_NoneI: "e_hgetall B (job_key n) s = [] \<Longrightarrow> job_get B n s = None"
  by (simp add: job_get_def model_get_def)

lemma get_jobs_readable: "\<forall>n\<in>set ns. readable B s n \<Longrightarrow> get_jobs B ns s = Inr (map (\<lambda>n. job_get B n s) ns)"
  unfolding get_jobs_def
proof (induction ns)
  case (Cons n ns)
  then have IH: "model_get_many (job_class (e_cfg B)) B ns s = Inr (map (\<lambda>n. job_get B n s) ns)" by simp
  show ?case
  proof (cases "job_get B n s")
    case None
    then have "e_hgetall B (job_key n) s = []" using Cons.prems by (simp add: readable_def)
    then show ?thesis using IH None by simp
  next
    case (Some j)
    note job_get_SomeD [OF Some]
    then show ?thesis using IH Some by simp
  qed
qed simp

lemma job_get_readable: "job_get B n s \<noteq> None \<Longrightarrow> readable B s n"
  by (simp add: readable_def)

section \<open>Pages\<close>

definition page_of :: "nat \<Rightarrow> 'a list \<Rightarrow> nat \<Rightarrow> 'a list"
  where "page_of m xs i = take m (drop (m * i) xs)"

lemma concat_pages: "concat (map (page_of m xs) [0..<k]) = take (m * k) xs"
proof (induction k)
  case (Suc k)
  then show ?case by (simp add: page_of_def take_add [symmetric] add.commute)
qed simp

lemma z_range_page: "m > 0 \<Longrightarrow> z_range (int m * int i) (int m * int i + int m - 1) xs = page_of m xs i"
proof -
  assume m: "m > 0"
  have "0 \<le> int m * int i" by simp
  moreover from this have "0 \<le> int m * int i + int m - 1" using m by linarith
  ultimately show ?thesis by (simp add: z_range_nonneg page_of_def nat_mult_distrib)
qed

lemma pages_count:
  assumes "m > 0" "n > 0"
  obtains k where "ceil_div (int n) (int m) = int (Suc k)" "n \<le> m * Suc k" "m * k < n"
proof -
  let ?c = "ceil_div (int n) (int m)"
  have b: "int n \<le> int m * ?c" "int m * ?c < int n + int m" using ceil_div_bounds [of "int m" "int n"] assms by simp_all
  have "0 < int m * ?c" using b(1) assms by linarith
  then have "?c > 0" using assms by (simp add: zero_less_mult_iff)
  then obtain k where k: "?c = int (Suc k)" by (metis gr0_implies_Suc zero_less_imp_eq_int)
  have "int n \<le> int (m * Suc k)" "int (m * k) < int n" using b by (simp_all add: k algebra_simps)
  then show ?thesis using k by (intro that) (simp_all only: of_nat_le_iff of_nat_less_iff)
qed

section \<open>The pages of a registry\<close>

lemma map_filter_Some: "List.map_filter id (map (\<lambda>x. Some (f x)) xs) = map f xs"
  by (induction xs) (simp_all add: List.map_filter_def)

context broker
begin

lemma page_of_registry:
  assumes "keeps_expired (reg_kind r)" "EXECUTIONS_IN_PAGE (e_cfg B) = int m" "m > 0"
    and "zsets (view s) (reg_key r) \<noteq> []"
    and "\<forall>n\<in>fst ` set (zsets (view s) (reg_key r)). job_get B n s \<noteq> None"
  shows "get_registry_job_list B r (int (Suc i)) s =
    (Inr (map (\<lambda>p. the (job_get B (fst p) s)) (page_of m (zsets (view s) (reg_key r)) i),
          length (zsets (view s) (reg_key r)), [1 .. ceil_div (int (length (zsets (view s) (reg_key r)))) (int m)]), s)"
proof -
  let ?xs = "zsets (view s) (reg_key r)"
  let ?page = "map fst (page_of m ?xs i)"
  have sub: "set (page_of m ?xs i) \<subseteq> set ?xs" by (auto simp: page_of_def dest!: in_set_takeD in_set_dropD)
  have count: "reg_count B r s = (length ?xs, s)" using assms(1) by (simp add: reg_count_def reads)
  have "int m * (int (Suc i) - 1) = int m * int i" by simp
  then have all: "reg_all B r (int m * (int (Suc i) - 1)) (int m * (int (Suc i) - 1) + int m - 1) s = (?page, s)"
    using assms(1,3) by (simp only: reg_all_def Let_def reg_cleanup_kept zrange z_range_page)
  have some: "job_get B n s = Some (the (job_get B n s))" if "n \<in> set ?page" for n
    using that sub assms(5) by force
  then have "\<forall>n\<in>set ?page. readable B s n" by (intro ballI job_get_readable) (metis option.distinct(1))
  then have jobs: "get_jobs B ?page s = Inr (map (\<lambda>n. Some (the (job_get B n s))) ?page)"
    using map_cong [OF refl some, of ?page] by (simp only: get_jobs_readable)
  have none: "filter (\<lambda>(_, j). j = None) (zip ?page (map (\<lambda>n. Some (the (job_get B n s))) ?page)) = []"
    by (auto simp: filter_empty_conv dest!: set_zip_rightD)
  show ?thesis
    unfolding get_registry_job_list_def Let_def assms(2) count prod.case all jobs sum.case none map_filter_Some
    using assms(3,4) by (simp add: comp_def)
qed

end

section \<open>Requeuing jobs\<close>

definition found_names :: "job_model option list \<Rightarrow> string list"
  where "found_names jobs = map m_name (List.map_filter id jobs)"

lemma found_names_simps [simp]:
  "found_names [] = []" "found_names (None # jobs) = found_names jobs" "found_names (Some j # jobs) = m_name j # found_names jobs"
  by (simp_all add: found_names_def List.map_filter_def)

context host
begin

lemma enqueue_found_entries:
  assumes "q_is_async q" "\<forall>j. Some j \<in> set jobs \<longrightarrow> storable j"
  shows "\<exists>s'. enqueue_found H q at_front jobs s = (Inr (length (found_names jobs)), s') \<and>
     (\<forall>r n. reg_entries view s' r n \<noteq> None \<longleftrightarrow>
        (if r = queue_registry QueuedJobs q then n \<in> set (found_names jobs) \<or> reg_entries view s r n \<noteq> None
         else if r = queue_registry ScheduledJobs q then n \<notin> set (found_names jobs) \<and> reg_entries view s r n \<noteq> None
         else reg_entries view s r n \<noteq> None))"
  using assms(2)
proof (induction jobs arbitrary: s)
  case (Cons job jobs)
  show ?case
  proof (cases job)
    case None
    have "\<forall>j. Some j \<in> set jobs \<longrightarrow> storable j" using Cons.prems by simp
    from Cons.IH [OF this, of s] show ?thesis by (simp only: None enqueue_found.simps found_names_simps)
  next
    case (Some j)
    then have st: "storable j" using Cons.prems by simp
    obtain s1 where save: "job_save H False j s = (clean j, Inr (), s1)"
      using job_save_storable [OF st, of H False s] by (metis prod.collapse)
    have e1: "reg_entries view s1 = reg_entries view s" using reg_entries_save [of False j s] by (simp add: save)
    have m: "m_name (clean j) = m_name j" by (simp add: clean_def)
    have st': "storable (clean j)" using st by (simp add: clean_def storable_def)
    obtain j2 s2 where enq: "enqueue_job H q [] at_front (clean j) s1 = (j2, Inr (), s2)"
      using enqueue_job_async(1) [OF assms(1) st', of at_front s1] by (metis prod.collapse)
    have e2: "reg_entries view s2 r =
      (if r = queue_registry QueuedJobs q
       then (reg_entries view s r)(m_name j \<mapsto> secs (enqueue_score H q at_front (once_saved H (clean j) s1)))
       else if r = queue_registry ScheduledJobs q then (reg_entries view s r)(m_name j := None)
       else reg_entries view s r)" for r
      using enqueue_job_async(3) [OF assms(1) st', of at_front s1 r] by (simp add: enq e1 m)
    obtain s' where s': "enqueue_found H q at_front jobs s2 = (Inr (length (found_names jobs)), s')"
      "\<And>r n. reg_entries view s' r n \<noteq> None \<longleftrightarrow>
        (if r = queue_registry QueuedJobs q then n \<in> set (found_names jobs) \<or> reg_entries view s2 r n \<noteq> None
         else if r = queue_registry ScheduledJobs q then n \<notin> set (found_names jobs) \<and> reg_entries view s2 r n \<noteq> None
         else reg_entries view s2 r n \<noteq> None)"
      using Cons.IH [of s2] Cons.prems by auto
    have "enqueue_found H q at_front (job # jobs) s = (Inr (length (found_names (job # jobs))), s')"
      by (simp add: Some save enq s'(1))
    then show ?thesis unfolding Some using s'(2) by (intro exI [of _ s']) (auto simp: e2)
  qed
qed simp

lemma requeued_twice:
  assumes "q_is_async q" "get_registry q registry_name = Inr r"
    and "\<forall>n\<in>set (fst (reg_all H r 0 (-1) s)). \<exists>j. job_get H n (reg_cleanup H r None s) = Some j \<and> m_name j = n \<and> storable j"
  shows "\<exists>s'. requeue_job_names H q registry_name s =
       (Inr [Info (''You have successfully re-queued '' @ count_text (length (fst (reg_all H r 0 (-1) s))) @ '' jobs!'')], s') \<and>
     (\<forall>n\<in>set (fst (reg_all H r 0 (-1) s)). QueuedJobs \<in> placed view q s' n \<and>
       (reg_kind r \<in> placed view q s' n \<longleftrightarrow> reg_kind r \<noteq> ScheduledJobs))"
proof -
  define ns where "ns = fst (reg_all H r 0 (-1) s)"
  define s1 where "s1 = reg_cleanup H r None s"
  define js where "js = map (\<lambda>n. job_get H n s1) ns"
  have all: "reg_all H r 0 (-1) s = (ns, s1)" by (simp add: ns_def s1_def prod_eq_iff)
  have stored: "\<exists>j. job_get H n s1 = Some j \<and> m_name j = n \<and> storable j" if "n \<in> set ns" for n
    using assms(3) that by (simp add: ns_def s1_def)
  then have "\<forall>n\<in>set ns. readable H s1 n" by (intro ballI job_get_readable) fastforce
  then have jobs: "get_jobs H ns s1 = Inr js" by (simp add: get_jobs_readable js_def)
  have "js = map (\<lambda>n. Some (the (job_get H n s1))) ns" using stored unfolding js_def by (intro map_cong) fastforce+
  moreover have "map (\<lambda>n. m_name (the (job_get H n s1))) ns = ns" using stored by (intro map_idI) fastforce
  ultimately have names: "found_names js = ns" by (simp only: found_names_def map_filter_Some map_map comp_def)
  have st: "\<forall>j. Some j \<in> set js \<longrightarrow> storable j" using stored by (fastforce simp: js_def)
  obtain s' where s': "enqueue_found H q False js s1 = (Inr (length ns), s')"
    "\<And>r n. reg_entries view s' r n \<noteq> None \<longleftrightarrow>
        (if r = queue_registry QueuedJobs q then n \<in> set ns \<or> reg_entries view s1 r n \<noteq> None
         else if r = queue_registry ScheduledJobs q then n \<notin> set ns \<and> reg_entries view s1 r n \<noteq> None
         else reg_entries view s1 r n \<noteq> None)"
    using enqueue_found_entries [OF assms(1) st, of False s1] unfolding names by blast
  obtain k where r: "r = queue_registry k q"
    using assms(2) by (auto simp: get_registry_def split: option.splits)
  have entry: "reg_entries view s1 r n \<noteq> None" if "n \<in> set ns" for n
  proof -
    have "ns = map fst (zsets (view s1) (reg_key r))"
      using all by (simp add: reg_all_def s1_def [symmetric] zrange Let_def)
    then show ?thesis using that by (simp add: reg_entries_dom)
  qed
  have "requeue_job_names H q registry_name s =
      (Inr [Info (''You have successfully re-queued '' @ count_text (length ns) @ '' jobs!'')], s')"
    by (simp add: requeue_job_names_def assms(2) all enqueue_multiple_jobs_def jobs s'(1))
  moreover have "QueuedJobs \<in> placed view q s' n \<and> (reg_kind r \<in> placed view q s' n \<longleftrightarrow> reg_kind r \<noteq> ScheduledJobs)"
    if n: "n \<in> set ns" for n
    using s'(2) [of "queue_registry QueuedJobs q" n] s'(2) [of r n] entry [OF n] n by (cases k) (auto simp: placed_def r)
  ultimately show ?thesis by (simp only: ns_def) blast
qed

end

end
