(* ===== verification/SchedulerFacts.thy ===== *)
theory SchedulerFacts
  imports Schedulers AdminFacts
begin

text \<open>What scheduling a task does to the registries of its queue, and what the thread does with due jobs.\<close>

section \<open>Steps that can fail\<close>

lemma case_fail_iff:
  "(case x of Inl e \<Rightarrow> (Inl e, s) | Inr y \<Rightarrow> f y) = (Inr r, t) \<longleftrightarrow> (\<exists>y. x = Inr y \<and> f y = (Inr r, t))"
  "(if b then (Inl e, s) else z) = (Inr r, t) \<longleftrightarrow> \<not> b \<and> z = (Inr r, t)"
  by (cases x) auto

lemma and_then_False [simp]:
  "and_then m (\<lambda>_ s. (Inr False, s)) \<noteq> (Inr True, t)" "(Inr True, t) \<noteq> and_then m (\<lambda>_ s. (Inr False, s))"
  by (cases m; cases "fst m"; auto)+

section \<open>Creating a job\<close>

context host
begin

lemma hash_save_job:
  assumes "hash_save (job_class (e_cfg H)) H sa j s = (Inr j', s')"
  shows "j' = clean j \<and> zsets (view s') = zsets (view s)"
proof -
  obtain mapping where m: "job_serialize True j = Inr mapping"
    using assms by (cases "job_serialize True j") (auto simp: hash_save_error)
  then have "hash_save (job_class (e_cfg H)) H sa j s =
      (Inr (clean j), run_all H (save_pipe (job_class (e_cfg H)) j (written (job_class (e_cfg H)) sa j mapping)) s)"
    by (simp add: hash_save_eq)
  moreover have "zsets (view (snd (hash_save (job_class (e_cfg H)) H sa j s))) = zsets (view s)"
    by (rule hash_save_zsets) (simp add: distinct_job_serialize)
  ultimately show ?thesis using assms by simp
qed

lemma utcnow_viewD: "utcnow H s = (t, s') \<Longrightarrow> view s' = view s"
  using view_utcnow [of s] by simp

lemma job_create_ok:
  assumes "job_create H c s = (Inr j, s')"
  shows "reg_entries view s' = reg_entries view s"
    and "case c_name c of None \<Rightarrow> True | Some n \<Rightarrow> m_name j = n"
    and "j_scheduled_task_id j = c_scheduled_task_id c" and "j_task_type j = c_task_type c"
proof -
  obtain m s2 where m: "hash_save (job_class (e_cfg H)) H False m s2 = (Inr j, s')" and v: "view s2 = view s"
    and n: "case c_name c of None \<Rightarrow> True | Some n \<Rightarrow> m_name m = n"
    and rest: "j_scheduled_task_id m = c_scheduled_task_id c" "j_task_type m = c_task_type c"
  proof (cases "c_name c")
    case None
    obtain t1 s1 where c1: "utcnow H s = (t1, s1)" by (cases "utcnow H s")
    obtain t2 s2 where c2: "utcnow H s1 = (t2, s2)" by (cases "utcnow H s1")
    have "view s2 = view s" using utcnow_viewD [OF c1] utcnow_viewD [OF c2] by simp
    then show ?thesis
      using assms None that by (auto simp: job_create_def Let_def case_fail_iff hash_post_init_def c1 c2)
  next
    case (Some n)
    obtain t1 s1 where c1: "utcnow H s = (t1, s1)" by (cases "utcnow H s")
    show ?thesis
      using assms Some that utcnow_viewD [OF c1] by (auto simp: job_create_def Let_def case_fail_iff hash_post_init_def c1)
  qed
  note save = hash_save_job [OF m]
  show "reg_entries view s' = reg_entries view s" using save by (simp add: reg_entries_def v fun_eq_iff)
  show "case c_name c of None \<Rightarrow> True | Some n \<Rightarrow> m_name j = n" using save n by (simp add: clean_def split: option.splits)
  show "j_scheduled_task_id j = c_scheduled_task_id c" "j_task_type j = c_task_type c" using save rest by (simp_all add: clean_def)
qed

lemma create_at_entries:
  assumes "create_and_enqueue_job H tz q (At (Aware d)) at_front c s = (Inr j, s')"
  shows "reg_entries view s' r =
      (if r = queue_registry ScheduledJobs q then (reg_entries view s r)(m_name j \<mapsto> d) else reg_entries view s r)"
    and "case c_name c of None \<Rightarrow> True | Some n \<Rightarrow> m_name j = n"
    and "j_scheduled_task_id j = c_scheduled_task_id c" and "j_task_type j = c_task_type c"
proof -
  let ?c = "c\<lparr>c_status := Some JobScheduled, c_queue_name := q_name q, c_at_front := None\<rparr>"
  obtain j1 s1 where create: "job_create H ?c s = (Inr j1, s1)"
    using assms by (cases "job_create H ?c s"; cases "fst (job_create H ?c s)") (auto simp: create_and_enqueue_job_def)
  obtain u s2 where save: "job_save H False j1 s1 = (j, Inr u, s2)" and s': "s' = reg_schedule H tz (queue_registry ScheduledJobs q) (m_name j) (Aware d) s2"
    using assms create by (cases "job_save H False j1 s1") (auto simp: create_and_enqueue_job_def split: sum.splits)
  have "storable j1" using save job_save_not_storable [of j1 H False s1] by (cases "storable j1") auto
  then have j: "j = clean j1" using job_save_storable [of j1 H False s1] save by simp
  have e2: "reg_entries view s2 = reg_entries view s1" using reg_entries_save [of False j1 s1] by (simp add: save)
  note created = job_create_ok [OF create]
  show "reg_entries view s' r =
      (if r = queue_registry ScheduledJobs q then (reg_entries view s r)(m_name j \<mapsto> d) else reg_entries view s r)"
    by (simp add: s' reg_schedule_def schedule_timestamp_def regs.entries_add e2 created(1))
  show "case c_name c of None \<Rightarrow> True | Some n \<Rightarrow> m_name j = n"
    "j_scheduled_task_id j = c_scheduled_task_id c" "j_task_type j = c_task_type c"
    using created(2-4) by (simp_all add: j clean_def split: option.splits)
qed

end

section \<open>Scheduling a task\<close>

text \<open>The broker together with a database that is kept apart from it.\<close>

locale app = host A view for A :: "('s, 'x) app_env_scheme" and view :: "'s \<Rightarrow> store" +
  assumes view_tb_save: "view (snd (tb_save (a_tasks A) t s)) = view s"
    and tb_save_keeps: "\<exists>i. fst (tb_save (a_tasks A) t s) = t\<lparr>t_id := i\<rparr>"
begin

lemma enqueue_args_ok:
  assumes "enqueue_args A t s = (Inr (c, at_front), s')"
  shows "view s' = view s" "c_scheduled_task_id c = t_id t" "c_task_type c = Some (t_task_type t)" "\<exists>n. c_name c = Some n"
proof -
  obtain now s1 where now: "utcnow A s = (now, s1)" by (cases "utcnow A s")
  have "s' = s1 \<and> c_scheduled_task_id c = t_id t \<and> c_task_type c = Some (t_task_type t) \<and> (\<exists>n. c_name c = Some n)"
    using assms by (auto simp: enqueue_args_def next_job_id_def now case_fail_iff split: sum.splits)
  then show "view s' = view s" "c_scheduled_task_id c = t_id t" "c_task_type c = Some (t_task_type t)" "\<exists>n. c_name c = Some n"
    using utcnow_viewD [OF now] by simp_all
qed

lemma is_scheduled_no:
  assumes "is_scheduled A t s = (t', Inr False, s')"
  shows "view s' = view s \<and> (\<exists>i. t' = t\<lparr>t_job_name := None, t_id := i\<rparr>)"
proof (cases "t_job_name t")
  case None
  then show ?thesis using assms by (intro conjI exI [of _ "t_id t"]) (simp_all add: is_scheduled_def)
next
  case (Some n)
  then have "tb_save (a_tasks A) (t\<lparr>t_job_name := None\<rparr>) s = (t', s')"
    using assms by (auto simp: is_scheduled_def task_super_save_def Let_def case_fail_iff split: sum.splits if_splits prod.splits)
  then show ?thesis using view_tb_save [of "t\<lparr>t_job_name := None\<rparr>" s] tb_save_keeps [of "t\<lparr>t_job_name := None\<rparr>" s] by auto
qed

lemma is_scheduled_yes:
  assumes "get_queue (a_queues A) (t_queue t) = Inr q" "t_job_name t = Some n" "k \<in> {ScheduledJobs, QueuedJobs, ActiveJobs}"
    and "reg_entries view s (queue_registry k q) n \<noteq> None"
  shows "is_scheduled A t s = (t, Inr True, s)"
  using assms by (auto simp: is_scheduled_def reg_exists_iff)

lemma schedule_time_ok:
  assumes "schedule_time A t s = (t', Inr due, s')"
  shows "view s' = view s" "t_scheduled_time t' = due" "t_queue t' = t_queue t" "t_task_type t' = t_task_type t" "t_id t' = t_id t"
proof -
  obtain now s1 where now: "utcnow A s = (now, s1)" by (cases "utcnow A s")
  have "(s' = s \<or> s' = s1) \<and> t_scheduled_time t' = due \<and> t_queue t' = t_queue t \<and> t_task_type t' = t_task_type t \<and> t_id t' = t_id t"
    using assms
    by (auto simp: schedule_time_def get_next_cron_time_def now Let_def case_fail_iff split: if_splits option.splits sum.splits prod.splits)
  then show "view s' = view s" "t_scheduled_time t' = due" "t_queue t' = t_queue t" "t_task_type t' = t_task_type t" "t_id t' = t_id t"
    using utcnow_viewD [OF now] by auto
qed

lemma task_schedule_ok:
  assumes "task_schedule A t s = (t', Inr True, s')"
  obtains q n due s1 where "get_queue (a_queues A) (t_queue t) = Inr q" "t_job_name t' = Some n" "t_scheduled_time t' = Some due"
    "\<And>r. reg_entries view s' r =
       (if r = queue_registry ScheduledJobs q then (reg_entries view s r)(n \<mapsto> due) else reg_entries view s r)"
    "view s1 = view s" "t_task_type t \<in> {REPEATABLE, ONCE} \<Longrightarrow> fst (utcnow A s1) \<le> due"
proof -
  obtain t1 s1 where 1: "is_scheduled A t s = (t1, Inr False, s1)"
    using assms by (cases "is_scheduled A t s") (auto simp: task_schedule_def split: sum.splits bool.splits)
  obtain i where t1: "t1 = t\<lparr>t_job_name := None, t_id := i\<rparr>" and v1: "view s1 = view s" using is_scheduled_no [OF 1] by blast
  obtain t2 due s2 where 2: "schedule_time A t1 s1 = (t2, Inr due, s2)"
    using assms 1 by (cases "schedule_time A t1 s1") (auto simp: task_schedule_def split: sum.splits if_splits)
  note time = schedule_time_ok [OF 2]
  have en: "t_enabled t1" using assms 1 by (auto simp: task_schedule_def split: if_splits)
  obtain now s3 where now: "utcnow A s2 = (now, s3)" by (cases "utcnow A s2")
  define timed where "timed \<longleftrightarrow> t_task_type t2 \<in> {REPEATABLE, ONCE}"
  define s4 where "s4 = (if timed then s3 else s2)"
  define tail where "tail = (case enqueue_args A t2 s4 of
       (Inl e, s5) \<Rightarrow> (t2, Inl e, s5)
     | (Inr (c, at_front), s5) \<Rightarrow>
         (case get_queue (a_queues A) (t_queue t2) of
            Inl e \<Rightarrow> (t2, Inl e, s5)
          | Inr q \<Rightarrow>
              (case create_and_enqueue_job A (a_tz A) q (case due of Some d \<Rightarrow> At (Aware d) | None \<Rightarrow> InvalidWhen) at_front c s5 of
                 (Inl e, s6) \<Rightarrow> (t2, Inl e, s6)
               | (Inr j, s6) \<Rightarrow> (t2\<lparr>t_job_name := Some (m_name j)\<rparr>, Inr True, s6))))"
  have "task_schedule A t s =
      (if timed then case due of
           None \<Rightarrow> (t2, Inl TypeError, s3)
         | Some d \<Rightarrow> if d < now then (t2, and_then (task_str A t2 s3) (\<lambda>_ s. (Inr False, s))) else tail
       else tail)"
    by (cases due) (simp_all add: task_schedule_def 1 2 en now timed_def tail_def s4_def cong: prod.case_cong sum.case_cong)
  then have late: "timed \<Longrightarrow> \<exists>d. due = Some d \<and> now \<le> d" and tail: "tail = (t', Inr True, s')"
    using assms by (auto split: if_splits option.splits)
  obtain c at_front s5 where 3: "enqueue_args A t2 s4 = (Inr (c, at_front), s5)"
    using tail by (cases "enqueue_args A t2 s4") (auto simp: tail_def split: sum.splits)
  obtain q where q: "get_queue (a_queues A) (t_queue t2) = Inr q"
    using tail by (auto simp: tail_def 3 split: sum.splits)
  have "due \<noteq> None"
    using tail by (auto simp: tail_def 3 q create_and_enqueue_job_def Let_def split: option.splits sum.splits prod.splits)
  then obtain d where d: "due = Some d" by blast
  obtain j where 4: "create_and_enqueue_job A (a_tz A) q (At (Aware d)) at_front c s5 = (Inr j, s')"
    and t': "t' = t2\<lparr>t_job_name := Some (m_name j)\<rparr>"
    using tail by (cases "create_and_enqueue_job A (a_tz A) q (At (Aware d)) at_front c s5")
      (auto simp: tail_def 3 q d split: sum.splits)
  have v4: "view s4 = view s" using utcnow_viewD [OF now] time(1) v1 by (simp add: s4_def)
  then have e5: "reg_entries view s5 = reg_entries view s"
    using enqueue_args_ok(1) [OF 3] by (simp add: reg_entries_def fun_eq_iff)
  show ?thesis
  proof (rule that [of q "m_name j" d s2])
    show "get_queue (a_queues A) (t_queue t) = Inr q" using q time(3) by (simp add: t1)
    show "t_job_name t' = Some (m_name j)" "t_scheduled_time t' = Some d" using time(2) by (simp_all add: t' d)
    show "reg_entries view s' r =
       (if r = queue_registry ScheduledJobs q then (reg_entries view s r)(m_name j \<mapsto> d) else reg_entries view s r)" for r
      using create_at_entries(1) [OF 4, of r] by (simp add: e5)
    show "view s2 = view s" using time(1) v1 by simp
    show "fst (utcnow A s2) \<le> d" if "t_task_type t \<in> {REPEATABLE, ONCE}"
      using late that time(4) by (simp add: timed_def now d t1)
  qed
qed

end

section \<open>Due jobs\<close>

context host
begin

lemma enqueue_each_entries:
  assumes "q_is_async q" "\<forall>j. Some j \<in> set jobs \<longrightarrow> storable j"
  shows "\<exists>s'. enqueue_each H q jobs s = (Inr (), s') \<and>
     (\<forall>r n. reg_entries view s' r n \<noteq> None \<longleftrightarrow>
        (if r = queue_registry QueuedJobs q then n \<in> set (found_names jobs) \<or> reg_entries view s r n \<noteq> None
         else if r = queue_registry ScheduledJobs q then n \<notin> set (found_names jobs) \<and> reg_entries view s r n \<noteq> None
         else reg_entries view s r n \<noteq> None))"
  using assms(2)
proof (induction jobs arbitrary: s)
  case (Cons job jobs)
  show ?case
  proof (cases job)
    case None
    have "\<forall>j. Some j \<in> set jobs \<longrightarrow> storable j" using Cons.prems by simp
    from Cons.IH [OF this, of s] show ?thesis by (simp only: None enqueue_each.simps found_names_simps)
  next
    case (Some j)
    then have st: "storable j" using Cons.prems by simp
    let ?front = "j_at_front j = Some True"
    obtain j2 s2 where enq: "enqueue_job H q [] ?front j s = (j2, Inr (), s2)"
      using enqueue_job_async(1) [OF assms(1) st, of ?front s] by (metis prod.collapse)
    have e2: "reg_entries view s2 r =
      (if r = queue_registry QueuedJobs q
       then (reg_entries view s r)(m_name j \<mapsto> secs (enqueue_score H q ?front (once_saved H j s)))
       else if r = queue_registry ScheduledJobs q then (reg_entries view s r)(m_name j := None)
       else reg_entries view s r)" for r
      using enqueue_job_async(3) [OF assms(1) st, of ?front s r] by (simp add: enq)
    obtain s' where s': "enqueue_each H q jobs s2 = (Inr (), s')"
      "\<And>r n. reg_entries view s' r n \<noteq> None \<longleftrightarrow>
        (if r = queue_registry QueuedJobs q then n \<in> set (found_names jobs) \<or> reg_entries view s2 r n \<noteq> None
         else if r = queue_registry ScheduledJobs q then n \<notin> set (found_names jobs) \<and> reg_entries view s2 r n \<noteq> None
         else reg_entries view s2 r n \<noteq> None)"
      using Cons.IH [of s2] Cons.prems by auto
    then show ?thesis unfolding Some by (intro exI [of _ s']) (auto simp: enq e2)
  qed
qed simp

lemma found_names_stored:
  assumes "\<forall>n\<in>set ns. \<exists>j. job_get H n s = Some j \<and> m_name j = n \<and> storable j"
  shows "get_jobs H ns s = Inr (map (\<lambda>n. job_get H n s) ns)" "found_names (map (\<lambda>n. job_get H n s) ns) = ns"
    and "\<forall>j. Some j \<in> set (map (\<lambda>n. job_get H n s) ns) \<longrightarrow> storable j"
proof -
  have "\<forall>n\<in>set ns. readable H s n" using assms by (intro ballI job_get_readable) fastforce
  then show "get_jobs H ns s = Inr (map (\<lambda>n. job_get H n s) ns)" by (rule get_jobs_readable)
  have "map (\<lambda>n. job_get H n s) ns = map (\<lambda>n. Some (the (job_get H n s))) ns" using assms by (intro map_cong) fastforce+
  moreover have "map (\<lambda>n. m_name (the (job_get H n s))) ns = ns" using assms by (intro map_idI) fastforce
  ultimately show "found_names (map (\<lambda>n. job_get H n s) ns) = ns"
    by (simp only: found_names_def map_filter_Some map_map comp_def)
  show "\<forall>j. Some j \<in> set (map (\<lambda>n. job_get H n s) ns) \<longrightarrow> storable j" using assms by fastforce
qed

end

definition due_names :: "('s, 'x) app_env_scheme \<Rightarrow> queue \<Rightarrow> 's \<Rightarrow> string list"
  \<comment> \<open>the jobs of the registry of scheduled jobs whose time has come, at most 1000\<close>
  where "due_names A q s = (let (now, s1) = current_timestamp A s in get_jobs_to_schedule A (queue_registry ScheduledJobs q) now 1000 s1)"

section \<open>Repeatable tasks\<close>

lemma next_due_repeat:
  assumes "0 < interval" "\<And>n. rep = Some n \<Longrightarrow> n \<ge> ceil_div (now - due) interval"
  shows "snd (next_due interval now due rep) = map_option (\<lambda>n. n - (fst (next_due interval now due rep) - due) div interval) rep"
  using assms by (cases rep) (auto simp: next_due_def Let_def)

lemma schedule_time_repeatable:
  assumes "t_task_type t = REPEATABLE" "t_scheduled_time t = Some due" "due < fst (utcnow A s)"
    and "interval_seconds t = Inr i" "i \<noteq> 0"
  shows "schedule_time A t s =
    (t\<lparr>t_scheduled_time := Some (fst (next_due (secs i) (fst (utcnow A s)) due (t_repeat t))),
       t_repeat := snd (next_due (secs i) (fst (utcnow A s)) due (t_repeat t))\<rparr>,
     Inr (Some (fst (next_due (secs i) (fst (utcnow A s)) due (t_repeat t)))), snd (utcnow A s))"
  using assms by (simp add: schedule_time_def REPEATABLE_def CRON_def split_beta Let_def)

context app
begin

lemma enqueue_due_entries:
  assumes "get_queue (a_queues A) (q_name q) = Inr q" "q_is_async q"
    and "\<forall>n\<in>set (due_names A q s). \<exists>j. job_get A n (snd (current_timestamp A s)) = Some j \<and> m_name j = n \<and> storable j"
  shows "\<exists>s'. enqueue_due A (queue_registry ScheduledJobs q) s = (Inr (), s') \<and>
     (\<forall>r n. reg_entries view s' r n \<noteq> None \<longleftrightarrow>
        (if r = queue_registry QueuedJobs q then n \<in> set (due_names A q s) \<or> reg_entries view s r n \<noteq> None
         else if r = queue_registry ScheduledJobs q then n \<notin> set (due_names A q s) \<and> reg_entries view s r n \<noteq> None
         else reg_entries view s r n \<noteq> None))"
proof -
  obtain now s1 where now: "current_timestamp A s = (now, s1)" by (cases "current_timestamp A s")
  have e1: "reg_entries view s1 = reg_entries view s" using reg_entries_clock(2) [of s] by (simp add: now)
  have names: "get_jobs_to_schedule A (queue_registry ScheduledJobs q) now 1000 s1 = due_names A q s"
    by (simp add: due_names_def now)
  note stored = found_names_stored [of "due_names A q s" s1, unfolded get_jobs_def]
  have st: "\<forall>n\<in>set (due_names A q s). \<exists>j. job_get A n s1 = Some j \<and> m_name j = n \<and> storable j"
    using assms(3) by (simp add: now)
  show ?thesis
  proof (cases "due_names A q s = []")
    case True
    then have "enqueue_due A (queue_registry ScheduledJobs q) s = (Inr (), s1)"
      by (simp add: enqueue_due_def now names)
    then show ?thesis using True e1 by (intro exI [of _ s1]) simp
  next
    case False
    obtain s' where s': "enqueue_each A q (map (\<lambda>n. job_get A n s1) (due_names A q s)) s1 = (Inr (), s')"
      "\<And>r n. reg_entries view s' r n \<noteq> None \<longleftrightarrow>
        (if r = queue_registry QueuedJobs q then n \<in> set (due_names A q s) \<or> reg_entries view s1 r n \<noteq> None
         else if r = queue_registry ScheduledJobs q then n \<notin> set (due_names A q s) \<and> reg_entries view s1 r n \<noteq> None
         else reg_entries view s1 r n \<noteq> None)"
      using enqueue_each_entries [OF assms(2) stored(3) [OF st], of s1] unfolding stored(2) [OF st] by blast
    have "enqueue_due A (queue_registry ScheduledJobs q) s = (Inr (), s')"
      using False assms(1) stored(1) [OF st] s'(1) by (simp add: enqueue_due_def now names)
    then show ?thesis using s'(2) by (intro exI [of _ s']) (simp add: e1)
  qed
qed

lemma due_names_iff:
  assumes "length (filter (z_in_score 0 (secs (fst (current_timestamp A s)))) (zsets (view s) (reg_key (queue_registry ScheduledJobs q)))) \<le> 1000"
  shows "n \<in> set (due_names A q s) \<longleftrightarrow>
    (\<exists>t. reg_entries view s (queue_registry ScheduledJobs q) n = Some t \<and> 0 \<le> t \<and> t \<le> secs (fst (current_timestamp A s)))"
proof -
  let ?xs = "zsets (view s) (reg_key (queue_registry ScheduledJobs q))"
  obtain now s1 where now: "current_timestamp A s = (now, s1)" by (cases "current_timestamp A s")
  have v: "view s1 = view s" using view_current_timestamp [of s] by (simp add: now)
  have "due_names A q s = map fst (filter (z_in_score 0 (secs now)) ?xs)"
    using assms by (simp add: due_names_def now get_jobs_to_schedule_def zrangebyscore v z_limit_def)
  moreover have "distinct (map fst ?xs)" using zset_ok_view [of s] by (simp add: zset_ok_def)
  ultimately show ?thesis
    by (auto simp: now reg_entries_def z_in_score_def map_of_eq_Some_iff image_iff)
qed

end

lemma mem_view_tasks [simp]: "mem_view (m\<lparr>d_tasks := xs\<rparr>) = mem_view m"
  by (simp add: mem_view_def m_zset_def fun_eq_iff)

interpretation mem_app_db: app "mem_app cfg" mem_view
  for cfg :: scheduler_config
proof (intro app.intro app_axioms.intro)
  have t: "a_tasks (mem_app cfg) = mem_tasks" 
    by (simp add: mem_app_def mem_host_def mem_env_ext_def host_env.defs app_env.defs)
  show "host (mem_app cfg) mem_view" by (rule mem_app_host)
  show "mem_view (snd (tb_save (a_tasks (mem_app cfg)) r s)) = mem_view s" for r s
    by (simp add: t mem_tasks_def mem_table_def Let_def)
  show "\<exists>i. fst (tb_save (a_tasks (mem_app cfg)) r s) = r\<lparr>t_id := i\<rparr>" for r s
    by (cases "t_id r") (auto simp: t mem_tasks_def mem_table_def Let_def task_with_id_def intro: exI [of _ "t_id r"])
qed

end
