(* ===== verification/Management.thy ===== *)
theory Management
  imports AdminTasks
begin

text \<open>
  The commands of \<open>manage.py\<close>, \<open>scheduler/management/commands/\<close>: running a worker, running a function,
  deleting failed executions, statistics, and tasks written to a file and read back from one.
  A command's options are its arguments; what it prints is its result.  The text of the file is the JSON
  value it holds.
\<close>

section \<open>Tasks as dictionaries\<close>

definition str_of_datetime :: "time \<Rightarrow> string"
  \<comment> \<open>\<open>str\<close> of an instant in UTC, as which \<open>json.dumps(..., default=str)\<close> writes it\<close>
  where "str_of_datetime t =
    date_iso (epoch_ordinal + t div day_micros) @ '' '' @ time_iso (t mod day_micros) @ ''+00:00''"

definition arg_to_dict :: "task_arg \<Rightarrow> pyval"
  where "arg_to_dict a = VDict [(''arg_type'', VStr (arg_type a)), (''val'', VStr (arg_val a))]"

definition kwarg_to_dict :: "string \<times> task_arg \<Rightarrow> pyval"
  where "kwarg_to_dict ka =
    VDict [(''arg_type'', VStr (arg_type (snd ka))), (''key'', VStr (fst ka)), (''val'', VStr (arg_val (snd ka)))]"

definition task_dict :: "task \<Rightarrow> time \<Rightarrow> (string \<times> pyval) list"
  where "task_dict t due =
    [(''model'', VStr (t_task_type t)),
     (''name'', VStr (t_name t)),
     (''callable'', VStr (t_callable t)),
     (''callable_args'', VList (map arg_to_dict (t_callable_args t))),
     (''callable_kwargs'', VList (map kwarg_to_dict (t_callable_kwargs t))),
     (''enabled'', VBool (t_enabled t)),
     (''queue'', VStr (t_queue t)),
     (''repeat'', opt_val VInt (t_repeat t)),
     (''at_front'', VBool (t_at_front t)),
     (''timeout'', opt_val VInt (t_timeout t)),
     (''result_ttl'', opt_val VInt (t_result_ttl t)),
     (''cron_string'', opt_val VStr (t_cron_string t)),
     (''scheduled_time'', VStr (isoformat_utc due)),
     (''interval'', opt_val VInt (t_interval t)),
     (''interval_unit'', opt_val VStr (if truthy_str (t_interval_unit t) then t_interval_unit t else None)),
     (''successful_runs'', VInt (t_successful_runs t)),
     (''failed_runs'', VInt (t_failed_runs t)),
     (''last_successful_run'', opt_val (\<lambda>d. VStr (str_of_datetime d)) (t_last_successful_run t)),
     (''last_failed_run'', opt_val (\<lambda>d. VStr (str_of_datetime d)) (t_last_failed_run t))]"

definition task_to_dict :: "('s, 'x) app_env_scheme \<Rightarrow> task \<Rightarrow> 's \<Rightarrow> task \<times> ('s, (string \<times> pyval) list) outcome"
  \<comment> \<open>the time is computed anew, in the object, after \<open>repeat\<close> has been read\<close>
  where "task_to_dict A t s =
    (case schedule_time A t s of
       (t1, Inl e, s1) \<Rightarrow> (t1, Inl e, s1)
     | (t1, Inr None, s1) \<Rightarrow> (t1, Inl AttributeError, s1)
     | (t1, Inr (Some due), s1) \<Rightarrow> (t1, Inr (task_dict t due), s1))"

fun export_each :: "('s, 'x) app_env_scheme \<Rightarrow> task list \<Rightarrow> 's \<Rightarrow> ('s, pyval list) outcome" where
  "export_each A [] s = (Inr [], s)"
| "export_each A (t # ts) s =
     (case task_to_dict A t s of
        (_, Inl e, s1) \<Rightarrow> (Inl e, s1)
      | (_, Inr d, s1) \<Rightarrow> and_then (export_each A ts s1) (\<lambda>ds s2. (Inr (VDict d # ds), s2)))"

definition export_tasks :: "('s, 'x) app_env_scheme \<Rightarrow> bool \<Rightarrow> 's \<Rightarrow> ('s, pyval) outcome"
  where "export_tasks A enabled s =
    and_then (export_each A (if enabled then filter t_enabled (tb_rows (a_tasks A) s) else tb_rows (a_tasks A) s) s)
      (\<lambda>ds s1. (Inr (VList ds), s1))"

section \<open>Reading a dictionary\<close>

definition job_model_str :: "string \<Rightarrow> string"
  where "job_model_str model_str =
    (if py_find model_str ''Job'' = int (length model_str) - 3
     then take (length model_str - 3) model_str @ ''Task'' else model_str)"

definition get_task_type :: "string \<Rightarrow> string result"
  where "get_task_type model_str =
    (let m = job_model_str model_str
     in if m \<in> {CRON, REPEATABLE, ONCE} then Inr m
        else if m = ''CronTask'' then Inr CRON
        else if m = ''RepeatableTask'' then Inr REPEATABLE
        else if m \<in> {''ScheduledTask'', ''OnceTask''} then Inr ONCE
        else Inl ValueError)"

text \<open>
  What the columns of the table make of a value: text of anything, numbers of what \<open>int\<close> takes, flags of
  the values Django takes for them, instants of their text.
\<close>

definition char_column :: "('s, 'x) host_env_scheme \<Rightarrow> pyval \<Rightarrow> string option"
  where "char_column H v = (if v = VNone then None else Some (value_text H v))"

definition int_column :: "pyval \<Rightarrow> int option result"
  where "int_column v = (if v = VNone then Inr None else rbind (py_int v) (\<lambda>i. Inr (Some i)))"

definition bool_column :: "pyval \<Rightarrow> bool option result"
  where "bool_column v =
    (case v of
       VNone \<Rightarrow> Inr None
     | VBool b \<Rightarrow> Inr (Some b)
     | VInt i \<Rightarrow> if i = 0 then Inr (Some False) else if i = 1 then Inr (Some True) else Inl ValidationError
     | VStr x \<Rightarrow> if x \<in> {''t'', ''True'', ''1''} then Inr (Some True)
                else if x \<in> {''f'', ''False'', ''0''} then Inr (Some False) else Inl ValidationError
     | _ \<Rightarrow> Inl ValidationError)"

definition datetime_column :: "('s, 'x) app_env_scheme \<Rightarrow> pyval \<Rightarrow> time option result"
  where "datetime_column A v =
    (case v of
       VNone \<Rightarrow> Inr None
     | VStr x \<Rightarrow> (case a_fromisoformat A x of None \<Rightarrow> Inl ValidationError | Some t \<Rightarrow> Inr (Some t))
     | _ \<Rightarrow> Inl ValidationError)"

definition not_null :: "'a option \<Rightarrow> 'a result"
  where "not_null v = (case v of None \<Rightarrow> Inl IntegrityError | Some x \<Rightarrow> Inr x)"

definition scheduled_time_of :: "('s, 'x) app_env_scheme \<Rightarrow> pyval \<Rightarrow> time option result"
  \<comment> \<open>\<open>fromisoformat\<close> of a value that is not empty\<close>
  where "scheduled_time_of A v =
    (if \<not> py_truthy v then datetime_column A v
     else case v of
       VStr x \<Rightarrow> (case a_fromisoformat A x of None \<Rightarrow> Inl ValueError | Some t \<Rightarrow> Inr (Some t))
     | _ \<Rightarrow> Inl TypeError)"

definition new_task_of :: "('s, 'x) app_env_scheme \<Rightarrow> string \<Rightarrow> (string \<Rightarrow> pyval option) \<Rightarrow> task result"
  \<comment> \<open>the object built of the keyword arguments that name columns, the others having their defaults\<close>
  where "new_task_of A task_type kw =
    (let get = (\<lambda>k d. case kw k of None \<Rightarrow> d | Some v \<Rightarrow> v) in
    rbind (scheduled_time_of A (get ''scheduled_time'' VNone)) (\<lambda>scheduled_time.
    rbind (not_null (char_column A (get ''name'' (VStr [])))) (\<lambda>name.
    rbind (not_null (char_column A (get ''callable'' (VStr [])))) (\<lambda>callable.
    rbind (rbind (bool_column (get ''enabled'' (VBool True))) not_null) (\<lambda>enabled.
    rbind (not_null (char_column A (get ''queue'' (VStr [])))) (\<lambda>queue.
    rbind (rbind (bool_column (get ''at_front'' (VBool False))) not_null) (\<lambda>at_front.
    rbind (int_column (get ''timeout'' VNone)) (\<lambda>timeout.
    rbind (int_column (get ''result_ttl'' VNone)) (\<lambda>result_ttl.
    rbind (rbind (int_column (get ''failed_runs'' (VInt 0))) not_null) (\<lambda>failed_runs.
    rbind (rbind (int_column (get ''successful_runs'' (VInt 0))) not_null) (\<lambda>successful_runs.
    rbind (datetime_column A (get ''last_successful_run'' VNone)) (\<lambda>last_successful_run.
    rbind (datetime_column A (get ''last_failed_run'' VNone)) (\<lambda>last_failed_run.
    rbind (int_column (get ''interval'' VNone)) (\<lambda>interval.
    rbind (int_column (get ''repeat'' VNone)) (\<lambda>repeat.
    rbind (int_column (get ''id'' VNone)) (\<lambda>id.
      Inr \<lparr> t_id = id, t_name = name, t_task_type = task_type, t_callable = callable, t_callable_args = [],
        t_callable_kwargs = [], t_enabled = enabled, t_queue = queue,
        t_job_name = char_column A (get ''job_name'' VNone), t_at_front = at_front, t_timeout = timeout,
        t_result_ttl = result_ttl, t_failed_runs = failed_runs, t_successful_runs = successful_runs,
        t_last_successful_run = last_successful_run, t_last_failed_run = last_failed_run,
        t_interval = interval, t_interval_unit = char_column A (get ''interval_unit'' (VStr ''hours'')),
        t_repeat = repeat, t_scheduled_time = scheduled_time,
        t_cron_string = char_column A (get ''cron_string'' VNone) \<rparr>))))))))))))))))"

definition arg_of_dict :: "('s, 'x) host_env_scheme \<Rightarrow> string list \<Rightarrow> pyval \<Rightarrow> (string \<times> task_arg) result"
  \<comment> \<open>an argument of the columns given; the key of a positional one is empty\<close>
  where "arg_of_dict H columns v =
    (case v of
       VDict kw \<Rightarrow>
         if \<not> fst ` set kw \<subseteq> set columns then Inl TypeError
         else
           (let get = (\<lambda>k d. case map_of kw k of None \<Rightarrow> d | Some v \<Rightarrow> v) in
            rbind (not_null (char_column H (get ''key'' (VStr [])))) (\<lambda>key.
            rbind (not_null (char_column H (get ''arg_type'' (VStr ''str'')))) (\<lambda>ty.
            rbind (not_null (char_column H (get ''val'' (VStr [])))) (\<lambda>val.
              Inr (key, \<lparr> arg_type = ty, arg_val = val \<rparr>)))))
     | _ \<Rightarrow> Inl TypeError)"

definition add_arg :: "task_arg \<Rightarrow> task \<Rightarrow> task"
  where "add_arg a t = t\<lparr>t_callable_args := t_callable_args t @ [a]\<rparr>"

definition add_kwarg :: "string \<times> task_arg \<Rightarrow> task \<Rightarrow> task"
  where "add_kwarg ka t = t\<lparr>t_callable_kwargs := t_callable_kwargs t @ [ka]\<rparr>"

fun create_args ::
    "('s, 'x) app_env_scheme \<Rightarrow> string list \<Rightarrow> (string \<times> task_arg \<Rightarrow> task \<Rightarrow> task) \<Rightarrow> int option \<Rightarrow> pyval list \<Rightarrow> 's \<Rightarrow> ('s, unit) outcome"
where
  "create_args A columns add i [] s = (Inr (), s)"
| "create_args A columns add i (d # ds) s =
     (case arg_of_dict A columns d of
        Inl e \<Rightarrow> (Inl e, s)
      | Inr ka \<Rightarrow> and_then (arg_save A i (add ka) s) (\<lambda>_ s1. create_args A columns add i ds s1))"

definition create_args_of ::
    "('s, 'x) app_env_scheme \<Rightarrow> string list \<Rightarrow> (string \<times> task_arg \<Rightarrow> task \<Rightarrow> task) \<Rightarrow> int option \<Rightarrow> pyval \<Rightarrow> 's \<Rightarrow> ('s, unit) outcome"
  where "create_args_of A columns add i v s =
    (case py_iter v of Inl e \<Rightarrow> (Inl e, s) | Inr ds \<Rightarrow> create_args A columns add i ds s)"

definition keys_ignored :: "string list"
  \<comment> \<open>the keys removed before the object is made\<close>
  where "keys_ignored = [''model'', ''callable_args'', ''callable_kwargs'', ''task_type'']"

definition columns_of :: "(string \<times> pyval) list \<Rightarrow> string \<Rightarrow> pyval option"
  where "columns_of d k = (if k \<in> set keys_ignored then None else map_of d k)"

definition create_task_from_dict ::
    "('s, 'x) app_env_scheme \<Rightarrow> bool \<Rightarrow> pyval \<Rightarrow> 's \<Rightarrow> ('s, task option) outcome"
  where "create_task_from_dict A update task_value s =
    (case py_item task_value ''name'' of Inl e \<Rightarrow> (Inl e, s) | Inr name \<Rightarrow>
    (let existing_task = find (\<lambda>t. char_column A name = Some (t_name t)) (tb_rows (a_tasks A) s) in
    (case py_item task_value ''model'' of Inl e \<Rightarrow> (Inl e, s) | Inr model \<Rightarrow>
    (case (case model of VStr m \<Rightarrow> get_task_type m | _ \<Rightarrow> Inl AttributeError) of Inl e \<Rightarrow> (Inl e, s) | Inr task_type \<Rightarrow>
    and_then (case existing_task of
        None \<Rightarrow> (Inr True, s)
      | Some t \<Rightarrow>
          and_then (task_str A t s) (\<lambda>_ s1.
            if update then and_then (task_delete A t s1) (\<lambda>_ s2. (Inr True, s2)) else (Inr False, s1))) (\<lambda>go s1.
    if \<not> go then (Inr None, s1) else
    (case (py_item task_value ''callable_args'', py_item task_value ''callable_kwargs'') of
       (Inr args, Inr kwargs) \<Rightarrow>
         (let kw = (case task_value of VDict d \<Rightarrow> columns_of d | _ \<Rightarrow> Map.empty)
          in case new_task_of A task_type kw of
               Inl e \<Rightarrow> (Inl e, s1)
             | Inr t \<Rightarrow>
                 if t_id t \<noteq> None \<and> stored_task A (t_id t) s1 \<noteq> None then (Inl IntegrityError, s1)
                 else
                   (case task_save A True True t s1 of
                      (_, Inl e, s2) \<Rightarrow> (Inl e, s2)
                    | (t1, Inr _, s2) \<Rightarrow>
                        and_then (task_str A t1 s2) (\<lambda>_ s3.
                        and_then (create_args_of A [''arg_type'', ''val''] (\<lambda>ka. add_arg (snd ka)) (t_id t1) args s3) (\<lambda>_ s4.
                        and_then (create_args_of A [''arg_type'', ''key'', ''val''] add_kwarg (t_id t1) kwargs s4) (\<lambda>_ s5.
                          (Inr (Some t1), s5))))))
     | _ \<Rightarrow> (Inl KeyError, s1)))))))"

fun import_each :: "('s, 'x) app_env_scheme \<Rightarrow> bool \<Rightarrow> pyval list \<Rightarrow> 's \<Rightarrow> ('s, unit) outcome" where
  "import_each A update [] s = (Inr (), s)"
| "import_each A update (j # js) s = and_then (create_task_from_dict A update j s) (\<lambda>_ s1. import_each A update js s1)"

definition import_tasks :: "('s, 'x) app_env_scheme \<Rightarrow> bool \<Rightarrow> bool \<Rightarrow> pyval option \<Rightarrow> 's \<Rightarrow> ('s, unit) outcome"
  \<comment> \<open>the value the file holds, None when it is not JSON; resetting deletes the rows and leaves their jobs\<close>
  where "import_tasks A reset update file s =
    (case file of
       None \<Rightarrow> (Inl SystemExit, s)
     | Some jobs \<Rightarrow>
         (let s1 = (if reset then fold (tb_delete (a_tasks A)) (tb_rows (a_tasks A) s) s else s)
          in case py_iter jobs of Inl e \<Rightarrow> (Inl e, s1) | Inr js \<Rightarrow> import_each A update js s1))"

section \<open>An exported task, imported\<close>

definition read_back :: "task \<Rightarrow> time \<Rightarrow> task"
  \<comment> \<open>what an export keeps of a task that is due: not its id, its job and, apart, its arguments\<close>
  where "read_back t due = t\<lparr>t_id := None, t_callable_args := [], t_callable_kwargs := [], t_job_name := None,
    t_scheduled_time := Some due, t_interval_unit := (if truthy_str (t_interval_unit t) then t_interval_unit t else None)\<rparr>"

lemma value_text_VStr [simp]: "value_text H (VStr x) = x"
  by (simp add: value_text_def)

lemma column_of_opt [simp]:
  "char_column H (opt_val VStr x) = x"
  "int_column (opt_val VInt i) = Inr i"
  "bool_column (VBool b) = Inr (Some b)"
  "char_column H (VStr a) = Some a"
  "int_column (VInt j) = Inr (Some j)"
  "not_null (Some z) = Inr z"
  "int_column VNone = Inr None"
  "char_column H VNone = None"
  by (cases x; cases i; simp add: char_column_def int_column_def bool_column_def not_null_def opt_val_def rbind_def)+

lemma datetime_column_opt:
  "(\<And>x. t = Some x \<Longrightarrow> a_fromisoformat A (f x) = Some x) \<Longrightarrow> datetime_column A (opt_val (\<lambda>d. VStr (f d)) t) = Inr t"
  by (cases t) (simp_all add: datetime_column_def opt_val_def)

lemma isoformat_utc_not_empty [simp]: "isoformat_utc t \<noteq> []"
  by (simp add: isoformat_utc_def)

lemma exported_object:
  assumes "a_fromisoformat A (isoformat_utc due) = Some due"
    and "\<And>x. t_last_successful_run t = Some x \<or> t_last_failed_run t = Some x \<Longrightarrow> a_fromisoformat A (str_of_datetime x) = Some x"
  shows "new_task_of A (t_task_type t) (columns_of (task_dict t due)) = Inr (read_back t due)"
proof -
  note ok = datetime_column_opt [where A = A and f = str_of_datetime]
  have a: "datetime_column A (opt_val (\<lambda>d. VStr (str_of_datetime d)) (t_last_successful_run t)) = Inr (t_last_successful_run t)"
     and b: "datetime_column A (opt_val (\<lambda>d. VStr (str_of_datetime d)) (t_last_failed_run t)) = Inr (t_last_failed_run t)"
    using assms(2) by (auto intro!: ok)
  have c: "scheduled_time_of A (VStr (isoformat_utc due)) = Inr (Some due)"
    by (simp add: scheduled_time_of_def assms(1))
  show ?thesis
    by (simp add: new_task_of_def columns_of_def keys_ignored_def task_dict_def a b c rbind_def read_back_def)
qed

lemma get_task_type_of_task: "ty \<in> {CRON, REPEATABLE, ONCE} \<Longrightarrow> get_task_type ty = Inr ty"
  by (auto simp: get_task_type_def job_model_str_def CRON_def REPEATABLE_def ONCE_def)

lemma arg_of_arg_to_dict [simp]: "arg_of_dict H [''arg_type'', ''val''] (arg_to_dict a) = Inr ([], a)"
  by (simp add: arg_of_dict_def arg_to_dict_def rbind_def)

lemma arg_of_kwarg_to_dict [simp]: "arg_of_dict H [''arg_type'', ''key'', ''val''] (kwarg_to_dict ka) = Inr ka"
  by (cases ka) (simp add: arg_of_dict_def kwarg_to_dict_def rbind_def)

fun add_each :: "('s, 'x) app_env_scheme \<Rightarrow> int option \<Rightarrow> (task \<Rightarrow> task) list \<Rightarrow> 's \<Rightarrow> ('s, unit) outcome"
  \<comment> \<open>arguments added to a task one after the other, the task saved after each\<close>
where
  "add_each A i [] s = (Inr (), s)"
| "add_each A i (f # fs) s = and_then (arg_save A i f s) (\<lambda>_ s1. add_each A i fs s1)"

lemma create_args_exported:
  "create_args A [''arg_type'', ''val''] (\<lambda>ka. add_arg (snd ka)) i (map arg_to_dict as) = add_each A i (map add_arg as)"
  by (induction as) (rule ext, simp)+

lemma create_kwargs_exported:
  "create_args A [''arg_type'', ''key'', ''val''] add_kwarg i (map kwarg_to_dict kas) = add_each A i (map add_kwarg kas)"
  by (induction kas) (rule ext, simp)+

lemma add_each_append: "add_each A i (fs @ gs) = (\<lambda>s. and_then (add_each A i fs s) (\<lambda>_ s1. add_each A i gs s1))"
  by (induction fs) (rule ext, simp add: and_then_assoc)+

lemma imported_object:
  assumes "t_task_type t \<in> {CRON, REPEATABLE, ONCE}"
    and "\<forall>t'\<in>set (tb_rows (a_tasks A) s). t_name t' \<noteq> t_name t"
    and "a_fromisoformat A (isoformat_utc due) = Some due"
    and "\<And>x. t_last_successful_run t = Some x \<or> t_last_failed_run t = Some x \<Longrightarrow> a_fromisoformat A (str_of_datetime x) = Some x"
  shows "create_task_from_dict A update (VDict (task_dict t due)) s =
    (case task_save A True True (read_back t due) s of
       (_, Inl e, s1) \<Rightarrow> (Inl e, s1)
     | (t1, Inr _, s1) \<Rightarrow>
         and_then (task_str A t1 s1) (\<lambda>_ s2.
         and_then (add_each A (t_id t1) (map add_arg (t_callable_args t) @ map add_kwarg (t_callable_kwargs t)) s2) (\<lambda>_ s3.
           (Inr (Some t1), s3))))"
proof -
  have name: "find (\<lambda>t'. char_column A (VStr (t_name t)) = Some (t_name t')) (tb_rows (a_tasks A) s) = None"
    using assms(2) by (auto simp: find_None_iff)
  have items: "py_item (VDict (task_dict t due)) ''name'' = Inr (VStr (t_name t))"
    "py_item (VDict (task_dict t due)) ''model'' = Inr (VStr (t_task_type t))"
    "py_item (VDict (task_dict t due)) ''callable_args'' = Inr (VList (map arg_to_dict (t_callable_args t)))"
    "py_item (VDict (task_dict t due)) ''callable_kwargs'' = Inr (VList (map kwarg_to_dict (t_callable_kwargs t)))"
    by (simp_all add: task_dict_def)
  have id: "t_id (read_back t due) = None" by (simp add: read_back_def)
  have obj: "new_task_of A (t_task_type t) (columns_of (task_dict t due)) = Inr (read_back t due)"
    using assms(3,4) by (rule exported_object)
  show ?thesis
    unfolding create_task_from_dict_def items sum.case Let_def name pyval.case get_task_type_of_task [OF assms(1)] option.case
      prod.case and_then_simps simp_thms if_False if_True obj id create_args_of_def py_iter.simps create_args_exported
      create_kwargs_exported add_each_append and_then_assoc
    by simp
qed
end
