(* ===== verification/Arguments.thy ===== *)
theory Arguments
  imports PyBase
begin

text \<open>
  The arguments the commands of \<open>manage.py\<close> declare, and what their values become.  Splitting the command line is left to
  \<open>argparse\<close>: here a command is given the options that occur, each with its flag and the texts that follow it, and
  the other arguments.  The options all commands have are Django's and are left out.
\<close>

section \<open>Declaring arguments\<close>

datatype arg_action = Store | StoreTrue | StoreFalse

datatype arg_type = TextArg | IntegerArg | NumberArg | TruthArg

record argument =
  ag_flags :: "string list"
  ag_dest :: string
  ag_action :: arg_action
  ag_type :: arg_type
  ag_choices :: "string list"  \<comment> \<open>none: any text\<close>
  ag_default :: pyval
  ag_many :: bool  \<comment> \<open>\<open>nargs="*"\<close>\<close>

definition store :: "string list \<Rightarrow> string \<Rightarrow> arg_type \<Rightarrow> pyval \<Rightarrow> argument"
  where "store flags dest ty d = \<lparr> ag_flags = flags, ag_dest = dest, ag_action = Store, ag_type = ty, ag_choices = [],
    ag_default = d, ag_many = False \<rparr>"

definition store_choice :: "string list \<Rightarrow> string \<Rightarrow> string list \<Rightarrow> pyval \<Rightarrow> argument"
  where "store_choice flags dest choices d = (store flags dest TextArg d)\<lparr>ag_choices := choices\<rparr>"

definition store_true :: "string list \<Rightarrow> string \<Rightarrow> argument"
  where "store_true flags dest = (store flags dest TextArg (VBool False))\<lparr>ag_action := StoreTrue\<rparr>"

definition store_false :: "string list \<Rightarrow> string \<Rightarrow> argument"
  where "store_false flags dest = (store flags dest TextArg (VBool True))\<lparr>ag_action := StoreFalse\<rparr>"

definition positional :: "string \<Rightarrow> argument"
  where "positional dest = store [] dest TextArg VNone"

definition positionals :: "string \<Rightarrow> argument"
  where "positionals dest = (store [] dest TextArg (VList []))\<lparr>ag_many := True\<rparr>"

section \<open>The commands\<close>

definition sentry_arguments :: "argument list"
  where "sentry_arguments =
    [store [''--sentry-dsn''] ''sentry_dsn'' TextArg VNone,
     store_true [''--sentry-debug''] ''sentry_debug'',
     store [''--sentry-ca-certs''] ''sentry_ca_certs'' TextArg VNone]"

definition work_arguments :: "argument list"
  where "work_arguments =
    [store_true [''--burst''] ''burst'',
     store [''--max-jobs''] ''max_jobs'' IntegerArg VNone,
     store [''--max-idle-time''] ''max_idle_time'' IntegerArg VNone,
     store_false [''--without-scheduler''] ''with_scheduler'']"

definition scheduler_worker_arguments :: "argument list"
  where "scheduler_worker_arguments =
    [store [''--pid''] ''pidfile'' TextArg VNone,
     store [''--name''] ''name'' TextArg VNone,
     store [''--worker-ttl''] ''worker_ttl'' IntegerArg (VInt 420),
     store [''--fork-job-execution''] ''fork_job_execution'' TruthArg (VBool True),
     positionals ''queues''] @ sentry_arguments @ work_arguments"

definition scheduler_stats_arguments :: "argument list"
  where "scheduler_stats_arguments =
    [store_true [''-j'', ''--json''] ''json'',
     store_true [''-y'', ''--yaml''] ''yaml'',
     store [''-i'', ''--interval''] ''interval'' NumberArg VNone]"

definition export_arguments :: "argument list"
  where "export_arguments =
    [store_choice [''-o'', ''--output''] ''format'' [''json'', ''yaml''] (VStr ''json''),
     store_true [''-e'', ''--enabled''] ''enabled'',
     store [''-f'', ''--filename''] ''filename'' TextArg VNone]"

definition import_arguments :: "argument list"
  where "import_arguments =
    [store_choice [''-f'', ''--format''] ''format'' [''json'', ''yaml''] (VStr ''json''),
     store [''--filename''] ''filename'' TextArg VNone,
     store_true [''-r'', ''--reset''] ''reset'',
     store_true [''-u'', ''--update''] ''update'']"

definition run_job_arguments :: "argument list"
  where "run_job_arguments =
    [store [''--queue'', ''-q''] ''queue'' TextArg (VStr ''default''),
     store [''--timeout'', ''-t''] ''timeout'' IntegerArg VNone,
     store [''--result-ttl'', ''-r''] ''result_ttl'' IntegerArg VNone,
     positional ''callable'',
     positionals ''args'']"

definition delete_failed_executions_arguments :: "argument list"
  where "delete_failed_executions_arguments =
    [store [''--queue'', ''-q''] ''queue'' TextArg (VStr ''default''),
     store [''-f'', ''--func''] ''func'' TextArg VNone,
     store_true [''--dry-run''] ''dry_run'']"

section \<open>Reading arguments\<close>

type_synonym namespace = "string \<rightharpoonup> pyval"

definition convert :: "(string \<Rightarrow> rat option) \<Rightarrow> argument \<Rightarrow> string \<Rightarrow> pyval result"
  \<comment> \<open>with what \<open>float\<close> makes of a text; \<open>bool\<close> of a text is whether there is any\<close>
  where "convert text_float a t =
    (if ag_choices a \<noteq> [] \<and> t \<notin> set (ag_choices a) then Inl SystemExit
     else case ag_type a of
       TextArg \<Rightarrow> Inr (VStr t)
     | IntegerArg \<Rightarrow> (case int_of_str t of None \<Rightarrow> Inl SystemExit | Some i \<Rightarrow> Inr (VInt i))
     | NumberArg \<Rightarrow> (case text_float t of None \<Rightarrow> Inl SystemExit | Some r \<Rightarrow> Inr (VFloat r))
     | TruthArg \<Rightarrow> Inr (VBool (t \<noteq> [])))"

definition option_value :: "(string \<Rightarrow> rat option) \<Rightarrow> argument \<Rightarrow> string list \<Rightarrow> pyval result"
  where "option_value text_float a ts =
    (case ag_action a of
       Store \<Rightarrow> (case ts of [t] \<Rightarrow> convert text_float a t | _ \<Rightarrow> Inl SystemExit)
     | StoreTrue \<Rightarrow> if ts = [] then Inr (VBool True) else Inl SystemExit
     | StoreFalse \<Rightarrow> if ts = [] then Inr (VBool False) else Inl SystemExit)"

fun read_options :: "(string \<Rightarrow> rat option) \<Rightarrow> argument list \<Rightarrow> (string \<times> string list) list \<Rightarrow> namespace \<Rightarrow> namespace result"
  \<comment> \<open>the last occurrence of an option decides\<close>
where
  "read_options text_float ags [] ns = Inr ns"
| "read_options text_float ags ((flag, ts) # os) ns =
     (case find (\<lambda>a. flag \<in> set (ag_flags a)) ags of
        None \<Rightarrow> Inl SystemExit
      | Some a \<Rightarrow> rbind (option_value text_float a ts) (\<lambda>v. read_options text_float ags os (ns(ag_dest a \<mapsto> v))))"

fun read_positionals :: "argument list \<Rightarrow> string list \<Rightarrow> namespace \<Rightarrow> namespace result"
  \<comment> \<open>the arguments without flags, in order; one with \<open>nargs="*"\<close> is the last and takes what there is\<close>
where
  "read_positionals [] ts ns = (if ts = [] then Inr ns else Inl SystemExit)"
| "read_positionals (a # as) ts ns =
     (if ag_many a then read_positionals as [] (ns(ag_dest a \<mapsto> VList (map VStr ts)))
      else case ts of [] \<Rightarrow> Inl SystemExit | t # ts' \<Rightarrow> read_positionals as ts' (ns(ag_dest a \<mapsto> VStr t)))"

definition defaults :: "argument list \<Rightarrow> namespace"
  where "defaults ags = map_of (map (\<lambda>a. (ag_dest a, ag_default a)) ags)"

definition parse_command ::
    "(string \<Rightarrow> rat option) \<Rightarrow> argument list \<Rightarrow> (string \<times> string list) list \<Rightarrow> string list \<Rightarrow> namespace result"
  where "parse_command text_float ags os ts =
    rbind (read_options text_float ags os (defaults ags)) (read_positionals (filter (\<lambda>a. ag_flags a = []) ags) ts)"

section \<open>Every argument has a value\<close>

definition declared_well :: "argument list \<Rightarrow> bool"
  \<comment> \<open>\<open>argparse\<close> refuses two arguments with a flag in common\<close>
  where "declared_well ags \<longleftrightarrow> distinct (concat (map ag_flags ags)) \<and> distinct (map ag_dest ags)"

lemma commands_declared_well:
  "list_all declared_well [scheduler_worker_arguments, scheduler_stats_arguments, export_arguments, import_arguments,
     run_job_arguments, delete_failed_executions_arguments]"
  by code_simp

lemma read_options_dom:
  "read_options text_float ags os ns = Inr ns' \<Longrightarrow> dom ns = set (map ag_dest ags) \<Longrightarrow> dom ns' = set (map ag_dest ags)"
proof (induction os arbitrary: ns)
  case (Cons o' os)
  obtain flag ts where o': "o' = (flag, ts)" by (cases o')
  from Cons.prems(1) obtain a v where a: "find (\<lambda>a. flag \<in> set (ag_flags a)) ags = Some a"
      "read_options text_float ags os (ns(ag_dest a \<mapsto> v)) = Inr ns'"
    by (auto simp: o' rbind_def split: option.splits sum.splits)
  then have "ag_dest a \<in> set (map ag_dest ags)" by (auto simp: find_Some_iff)
  then have "dom (ns(ag_dest a \<mapsto> v)) = set (map ag_dest ags)" using Cons.prems(2) by (simp add: insert_absorb)
  from Cons.IH [OF a(2) this] show ?case .
qed simp

lemma read_positionals_dom:
  "read_positionals as ts ns = Inr ns' \<Longrightarrow> dom ns' = dom ns \<union> set (map ag_dest as)"
  by (induction as ts ns rule: read_positionals.induct) (auto split: if_splits list.splits)

lemma parse_command_dom:
  assumes "parse_command text_float ags os ts = Inr ns"
  shows "dom ns = set (map ag_dest ags)"
proof -
  obtain ns1 where ns1: "read_options text_float ags os (defaults ags) = Inr ns1"
      "read_positionals (filter (\<lambda>a. ag_flags a = []) ags) ts ns1 = Inr ns"
    using assms by (auto simp: parse_command_def rbind_def split: sum.splits)
  have "dom (defaults ags) = set (map ag_dest ags)" by (simp add: defaults_def dom_map_of_conv_image_fst image_image)
  from read_options_dom [OF ns1(1) this] read_positionals_dom [OF ns1(2)] show ?thesis by auto
qed

end
