(* ===== verification/Commandline.thy ===== *)
theory Commandline
  imports Management Arguments
begin

text \<open>
  The other commands of \<open>manage.py\<close>: \<open>run_job\<close>, \<open>delete_failed_executions\<close>, \<open>scheduler_stats\<close> and
  \<open>scheduler_worker\<close>; and the decorator \<open>scheduler/decorators.py\<close>, which gives a function a method that
  puts a call of it on a queue.
\<close>

section \<open>The decorator\<close>

record job_decorator =
  jd_queue :: queue
  jd_timeout :: pyval
  jd_result_ttl :: pyval
  jd_job_info_ttl :: pyval
  jd_at_front :: bool
  jd_meta :: "(string \<times> pyval) list option"
  jd_description :: "string option"
  jd_on_success :: "callback option"
  jd_on_failure :: "callback option"
  jd_on_stopped :: "callback option"

datatype queue_arg = DefaultQueue | QueueNamed string | QueueGiven queue

definition decorator_queue :: "queue_table \<Rightarrow> queue_arg \<Rightarrow> queue result"
  where "decorator_queue qs a =
    (case a of DefaultQueue \<Rightarrow> get_queue qs ''default'' | QueueNamed n \<Rightarrow> get_queue qs n | QueueGiven q \<Rightarrow> Inr q)"

definition decorate :: "string \<Rightarrow> string list \<Rightarrow> string list"
  \<comment> \<open>\<open>JOB_METHODS_LIST\<close> after decorating a function\<close>
  where "decorate func methods = methods @ [func]"

definition delay_name :: "pyval option \<Rightarrow> string option result"
  where "delay_name v = (case v of None \<Rightarrow> Inr None | Some VNone \<Rightarrow> Inr None | Some (VStr n) \<Rightarrow> Inr (Some n) | _ \<Rightarrow> Inl ValueError)"

definition without_keys :: "string list \<Rightarrow> (string \<times> 'v) list \<Rightarrow> (string \<times> 'v) list"
  where "without_keys ks d = filter (\<lambda>(k, _). k \<notin> set ks) d"

definition delay ::
    "('s, 'x) app_env_scheme \<Rightarrow> job_decorator \<Rightarrow> string \<Rightarrow> pyval list \<Rightarrow> (string \<times> pyval) list \<Rightarrow> 's \<Rightarrow> ('s, job_model) outcome"
  \<comment> \<open>\<open>func.delay(*args, **kwargs)\<close>; two of the keyword arguments are not the function's\<close>
  where "delay A d func args kwargs s =
    (let job_name = map_of kwargs ''job_name'';
         at_front = (case map_of kwargs ''at_front'' of None \<Rightarrow> False | Some v \<Rightarrow> py_truthy v) \<or> jd_at_front d
     in case delay_name job_name of
          Inl e \<Rightarrow> (Inl e, s)
        | Inr name \<Rightarrow>
            create_and_enqueue_job A (a_tz A) (jd_queue d) Immediately at_front
              \<lparr> c_func = FFunction func, c_queue_name = q_name (jd_queue d), c_args = Some args,
                c_kwargs = Some (without_keys [''job_name'', ''at_front''] kwargs),
                c_result_ttl = jd_result_ttl d, c_job_info_ttl = jd_job_info_ttl d, c_status = None,
                c_description = jd_description d, c_timeout = jd_timeout d, c_name = name, c_task_type = None,
                c_scheduled_task_id = None, c_meta = jd_meta d, c_on_success = jd_on_success d,
                c_on_failure = jd_on_failure d, c_on_stopped = jd_on_stopped d, c_at_front = None \<rparr> s)"

section \<open>Running a function\<close>

definition run_job_command ::
    "('s, 'x) app_env_scheme \<Rightarrow> string \<Rightarrow> int option \<Rightarrow> int option \<Rightarrow> string \<Rightarrow> string list \<Rightarrow> 's \<Rightarrow> ('s, string) outcome"
  \<comment> \<open>Django hands positional arguments over to \<open>handle\<close> as such, and it takes none; the job is given none\<close>
  where "run_job_command A queue_name timeout result_ttl func args s =
    (if args \<noteq> [] then (Inl TypeError, s)
     else case get_queue (a_queues A) queue_name of
       Inl e \<Rightarrow> (Inl e, s)
     | Inr q \<Rightarrow>
         and_then (create_and_enqueue_job A (a_tz A) q Immediately False
              \<lparr> c_func = FStr func, c_queue_name = q_name q, c_args = None, c_kwargs = None,
                c_result_ttl = opt_val VInt result_ttl, c_job_info_ttl = VNone, c_status = None, c_description = None,
                c_timeout = opt_val VInt timeout, c_name = None, c_task_type = None, c_scheduled_task_id = None,
                c_meta = None, c_on_success = None, c_on_failure = None, c_on_stopped = None, c_at_front = None \<rparr> s)
           (\<lambda>j s1. (Inr (''Job '' @ m_name j @ '' created''), s1)))"

section \<open>Deleting failed executions\<close>

definition delete_failed_executions ::
    "('s, 'x) app_env_scheme \<Rightarrow> string \<Rightarrow> string option \<Rightarrow> bool \<Rightarrow> 's \<Rightarrow> ('s, string list) outcome"
  where "delete_failed_executions A queue_name func dry_run s =
    (case get_queue (a_queues A) queue_name of
       Inl e \<Rightarrow> (Inl e, s)
     | Inr q \<Rightarrow>
         (let (job_names, s1) = reg_all A (queue_registry FailedJobs q) 0 (-1) s
          in case get_jobs A job_names s1 of
               Inl e \<Rightarrow> (Inl e, s1)
             | Inr jobs \<Rightarrow>
                 if truthy_str func \<and> None \<in> set jobs then (Inl AttributeError, s1)
                 else
                   (let selected = (if truthy_str func then filter (\<lambda>j. j_func_name (the j) = the func) jobs else jobs)
                    in (Inr ([''Found '' @ count_text (length selected) @ '' failed jobs'']
                          @ map (\<lambda>n. ''Deleting '' @ n) job_names
                          @ [''Deleted '' @ count_text (length selected) @ '' failed jobs'']),
                        if dry_run then s1 else fold (\<lambda>n. delete_job A q n True) job_names s1))))"

section \<open>Statistics\<close>

definition pad_left :: "nat \<Rightarrow> string \<Rightarrow> string"
  where "pad_left n s = replicate (n - length s) (CHR '' '') @ s"

definition pad_right :: "nat \<Rightarrow> string \<Rightarrow> string"
  where "pad_right n s = s @ replicate (n - length s) (CHR '' '')"

definition stat_values :: "queue_data \<Rightarrow> nat list"
  \<comment> \<open>in the order of \<open>KEYS\<close>\<close>
  where "stat_values d =
    [qd_queued_jobs d, qd_started_jobs d, qd_finished_jobs d, qd_canceled_jobs d, qd_workers d]"

definition ESC :: string where "ESC = [CHR 0x1B]"
definition ANSI_LIGHT_GREEN :: string where "ANSI_LIGHT_GREEN = ESC @ ''[1;32m''"
definition ANSI_LIGHT_WHITE :: string where "ANSI_LIGHT_WHITE = ESC @ ''[1;37m''"
definition ANSI_RESET :: string where "ANSI_RESET = ESC @ ''[0m''"

definition stats_row :: "queue_data \<Rightarrow> queue_data option \<Rightarrow> string"
  \<comment> \<open>a number is green if it changed since the last time\<close>
  where "stats_row d prev =
    (let vals = stat_values d;
         colors = (case prev of
             None \<Rightarrow> map (\<lambda>_. ANSI_LIGHT_WHITE) vals
           | Some p \<Rightarrow> map (\<lambda>(v, w). if v \<noteq> w then ANSI_LIGHT_GREEN else ANSI_LIGHT_WHITE) (zip vals (stat_values p)))
     in ''| '' @ pad_right 16 (qd_name d) @ '' | ''
        @ py_join '' | '' (map (\<lambda>(c, v). c @ pad_left 9 (count_text v) @ ANSI_RESET) (zip colors vals)) @ '' |'')"

definition stats_separator :: string
  where "stats_separator = replicate 80 (CHR ''-'')"

fun stats_rows :: "queue_data list \<Rightarrow> queue_data list \<Rightarrow> string list" where
  "stats_rows [] prev = []"
| "stats_rows (d # ds) prev =
     stats_row d (case prev of [] \<Rightarrow> None | p # _ \<Rightarrow> Some p) # stats_rows ds (tl prev)"

definition print_stats_dashboard :: "queue_data list \<Rightarrow> queue_data list option \<Rightarrow> bool \<Rightarrow> string list"
  \<comment> \<open>the lines; whether they are colored is left to the terminal\<close>
  where "print_stats_dashboard ds prev polling =
    [[], ''Django-Scheduler CLI Dashboard'', [], stats_separator,
     ''| Name             |    Queued |    Active |  Finished |  Canceled |   Workers |'', stats_separator]
    @ stats_rows ds (case prev of None \<Rightarrow> [] | Some p \<Rightarrow> p) @ [stats_separator]
    @ (if polling then [[], ''Press 'Ctrl+c' to quit''] else [])"

fun poll_stats :: "('s, 'x) os_env_scheme \<Rightarrow> rat \<Rightarrow> nat \<Rightarrow> queue_data list option \<Rightarrow> 's \<Rightarrow> ('s, string list list) outcome"
  \<comment> \<open>as many turns as there are until the user presses Ctrl+C\<close>
where
  "poll_stats A interval 0 prev s = (Inr [], s)"
| "poll_stats A interval (Suc turns) prev s =
     and_then (get_statistics A False s) (\<lambda>ds s1.
     and_then (poll_stats A interval turns (Some ds) (o_sleep A interval s1)) (\<lambda>screens s2.
       (Inr (print_stats_dashboard ds prev True # screens), s2)))"

datatype stats_output = JsonText "queue_data list" | YamlText "queue_data list" | Screens "string list list"

definition scheduler_stats ::
    "('s, 'x) os_env_scheme \<Rightarrow> bool \<Rightarrow> bool \<Rightarrow> rat option \<Rightarrow> nat \<Rightarrow> 's \<Rightarrow> ('s, stats_output) outcome"
  where "scheduler_stats A json yaml interval turns s =
    (if json \<and> yaml then (Inl SystemExit, s)
     else if json then and_then (get_statistics A False s) (\<lambda>ds s1. (Inr (JsonText ds), s1))
     else if yaml then and_then (get_statistics A False s) (\<lambda>ds s1. (Inr (YamlText ds), s1))
     else case interval of
       None \<Rightarrow> and_then (get_statistics A False s) (\<lambda>ds s1. (Inr (Screens [print_stats_dashboard ds None False]), s1))
     | Some i \<Rightarrow>
         if i \<le> 0 then
           and_then (get_statistics A False s) (\<lambda>ds s1. (Inr (Screens [print_stats_dashboard ds None (i \<noteq> 0)]), s1))
         else and_then (poll_stats A i turns None s) (\<lambda>screens s1. (Inr (Screens screens), s1)))"

section \<open>Running a worker\<close>

definition log_level :: "int \<Rightarrow> int"
  \<comment> \<open>\<open>logging.CRITICAL\<close>, \<open>WARNING\<close>, \<open>INFO\<close> and \<open>DEBUG\<close>\<close>
  where "log_level verbosity =
    (if verbosity = 0 then 50 else if verbosity = 1 then 30 else if verbosity = 2 then 20 else if verbosity = 3 then 10 else 20)"

record worker_arguments =
  wa_queues :: "string list"
  wa_name :: "string option"
  wa_pidfile :: "string option"
  wa_fork_job_execution :: bool
  wa_burst :: bool
  wa_max_jobs :: "int option"
  wa_max_idle_time :: "int option"
  wa_with_scheduler :: bool

definition worker_argument_options :: "worker_arguments \<Rightarrow> worker_options \<Rightarrow> worker_options"
  where "worker_argument_options a opts =
    opts\<lparr>wo_fork_job_execution := wa_fork_job_execution a, wo_with_scheduler := wa_with_scheduler a,
         wo_burst := wa_burst a\<rparr>"

definition scheduler_worker ::
    "('s, 'x) worker_env_scheme \<Rightarrow> (string \<Rightarrow> string \<Rightarrow> 's \<Rightarrow> 's) \<Rightarrow> worker_arguments \<Rightarrow> 's \<Rightarrow> ('s, bool) outcome option"
  \<comment> \<open>with what writing a file does; None if the worker never ends.  The broker does not refuse connections here.\<close>
  where "scheduler_worker K write_file a s =
    (let queues = (if wa_queues a = [] then [''default''] else wa_queues a);
         s1 = (if truthy_str (wa_pidfile a) then write_file (the (wa_pidfile a)) (str_of_int (o_getpid K s)) s else s)
     in case create_worker K queues (wa_name a) (worker_argument_options a) s1 of
          (Inl e, s2) \<Rightarrow> Some (Inl e, s2)
        | (Inr k, s2) \<Rightarrow> map_option snd (worker_work K (wa_max_jobs a) (wa_max_idle_time a) k s2))"

section \<open>From the command line\<close>

definition text_arg :: "namespace \<Rightarrow> string \<Rightarrow> string option"
  where "text_arg ns k = (case ns k of Some (VStr t) \<Rightarrow> Some t | _ \<Rightarrow> None)"

definition int_arg :: "namespace \<Rightarrow> string \<Rightarrow> int option"
  where "int_arg ns k = (case ns k of Some (VInt i) \<Rightarrow> Some i | _ \<Rightarrow> None)"

definition flag_arg :: "namespace \<Rightarrow> string \<Rightarrow> bool"
  where "flag_arg ns k = (ns k = Some (VBool True))"

definition texts_arg :: "namespace \<Rightarrow> string \<Rightarrow> string list"
  where "texts_arg ns k = (case ns k of
    Some (VList vs) \<Rightarrow> concat (map (\<lambda>v. case v of VStr t \<Rightarrow> [t] | _ \<Rightarrow> []) vs) | _ \<Rightarrow> [])"

definition worker_arguments_of :: "namespace \<Rightarrow> worker_arguments"
  where "worker_arguments_of ns =
    \<lparr> wa_queues = texts_arg ns ''queues'', wa_name = text_arg ns ''name'', wa_pidfile = text_arg ns ''pidfile'',
      wa_fork_job_execution = flag_arg ns ''fork_job_execution'', wa_burst = flag_arg ns ''burst'',
      wa_max_jobs = int_arg ns ''max_jobs'', wa_max_idle_time = int_arg ns ''max_idle_time'',
      wa_with_scheduler = flag_arg ns ''with_scheduler'' \<rparr>"

definition manage_scheduler_worker ::
    "('s, 'x) worker_env_scheme \<Rightarrow> (string \<Rightarrow> rat option) \<Rightarrow> (string \<Rightarrow> string \<Rightarrow> 's \<Rightarrow> 's) \<Rightarrow>
     (string \<times> string list) list \<Rightarrow> string list \<Rightarrow> 's \<Rightarrow> ('s, bool) outcome option"
  where "manage_scheduler_worker K text_float write_file os ts s =
    (case parse_command text_float scheduler_worker_arguments os ts of
       Inl e \<Rightarrow> Some (Inl e, s)
     | Inr ns \<Rightarrow> scheduler_worker K write_file (worker_arguments_of ns) s)"

definition manage_run_job ::
    "('s, 'x) app_env_scheme \<Rightarrow> (string \<Rightarrow> rat option) \<Rightarrow> (string \<times> string list) list \<Rightarrow> string list \<Rightarrow> 's \<Rightarrow> ('s, string) outcome"
  where "manage_run_job A text_float os ts s =
    (case parse_command text_float run_job_arguments os ts of
       Inl e \<Rightarrow> (Inl e, s)
     | Inr ns \<Rightarrow>
         run_job_command A (the (text_arg ns ''queue'')) (int_arg ns ''timeout'') (int_arg ns ''result_ttl'')
           (the (text_arg ns ''callable'')) (texts_arg ns ''args'') s)"

lemma read_options_flag:
  assumes "read_options text_float ags os ns = Inr ns'" "flag_arg ns k"
    and "\<And>a flag ts v. (flag, ts) \<in> set os \<Longrightarrow> a \<in> set ags \<Longrightarrow> ag_dest a = k \<Longrightarrow> option_value text_float a ts = Inr v \<Longrightarrow>
      v = VBool True"
  shows "flag_arg ns' k"
  using assms
proof (induction os arbitrary: ns)
  case (Cons o' os)
  obtain flag ts where o': "o' = (flag, ts)" by (cases o')
  from Cons.prems(1) obtain a v where a: "find (\<lambda>a. flag \<in> set (ag_flags a)) ags = Some a"
      "option_value text_float a ts = Inr v" "read_options text_float ags os (ns(ag_dest a \<mapsto> v)) = Inr ns'"
    by (auto simp: o' rbind_def split: option.splits sum.splits)
  then have "a \<in> set ags" by (auto simp: find_Some_iff)
  then have "flag_arg (ns(ag_dest a \<mapsto> v)) k"
    using Cons.prems(2) Cons.prems(3) [of flag ts a v] a(2) by (auto simp: o' flag_arg_def)
  from Cons.IH [OF a(3) this] Cons.prems(3) show ?case by auto
qed simp

text \<open>
  Whatever is given for \<open>--fork-job-execution\<close>, as long as it is not the empty text, the worker forks for its
  jobs: the text \<open>False\<close> is a true one.
\<close>

lemma forks_anyway:
  assumes "parse_command text_float scheduler_worker_arguments os ts = Inr ns"
    and "\<forall>(flag, texts)\<in>set os. texts \<noteq> [[]]"
  shows "wa_fork_job_execution (worker_arguments_of ns)"
proof -
  obtain ns1 where ns1: "read_options text_float scheduler_worker_arguments os (defaults scheduler_worker_arguments) = Inr ns1"
      "read_positionals (filter (\<lambda>a. ag_flags a = []) scheduler_worker_arguments) ts ns1 = Inr ns"
    using assms(1) by (auto simp: parse_command_def rbind_def split: sum.splits)
  have "defaults scheduler_worker_arguments ''fork_job_execution'' = Some (VBool True)" by code_simp
  then have start: "flag_arg (defaults scheduler_worker_arguments) ''fork_job_execution''" by (simp add: flag_arg_def)
  have "list_all (\<lambda>a. ag_dest a = ''fork_job_execution'' \<longrightarrow>
      ag_action a = Store \<and> ag_type a = TruthArg \<and> ag_choices a = []) scheduler_worker_arguments" by code_simp
  then have "v = VBool True" if "(flag, texts) \<in> set os" "a \<in> set scheduler_worker_arguments"
      "ag_dest a = ''fork_job_execution''" "option_value text_float a texts = Inr v" for a flag texts v
    using that assms(2) by (fastforce simp: list_all_iff option_value_def convert_def split: list.splits)
  then have "flag_arg ns1 ''fork_job_execution''" using read_options_flag [OF ns1(1) start] by blast
  moreover have "filter (\<lambda>a. ag_flags a = []) scheduler_worker_arguments = [positionals ''queues'']" by code_simp
  ultimately have "flag_arg ns ''fork_job_execution''"
    using ns1(2) by (auto simp: flag_arg_def positionals_def store_def split: if_splits)
  then show ?thesis by (simp add: worker_arguments_of_def)
qed

lemma run_job_with_arguments:
  assumes "args \<noteq> []"
  shows "manage_run_job A text_float [] (func # args) s = (Inl TypeError, s)"
proof -
  have "filter (\<lambda>a. ag_flags a = []) run_job_arguments = [positional ''callable'', positionals ''args'']" by code_simp
  moreover have "concat (map (\<lambda>v. case v of VStr t \<Rightarrow> [t] | _ \<Rightarrow> []) (map VStr args)) = args" for args by (induction args) auto
  ultimately show ?thesis using assms
    by (simp add: manage_run_job_def parse_command_def run_job_command_def texts_arg_def positional_def positionals_def store_def comp_def)
qed

end
