(* ===== verification/Timeouts.thy ===== *)
theory Timeouts
  imports Prelude
begin

text \<open>
  \<open>scheduler/helpers/timeouts.py\<close>: the blocks of code that must end within a time, on systems with
  signals and on those without.  The block runs between setting up a penalty and cancelling it; the alarm
  shows as the exception the block ends with.
\<close>

section \<open>Alarms\<close>

datatype alarm_handler = SIG_DFL | RaiseTimeout int

record alarms =
  al_main_thread :: bool
  al_pending :: "int option"
  al_handler :: alarm_handler

type_synonym 'p penalty_step = "'p \<Rightarrow> 'p \<times> unit result"

definition alarm :: "int \<Rightarrow> alarms penalty_step"
  \<comment> \<open>\<open>signal.alarm\<close>, which takes a C integer and reads it without its sign; 0 removes the alarm\<close>
  where "alarm timeout al =
    (if timeout < - (2 ^ 31) \<or> 2 ^ 31 \<le> timeout then (al, Inl OverflowError)
     else (al\<lparr>al_pending := (let n = timeout mod 2 ^ 32 in if n = 0 then None else Some n)\<rparr>, Inr ()))"

definition setup_signal_penalty :: "int \<Rightarrow> alarms penalty_step"
  where "setup_signal_penalty timeout al =
    (if al_main_thread al then alarm timeout (al\<lparr>al_handler := RaiseTimeout timeout\<rparr>) else (al, Inr ()))"

definition cancel_signal_penalty :: "alarms penalty_step"
  where "cancel_signal_penalty al =
    (if al_main_thread al then
       (case alarm 0 al of
          (al1, Inl e) \<Rightarrow> (al1, Inl e)
        | (al1, Inr _) \<Rightarrow> (al1\<lparr>al_handler := SIG_DFL\<rparr>, Inr ()))
     else (al, Inr ()))"

definition handle_signal_penalty :: "exn \<Rightarrow> 'a result"
  \<comment> \<open>the handler raises the exception the penalty was made with\<close>
  where "handle_signal_penalty e = Inl e"

definition with_penalty ::
    "'p penalty_step \<Rightarrow> 'p penalty_step \<Rightarrow> exn set \<Rightarrow> ('p \<Rightarrow> 's \<Rightarrow> 'p \<times> ('s, 'a) outcome) \<Rightarrow> 'p \<Rightarrow> 's \<Rightarrow> 'p \<times> ('s, 'a) outcome"
  \<comment> \<open>\<open>BaseDeathPenalty\<close> as a context manager.  If setting up raises, the block does not run and nothing is
     cancelled; what cancelling raises, if it is one of the timeouts, is ignored and the outcome of the
     block stands.\<close>
  where "with_penalty setup cancel timeouts body p s =
    (case setup p of
       (p1, Inl e) \<Rightarrow> (p1, Inl e, s)
     | (p1, Inr _) \<Rightarrow>
         (case body p1 s of
            (p2, r, s1) \<Rightarrow>
              (case cancel p2 of
                 (p3, Inr _) \<Rightarrow> (p3, r, s1)
               | (p3, Inl e) \<Rightarrow> if e \<in> timeouts then (p3, r, s1) else (p3, Inl e, s1))))"

definition with_signal_penalty ::
    "int \<Rightarrow> (alarms \<Rightarrow> 's \<Rightarrow> alarms \<times> ('s, 'a) outcome) \<Rightarrow> alarms \<Rightarrow> 's \<Rightarrow> alarms \<times> ('s, 'a) outcome"
  where "with_signal_penalty timeout =
    with_penalty (setup_signal_penalty timeout) cancel_signal_penalty {JobTimeoutException}"

section \<open>Timers\<close>

record timer_penalty =
  tp_timeout :: int
  tp_thread :: int
  tp_timer_running :: "bool option"

definition setup_timer_penalty :: "timer_penalty penalty_step"
  where "setup_timer_penalty p = (if tp_timeout p \<le> 0 then p else p\<lparr>tp_timer_running := Some True\<rparr>, Inr ())"

definition cancel_timer_penalty :: "timer_penalty penalty_step"
  where "cancel_timer_penalty p =
    (if tp_timeout p \<le> 0 then (p, Inr ())
     else case tp_timer_running p of
       None \<Rightarrow> (p, Inl AttributeError)
     | Some _ \<Rightarrow> (p\<lparr>tp_timer_running := None\<rparr>, Inr ()))"

definition handle_timer_penalty :: "(int \<Rightarrow> exn option \<Rightarrow> 's \<Rightarrow> int \<times> 's) \<Rightarrow> exn \<Rightarrow> timer_penalty \<Rightarrow> 's \<Rightarrow> ('s, unit) outcome"
  \<comment> \<open>with Python's call that raises an exception in another thread, which returns the number of threads reached\<close>
  where "handle_timer_penalty set_async_exc e p s =
    (case set_async_exc (tp_thread p) (Some e) s of
       (ret, s1) \<Rightarrow>
         if ret = 0 then (Inl ValueError, s1)
         else if ret > 1 then (Inl SystemError, snd (set_async_exc (tp_thread p) None s1))
         else (Inr (), s1))"

definition with_timer_penalty ::
    "(timer_penalty \<Rightarrow> 's \<Rightarrow> timer_penalty \<times> ('s, 'a) outcome) \<Rightarrow> timer_penalty \<Rightarrow> 's \<Rightarrow> timer_penalty \<times> ('s, 'a) outcome"
  where "with_timer_penalty = with_penalty setup_timer_penalty cancel_timer_penalty {JobTimeoutException}"

section \<open>Nothing is left behind\<close>

definition disarmed :: "alarms \<Rightarrow> bool"
  where "disarmed al \<longleftrightarrow> al_pending al = None \<and> al_handler al = SIG_DFL"

definition armed :: "int \<Rightarrow> alarms \<Rightarrow> alarms"
  \<comment> \<open>the alarms while the block runs\<close>
  where "armed timeout al = al\<lparr>al_handler := RaiseTimeout timeout, al_pending := (if timeout = 0 then None else Some (timeout mod 2 ^ 32))\<rparr>"

lemma setup_signal_penalty_armed:
  assumes "al_main_thread al" "- (2 ^ 31) \<le> timeout" "timeout < 2 ^ 31"
  shows "setup_signal_penalty timeout al = (armed timeout al, Inr ())"
proof -
  have "timeout mod 4294967296 = (if timeout < 0 then timeout + 4294967296 else timeout)"
    using assms(2,3) mod_pos_pos_trivial [of "timeout + 4294967296" 4294967296] by (auto simp: mod_pos_pos_trivial)
  then show ?thesis using assms by (auto simp: setup_signal_penalty_def alarm_def armed_def)
qed

lemma with_signal_penalty_disarms:
  assumes "al_main_thread al" "- (2 ^ 31) \<le> timeout" "timeout < 2 ^ 31"
    and "al_main_thread (fst (body (armed timeout al) s))"
  shows "disarmed (fst (with_signal_penalty timeout body al s)) \<and>
    snd (with_signal_penalty timeout body al s) = snd (body (armed timeout al) s)"
  using assms(4) setup_signal_penalty_armed [OF assms(1-3)]
  by (cases "body (armed timeout al) s")
     (simp add: with_signal_penalty_def with_penalty_def cancel_signal_penalty_def alarm_def disarmed_def)

lemma with_signal_penalty_too_long:
  assumes "al_main_thread al" "timeout < - (2 ^ 31) \<or> 2 ^ 31 \<le> timeout"
  shows "with_signal_penalty timeout body al s = (al\<lparr>al_handler := RaiseTimeout timeout\<rparr>, Inl OverflowError, s)"
  using assms by (auto simp: with_signal_penalty_def with_penalty_def setup_signal_penalty_def alarm_def)

end
