(* ===== verification/Service_Properties.thy ===== *)
theory Service_Properties
  imports Samples SchedulerFacts Commandline Timeouts
begin

text \<open>
  The properties of what surrounds the queues: the places a job may be in, the commands sent to workers and
  the signals that stop them, the pages that administer jobs, the files tasks are exported to, and the
  time limits of blocks of code.
\<close>

section \<open>The places of a job\<close>




section \<open>Scheduling\<close>

text \<open>
  C12.  A task whose last job still waits for its time, waits in its queue or runs is not scheduled
  again; and when a task is scheduled, exactly one entry is added to the broker's registries: that of the
  task's new job, among the scheduled jobs of its queue, at the time the task is due, which for a
  repeatable task or one that runs once is not past.  (The database is kept apart from the broker.)
\<close>

theorem task_scheduled_once:
  assumes "app A view"
  shows "(\<forall>q k n. get_queue (a_queues A) (t_queue t) = Inr q \<and> t_job_name t = Some n \<and> k \<in> {ScheduledJobs, QueuedJobs, ActiveJobs} \<and>
       k \<in> placed view q s n \<longrightarrow> task_schedule A t s = (t, Inr False, s)) \<and>
    (task_schedule A t s = (t', Inr True, s') \<longrightarrow>
       (\<exists>q n due s1. get_queue (a_queues A) (t_queue t) = Inr q \<and> t_job_name t' = Some n \<and> t_scheduled_time t' = Some due \<and>
          (\<forall>r. reg_entries view s' r =
            (if r = queue_registry ScheduledJobs q then (reg_entries view s r)(n \<mapsto> due) else reg_entries view s r)) \<and>
          view s1 = view s \<and> (t_task_type t \<in> {REPEATABLE, ONCE} \<longrightarrow> fst (utcnow A s1) \<le> due)))"
proof (intro conjI allI impI; (elim conjE)?)
  fix q k n
  assume "get_queue (a_queues A) (t_queue t) = Inr q" "t_job_name t = Some n" "k \<in> {ScheduledJobs, QueuedJobs, ActiveJobs}"
    "k \<in> placed view q s n"
  then have "is_scheduled A t s = (t, Inr True, s)"
    by (intro app.is_scheduled_yes [OF assms]) (simp_all add: placed_def)
  then show "task_schedule A t s = (t, Inr False, s)" by (simp add: task_schedule_def)
next
  assume "task_schedule A t s = (t', Inr True, s')"
  then show "\<exists>q n due s1. get_queue (a_queues A) (t_queue t) = Inr q \<and> t_job_name t' = Some n \<and> t_scheduled_time t' = Some due \<and>
          (\<forall>r. reg_entries view s' r =
            (if r = queue_registry ScheduledJobs q then (reg_entries view s r)(n \<mapsto> due) else reg_entries view s r)) \<and>
          view s1 = view s \<and> (t_task_type t \<in> {REPEATABLE, ONCE} \<longrightarrow> fst (utcnow A s1) \<le> due)"
    by (rule app.task_schedule_ok [OF assms]) blast
qed

text \<open>
  C14.  A repeatable task whose time has passed is given the first time after now that is a whole
  number of intervals later, and its repetitions are reduced by that number, if it has as many.
\<close>

theorem repeatable_catches_up:
  fixes A :: "('s, 'x) app_env_scheme" and t :: task and s :: 's
  defines "now \<equiv> fst (utcnow A s)"
  assumes "t_task_type t = REPEATABLE" "t_scheduled_time t = Some due" "due < now" "interval_seconds t = Inr i" "0 < i"
    and enough: "\<forall>n. t_repeat t = Some n \<longrightarrow> ceil_div (now - due) (secs i) \<le> n"
  shows "\<exists>k>0. schedule_time A t s =
      (t\<lparr>t_scheduled_time := Some (due + k * secs i), t_repeat := map_option (\<lambda>n. n - k) (t_repeat t)\<rparr>,
       Inr (Some (due + k * secs i)), snd (utcnow A s)) \<and>
     now \<le> due + k * secs i \<and> due + (k - 1) * secs i < now \<and> (\<forall>n. t_repeat t = Some n \<longrightarrow> k \<le> n)"
proof -
  let ?k = "ceil_div (now - due) (secs i)"
  have pos: "0 < secs i" using assms(6) by (simp add: secs_def)
  have val: "next_due (secs i) now due (t_repeat t) = (due + secs i * ?k, map_option (\<lambda>n. n - ?k) (t_repeat t))"
    using enough by (auto simp: next_due_def Let_def split: option.splits)
  note b = ceil_div_bounds [OF pos, of "now - due"]
  have "0 < secs i * ?k" using b(1) assms(4) by linarith
  then have "0 < ?k" using pos by (simp add: zero_less_mult_iff)
  then show ?thesis
    using schedule_time_repeatable [where A = A and s = s, OF assms(2,3), folded now_def, OF assms(4,5)] assms(6) b enough
    by (intro exI [of _ ?k]) (simp add: val algebra_simps)
qed

definition minutely :: task
  where "minutely = \<lparr> t_id = Some 1, t_name = ''t'', t_task_type = REPEATABLE, t_callable = ''tasks.ok'', t_callable_args = [],
     t_callable_kwargs = [], t_enabled = True, t_queue = ''default'', t_job_name = None, t_at_front = False, t_timeout = None,
     t_result_ttl = None, t_failed_runs = 0, t_successful_runs = 0, t_last_successful_run = None, t_last_failed_run = None,
     t_interval = Some 1, t_interval_unit = Some ''minutes'', t_repeat = Some 20, t_scheduled_time = Some (secs 110),
     t_cron_string = None \<rparr>"

theorem repeatable_catches_up_witness:
  "\<exists>k>0. fst (snd (schedule_time (mem_app cfg0) minutely sample_app_mem)) = Inr (Some (secs 110 + k * secs 60)) \<and> k \<le> 20"
proof -
  have now: "fst (utcnow (mem_app cfg0) sample_app_mem) = secs 1000" by code_simp
  have i: "interval_seconds minutely = Inr 60" by code_simp
  have c: "ceil_div (secs 1000 - secs 110) (secs 60) = 15" by code_simp
  show ?thesis
    using repeatable_catches_up [of minutely "secs 110" "mem_app cfg0" sample_app_mem 60]
    by (auto simp: now i c) (auto simp: minutely_def secs_def)
qed

definition once_later :: task
  where "once_later = minutely\<lparr>t_task_type := ONCE, t_scheduled_time := Some (secs 2000), t_repeat := None\<rparr>"

theorem task_scheduled_once_witness:
  "\<exists>t' s' n. task_schedule (mem_app cfg0) once_later sample_app_mem = (t', Inr True, s') \<and> t_job_name t' = Some n \<and>
     reg_entries mem_view s' (queue_registry ScheduledJobs sample_queue) n = t_scheduled_time t' \<and> t_scheduled_time t' \<noteq> None"
proof -
  have "fst (snd (task_schedule (mem_app cfg0) once_later sample_app_mem)) = Inr True" by code_simp
  then obtain t' s' where "task_schedule (mem_app cfg0) once_later sample_app_mem = (t', Inr True, s')"
    by (metis prod.collapse)
  note run = this
  have q: "get_queue (a_queues (mem_app cfg0)) (t_queue once_later) = Inr sample_queue" by code_simp
  have "\<exists>n due. t_job_name t' = Some n \<and> t_scheduled_time t' = Some due \<and>
      reg_entries mem_view s' (queue_registry ScheduledJobs sample_queue) n = Some due"
    using task_scheduled_once [OF mem_app_db.app_axioms, of cfg0 once_later sample_app_mem t' s', unfolded q] run by auto
  then show ?thesis using run by auto
qed

text \<open>
  C13.  When the scheduler looks at a registry of scheduled jobs, the jobs whose time has come, of
  which there are at most 1000, leave it for the registry of queued jobs, and no other job moves.
\<close>

theorem due_jobs_enqueued:
  assumes "app A view" "get_queue (a_queues A) (q_name q) = Inr q" "q_is_async q"
    and "length (filter (z_in_score 0 (secs (fst (current_timestamp A s)))) (zsets (view s) (reg_key (queue_registry ScheduledJobs q)))) \<le> 1000"
    and "\<forall>n\<in>set (due_names A q s). \<exists>j. job_get A n (snd (current_timestamp A s)) = Some j \<and> m_name j = n \<and> storable j"
  shows "\<exists>s'. enqueue_due A (queue_registry ScheduledJobs q) s = (Inr (), s') \<and>
    (\<forall>n t. reg_entries view s (queue_registry ScheduledJobs q) n = Some t \<and> 0 \<le> t \<longrightarrow>
       (if t \<le> secs (fst (current_timestamp A s))
        then QueuedJobs \<in> placed view q s' n \<and> ScheduledJobs \<notin> placed view q s' n
        else placed view q s' n = placed view q s n)) \<and>
    (\<forall>n. ScheduledJobs \<notin> placed view q s n \<longrightarrow> placed view q s' n = placed view q s n)"
proof -
  obtain s' where s': "enqueue_due A (queue_registry ScheduledJobs q) s = (Inr (), s')"
    "\<And>r n. reg_entries view s' r n \<noteq> None \<longleftrightarrow>
        (if r = queue_registry QueuedJobs q then n \<in> set (due_names A q s) \<or> reg_entries view s r n \<noteq> None
         else if r = queue_registry ScheduledJobs q then n \<notin> set (due_names A q s) \<and> reg_entries view s r n \<noteq> None
         else reg_entries view s r n \<noteq> None)"
    using app.enqueue_due_entries [OF assms(1-3,5)] by blast
  have placed: "placed view q s' n = (if n \<in> set (due_names A q s) then insert QueuedJobs (placed view q s n - {ScheduledJobs})
      else placed view q s n)" for n
    using s'(2) by (auto simp: placed_def split: if_splits)
  note due = app.due_names_iff [OF assms(1,4)]
  have soon: "n \<in> set (due_names A q s) \<longleftrightarrow> t \<le> secs (fst (current_timestamp A s))"
    if "reg_entries view s (queue_registry ScheduledJobs q) n = Some t \<and> 0 \<le> t" for n t
    using that by (simp add: due)
  have other: "n \<notin> set (due_names A q s)" if "ScheduledJobs \<notin> placed view q s n" for n
    using that by (simp add: due placed_def)
  show ?thesis
  proof (intro exI [of _ s'] conjI s'(1) allI impI)
    fix n t
    assume "reg_entries view s (queue_registry ScheduledJobs q) n = Some t \<and> 0 \<le> t"
    from soon [OF this] show "if t \<le> secs (fst (current_timestamp A s))
        then QueuedJobs \<in> placed view q s' n \<and> ScheduledJobs \<notin> placed view q s' n
        else placed view q s' n = placed view q s n" by (simp add: placed)
  qed (simp add: placed other)
qed

definition mem_scheduled :: app_mem
  where "mem_scheduled = mem.extend
     (reg_add (mem_host cfg0) (queue_registry ScheduledJobs sample_queue) ''a'' (secs 900) (mem_saved ''a'')) \<lparr> d_tasks = [] \<rparr>"

theorem due_jobs_enqueued_witness:
  "\<exists>s'. enqueue_due (mem_app cfg0) (queue_registry ScheduledJobs sample_queue) mem_scheduled = (Inr (), s') \<and>
     QueuedJobs \<in> placed mem_view sample_queue s' ''a'' \<and> ScheduledJobs \<notin> placed mem_view sample_queue s' ''a''"
proof -
  have now: "fst (current_timestamp (mem_app cfg0) mem_scheduled) = 1000" by code_simp
  have xs: "zsets (mem_view mem_scheduled) (reg_key (queue_registry ScheduledJobs sample_queue)) = [(''a'', secs 900)]" by code_simp
  have due: "due_names (mem_app cfg0) sample_queue mem_scheduled = [''a'']" by code_simp
  have q: "get_queue (a_queues (mem_app cfg0)) (q_name sample_queue) = Inr sample_queue" by code_simp
  have "case job_get (mem_app cfg0) ''a'' (snd (current_timestamp (mem_app cfg0) mem_scheduled)) of
      None \<Rightarrow> False | Some j \<Rightarrow> m_name j = ''a'' \<and> storable j" by code_simp
  then have j: "\<exists>j. job_get (mem_app cfg0) ''a'' (snd (current_timestamp (mem_app cfg0) mem_scheduled)) = Some j
      \<and> m_name j = ''a'' \<and> storable j" by (auto split: option.splits)
  have e: "reg_entries mem_view mem_scheduled (queue_registry ScheduledJobs sample_queue) ''a'' = Some (secs 900)"
    by (simp only: reg_entries_def xs) simp
  have few: "length (filter (z_in_score 0 (secs 1000)) [(''a'', secs 900)]) \<le> 1000" by simp
  obtain s' where s': "enqueue_due (mem_app cfg0) (queue_registry ScheduledJobs sample_queue) mem_scheduled = (Inr (), s')"
    "\<forall>n t. reg_entries mem_view mem_scheduled (queue_registry ScheduledJobs sample_queue) n = Some t \<and> 0 \<le> t \<longrightarrow>
       (if t \<le> secs 1000
        then QueuedJobs \<in> placed mem_view sample_queue s' n \<and> ScheduledJobs \<notin> placed mem_view sample_queue s' n
        else placed mem_view sample_queue s' n = placed mem_view sample_queue mem_scheduled n)"
    using due_jobs_enqueued [OF mem_app_db.app_axioms q sample_queue_sel(1), of mem_scheduled, unfolded now xs due, OF few] j by auto
  from s'(2) [rule_format, of "''a''" "secs 900"] e s'(1) show ?thesis by (auto simp: secs_def)
qed

section \<open>Commands to workers\<close>

text \<open>
  C24.  Whatever value a payload holds, the command built from it is of a registered class, and has a
  job's name exactly if it stops a job; a command's payload gives back the command, or is refused if the
  command's class is not registered.
\<close>

theorem commands_checked:
  "(\<forall>c. from_payload p = Inr c \<longrightarrow> is_registered (c_class c) \<and> well_formed_command c) \<and>
   (well_formed_command c \<longrightarrow>
     from_payload (VDict (fst (command_payload H c s))) =
       (if is_registered (c_class c) then Inr c else Inl WorkerCommandError))"
  by (intro conjI allI impI; (elim conjE)?) (simp_all add: from_payload_sound from_payload_command)

definition sample_stop :: command
  where "sample_stop = \<lparr> c_class = StopJob, c_worker_name = VStr ''w'', c_job_name = VStr ''a'' \<rparr>"

theorem commands_checked_witness:
  "from_payload (VDict (fst (command_payload (mem_host cfg0) sample_stop mem0))) = Inr sample_stop"
  using commands_checked [of VNone sample_stop "mem_host cfg0" mem0]
  by (simp add: well_formed_command_def is_registered_def sample_stop_def)

text \<open>
  C16.  A command to stop a job does nothing unless the worker's record says that a process of the
  worker's runs that very job; then it records the job's name, and nothing else in the broker, and the
  worker that reads its record finds the name there.  (Signals do not reach the broker.)
\<close>

theorem stop_job_recorded:
  assumes "broker A view" and "\<And>pgid sig t. view (snd (o_killpg A pgid sig t)) = view t"
  shows "if stoppable A n worker_name s
    then \<exists>w. worker_get A worker_name s = Some w \<and>
      view (snd (process_stop_job A (VStr n) worker_name s)) =
        apply_cmd (HSET (worker_key (m_name w)) [(''stopped_job_name'', W n)]) (view s) \<and>
      (\<forall>k. m_name (k_model k) = m_name w \<longrightarrow>
        stopped_job_name A k (snd (process_stop_job A (VStr n) worker_name s)) = Inr (Some n))
    else process_stop_job A (VStr n) worker_name s = (Inr (), s)"
proof (cases "stoppable A n worker_name s")
  case True
  then obtain w where w: "worker_get A worker_name s = Some w" by (auto simp: stoppable_def split: option.splits)
  have v: "view (snd (process_stop_job A (VStr n) worker_name s)) =
      apply_cmd (HSET (worker_key (m_name w)) [(''stopped_job_name'', W n)]) (view s)"
    using assms(2) broker.view_run [OF assms(1)]
    by (auto simp: stop_job_done [OF True w] split: sum.splits)
  then have "e_hget A (worker_key (m_name w)) ''stopped_job_name'' (snd (process_stop_job A (VStr n) worker_name s)) = Some (W n)"
    by (simp add: broker.hget [OF assms(1)])
  with True w v show ?thesis by (auto simp: stopped_job_name_eq)
qed (simp add: stop_job_refused)

definition mem_stop :: app_mem
  \<comment> \<open>worker \<open>w\<close>, process 42, runs job \<open>a\<close> in process 43\<close>
  where "mem_stop = mem.extend (mem_run (HSET (worker_key ''w'')
     [(''name'', W ''w''), (''queue_names'', WJson (VList [])), (''pid'', W ''42''), (''hostname'', W ''h''),
      (''ip_address'', W ''i''), (''version'', W ''4''), (''python_version'', W ''3''), (''state'', W ''busy''),
      (''job_execution_process_pid'', W ''43''), (''current_job_name'', W ''a'')]) (mem_saved ''a'')) \<lparr> d_tasks = [] \<rparr>"

theorem stop_job_recorded_witness:
  "\<exists>w. worker_get (mem_os cfg0) ''w'' mem_stop = Some w \<and>
     mem_view (snd (process_stop_job (mem_os cfg0) (VStr ''a'') ''w'' mem_stop)) =
       apply_cmd (HSET (worker_key (m_name w)) [(''stopped_job_name'', W ''a'')]) (mem_view mem_stop)"
proof -
  have "stoppable (mem_os cfg0) ''a'' ''w'' mem_stop" by code_simp
  moreover have "mem_view (snd (o_killpg (mem_os cfg0) pgid sig t)) = mem_view t" for pgid sig and t :: app_mem
    by (simp add: mem_os_def mem_app_def mem_host_def mem_env_ext_def host_env.defs app_env.defs os_env.defs)
  ultimately show ?thesis using stop_job_recorded [OF mem_os.broker_axioms, of cfg0 "''a''" "''w''" mem_stop] by (auto simp del: apply_cmd.simps)
qed



section \<open>Administration\<close>




text \<open>
  C17.  Requeuing a registry puts each of its jobs in the registry of queued jobs, and leaves it in
  the registry it was in, unless that is the one of scheduled jobs: the job is then in two registries.
\<close>

theorem requeued_jobs_twice:
  assumes "host H view" "q_is_async q" "get_registry q registry_name = Inr r"
    and "fst (reg_all H r 0 (-1) s) = ns"
    and "\<forall>n\<in>set ns. \<exists>j. job_get H n (reg_cleanup H r None s) = Some j \<and> m_name j = n \<and> storable j"
  shows "\<exists>s'. requeue_job_names H q registry_name s =
       (Inr [Info (''You have successfully re-queued '' @ count_text (length ns) @ '' jobs!'')], s') \<and>
     (\<forall>n\<in>set ns. QueuedJobs \<in> placed view q s' n \<and> (reg_kind r \<in> placed view q s' n \<longleftrightarrow> reg_kind r \<noteq> ScheduledJobs))"
  using host.requeued_twice [OF assms(1-3), of s] assms(4,5) by simp

definition mem_failed :: mem
  where "mem_failed = reg_add (mem_host cfg0) (queue_registry FailedJobs sample_queue) ''a'' (secs 2000) (mem_saved ''a'')"

theorem requeued_jobs_twice_witness:
  "\<exists>s'. requeue_job_names (mem_host cfg0) sample_queue ''failed'' mem_failed =
       (Inr [Info ''You have successfully re-queued 1 jobs!''], s') \<and>
     {QueuedJobs, FailedJobs} \<subseteq> placed mem_view sample_queue s' ''a''"
proof -
  have ns: "fst (reg_all (mem_host cfg0) (queue_registry FailedJobs sample_queue) 0 (-1) mem_failed) = [''a'']" by code_simp
  have "case job_get (mem_host cfg0) ''a'' (reg_cleanup (mem_host cfg0) (queue_registry FailedJobs sample_queue) None mem_failed) of
      None \<Rightarrow> False | Some j \<Rightarrow> m_name j = ''a'' \<and> storable j" by code_simp
  then have j: "\<exists>j. job_get (mem_host cfg0) ''a'' (reg_cleanup (mem_host cfg0) (queue_registry FailedJobs sample_queue) None mem_failed)
      = Some j \<and> m_name j = ''a'' \<and> storable j" by (auto split: option.splits)
  have r: "get_registry sample_queue ''failed'' = Inr (queue_registry FailedJobs sample_queue)" by code_simp
  have c: "count_text 1 = ''1''" by code_simp
  show ?thesis
    using requeued_jobs_twice [OF mem_host.host_axioms sample_queue_sel(1) r ns] j c by auto
qed

section \<open>Exported tasks\<close>

text \<open>
  C15.  A task that has a time to run can be exported, and importing what was exported, where no
  task has its name, saves the task as it was, with the time computed by the export and without its id
  and its job, and then adds each of its arguments in turn.  (Python reads the instants it wrote.)
\<close>

theorem exported_task_imported:
  assumes "schedule_time A t s = (t1, Inr (Some due), s1)"
    and "t_task_type t \<in> {CRON, REPEATABLE, ONCE}"
    and "\<forall>t'\<in>set (tb_rows (a_tasks A) s2). t_name t' \<noteq> t_name t"
    and "a_fromisoformat A (isoformat_utc due) = Some due"
    and "\<forall>x. Some x \<in> {t_last_successful_run t, t_last_failed_run t} \<longrightarrow> a_fromisoformat A (str_of_datetime x) = Some x"
  shows "\<exists>d. task_to_dict A t s = (t1, Inr d, s1) \<and>
    create_task_from_dict A update (VDict d) s2 =
      (case task_save A True True (read_back t due) s2 of
         (_, Inl e, s3) \<Rightarrow> (Inl e, s3)
       | (t3, Inr _, s3) \<Rightarrow>
           and_then (task_str A t3 s3) (\<lambda>_ s4.
           and_then (add_each A (t_id t3) (map add_arg (t_callable_args t) @ map add_kwarg (t_callable_kwargs t)) s4) (\<lambda>_ s5.
             (Inr (Some t3), s5))))"
proof -
  have "a_fromisoformat A (str_of_datetime x) = Some x" if "t_last_successful_run t = Some x \<or> t_last_failed_run t = Some x" for x
    using assms(5) that by auto
  from imported_object [OF assms(2-4) this, of update] assms(1) show ?thesis by (simp add: task_to_dict_def)
qed

definition sample_task :: task
  where "sample_task = \<lparr> t_id = Some 1, t_name = ''t'', t_task_type = ONCE, t_callable = ''tasks.ok'', t_callable_args = [],
     t_callable_kwargs = [(''k'', \<lparr> arg_type = ''int'', arg_val = ''2'' \<rparr>)], t_enabled = False, t_queue = ''default'',
     t_job_name = Some ''j'', t_at_front = False, t_timeout = None, t_result_ttl = None, t_failed_runs = 0,
     t_successful_runs = 0, t_last_successful_run = None, t_last_failed_run = None, t_interval = None,
     t_interval_unit = None, t_repeat = None, t_scheduled_time = Some (secs 2000), t_cron_string = None \<rparr>"

definition reading_app :: "unit app_mem_scheme app_env"
  where "reading_app = (mem_app cfg0)\<lparr>a_fromisoformat := (\<lambda>x. if x = ''1970-01-01T00:33:20+00:00'' then Some (secs 2000) else None)\<rparr>"

theorem exported_task_imported_witness:
  "\<exists>d. task_to_dict reading_app sample_task sample_app_mem = (sample_task, Inr d, sample_app_mem) \<and>
     (case fst (create_task_from_dict reading_app True (VDict d) sample_app_mem) of
        Inr (Some t) \<Rightarrow> t_name t = ''t'' \<and> t_scheduled_time t = Some (secs 2000)
      | _ \<Rightarrow> False)"
proof -
  have iso: "isoformat_utc (secs 2000) = ''1970-01-01T00:33:20+00:00''" by code_simp
  have 1: "schedule_time reading_app sample_task sample_app_mem = (sample_task, Inr (Some (secs 2000)), sample_app_mem)"
    by (simp add: schedule_time_def sample_task_def)
  have 2: "t_task_type sample_task \<in> {CRON, REPEATABLE, ONCE}" by (simp add: sample_task_def)
  have 3: "\<forall>t'\<in>set (tb_rows (a_tasks reading_app) sample_app_mem). t_name t' \<noteq> t_name sample_task" by code_simp
  have 4: "a_fromisoformat reading_app (isoformat_utc (secs 2000)) = Some (secs 2000)" by (simp add: iso reading_app_def)
  have 5: "\<forall>x. Some x \<in> {t_last_successful_run sample_task, t_last_failed_run sample_task} \<longrightarrow>
      a_fromisoformat reading_app (str_of_datetime x) = Some x" by (simp add: sample_task_def)
  have 6: "case fst (case task_save reading_app True True (read_back sample_task (secs 2000)) sample_app_mem of
         (_, Inl e, s3) \<Rightarrow> (Inl e, s3)
       | (t3, Inr _, s3) \<Rightarrow>
           and_then (task_str reading_app t3 s3) (\<lambda>_ s4.
           and_then (add_each reading_app (t_id t3) (map add_arg (t_callable_args sample_task)
             @ map add_kwarg (t_callable_kwargs sample_task)) s4) (\<lambda>_ s5. (Inr (Some t3), s5)))) of
      Inr (Some t) \<Rightarrow> t_name t = ''t'' \<and> t_scheduled_time t = Some (secs 2000) | _ \<Rightarrow> False" by code_simp
  from exported_task_imported [OF 1 2 3 4 5, of True] 6 show ?thesis by (elim exE conjE, intro exI conjI) (assumption, simp only:)
qed

section \<open>Time limits\<close>

text \<open>
  C35.  A block run under a time limit in the main thread has an alarm set to that many seconds;
  however the block ends, its outcome stands and neither the alarm nor its handler is left behind.  A
  limit that does not fit a C integer is an error, and the block does not run.
\<close>

theorem penalty_removed:
  assumes "al_main_thread al" "0 < timeout" and "\<And>a s. al_main_thread (fst (body a s)) = al_main_thread a"
  shows "if timeout < 2 ^ 31
    then al_pending (armed timeout al) = Some timeout \<and> al_handler (armed timeout al) = RaiseTimeout timeout \<and>
      disarmed (fst (with_signal_penalty timeout body al s)) \<and>
      snd (with_signal_penalty timeout body al s) = snd (body (armed timeout al) s)
    else snd (with_signal_penalty timeout body al s) = (Inl OverflowError, s)"
proof (cases "timeout < 2 ^ 31")
  case True
  have "al_main_thread (fst (body (armed timeout al) s))" using assms(1,3) by (simp add: armed_def)
  moreover have "- (2 ^ 31) \<le> timeout" using assms(2) by simp
  ultimately show ?thesis
    using assms(1,2) True with_signal_penalty_disarms [of al timeout body s] by (simp add: armed_def mod_pos_pos_trivial)
qed (use with_signal_penalty_too_long [OF assms(1), of timeout body s] in simp)

theorem penalty_removed_witness:
  "disarmed (fst (with_signal_penalty 180 (\<lambda>a s. (a, (Inl JobTimeoutException :: unit result), s))
     \<lparr> al_main_thread = True, al_pending = None, al_handler = SIG_DFL \<rparr> ()))"
  using penalty_removed [of "\<lparr> al_main_thread = True, al_pending = None, al_handler = SIG_DFL \<rparr>" 180
     "\<lambda>a s. (a, (Inl JobTimeoutException :: unit result), s)" "()"] by simp

end
