(* ===== verification/Dates.thy ===== *)
theory Dates
  imports PlannerModels
begin

text \<open>
  Dates and their ordinals: \<open>fromordinal\<close> and \<open>toordinal\<close> are inverse on the dates \<open>datetime\<close> can represent,
  the months of a year follow one another, and dates and times read back from the text they are printed as.
\<close>

section \<open>The year of an ordinal\<close>

definition cycles :: "int \<Rightarrow> int \<Rightarrow> int \<Rightarrow> int \<Rightarrow> int"
  \<comment> \<open>the year after so many cycles of 400, 100 and 4 years and single years\<close>
  where "cycles n400 n100 n4 n1 = 400 * n400 + 100 * n100 + 4 * n4 + n1"

lemma cycles_div:
  assumes "0 \<le> n100" "n100 \<le> 3" "0 \<le> n4" "n4 \<le> 24" "0 \<le> n1" "n1 \<le> 3"
  shows "cycles n400 n100 n4 n1 div 4 = 100 * n400 + 25 * n100 + n4"
    "cycles n400 n100 n4 n1 div 100 = 4 * n400 + n100" "cycles n400 n100 n4 n1 div 400 = n400"
  unfolding cycles_def
    subgoal by (rule int_div_pos_eq [where r = n1]) (use assms in simp_all)
    subgoal by (rule int_div_pos_eq [where r = "4 * n4 + n1"]) (use assms in simp_all)
    subgoal by (rule int_div_pos_eq [where r = "100 * n100 + 4 * n4 + n1"]) (use assms in simp_all)
  done

lemma before_cycles:
  assumes "0 \<le> n100" "n100 \<le> 3" "0 \<le> n4" "n4 \<le> 24" "0 \<le> n1" "n1 \<le> 3"
  shows "days_before_year (cycles n400 n100 n4 n1 + 1) = 146097 * n400 + 36524 * n100 + 1461 * n4 + 365 * n1"
  unfolding days_before_year_def Let_def add_diff_cancel_right' cycles_div [OF assms]
  by (simp add: cycles_def)

lemma before_400: "days_before_year (400 * k + 1) = 146097 * k"
  using before_cycles [of 0 0 0 k] by (simp add: cycles_def)

lemma year_mono: "days_before_year y < days_before_year (y + 1)"
  using year_length [of y] by (simp split: if_splits)

lemma year_mono_le: "0 \<le> k \<Longrightarrow> days_before_year y \<le> days_before_year (y + k)"
proof (induction k rule: int_ge_induct)
  case (step k)
  then show ?case using year_mono [of "y + k"] by (simp add: algebra_simps)
qed simp

lemma year_strict_mono: "y < z \<Longrightarrow> days_before_year (y + 1) \<le> days_before_year z"
  using year_mono_le [of "z - (y + 1)" "y + 1"] by simp

section \<open>The month of a day of the year\<close>

lemma month_found:
  assumes "0 \<le> d" "d < days_before_year (y + 1) - days_before_year y"
  defines "m \<equiv> int (length (filter (\<lambda>m. days_before_month y m \<le> d) [1 .. 12]))"
  shows "1 \<le> m \<and> m \<le> 12 \<and> days_before_month y m \<le> d \<and> d < days_before_month y m + days_in_month y m"
proof -
  have twelve: "[1 .. 12] = [1, 2, 3, 4, 5, 6, 7, 8, 9, 10, 11, 12 :: int]" by (simp add: upto_rec_numeral upto.simps)
  have "d < (if is_leap y then 366 else 365)" using assms(2) year_length [of y] by simp
  then show ?thesis
    using assms(1) unfolding m_def twelve
    by (cases "is_leap y") (simp_all add: days_before_month_def month_starts_def days_in_month_def)
qed

section \<open>The date of an ordinal\<close>

lemma month_found_eq:
  assumes "days_before_year y < n" "n \<le> days_before_year (y + 1)" "d = n - 1 - days_before_year y"
    "m = int (length (filter (\<lambda>m. days_before_month y m \<le> d) [1 .. 12]))"
  shows "toordinal (YMD y m (d - days_before_month y m + 1)) = n"
    "1 \<le> m \<and> m \<le> 12 \<and> 1 \<le> d - days_before_month y m + 1 \<and> d - days_before_month y m + 1 \<le> days_in_month y m"
  using month_found [of d y] assms by (auto simp: toordinal_def)

lemma quotient:
  fixes x :: int
  shows "q = x div k \<Longrightarrow> r = x mod k \<Longrightarrow> x = k * q + r" "0 < k \<Longrightarrow> r = x mod k \<Longrightarrow> 0 \<le> r" "0 < k \<Longrightarrow> r = x mod k \<Longrightarrow> r < k"
  by (simp_all only: mult_div_mod_eq pos_mod_sign pos_mod_bound)

text \<open>The last day of a leap year ends its cycle: there the quotients point to the year after.\<close>

lemma fromordinal_toordinal:
  shows "toordinal (fromordinal n) = n \<and> 1 \<le> y_month (fromordinal n) \<and> y_month (fromordinal n) \<le> 12
    \<and> 1 \<le> y_day (fromordinal n) \<and> y_day (fromordinal n) \<le> days_in_month (y_year (fromordinal n)) (y_month (fromordinal n))"
    (is ?good)
    and "1 \<le> n \<Longrightarrow> n \<le> max_ordinal \<Longrightarrow> 1 \<le> y_year (fromordinal n) \<and> y_year (fromordinal n) \<le> 9999" (is "_ \<Longrightarrow> _ \<Longrightarrow> ?year")
proof -
  define n400 where n400: "n400 = (n - 1) div 146097"
  define a where a: "a = (n - 1) mod 146097"
  define n100 where n100_eq: "n100 = a div 36524"
  define b where b: "b = a mod 36524"
  define n4 where n4_eq: "n4 = b div 1461"
  define c where c: "c = b mod 1461"
  define n1 where n1_eq: "n1 = c div 365"
  define d where d_eq: "d = c mod 365"
  note defs = n400 a n100_eq b n4_eq c n1_eq d_eq
  have eqs: "n - 1 = 146097 * n400 + a" "a = 36524 * n100 + b" "b = 1461 * n4 + c" "c = 365 * n1 + d"
    "0 \<le> a" "a < 146097" "0 \<le> b" "b < 36524" "0 \<le> c" "c < 1461" "0 \<le> d" "d < 365"
    by (rule quotient(1) [OF defs(1,2)], rule quotient(1) [OF defs(3,4)], rule quotient(1) [OF defs(5,6)],
        rule quotient(1) [OF defs(7,8)], (rule quotient(2,3) [OF _ defs(2)] quotient(2,3) [OF _ defs(4)]
          quotient(2,3) [OF _ defs(6)] quotient(2,3) [OF _ defs(8)], simp)+)
  have n100: "0 \<le> n100" "n100 \<le> 4" and n4: "0 \<le> n4" "n4 \<le> 24" and n1: "0 \<le> n1" "n1 \<le> 4" using eqs by linarith+
  define y where "y = cycles n400 n100 n4 n1 + 1"
  have ford: "fromordinal n =
    (if n1 = 4 \<or> n100 = 4 then YMD (y - 1) 12 31
     else (let m = int (length (filter (\<lambda>m. days_before_month y m \<le> d) [1 .. 12])) in YMD y m (d - days_before_month y m + 1)))"
    unfolding fromordinal_def Let_def defs [symmetric] y_def cycles_def by (simp add: algebra_simps)
  have last: "toordinal (YMD (y - 1) 12 31) = days_before_year y" using december [of "y - 1"] by (simp add: toordinal_def)
  show ?good
  proof (cases "n1 = 4 \<or> n100 = 4")
    case True
    have "days_before_year y = n"
    proof (cases "n100 = 4")
      case True
      then have "n4 = 0" "n1 = 0" "a = 146096" using eqs n4 n1 by linarith+
      then have "y = 400 * (n400 + 1) + 1" using True by (simp add: y_def cycles_def)
      then show ?thesis using before_400 [of "n400 + 1"] eqs(1) \<open>a = 146096\<close> by simp
    next
      case False
      with True have n14: "n1 = 4" by simp
      then have bounds: "n100 \<le> 3" "c = 1460" "n4 + 1 \<le> 24" using eqs n100 False by linarith+
      have "y = cycles n400 n100 (n4 + 1) 0 + 1" using n14 by (simp add: y_def cycles_def)
      then show ?thesis using before_cycles [of n100 "n4 + 1" 0 n400] bounds n100 n4 eqs by simp
    qed
    with True show ?thesis by (simp add: ford last days_in_month_def)
  next
    case False
    then have "days_before_year y = 146097 * n400 + 36524 * n100 + 1461 * n4 + 365 * n1"
      unfolding y_def using n100 n4 n1 by (intro before_cycles) auto
    then have d: "d = n - 1 - days_before_year y" using eqs by linarith
    have "days_before_year y < n" "n \<le> days_before_year (y + 1)"
      using d eqs(11,12) year_length [of y] by (auto split: if_splits)
    from month_found_eq [OF this d refl] False show ?thesis by (simp add: ford Let_def)
  qed
  show ?year if "1 \<le> n" "n \<le> max_ordinal"
  proof -
    have up: "n - 1 \<le> 3652058" using that(2) by (simp add: max_ordinal_def)
    have "0 \<le> n400" using that(1) eqs by linarith
    then have low: "0 \<le> cycles n400 n100 n4 n1" using n100 n4 n1 by (simp add: cycles_def)
    have "n400 \<le> 24" using up eqs by linarith
    have high: "cycles n400 n100 n4 n1 \<le> 9998"
    proof (cases "n400 = 24")
      case True
      then have "a \<le> 145730" using up eqs(1) by linarith
      then have "n100 \<le> 3" using eqs by linarith
      show ?thesis
      proof (cases "n100 = 3")
        case True
        then have "b \<le> 36158" using \<open>a \<le> 145730\<close> eqs by linarith
        show ?thesis
        proof (cases "n4 = 24")
          case n4: True
          then have "n1 \<le> 2" using \<open>b \<le> 36158\<close> eqs by linarith
          then show ?thesis using True n4 \<open>n400 = 24\<close> by (simp add: cycles_def)
        qed (use True n1 n4 \<open>n400 = 24\<close> in \<open>simp add: cycles_def\<close>)
      qed (use n1 n4 \<open>n100 \<le> 3\<close> \<open>n400 = 24\<close> in \<open>simp add: cycles_def\<close>)
    qed (use n100 n1 n4 \<open>n400 \<le> 24\<close> in \<open>simp add: cycles_def\<close>)
    show ?year
    proof (cases "n1 = 4 \<or> n100 = 4")
      case True
      then have "1 \<le> cycles n400 n100 n4 n1" using \<open>0 \<le> n400\<close> n100 n4 n1 by (auto simp: cycles_def)
      with True high show ?thesis by (simp add: ford y_def)
    qed (use low high in \<open>simp add: ford y_def Let_def\<close>)
  qed
qed

section \<open>The ordinal of a date\<close>

lemma month_within:
  assumes "1 \<le> m" "m \<le> 12"
  shows "0 \<le> days_before_month y m"
    "days_before_month y m + days_in_month y m \<le> days_before_year (y + 1) - days_before_year y"
  using month_cases [OF assms] year_length [of y]
  by (auto simp: days_before_month_def month_starts_def days_in_month_def split: if_splits)

lemma month_mono_le: "0 \<le> k \<Longrightarrow> 1 \<le> m \<Longrightarrow> m + k \<le> 12 \<Longrightarrow> days_before_month y m \<le> days_before_month y (m + k)"
proof (induction k rule: int_ge_induct)
  case (step k)
  then show ?case using days_before_month_Suc [of "m + k" y] days_in_month_pos(1) [of y "m + k"]
    by (simp add: algebra_simps)
qed simp

lemma month_strict_mono:
  "1 \<le> m \<Longrightarrow> m < m' \<Longrightarrow> m' \<le> 12 \<Longrightarrow> days_before_month y m + days_in_month y m \<le> days_before_month y m'"
  using month_mono_le [of "m' - (m + 1)" "m + 1" y] days_before_month_Suc [of m y] by simp

definition month_day :: "int \<Rightarrow> int \<Rightarrow> int \<Rightarrow> bool"
  where "month_day y m d \<longleftrightarrow> 1 \<le> m \<and> m \<le> 12 \<and> 1 \<le> d \<and> d \<le> days_in_month y m"

lemma toordinal_within:
  "month_day y m d \<Longrightarrow> days_before_year y < toordinal (YMD y m d) \<and> toordinal (YMD y m d) \<le> days_before_year (y + 1)"
  using month_within [of m y] by (auto simp: toordinal_def month_day_def)

lemma toordinal_inj:
  assumes v: "month_day y m d" "month_day y' m' d'" and eq: "toordinal (YMD y m d) = toordinal (YMD y' m' d')"
  shows "YMD y m d = YMD y' m' d'"
proof -
  have y: "y = y'"
    using toordinal_within [OF v(1)] toordinal_within [OF v(2)] year_strict_mono [of y y'] year_strict_mono [of y' y] eq
    by linarith
  with eq have e: "days_before_month y m + d = days_before_month y m' + d'" by (simp add: toordinal_def)
  have m: "m = m'"
  proof (rule ccontr)
    assume "m \<noteq> m'"
    then consider "m < m'" | "m' < m" by linarith
    then show False
    proof cases
      case 1
      then show ?thesis using month_strict_mono [of m m' y] v y e by (auto simp: month_day_def)
    next
      case 2
      then show ?thesis using month_strict_mono [of m' m y] v y e by (auto simp: month_day_def)
    qed
  qed
  with e y show ?thesis by simp
qed

lemma fromordinal_of [simp]: "month_day y m d \<Longrightarrow> fromordinal (toordinal (YMD y m d)) = YMD y m d"
proof -
  assume v: "month_day y m d"
  obtain y' m' d' where x: "fromordinal (toordinal (YMD y m d)) = YMD y' m' d'" by (cases "fromordinal (toordinal (YMD y m d))")
  have "YMD y' m' d' = YMD y m d"
    using fromordinal_toordinal(1) [of "toordinal (YMD y m d)"] x v by (intro toordinal_inj) (auto simp: month_day_def)
  with x show ?thesis by simp
qed

lemma valid_month_day: "valid_date y m d \<longleftrightarrow> 1 \<le> y \<and> y \<le> 9999 \<and> month_day y m d"
  by (auto simp: valid_date_def month_day_def)

lemma days_before_year_1: "days_before_year 1 = 0" by (simp add: days_before_year_def)

lemma days_before_year_10000: "days_before_year 10000 = max_ordinal"
  by (simp add: days_before_year_def max_ordinal_def Let_def)

lemma toordinal_range: "valid_date y m d \<Longrightarrow> 1 \<le> toordinal (YMD y m d) \<and> toordinal (YMD y m d) \<le> max_ordinal"
  using toordinal_within [of y m d] year_mono_le [of "y - 1" 1] year_mono_le [of "9999 - y" "y + 1"]
  by (auto simp: valid_month_day days_before_year_1 days_before_year_10000)

lemma fromordinal_valid:
  assumes "1 \<le> n" "n \<le> max_ordinal" "fromordinal n = YMD y m d"
  shows "valid_date y m d" "toordinal (YMD y m d) = n"
  using fromordinal_toordinal [of n] assms by (auto simp: valid_date_def)

lemma weekday_mod: "weekday n = (n - 1) mod 7"
  using mod_add_self2 [of "n - 1" 7] by (simp add: weekday_def add.commute)

lemma monday_before: "1 \<le> n \<Longrightarrow> 1 \<le> n - weekday n"
  unfolding weekday_mod using zmod_le_nonneg_dividend [of "n - 1" 7] by linarith

lemma weekday_monday: "weekday (n - weekday n) = 0"
proof -
  have "n - (n - 1) mod 7 - 1 = 7 * ((n - 1) div 7)" using minus_mod_eq_mult_div [of "n - 1" 7] by linarith
  then show ?thesis unfolding weekday_mod by simp
qed

lemma weekday_add: "weekday (n + k) = (weekday n + k) mod 7"
  using mod_add_left_eq [of "n - 1" 7 k] by (simp add: weekday_mod diff_add_eq)

lemma shift_date_monday: "1 \<le> n \<Longrightarrow> n \<le> max_ordinal \<Longrightarrow> shift_date n (- weekday n) = Inr (n - weekday n)"
  using monday_before [of n] weekday_bounds [of n] by (simp add: shift_date_def)

section \<open>Text\<close>

lemma more_digits_zeros: "more_digits 0 (replicate k (CHR ''0'') @ xs) = more_digits 0 xs"
  by (induction k) (simp_all add: is_digit_def digit_val_def)

lemma read_zeros: "xs \<noteq> [] \<Longrightarrow> list_all is_digit xs \<Longrightarrow> read_digits (replicate k (CHR ''0'') @ xs) = read_digits xs"
proof (cases k)
  case (Suc j)
  assume "xs \<noteq> []" "list_all is_digit xs"
  then show ?thesis
    using Suc by (cases xs) (simp_all add: read_digits_def is_digit_def digit_val_def more_digits_zeros [simplified])
qed simp

lemma dec_digits_length: "n < 10 ^ k \<Longrightarrow> 0 < k \<Longrightarrow> length (dec_digits n) \<le> k"
proof (induction n arbitrary: k rule: dec_digits.induct)
  case (1 n)
  show ?case
  proof (cases "n < 10")
    case True
    then show ?thesis using 1(3) by (simp add: dec_digits.simps [of n])
  next
    case False
    obtain j where k: "k = Suc j" using 1(3) by (cases k) auto
    have "n div 10 < 10 ^ j" using 1(2) k by (simp add: less_mult_imp_div_less mult.commute)
    moreover have "0 < j" using \<open>n div 10 < 10 ^ j\<close> False by (cases j) auto
    ultimately have "length (dec_digits (n div 10)) \<le> j" using 1(1) [OF False] by blast
    then show ?thesis using False k by (simp add: dec_digits.simps [of n])
  qed
qed

lemma pad_number:
  assumes "0 \<le> i" "i < 10 ^ n" "0 < n"
  shows "length (pad n i) = n" "list_all is_digit (pad n i)" "short_number n (pad n i) = Some i"
proof -
  have len: "length (dec_digits (nat i)) \<le> n"
    by (rule dec_digits_length) (use assms in \<open>auto simp: nat_less_iff\<close>)
  have p: "pad n i = replicate (n - length (dec_digits (nat i))) (CHR ''0'') @ dec_digits (nat i)"
    using assms(1) by (simp add: pad_def str_of_int_def Let_def)
  show l: "length (pad n i) = n" and d: "list_all is_digit (pad n i)"
    using len dec_digits_all [of "nat i"] by (auto simp: p list_all_iff is_digit_def)
  have "read_digits (pad n i) = Some (nat i)"
    unfolding p by (subst read_zeros) (simp_all add: dec_digits_all dec_digits_nonempty read_dec_digits)
  then show "short_number n (pad n i) = Some i"
    using assms(1,3) l d by (auto simp: short_number_def)
qed

lemma py_split_at: "sep \<notin> set a \<Longrightarrow> py_split sep (a @ sep # b) = a # py_split sep b"
  by (induction a) auto

lemma py_split_none: "sep \<notin> set a \<Longrightarrow> py_split sep a = [a]"
  by (induction a) auto

lemma not_in_digits: "list_all is_digit xs \<Longrightarrow> \<not> is_digit c \<Longrightarrow> c \<notin> set xs"
  by (auto simp: list_all_iff)

lemma parse_format_hhmm:
  assumes "valid_clock_time t" shows "parse_hhmm (VStr (format_hhmm t)) = Inr (t - t mod 60000000)"
proof -
  define h m where hm: "h = t div 3600000000" "m = t div 60000000 mod 60"
  have h: "0 \<le> h" "h < 24" and m: "0 \<le> m" "m < 60" and t: "h * 3600000000 + minutes m = t - t mod 60000000"
  proof -
    define q where q: "q = t div 60000000"
    have "h = q div 60" unfolding hm q using zdiv_zmult2_eq [of 60 t 60000000] by simp
    then have qe: "q = 60 * h + m" unfolding hm q by simp
    have te: "t = 60000000 * q + t mod 60000000" unfolding q by simp
    have "0 \<le> q" "q < 1440" using assms te pos_mod_bound [of 60000000 t] pos_mod_sign [of 60000000 t]
      unfolding valid_clock_time_def day_micros_def by linarith+
    moreover show "0 \<le> m" "m < 60" unfolding hm by simp_all
    ultimately show "0 \<le> h" "h < 24" using qe by linarith+
    show "h * 3600000000 + minutes m = t - t mod 60000000" using te qe by (simp add: minutes_def)
  qed
  note ph = pad_number [of h 2] and pm = pad_number [of m 2]
  have "py_split (CHR '':'') (format_hhmm t) = [pad 2 h, pad 2 m]"
    using ph(2) pm(2) h m not_in_digits [of _ "CHR '':''"]
    by (simp add: format_hhmm_def flip: hm) (simp add: py_split_at py_split_none is_digit_def)
  then show ?thesis using ph(3) pm(3) h m t by (simp add: parse_hhmm_def)
qed

lemma parse_date_iso:
  assumes "1 \<le> n" "n \<le> max_ordinal" shows "parse_date (VStr (date_iso n)) = Inr n"
proof -
  obtain y m d where x: "fromordinal n = YMD y m d" by (cases "fromordinal n")
  note valid = fromordinal_valid [OF assms x]
  have y: "0 \<le> y" "y < 10000" and m: "0 \<le> m" "m < 100" and d: "0 \<le> d" "d < 100"
    using valid(1) days_in_month_pos(2) [of y m] by (auto simp: valid_date_def)
  note py = pad_number [of y 4] and pm = pad_number [of m 2] and pd = pad_number [of d 2]
  have "py_split (CHR ''-'') (date_iso n) = [pad 4 y, pad 2 m, pad 2 d]"
    using py(2) pm(2) pd(2) y m d not_in_digits [of _ "CHR ''-''"]
    by (simp add: date_iso_def x) (simp add: py_split_at py_split_none is_digit_def)
  moreover have "day_number (pad 2 d) = Some d"
  proof -
    obtain a b where ab: "pad 2 d = [a, b]" using pd(1) d by (auto simp: length_Suc_conv numeral_2_eq_2)
    then have "a \<noteq> CHR '' ''" using pd(2) d by (auto simp: is_digit_def)
    then show ?thesis using ab pd(3) d by (simp add: day_number_def)
  qed
  ultimately show ?thesis using py pm(3) y m valid by (simp add: parse_date_def date_of_def)
qed

end
