(* ===== verification/PlannerDb.thy ===== *)
theory PlannerDb
  imports PlannerModels
begin

text \<open>
  What the planner's views rely on: that each of their tables is a table, that an operation on one table
  leaves the others as they are, and that reading the clock changes none; and, from it, what creating rows
  and deleting them with all that refers to them does.  The invariant \<open>planner_ok\<close> is what the foreign keys
  and the unique constraints of \<open>scheduler/models/personal_task.py\<close> ask of the rows.  The last part is a
  database in memory that meets the contract.
\<close>

section \<open>A table as a part of the database\<close>

locale viewed_table = table T rid with_id
  for T :: "('s, 'r) db_table" and rid with_id +
  fixes view :: "'s \<Rightarrow> 'w" and get :: "'w \<Rightarrow> 'r list" and put :: "'r list \<Rightarrow> 'w \<Rightarrow> 'w"
  assumes get_put: "get (put xs w) = xs"
    and put_put: "put xs (put ys w) = put xs w"
    and put_get: "put (get w) w = w"
    and rows_view: "tb_rows T s = get (view s)"
    and save_view: "view (snd (tb_save T r s)) = put (get (view (snd (tb_save T r s)))) (view s)"
    and delete_view: "view (tb_delete T r s) = put (get (view (tb_delete T r s))) (view s)"
begin

lemma create_row:
  assumes "rid r = None"
  obtains i s1 where "create T r s = (with_id i r, s1)" "Some i \<notin> rid ` set (get (view s))"
    "view s1 = put (get (view s) @ [with_id i r]) (view s)"
proof -
  from save_new [of r s] assms obtain i where
    "Some i \<notin> rid ` set (tb_rows T s)" "fst (tb_save T r s) = with_id i r"
    "tb_rows T (snd (tb_save T r s)) = tb_rows T s @ [with_id i r]" by blast
  then show ?thesis
    using that [of i "snd (tb_save T r s)"] save_view [of r s] by (simp add: create_def rows_view prod_eq_iff)
qed

lemma save_row:
  assumes "rid r \<in> rid ` set (get (view s))"
  shows "fst (tb_save T r s) = r"
    "view (snd (tb_save T r s)) = put (map (\<lambda>x. if rid x = rid r then r else x) (get (view s))) (view s)"
  using save_known [of r s] assms save_view [of r s] by (simp_all add: rows_view)

lemma delete_row: "view (tb_delete T r s) = put (filter (\<lambda>x. rid x \<noteq> rid r) (get (view s))) (view s)"
  using delete_view [of r s] delete_rows [of r s] by (simp add: rows_view)

lemma delete_folded:
  "view (fold (tb_delete T) rs s) = put (filter (\<lambda>x. rid x \<notin> rid ` set rs) (get (view s))) (view s)"
  by (induction rs arbitrary: s)
    (auto simp: delete_row get_put put_put put_get filter_filter intro!: arg_cong2 [where f = put] filter_cong)

lemma deleted: "view (PlannerModels.delete_rows T C s) = put (filter (\<lambda>x. \<not> C x) (get (view s))) (view s)"
proof -
  have "rid x \<in> rid ` set (filter C (get (view s))) \<longleftrightarrow> C x" if "x \<in> set (get (view s))" for x
    using that rows_distinct [of s] by (auto simp: rows_view distinct_map dest: inj_onD)
  then show ?thesis
    by (simp add: PlannerModels.delete_rows_def delete_folded rows_view cong: filter_cong)
qed

lemma got: "get_by_id rid T i s = Some r \<Longrightarrow> r \<in> set (get (view s)) \<and> rid r = Some i"
  by (auto simp: get_by_id_def rows_view find_Some_iff)

lemma got_none: "get_by_id rid T i s = None \<longleftrightarrow> Some i \<notin> rid ` set (get (view s))"
  by (auto simp: get_by_id_def rows_view find_None_iff image_iff) (metis+)?

end

section \<open>The planner's database\<close>

record planner_rows =
  w_tasks :: "personal_task list"
  w_subtasks :: "subtask list"
  w_completions :: "task_completion list"
  w_prayers :: "prayer_schedule list"
  w_prayer_completions :: "prayer_completion list"
  w_projects :: "project list"
  w_project_tasks :: "project_task list"
  w_schedules :: "project_schedule list"

locale planner =
  tasks: viewed_table "p_tasks P" pt_id "\<lambda>i r. r\<lparr>pt_id := Some i\<rparr>" view w_tasks "\<lambda>xs w. w\<lparr>w_tasks := xs\<rparr>" +
  subtasks: viewed_table "p_subtasks P" sb_id "\<lambda>i r. r\<lparr>sb_id := Some i\<rparr>" view w_subtasks "\<lambda>xs w. w\<lparr>w_subtasks := xs\<rparr>" +
  completions: viewed_table "p_completions P" tc_id "\<lambda>i r. r\<lparr>tc_id := Some i\<rparr>" view w_completions
    "\<lambda>xs w. w\<lparr>w_completions := xs\<rparr>" +
  prayers: viewed_table "p_prayers P" ps_id "\<lambda>i r. r\<lparr>ps_id := Some i\<rparr>" view w_prayers "\<lambda>xs w. w\<lparr>w_prayers := xs\<rparr>" +
  prayer_completions: viewed_table "p_prayer_completions P" pc_id "\<lambda>i r. r\<lparr>pc_id := Some i\<rparr>" view w_prayer_completions
    "\<lambda>xs w. w\<lparr>w_prayer_completions := xs\<rparr>" +
  projects: viewed_table "p_projects P" pj_id "\<lambda>i r. r\<lparr>pj_id := Some i\<rparr>" view w_projects "\<lambda>xs w. w\<lparr>w_projects := xs\<rparr>" +
  project_tasks: viewed_table "p_project_tasks P" jt_id "\<lambda>i r. r\<lparr>jt_id := Some i\<rparr>" view w_project_tasks
    "\<lambda>xs w. w\<lparr>w_project_tasks := xs\<rparr>" +
  schedules: viewed_table "p_schedules P" js_id "\<lambda>i r. r\<lparr>js_id := Some i\<rparr>" view w_schedules "\<lambda>xs w. w\<lparr>w_schedules := xs\<rparr>"
  for P :: "('s, 'x) planner_scheme" and view :: "'s \<Rightarrow> planner_rows" +
  assumes clock_view: "view (snd (p_now P s)) = view s"
    and text_kept: "p_text P (VStr t) = Inr u \<Longrightarrow> u = t"

section \<open>Foreign keys and unique constraints\<close>

definition refs_ok :: "planner_rows \<Rightarrow> bool"
  \<comment> \<open>no row refers to a row that is not there\<close>
  where "refs_ok w \<longleftrightarrow>
    (\<forall>b\<in>set (w_subtasks w). Some (sb_personal_task b) \<in> pt_id ` set (w_tasks w)) \<and>
    (\<forall>c\<in>set (w_completions w). Some (tc_task c) \<in> pt_id ` set (w_tasks w)) \<and>
    (\<forall>t\<in>set (w_tasks w). pt_parent_task t = None \<or> pt_parent_task t \<in> pt_id ` set (w_tasks w)) \<and>
    (\<forall>t\<in>set (w_project_tasks w). Some (jt_project t) \<in> pj_id ` set (w_projects w)) \<and>
    (\<forall>c\<in>set (w_schedules w). Some (js_project_task c) \<in> jt_id ` set (w_project_tasks w))"

definition unique_ok :: "planner_rows \<Rightarrow> bool"
  \<comment> \<open>\<open>unique\<close> and \<open>unique_together\<close>\<close>
  where "unique_ok w \<longleftrightarrow>
    distinct (map ps_prayer_name (w_prayers w)) \<and>
    distinct (map (\<lambda>c. (pc_prayer_name c, pc_date c)) (w_prayer_completions w)) \<and>
    distinct (map (\<lambda>c. (js_project_task c, js_day_of_week c)) (w_schedules w))"

definition breaks_ok :: "planner_rows \<Rightarrow> bool"
  \<comment> \<open>only breaks belong to another task\<close>
  where "breaks_ok w \<longleftrightarrow> (\<forall>t\<in>set (w_tasks w). pt_is_break t \<or> pt_parent_task t = None)"

definition planner_ok :: "planner_rows \<Rightarrow> bool"
  where "planner_ok w \<longleftrightarrow> refs_ok w \<and> unique_ok w \<and> breaks_ok w"

lemma map_replace: "(\<And>x. x \<in> set xs \<Longrightarrow> g x = k \<Longrightarrow> f x = f r) \<Longrightarrow> map f (map (\<lambda>x. if g x = k then r else x) xs) = map f xs"
  by (simp cong: map_cong)

lemma image_replace: "rid r = k \<Longrightarrow> k \<in> rid ` set xs \<Longrightarrow> rid ` set (map (\<lambda>x. if rid x = k then r else x) xs) = rid ` set xs"
  using map_replace [of xs rid k rid r] by (metis (no_types, lifting) set_map)

section \<open>Deleting with everything that refers to a row\<close>

definition break_step :: "personal_task list \<Rightarrow> int list \<Rightarrow> int list"
  where "break_step ts ids = remdups (ids @ map (\<lambda>t. the (pt_id t))
    (filter (\<lambda>t. pt_id t \<noteq> None \<and> (\<exists>i\<in>set ids. pt_parent_task t = Some i)) ts))"

definition task_ids :: "personal_task list \<Rightarrow> int set"
  where "task_ids ts = set (List.map_filter pt_id ts)"

lemma in_task_ids: "i \<in> task_ids ts \<longleftrightarrow> (\<exists>t\<in>set ts. pt_id t = Some i)"
  by (force simp: task_ids_def List.map_filter_def)

lemma finite_task_ids [simp]: "finite (task_ids ts)"
  by (simp add: task_ids_def)

lemma card_task_ids: "card (task_ids ts) \<le> length ts"
  unfolding task_ids_def
  by (rule order_trans [OF card_length]) (simp add: List.map_filter_def)

lemma break_step_set: "set (break_step ts ids) =
    set ids \<union> {i. \<exists>t\<in>set ts. pt_id t = Some i \<and> (\<exists>p\<in>set ids. pt_parent_task t = Some p)}"
proof -
  have "(\<lambda>t. the (pt_id t)) ` set (filter (\<lambda>t. pt_id t \<noteq> None \<and> (\<exists>i\<in>set ids. pt_parent_task t = Some i)) ts) =
      {i. \<exists>t\<in>set ts. pt_id t = Some i \<and> (\<exists>p\<in>set ids. pt_parent_task t = Some p)}"
    by (auto simp: image_iff) (metis option.sel)
  then show ?thesis by (simp add: break_step_def)
qed

lemma with_breaks_Suc: "with_breaks (Suc n) ts ids = with_breaks n ts (break_step ts ids)"
  by (simp add: break_step_def)

lemma break_step_cong: "set a = set b \<Longrightarrow> set (break_step ts a) = set (break_step ts b)"
  by (simp add: break_step_set)

lemma with_breaks_stable: "set (break_step ts ids) = set ids \<Longrightarrow> set (with_breaks n ts ids) = set ids"
proof (induction n arbitrary: ids)
  case (Suc n)
  have "set (with_breaks n ts (break_step ts ids)) = set (break_step ts ids)"
    by (rule Suc.IH) (use break_step_cong [OF Suc.prems] Suc.prems in simp)
  then show ?case using Suc.prems by (simp only: with_breaks_Suc)
qed simp

lemma with_breaks_closed:
  "card (task_ids ts - set ids) \<le> n \<Longrightarrow> set (break_step ts (with_breaks n ts ids)) = set (with_breaks n ts ids)"
proof (induction n arbitrary: ids)
  case 0
  then have "task_ids ts \<subseteq> set ids" by (simp add: card_eq_0_iff)
  then have "set (break_step ts ids) \<subseteq> set ids" by (auto simp: break_step_set in_task_ids subset_iff)
  then show ?case by (auto simp: break_step_set)
next
  case (Suc n)
  show ?case
  proof (cases "set (break_step ts ids) = set ids")
    case True
    then show ?thesis using with_breaks_stable [OF True, of "Suc n"] break_step_cong by blast
  next
    case False
    then obtain i where "i \<in> set (break_step ts ids)" "i \<notin> set ids" "i \<in> task_ids ts"
      by (auto simp: break_step_set in_task_ids)
    moreover have "set ids \<subseteq> set (break_step ts ids)" by (simp add: break_step_set)
    ultimately have "task_ids ts - set (break_step ts ids) \<subset> task_ids ts - set ids" by blast
    then have "card (task_ids ts - set (break_step ts ids)) < card (task_ids ts - set ids)"
      by (intro psubset_card_mono) auto
    then show ?thesis using Suc.IH [of "break_step ts ids"] Suc.prems unfolding with_breaks_Suc by linarith
  qed
qed

lemma with_breaks_superset: "set ids \<subseteq> set (with_breaks n ts ids)"
proof (induction n arbitrary: ids)
  case (Suc n)
  have "set ids \<subseteq> set (break_step ts ids)" by (simp add: break_step_set)
  then show ?case using Suc.IH [of "break_step ts ids"] unfolding with_breaks_Suc by (rule subset_trans)
qed simp

text \<open>As deep as there are tasks is deep enough: no task that is left has a parent that is gone.\<close>

lemma with_breaks_parents:
  assumes "t \<in> set ts" "pt_id t = Some i" "pt_parent_task t = Some p" "p \<in> set (with_breaks (length ts) ts ids)"
  shows "i \<in> set (with_breaks (length ts) ts ids)"
proof -
  have "card (task_ids ts - set ids) \<le> length ts"
    using card_task_ids [of ts] card_mono [of "task_ids ts" "task_ids ts - set ids"] by fastforce
  from with_breaks_closed [OF this] have "set (break_step ts (with_breaks (length ts) ts ids)) = set (with_breaks (length ts) ts ids)" .
  moreover have "i \<in> set (break_step ts (with_breaks (length ts) ts ids))"
    using assms by (auto simp: break_step_set)
  ultimately show ?thesis by simp
qed

definition tasks_gone :: "personal_task list \<Rightarrow> int list \<Rightarrow> int set"
  where "tasks_gone ts ids = set (with_breaks (length ts) ts ids)"

section \<open>What keeps the constraints\<close>

lemma refs_ok_tasks:
  assumes "refs_ok w" "pt_id ` set (w_tasks w) \<subseteq> pt_id ` set ts"
    "\<And>t. t \<in> set ts \<Longrightarrow> pt_parent_task t = None \<or> pt_parent_task t \<in> pt_id ` set ts"
  shows "refs_ok (w\<lparr>w_tasks := ts\<rparr>)"
  using assms unfolding refs_ok_def by simp blast

lemma refs_ok_subtasks:
  "refs_ok w \<Longrightarrow> (\<And>b. b \<in> set bs \<Longrightarrow> Some (sb_personal_task b) \<in> pt_id ` set (w_tasks w)) \<Longrightarrow> refs_ok (w\<lparr>w_subtasks := bs\<rparr>)"
  by (simp add: refs_ok_def)

lemma refs_ok_completions:
  "refs_ok w \<Longrightarrow> (\<And>c. c \<in> set cs \<Longrightarrow> Some (tc_task c) \<in> pt_id ` set (w_tasks w)) \<Longrightarrow> refs_ok (w\<lparr>w_completions := cs\<rparr>)"
  by (simp add: refs_ok_def)

lemma refs_ok_projects:
  assumes "refs_ok w" "pj_id ` set (w_projects w) \<subseteq> pj_id ` set ps" shows "refs_ok (w\<lparr>w_projects := ps\<rparr>)"
  using assms unfolding refs_ok_def by simp blast

lemma refs_ok_project_tasks:
  assumes "refs_ok w" "jt_id ` set (w_project_tasks w) \<subseteq> jt_id ` set ts"
    "\<And>t. t \<in> set ts \<Longrightarrow> Some (jt_project t) \<in> pj_id ` set (w_projects w)"
  shows "refs_ok (w\<lparr>w_project_tasks := ts\<rparr>)"
  using assms unfolding refs_ok_def by simp blast

lemma refs_ok_schedules:
  "refs_ok w \<Longrightarrow> (\<And>c. c \<in> set cs \<Longrightarrow> Some (js_project_task c) \<in> jt_id ` set (w_project_tasks w)) \<Longrightarrow>
    refs_ok (w\<lparr>w_schedules := cs\<rparr>)"
  by (simp add: refs_ok_def)

lemma refs_ok_prayers [simp]:
  "refs_ok (w\<lparr>w_prayers := ps\<rparr>) = refs_ok w" "refs_ok (w\<lparr>w_prayer_completions := cs\<rparr>) = refs_ok w"
  by (simp_all add: refs_ok_def)

lemma unique_ok_others [simp]:
  "unique_ok (w\<lparr>w_tasks := ts\<rparr>) = unique_ok w" "unique_ok (w\<lparr>w_subtasks := bs\<rparr>) = unique_ok w"
  "unique_ok (w\<lparr>w_completions := cs\<rparr>) = unique_ok w" "unique_ok (w\<lparr>w_projects := ps\<rparr>) = unique_ok w"
  "unique_ok (w\<lparr>w_project_tasks := js\<rparr>) = unique_ok w"
  by (simp_all add: unique_ok_def)

lemma breaks_ok_others [simp]:
  "breaks_ok (w\<lparr>w_subtasks := bs\<rparr>) = breaks_ok w" "breaks_ok (w\<lparr>w_completions := cs\<rparr>) = breaks_ok w"
  "breaks_ok (w\<lparr>w_prayers := ps\<rparr>) = breaks_ok w" "breaks_ok (w\<lparr>w_prayer_completions := qs\<rparr>) = breaks_ok w"
  "breaks_ok (w\<lparr>w_projects := js\<rparr>) = breaks_ok w" "breaks_ok (w\<lparr>w_project_tasks := ks\<rparr>) = breaks_ok w"
  "breaks_ok (w\<lparr>w_schedules := ss\<rparr>) = breaks_ok w"
  by (simp_all add: breaks_ok_def)

lemma refs_ok_cascade:
  assumes ok: "refs_ok w" and saved: "\<And>t. t \<in> set (w_tasks w) \<Longrightarrow> pt_id t \<noteq> None"
  shows "refs_ok (w\<lparr>w_subtasks := filter (\<lambda>b. sb_personal_task b \<notin> tasks_gone (w_tasks w) ids) (w_subtasks w),
      w_completions := filter (\<lambda>c. tc_task c \<notin> tasks_gone (w_tasks w) ids) (w_completions w),
      w_tasks := filter (\<lambda>t. \<forall>i\<in>tasks_gone (w_tasks w) ids. pt_id t \<noteq> Some i) (w_tasks w)\<rparr>)"
proof -
  let ?gone = "tasks_gone (w_tasks w) ids" and ?left = "filter (\<lambda>t. \<forall>i\<in>tasks_gone (w_tasks w) ids. pt_id t \<noteq> Some i) (w_tasks w)"
  have left: "Some i \<in> pt_id ` set ?left" if "Some i \<in> pt_id ` set (w_tasks w)" "i \<notin> ?gone" for i
    using that by force
  have "pt_parent_task t = None \<or> pt_parent_task t \<in> pt_id ` set ?left" if t: "t \<in> set ?left" for t
  proof (cases "pt_parent_task t")
    case (Some p)
    moreover have "t \<in> set (w_tasks w)" using t by simp
    ultimately have "Some p \<in> pt_id ` set (w_tasks w)" using ok unfolding refs_ok_def by (metis option.distinct(1))
    moreover obtain i where i: "pt_id t = Some i" using saved t by fastforce
    then have "p \<notin> ?gone"
      using with_breaks_parents [of t "w_tasks w" i p ids] t Some by (auto simp: tasks_gone_def)
    ultimately show ?thesis using Some left by simp
  qed simp
  with ok left show ?thesis by (simp add: refs_ok_def)
qed

context planner
begin

lemma cascade_tasks_view:
  "view (cascade_tasks P ids s) = (view s)\<lparr>
     w_subtasks := filter (\<lambda>b. sb_personal_task b \<notin> tasks_gone (w_tasks (view s)) ids) (w_subtasks (view s)),
     w_completions := filter (\<lambda>c. tc_task c \<notin> tasks_gone (w_tasks (view s)) ids) (w_completions (view s)),
     w_tasks := filter (\<lambda>t. \<forall>i\<in>tasks_gone (w_tasks (view s)) ids. pt_id t \<noteq> Some i) (w_tasks (view s))\<rparr>"
  by (simp add: cascade_tasks_def tasks_gone_def Let_def tasks.deleted completions.deleted subtasks.deleted tasks.rows_view)

lemma delete_project_tasks_view:
  "view (delete_project_tasks P ids s) = (view s)\<lparr>
     w_schedules := filter (\<lambda>c. js_project_task c \<notin> set ids) (w_schedules (view s)),
     w_project_tasks := filter (\<lambda>t. \<forall>i\<in>set ids. jt_id t \<noteq> Some i) (w_project_tasks (view s))\<rparr>"
  by (simp add: delete_project_tasks_def project_tasks.deleted schedules.deleted)

lemma cascade_project_view:
  "view (cascade_project P i s) =
     (let ids = List.map_filter jt_id (tasks_of_project P i s)
      in (view s)\<lparr>w_schedules := filter (\<lambda>c. js_project_task c \<notin> set ids) (w_schedules (view s)),
           w_project_tasks := filter (\<lambda>t. \<forall>i\<in>set ids. jt_id t \<noteq> Some i) (w_project_tasks (view s)),
           w_projects := filter (\<lambda>p. pj_id p \<noteq> Some i) (w_projects (view s))\<rparr>)"
  by (simp add: cascade_project_def projects.deleted delete_project_tasks_view Let_def)

lemma task_saved: "t \<in> set (w_tasks (view s)) \<Longrightarrow> pt_id t \<noteq> None"
  using tasks.rows_saved [of t s] by (simp add: tasks.rows_view)

lemma project_task_saved: "t \<in> set (w_project_tasks (view s)) \<Longrightarrow> jt_id t \<noteq> None"
  using project_tasks.rows_saved [of t s] by (simp add: project_tasks.rows_view)

lemma cascade_tasks_ok: "planner_ok (view s) \<Longrightarrow> planner_ok (view (cascade_tasks P ids s))"
  unfolding planner_ok_def cascade_tasks_view
  by (auto simp: refs_ok_cascade [OF _ task_saved] simp: breaks_ok_def)

lemma delete_project_tasks_ok:
  assumes "planner_ok (view s)" shows "planner_ok (view (delete_project_tasks P ids s))"
proof -
  have "Some i \<in> jt_id ` set (filter (\<lambda>t. \<forall>i\<in>set ids. jt_id t \<noteq> Some i) (w_project_tasks (view s)))"
    if "Some i \<in> jt_id ` set (w_project_tasks (view s))" "i \<notin> set ids" for i
    using that by force
  then show ?thesis
    using assms by (auto simp: planner_ok_def delete_project_tasks_view refs_ok_def unique_ok_def breaks_ok_def distinct_map_filter)
qed

lemma cascade_project_ok:
  assumes ok: "planner_ok (view s)" shows "planner_ok (view (cascade_project P i s))"
proof -
  let ?ids = "List.map_filter jt_id (tasks_of_project P i s)"
  let ?left = "filter (\<lambda>t. \<forall>i\<in>set ?ids. jt_id t \<noteq> Some i) (w_project_tasks (view s))"
  have kept: "jt_project t \<noteq> i" if "t \<in> set ?left" for t
    using that project_task_saved [of t s]
    by (force simp: tasks_of_project_def List.map_filter_def project_tasks.rows_view)
  have "planner_ok ((view s)\<lparr>w_schedules := filter (\<lambda>c. js_project_task c \<notin> set ?ids) (w_schedules (view s)), w_project_tasks := ?left\<rparr>)"
    using delete_project_tasks_ok [OF ok, of ?ids] by (simp add: delete_project_tasks_view)
  then show ?thesis
    using kept unfolding cascade_project_view Let_def planner_ok_def refs_ok_def unique_ok_def breaks_ok_def
    by (simp add: image_iff) (metis option.inject)
qed

end

section \<open>A database in memory\<close>

record planner_mem = planner_rows +
  pm_clock :: time

definition mem_rows :: "planner_mem \<Rightarrow> planner_rows"
  where "mem_rows m =
    \<lparr> w_tasks = norm_rows pt_id (w_tasks m), w_subtasks = norm_rows sb_id (w_subtasks m),
      w_completions = norm_rows tc_id (w_completions m), w_prayers = norm_rows ps_id (w_prayers m),
      w_prayer_completions = norm_rows pc_id (w_prayer_completions m), w_projects = norm_rows pj_id (w_projects m),
      w_project_tasks = norm_rows jt_id (w_project_tasks m), w_schedules = norm_rows js_id (w_schedules m) \<rparr>"

definition mem_planner :: "planner_mem planner"
  where "mem_planner =
    \<lparr> p_now = (\<lambda>m. (pm_clock m, m)),
      p_tasks = mem_table w_tasks (\<lambda>xs m. m\<lparr>w_tasks := xs\<rparr>) pt_id (\<lambda>i r. r\<lparr>pt_id := Some i\<rparr>),
      p_subtasks = mem_table w_subtasks (\<lambda>xs m. m\<lparr>w_subtasks := xs\<rparr>) sb_id (\<lambda>i r. r\<lparr>sb_id := Some i\<rparr>),
      p_completions = mem_table w_completions (\<lambda>xs m. m\<lparr>w_completions := xs\<rparr>) tc_id (\<lambda>i r. r\<lparr>tc_id := Some i\<rparr>),
      p_prayers = mem_table w_prayers (\<lambda>xs m. m\<lparr>w_prayers := xs\<rparr>) ps_id (\<lambda>i r. r\<lparr>ps_id := Some i\<rparr>),
      p_prayer_completions = mem_table w_prayer_completions (\<lambda>xs m. m\<lparr>w_prayer_completions := xs\<rparr>) pc_id (\<lambda>i r. r\<lparr>pc_id := Some i\<rparr>),
      p_projects = mem_table w_projects (\<lambda>xs m. m\<lparr>w_projects := xs\<rparr>) pj_id (\<lambda>i r. r\<lparr>pj_id := Some i\<rparr>),
      p_project_tasks = mem_table w_project_tasks (\<lambda>xs m. m\<lparr>w_project_tasks := xs\<rparr>) jt_id (\<lambda>i r. r\<lparr>jt_id := Some i\<rparr>),
      p_schedules = mem_table w_schedules (\<lambda>xs m. m\<lparr>w_schedules := xs\<rparr>) js_id (\<lambda>i r. r\<lparr>js_id := Some i\<rparr>),
      p_bool = (\<lambda>v. case v of VBool b \<Rightarrow> Inr b | _ \<Rightarrow> Inl ValidationError),
      p_time = (\<lambda>t. parse_hhmm (VStr t)),
      p_float = (\<lambda>t. case int_of_str t of None \<Rightarrow> Inl ValueError | Some i \<Rightarrow> Inr (of_int i)),
      p_text = (\<lambda>v. case v of VStr t \<Rightarrow> Inr t | _ \<Rightarrow> Inl IntegrityError),
      p_order = (\<lambda>v. case v of VInt i \<Rightarrow> if 0 \<le> i then Inr i else Inl IntegrityError | _ \<Rightarrow> Inl TypeError),
      p_key = (\<lambda>v. case v of VInt i \<Rightarrow> Inr (Some i) | VNone \<Rightarrow> Inr None | _ \<Rightarrow> Inl TypeError),
      p_repr = (\<lambda>_. ''...''), p_loads = (\<lambda>t. if t = ''[]'' then Some (VList []) else None), p_str = (\<lambda>_. ''error'') \<rparr>"

lemma viewed_table_mem:
  assumes "\<And>xs m. rows (put xs m) = xs" "\<And>i r. rid (with_id i r) = Some i"
    "\<And>xs w. get (vput xs w) = xs" "\<And>xs ys w. vput xs (vput ys w) = vput xs w" "\<And>w. vput (get w) w = w"
    "\<And>m. get (mem_rows m) = norm_rows rid (rows m)" "\<And>xs m. mem_rows (put xs m) = vput (norm_rows rid xs) (mem_rows m)"
  shows "viewed_table (mem_table rows put rid with_id) rid with_id mem_rows get vput"
proof (intro viewed_table.intro viewed_table_axioms.intro)
  show "table (mem_table rows put rid with_id) rid with_id" by (rule table_mem_table) (use assms in auto)
qed (auto simp: assms mem_table_def Let_def)

interpretation mem_planner: planner mem_planner mem_rows
proof (intro planner.intro planner_axioms.intro)
  show "viewed_table (p_tasks mem_planner) pt_id (\<lambda>i r. r\<lparr>pt_id := Some i\<rparr>) mem_rows w_tasks (\<lambda>xs w. w\<lparr>w_tasks := xs\<rparr>)"
    unfolding mem_planner_def by simp (rule viewed_table_mem; simp add: mem_rows_def)
qed (simp_all add: mem_planner_def viewed_table_mem mem_rows_def split: sum.splits pyval.splits)

end
