(* ===== verification/Personal.thy ===== *)
theory Personal
  imports PlannerModels
begin

text \<open>
  \<open>scheduler/views/personal_task_views.py\<close> and the form of \<open>scheduler/forms.py\<close>: the calendar, the day's
  timeline, creating, editing, completing, deleting and copying personal tasks and their subtasks, and
  the breaks inserted after long tasks.  Cleaning a form's fields is Django's: a form is given by the
  values of the fields that are valid.
\<close>

section \<open>Breaks\<close>

definition BREAK_TITLE :: string
  where "BREAK_TITLE = [CHR 0xF0, CHR 0x9F, CHR 0x94, CHR 0x94] @ '' Break''"

definition overlaps :: "personal_task \<Rightarrow> clock_time \<Rightarrow> clock_time \<Rightarrow> bool"
  \<comment> \<open>\<open>start_time__lt=end, end_time__gt=start\<close>\<close>
  where "overlaps t start end_time \<longleftrightarrow> pt_start_time t < end_time \<and> pt_end_time t > start"

definition break_for :: "personal_task \<Rightarrow> clock_time \<Rightarrow> personal_task"
  where "break_for t break_end_time =
    \<lparr> pt_id = None, pt_title = BREAK_TITLE, pt_description = Some ''Auto-inserted break to prevent burnout'',
      pt_date = pt_date t, pt_start_time = pt_end_time t, pt_end_time = break_end_time, pt_category = FUN,
      pt_is_completed = False, pt_is_break = True, pt_parent_task = pt_id t \<rparr>"

definition long_task :: "personal_task \<Rightarrow> bool"
  where "long_task t \<longleftrightarrow> \<not> pt_is_break t \<and> pt_end_time t - pt_start_time t \<ge> minutes 60"

definition room_for_break :: "personal_task list \<Rightarrow> personal_task \<Rightarrow> clock_time \<Rightarrow> bool"
  where "room_for_break ts t break_end_time \<longleftrightarrow>
    \<not> list_ex (\<lambda>b. pt_date b = pt_date t \<and> pt_start_time b = pt_end_time t \<and> pt_is_break b \<and> pt_parent_task b = pt_id t) ts \<and>
    \<not> list_ex (\<lambda>x. pt_date x = pt_date t \<and> overlaps x (pt_end_time t) break_end_time \<and> pt_id x \<noteq> pt_id t) ts"

definition auto_insert_breaks :: "('s, 'x) planner_scheme \<Rightarrow> personal_task \<Rightarrow> 's \<Rightarrow> ('s, unit) outcome"
  where "auto_insert_breaks P t s =
    (if \<not> long_task t then (Inr (), s)
     else (case combine_add (pt_date t) (pt_end_time t) (minutes 10) of
        Inl e \<Rightarrow> (Inl e, s)
      | Inr break_end_time \<Rightarrow>
          (Inr (), if room_for_break (tb_rows (p_tasks P) s) t break_end_time
                   then snd (create (p_tasks P) (break_for t break_end_time) s) else s)))"

section \<open>The calendar\<close>

record calendar_page =
  cal_year :: int
  cal_month :: int
  cal_weeks :: "day list list"
  cal_counts :: "(day \<times> nat \<times> nat \<times> rat) list"
  cal_today :: day
  cal_prev :: "int \<times> int"
  cal_next :: "int \<times> int"

definition int_param :: "string option \<Rightarrow> int \<Rightarrow> int result"
  \<comment> \<open>\<open>int(request.GET.get(name, default))\<close>\<close>
  where "int_param v d = (case v of None \<Rightarrow> Inr d | Some t \<Rightarrow> (case int_of_str t of None \<Rightarrow> Inl ValueError | Some i \<Rightarrow> Inr i))"

definition prev_month :: "int \<Rightarrow> int \<Rightarrow> int \<times> int"
  where "prev_month year month = (if month = 1 then (year - 1, 12) else (year, month - 1))"

definition next_month :: "int \<Rightarrow> int \<Rightarrow> int \<times> int"
  where "next_month year month = (if month = 12 then (year + 1, 1) else (year, month + 1))"

fun grid_from :: "nat \<Rightarrow> day \<Rightarrow> day list result"
  \<comment> \<open>the loop that appends days: each step computes the day after, also after the last\<close>
where
  "grid_from 0 d = Inr []"
| "grid_from (Suc n) d = rbind (shift_date d 1) (\<lambda>d1. rbind (grid_from n d1) (\<lambda>ds. Inr (d # ds)))"

fun in_weeks :: "nat \<Rightarrow> day list \<Rightarrow> day list list" where
  "in_weeks 0 ds = []"
| "in_weeks (Suc n) ds = (if ds = [] then [] else take 7 ds # in_weeks n (drop 7 ds))"

definition day_counts :: "personal_task list \<Rightarrow> day \<Rightarrow> nat \<times> nat \<times> rat"
  where "day_counts ts d =
    (let tasks = filter (\<lambda>t. pt_date t = d) ts;
         completed = length (filter pt_is_completed tasks); n = length tasks
     in (n, completed, percentage completed n))"

definition calendar_grid :: "int \<Rightarrow> int \<Rightarrow> day list result"
  where "calendar_grid year month =
    rbind (date_of year month 1) (\<lambda>first_day.
    rbind (shift_date first_day (- weekday first_day)) (\<lambda>start_of_week. grid_from 42 start_of_week))"

definition calendar_view :: "('s, 'x) planner_scheme \<Rightarrow> string option \<Rightarrow> string option \<Rightarrow> 's \<Rightarrow> ('s, calendar_page) outcome"
  where "calendar_view P year_param month_param s =
    (let (now, s1) = today P s
     in (rbind (int_param year_param (y_year (fromordinal now))) (\<lambda>year.
         rbind (int_param month_param (y_month (fromordinal now))) (\<lambda>month.
         rbind (calendar_grid year month) (\<lambda>days.
           Inr \<lparr> cal_year = year, cal_month = month, cal_weeks = in_weeks (length days) days,
                 cal_counts = map (\<lambda>d. (d, day_counts (tb_rows (p_tasks P) s1) d)) days, cal_today = now,
                 cal_prev = prev_month year month, cal_next = next_month year month \<rparr>))), s1))"

section \<open>A day's timeline\<close>

datatype timeline_item =
    PrayerItem prayer_schedule bool
  | TaskItem personal_task

fun item_start :: "timeline_item \<Rightarrow> clock_time" where
  "item_start (PrayerItem p _) = ps_start_time p"
| "item_start (TaskItem t) = pt_start_time t"

fun is_late_task :: "timeline_item \<Rightarrow> bool" where
  "is_late_task (PrayerItem _ _) = False"
| "is_late_task (TaskItem t) = (pt_start_time t \<ge> 20 * 3600000000)"

definition get_category_icon :: "string \<Rightarrow> string"
  where "get_category_icon c =
    (if c = NON_NEGOTIABLE then [CHR 0xE2, CHR 0xAD, CHR 0x90]
     else if c = SECONDARY then [CHR 0xF0, CHR 0x9F, CHR 0x93, CHR 0x8B]
     else if c = FUN then [CHR 0xF0, CHR 0x9F, CHR 0x8E, CHR 0x89]
     else [CHR 0xF0, CHR 0x9F, CHR 0x93, CHR 0x9D])"

definition prayer_done :: "prayer_completion list \<Rightarrow> string \<Rightarrow> day \<Rightarrow> bool"
  where "prayer_done cs n d =
    (case find (\<lambda>c. pc_prayer_name c = n \<and> pc_date c = d) cs of None \<Rightarrow> False | Some c \<Rightarrow> pc_is_completed c)"

record day_page =
  dp_date :: day
  dp_items :: "timeline_item list"
  dp_late :: "timeline_item list"
  dp_stats :: "nat \<times> nat \<times> nat"
  dp_today :: day

definition timeline :: "personal_task list \<Rightarrow> prayer_schedule list \<Rightarrow> prayer_completion list \<Rightarrow> day \<Rightarrow> timeline_item list"
  where "timeline tasks prayers completions d =
    sort_key item_start
      (map (\<lambda>p. PrayerItem p (prayer_done completions (ps_prayer_name p) d)) (sort_key ps_start_time prayers)
       @ map TaskItem (tasks_by_start (filter (\<lambda>t. pt_date t = d) tasks)))"

definition category_count :: "personal_task list \<Rightarrow> string \<Rightarrow> nat"
  where "category_count ts c = length (filter (\<lambda>t. pt_category t = c) ts)"

definition task_data_view :: "('s, 'x) planner_scheme \<Rightarrow> int \<Rightarrow> int \<Rightarrow> int \<Rightarrow> 's \<Rightarrow> (response + day_page) \<times> 's"
  where "task_data_view P year month day s =
    (case date_of year month day of
       Inl e \<Rightarrow> (Inl (Redirect [(''error'', ''Invalid date'')] ''calendar_view'' []), s)
     | Inr d \<Rightarrow>
         (let tasks = filter (\<lambda>t. pt_date t = d) (tb_rows (p_tasks P) s);
              items = timeline tasks (tb_rows (p_prayers P) s) (tb_rows (p_prayer_completions P) s) d;
              (now, s1) = today P s
          in (Inr \<lparr> dp_date = d, dp_items = items, dp_late = filter is_late_task items,
                    dp_stats = (category_count tasks NON_NEGOTIABLE, category_count tasks SECONDARY, category_count tasks FUN),
                    dp_today = now \<rparr>, s1)))"

definition task_values :: "personal_task \<Rightarrow> pyval"
  where "task_values t = VDict
    [(''id'', id_json (pt_id t)), (''title'', VStr (pt_title t)), (''start_time'', time_json (pt_start_time t)),
     (''end_time'', time_json (pt_end_time t)), (''category'', VStr (pt_category t)), (''is_completed'', VBool (pt_is_completed t))]"

definition get_tasks_by_date_api :: "('s, 'x) planner_scheme \<Rightarrow> int \<Rightarrow> int \<Rightarrow> int \<Rightarrow> 's \<Rightarrow> ('s, response) outcome"
  where "get_tasks_by_date_api P year month day s =
    (case date_of year month day of
       Inl e \<Rightarrow> (Inr (json_error 400 ''Invalid date''), s)
     | Inr d \<Rightarrow> (Inr (Json 200 (VDict [(''date'', VStr (date_iso d)),
         (''tasks'', VList (map task_values (default_order (filter (\<lambda>t. pt_date t = d) (tb_rows (p_tasks P) s)))))])), s))"

section \<open>The form\<close>

record cleaned_data =
  cd_title :: "string option"
  cd_description :: "string option"
  cd_date :: "day option"
  cd_start_time :: "clock_time option"
  cd_end_time :: "clock_time option"
  cd_category :: "string option"

definition form_clean :: "('s, 'x) planner_scheme \<Rightarrow> cleaned_data \<Rightarrow> 's \<Rightarrow> (string + bool) \<times> 's"
  \<comment> \<open>the message of the ValidationError, or whether the warning of a late task is set\<close>
  where "form_clean P c s =
    (if (case (cd_start_time c, cd_end_time c) of (Some a, Some b) \<Rightarrow> a \<ge> b | _ \<Rightarrow> False)
     then (Inl ''End time must be after start time.'', s)
     else (let late = (case cd_start_time c of None \<Rightarrow> False | Some a \<Rightarrow> clock_hour a \<ge> 20) in
       case cd_date c of
         None \<Rightarrow> (Inr late, s)
       | Some d \<Rightarrow>
           (let (now, s1) = today P s
            in if d < now then (Inl ''Cannot create tasks for past dates.'', s1)
               else if cd_category c = Some NON_NEGOTIABLE
                 \<and> category_count (filter (\<lambda>t. pt_date t = d) (tb_rows (p_tasks P) s1)) NON_NEGOTIABLE \<ge> 3
               then (Inl ''You already have 3 non-negotiable tasks for this day (the maximum recommended). Consider marking some as secondary or rescheduling.'', s1)
               else (Inr late, s1))))"

record form_fields =
  ff_title :: string
  ff_description :: "string option"
  ff_date :: day
  ff_start_time :: clock_time
  ff_end_time :: clock_time
  ff_category :: string

definition all_fields :: "cleaned_data \<Rightarrow> form_fields option"
  where "all_fields c =
    (case (cd_title c, cd_date c, cd_start_time c, cd_end_time c, cd_category c) of
       (Some t, Some d, Some a, Some b, Some k) \<Rightarrow>
         Some \<lparr> ff_title = t, ff_description = cd_description c, ff_date = d, ff_start_time = a, ff_end_time = b, ff_category = k \<rparr>
     | _ \<Rightarrow> None)"

definition form_valid :: "('s, 'x) planner_scheme \<Rightarrow> cleaned_data \<Rightarrow> 's \<Rightarrow> form_fields option \<times> 's"
  \<comment> \<open>\<open>form.is_valid()\<close>, with the fields to save\<close>
  where "form_valid P c s =
    (case form_clean P c s of (Inl _, s1) \<Rightarrow> (None, s1) | (Inr _, s1) \<Rightarrow> (all_fields c, s1))"

definition fill :: "form_fields \<Rightarrow> personal_task \<Rightarrow> personal_task"
  where "fill f t = t\<lparr>pt_title := ff_title f, pt_description := ff_description f, pt_date := ff_date f,
    pt_start_time := ff_start_time f, pt_end_time := ff_end_time f, pt_category := ff_category f\<rparr>"

definition new_task :: personal_task
  where "new_task = \<lparr> pt_id = None, pt_title = [], pt_description = None, pt_date = 1, pt_start_time = 0, pt_end_time = 0,
    pt_category = SECONDARY, pt_is_completed = False, pt_is_break = False, pt_parent_task = None \<rparr>"

section \<open>Creating and editing tasks\<close>

definition create_subtask_row :: "('s, 'x) planner_scheme \<Rightarrow> int \<Rightarrow> pyval \<Rightarrow> 's \<Rightarrow> ('s, unit) outcome"
  where "create_subtask_row P i data s =
    (case rbind (dict_get data ''title'' VNone) (\<lambda>t. rbind (dict_get data ''order'' (VInt 0)) (\<lambda>n. rbind (p_text P t) (\<lambda>title.
        rbind (p_order P n) (\<lambda>ord. Inr (title, ord))))) of
       Inl e \<Rightarrow> (Inl e, s)
     | Inr (title, ord) \<Rightarrow>
         (Inr (), snd (create (p_subtasks P) \<lparr> sb_id = None, sb_personal_task = i, sb_title = title,
            sb_is_completed = False, sb_order = ord \<rparr> s)))"

fun create_subtask_rows :: "('s, 'x) planner_scheme \<Rightarrow> int \<Rightarrow> pyval list \<Rightarrow> 's \<Rightarrow> ('s, unit) outcome" where
  "create_subtask_rows P i [] s = (Inr (), s)"
| "create_subtask_rows P i (d # ds) s = and_then (create_subtask_row P i d s) (\<lambda>_ s1. create_subtask_rows P i ds s1)"

definition add_subtasks :: "('s, 'x) planner_scheme \<Rightarrow> bool \<Rightarrow> int \<Rightarrow> string option \<Rightarrow> 's \<Rightarrow> ('s, (string \<times> string) list) outcome"
  \<comment> \<open>from \<open>subtasks_json\<close>, replacing the existing ones or not; the result is the warning, if any\<close>
  where "add_subtasks P replace i subtasks_json s =
    (let warning = [(''warning'', if replace then ''Task updated, but some subtasks could not be updated.''
                       else ''Task created, but some subtasks could not be added.'')]
     in if \<not> truthy_text subtasks_json then (Inr [], s)
        else (case p_loads P (the subtasks_json) of
           None \<Rightarrow> (Inr warning, s)
         | Some data \<Rightarrow>
             (let s1 = (if replace then delete_rows (p_subtasks P) (\<lambda>b. sb_personal_task b = i) s else s)
              in case py_iter data of
                   Inl e \<Rightarrow> (Inl e, s1)
                 | Inr items \<Rightarrow>
                     (case create_subtask_rows P i items s1 of
                        (Inl e, s2) \<Rightarrow> (if e = KeyError then Inr warning else Inl e, s2)
                      | (Inr _, s2) \<Rightarrow> (Inr [], s2)))))"

definition day_redirect :: "(string \<times> string) list \<Rightarrow> day \<Rightarrow> response"
  where "day_redirect msgs d = (let x = fromordinal d in Redirect msgs ''task_data_view'' [y_year x, y_month x, y_day x])"

definition store_new_task :: "('s, 'x) planner_scheme \<Rightarrow> form_fields \<Rightarrow> string option \<Rightarrow> day \<Rightarrow> 's \<Rightarrow> ('s, response) outcome"
  \<comment> \<open>what a valid form does\<close>
  where "store_new_task P f subtasks_json d s =
    (case create (p_tasks P) (fill f new_task) s of (t, s1) \<Rightarrow>
       and_then (add_subtasks P False (the (pt_id t)) subtasks_json s1) (\<lambda>msgs s2.
       and_then (auto_insert_breaks P t s2) (\<lambda>_ s3.
         (Inr (day_redirect (msgs @ [(''success'', ''Task '' @ [CHR 0x27] @ pt_title t @ [CHR 0x27] @ '' created successfully!'')]) d),
          s3))))"

definition create_personal_task ::
    "('s, 'x) planner_scheme \<Rightarrow> request \<Rightarrow> cleaned_data \<Rightarrow> int \<Rightarrow> int \<Rightarrow> int \<Rightarrow> 's \<Rightarrow> ('s, response) outcome"
  where "create_personal_task P rq c year month day = require_http_methods [''GET'', ''POST''] rq (\<lambda>s.
    (case date_of year month day of
       Inl e \<Rightarrow> (Inr (Redirect [(''error'', ''Invalid date'')] ''calendar_view'' []), s)
     | Inr d \<Rightarrow>
         if rq_method rq \<noteq> ''POST'' then (Inr (Page [] ''admin/scheduler/create_personal_task.html''), s)
         else (case form_valid P c s of
            (None, s1) \<Rightarrow> (Inr (Page [] ''admin/scheduler/create_personal_task.html''), s1)
          | (Some f, s1) \<Rightarrow> store_new_task P f (map_of (rq_post rq) ''subtasks_json'') d s1)))"

definition break_keys :: "personal_task list \<Rightarrow> int \<Rightarrow> int list"
  \<comment> \<open>\<open>task.breaks.all()\<close>\<close>
  where "break_keys ts i = List.map_filter pt_id (filter (\<lambda>b. pt_parent_task b = Some i) ts)"

definition store_edited_task :: "('s, 'x) planner_scheme \<Rightarrow> int \<Rightarrow> personal_task \<Rightarrow> string option \<Rightarrow> 's \<Rightarrow> ('s, response) outcome"
  where "store_edited_task P task_id edited subtasks_json s =
    (case tb_save (p_tasks P) edited s of (t, s1) \<Rightarrow>
       and_then (add_subtasks P True task_id subtasks_json s1) (\<lambda>msgs s2.
       and_then (auto_insert_breaks P t (cascade_tasks P (break_keys (tb_rows (p_tasks P) s2) task_id) s2)) (\<lambda>_ s3.
         (Inr (day_redirect (msgs @ [(''success'', ''Task '' @ [CHR 0x27] @ pt_title t @ [CHR 0x27] @ '' updated successfully!'')]) (pt_date t)),
          s3))))"

definition edit_personal_task ::
    "('s, 'x) planner_scheme \<Rightarrow> request \<Rightarrow> cleaned_data \<Rightarrow> int \<Rightarrow> 's \<Rightarrow> ('s, response) outcome"
  where "edit_personal_task P rq c task_id = require_http_methods [''GET'', ''POST''] rq (\<lambda>s.
    object_or_404 pt_id (p_tasks P) task_id s (\<lambda>t.
      if rq_method rq \<noteq> ''POST'' then (Inr (Page [] ''admin/scheduler/create_personal_task.html''), s)
      else (case form_valid P c s of
         (None, s1) \<Rightarrow> (Inr (Page [] ''admin/scheduler/create_personal_task.html''), s1)
       | (Some f, s1) \<Rightarrow> store_edited_task P task_id (fill f t) (map_of (rq_post rq) ''subtasks_json'') s1)))"

definition delete_personal_task :: "('s, 'x) planner_scheme \<Rightarrow> request \<Rightarrow> int \<Rightarrow> 's \<Rightarrow> ('s, response) outcome"
  where "delete_personal_task P rq task_id = require_http_methods [''POST''] rq (\<lambda>s.
    object_or_404 pt_id (p_tasks P) task_id s (\<lambda>t.
      (Inr (day_redirect [(''success'', ''Task '' @ [CHR 0x27] @ pt_title t @ [CHR 0x27] @ '' deleted successfully!'')] (pt_date t)),
       cascade_tasks P [task_id] s)))"

section \<open>Completing tasks, and their subtasks\<close>

definition subtask_json :: "string list \<Rightarrow> subtask \<Rightarrow> pyval"
  \<comment> \<open>\<open>values(...)\<close>\<close>
  where "subtask_json names b = VDict (filter (\<lambda>kv. fst kv \<in> set names)
    [(''id'', id_json (sb_id b)), (''title'', VStr (sb_title b)), (''is_completed'', VBool (sb_is_completed b)),
     (''order'', VInt (sb_order b))])"

definition toggle_task_completion :: "('s, 'x) planner_scheme \<Rightarrow> request \<Rightarrow> int \<Rightarrow> 's \<Rightarrow> ('s, response) outcome"
  where "toggle_task_completion P rq task_id = require_http_methods [''POST''] rq (\<lambda>s.
    object_or_404 pt_id (p_tasks P) task_id s (\<lambda>t.
    with_json rq (json_error 400 ''Invalid JSON'') (\<lambda>data.
      (case dict_get data ''is_completed'' (VBool False) of
         Inl e \<Rightarrow> (Inr (json_error 400 (p_str P e)), s)
       | Inr v \<Rightarrow> or_failure P 500
           (case p_bool P v of
              Inl e \<Rightarrow> (Inl e, s)
            | Inr b \<Rightarrow>
                (let s1 = snd (tb_save (p_tasks P) (t\<lparr>pt_is_completed := b\<rparr>) s);
                     perf = get_performance_rating P task_id s1;
                     s2 = snd (create (p_completions P) \<lparr> tc_id = None, tc_task = task_id, tc_is_completed = b,
                            tc_performance_rating = Some (pf_label perf) \<rparr> s1)
                 in (Inr (Json 200 (VDict
                      [(''success'', VBool True), (''task_id'', VInt task_id), (''is_completed'', v),
                       (''performance_rating'', VStr (pf_label perf)), (''performance_data'', performance_json perf),
                       (''subtasks'', VList (map (subtask_json [''id'', ''title'', ''is_completed'']) (subtasks_of P task_id s2))),
                       (''message'', VStr (''Task marked as '' @ (if py_truthy v then ''completed'' else ''incomplete'')))])), s2)))))
      s))"

definition create_subtask :: "('s, 'x) planner_scheme \<Rightarrow> request \<Rightarrow> int \<Rightarrow> 's \<Rightarrow> ('s, response) outcome"
  where "create_subtask P rq task_id = require_http_methods [''POST''] rq (\<lambda>s.
    object_or_404 pt_id (p_tasks P) task_id s (\<lambda>t.
    with_json rq (json_error 400 ''Invalid JSON'') (\<lambda>data.
      (case rbind (dict_get data ''title'' (VStr [])) stripped of
         Inl e \<Rightarrow> (Inl e, s)
       | Inr title \<Rightarrow>
           if title = [] then (Inr (json_error 400 ''Subtask title is required''), s)
           else or_failure P 500
             (let max_order = fold max (map sb_order (subtasks_of P task_id s)) 0
              in case rbind (p_text P (VStr title)) (\<lambda>stored. rbind (p_order P (VInt (max_order + 1))) (\<lambda>ord. Inr (stored, ord))) of
                   Inl e \<Rightarrow> (Inl e, s)
                 | Inr (stored, ord) \<Rightarrow>
                     (let (b, s1) = create (p_subtasks P) \<lparr> sb_id = None, sb_personal_task = task_id, sb_title = stored,
                            sb_is_completed = False, sb_order = ord \<rparr> s
                      in (Inr (Json 200 (VDict
                           [(''success'', VBool True), (''subtask_id'', id_json (sb_id b)), (''title'', VStr title),
                            (''is_completed'', VBool False), (''order'', VInt (max_order + 1)),
                            (''message'', VStr ''Subtask created successfully'')])), s1)))))
      s))"

definition toggle_subtask_completion :: "('s, 'x) planner_scheme \<Rightarrow> request \<Rightarrow> int \<Rightarrow> 's \<Rightarrow> ('s, response) outcome"
  where "toggle_subtask_completion P rq subtask_id = require_http_methods [''POST''] rq (\<lambda>s.
    object_or_404 sb_id (p_subtasks P) subtask_id s (\<lambda>b.
    with_json rq (json_error 400 ''Invalid JSON'') (\<lambda>data.
      (case dict_get data ''is_completed'' (VBool False) of
         Inl e \<Rightarrow> (Inl e, s)
       | Inr v \<Rightarrow> or_failure P 500
           (case p_bool P v of
              Inl e \<Rightarrow> (Inl e, s)
            | Inr done \<Rightarrow>
                (let s1 = snd (tb_save (p_subtasks P) (b\<lparr>sb_is_completed := done\<rparr>) s)
                 in case get_by_id pt_id (p_tasks P) (sb_personal_task b) s1 of
                      None \<Rightarrow> (Inl DoesNotExist, s1)
                    | Some t \<Rightarrow> (Inr (Json 200 (VDict
                        [(''success'', VBool True), (''subtask_id'', VInt subtask_id), (''is_completed'', v),
                         (''task_id'', VInt (sb_personal_task b)),
                         (''performance_data'', performance_json (get_performance_rating P (sb_personal_task b) s1)),
                         (''message'', VStr (''Subtask marked as '' @ (if py_truthy v then ''completed'' else ''incomplete'')))])), s1)))))
      s))"

definition delete_subtask :: "('s, 'x) planner_scheme \<Rightarrow> request \<Rightarrow> int \<Rightarrow> 's \<Rightarrow> ('s, response) outcome"
  where "delete_subtask P rq subtask_id = require_http_methods [''POST''] rq (\<lambda>s.
    object_or_404 sb_id (p_subtasks P) subtask_id s (\<lambda>b.
    object_or_404 pt_id (p_tasks P) (sb_personal_task b) s (\<lambda>_. or_failure P 500
      (let s1 = tb_delete (p_subtasks P) b s; task_id = sb_personal_task b
       in case get_by_id pt_id (p_tasks P) task_id s1 of
            None \<Rightarrow> (Inl DoesNotExist, s1)
          | Some t \<Rightarrow> (Inr (Json 200 (VDict
              [(''success'', VBool True), (''subtask_id'', VInt subtask_id), (''task_id'', VInt task_id),
               (''performance_data'', performance_json (get_performance_rating P task_id s1)),
               (''message'', VStr ''Subtask deleted successfully'')])), s1)))))"

definition get_task_subtasks :: "('s, 'x) planner_scheme \<Rightarrow> request \<Rightarrow> int \<Rightarrow> 's \<Rightarrow> ('s, response) outcome"
  where "get_task_subtasks P rq task_id = require_http_methods [''GET''] rq (\<lambda>s.
    object_or_404 pt_id (p_tasks P) task_id s (\<lambda>t.
      (let subtasks = map (subtask_json [''id'', ''title'', ''is_completed'', ''order'']) (subtasks_of P task_id s)
       in (Inr (Json 200 (VDict
            [(''success'', VBool True), (''task_id'', VInt task_id), (''subtasks'', VList subtasks),
             (''performance_data'', performance_json (get_performance_rating P task_id s)),
             (''subtask_count'', VInt (int (length subtasks)))])), s))))"

section \<open>Copying yesterday's tasks\<close>

definition day_before :: "int \<Rightarrow> int \<Rightarrow> int \<Rightarrow> (day \<times> day) result"
  where "day_before year month day =
    rbind (date_of year month day) (\<lambda>d. rbind (shift_date d (-1)) (\<lambda>y. Inr (d, y)))"

definition invalid_date :: "exn \<Rightarrow> 's \<Rightarrow> ('s, response) outcome"
  \<comment> \<open>\<open>except ValueError: return JsonResponse({"error": "Invalid date"}, status=400)\<close>\<close>
  where "invalid_date e s = (if e = ValueError then (Inr (json_error 400 ''Invalid date''), s) else (Inl e, s))"

definition yesterday_json :: "personal_task \<Rightarrow> pyval"
  where "yesterday_json t = VDict
    [(''id'', id_json (pt_id t)), (''title'', VStr (pt_title t)), (''description'', text_json (pt_description t)),
     (''start_time'', VStr (format_hhmm (pt_start_time t))), (''end_time'', VStr (format_hhmm (pt_end_time t))),
     (''category'', VStr (pt_category t)), (''category_display'', VStr (display TASK_CATEGORIES (pt_category t)))]"

definition get_yesterday_tasks ::
    "('s, 'x) planner_scheme \<Rightarrow> request \<Rightarrow> int \<Rightarrow> int \<Rightarrow> int \<Rightarrow> 's \<Rightarrow> ('s, response) outcome"
  where "get_yesterday_tasks P rq year month day = require_http_methods [''GET''] rq (\<lambda>s.
    (case day_before year month day of
       Inl e \<Rightarrow> invalid_date e s
     | Inr (current_date, yesterday) \<Rightarrow>
         (Inr (Json 200 (VDict
            [(''success'', VBool True), (''date'', VStr (date_iso yesterday)),
             (''tasks'', VList (map yesterday_json
               (tasks_by_start (filter (\<lambda>t. pt_date t = yesterday) (tb_rows (p_tasks P) s)))))])), s)))"

definition override_time :: "pyval \<Rightarrow> string \<Rightarrow> clock_time \<Rightarrow> clock_time result"
  where "override_time override field t = rbind (py_in field override) (\<lambda>given.
    if given then rbind (py_item override field) parse_hhmm else Inr t)"

definition copied_times :: "('s, 'x) planner_scheme \<Rightarrow> pyval \<Rightarrow> pyval \<Rightarrow> personal_task \<Rightarrow> (clock_time \<times> clock_time) result"
  where "copied_times P time_overrides task_id t =
    rbind (py_in (py_str P task_id) time_overrides) (\<lambda>given.
      if given then rbind (py_item time_overrides (py_str P task_id)) (\<lambda>override.
        rbind (override_time override ''start_time'' (pt_start_time t)) (\<lambda>start_time.
        rbind (override_time override ''end_time'' (pt_end_time t)) (\<lambda>end_time. Inr (start_time, end_time))))
      else Inr (pt_start_time t, pt_end_time t))"

definition find_for :: "('s, 'x) planner_scheme \<Rightarrow> pyval \<Rightarrow> day \<Rightarrow> 's \<Rightarrow> personal_task result"
  \<comment> \<open>\<open>PersonalTask.objects.get(id=task_id, date=yesterday)\<close>\<close>
  where "find_for P task_id d s =
    rbind (p_key P task_id) (\<lambda>key.
      (case find (\<lambda>t. pt_id t = key \<and> pt_date t = d \<and> key \<noteq> None) (tb_rows (p_tasks P) s) of
         None \<Rightarrow> Inl DoesNotExist | Some t \<Rightarrow> Inr t))"

definition copy_subtasks :: "('s, 'x) planner_scheme \<Rightarrow> int \<Rightarrow> subtask list \<Rightarrow> 's \<Rightarrow> 's"
  where "copy_subtasks P i bs s =
    fold (\<lambda>b s. snd (create (p_subtasks P) \<lparr> sb_id = None, sb_personal_task = i, sb_title = sb_title b,
      sb_is_completed = False, sb_order = sb_order b \<rparr> s)) bs s"

definition copy_task :: "('s, 'x) planner_scheme \<Rightarrow> day \<Rightarrow> day \<Rightarrow> pyval \<Rightarrow> pyval \<Rightarrow> 's \<Rightarrow> ('s, personal_task) outcome"
  where "copy_task P current_date yesterday time_overrides task_id s =
    (case rbind (find_for P task_id yesterday s) (\<lambda>t. rbind (copied_times P time_overrides task_id t) (\<lambda>times. Inr (t, times))) of
       Inl e \<Rightarrow> (Inl e, s)
     | Inr (t, start_time, end_time) \<Rightarrow>
         (let (copy, s1) = create (p_tasks P) (new_task\<lparr>pt_title := pt_title t, pt_description := pt_description t,
                 pt_date := current_date, pt_start_time := start_time, pt_end_time := end_time,
                 pt_category := pt_category t\<rparr>) s
          in (Inr copy, copy_subtasks P (the (pt_id copy)) (subtasks_of P (the (pt_id t)) s1) s1)))"

definition copied_json :: "personal_task \<Rightarrow> pyval"
  where "copied_json t = VDict
    [(''id'', id_json (pt_id t)), (''title'', VStr (pt_title t)),
     (''start_time'', VStr (format_hhmm (pt_start_time t))), (''end_time'', VStr (format_hhmm (pt_end_time t)))]"

definition copy_error :: "('s, 'x) planner_scheme \<Rightarrow> pyval \<Rightarrow> exn \<Rightarrow> string"
  where "copy_error P task_id e =
    (if e = DoesNotExist then ''Task '' @ py_str P task_id @ '' not found for yesterday''
     else ''Error copying task '' @ py_str P task_id @ '': '' @ p_str P e)"

fun copy_tasks :: "('s, 'x) planner_scheme \<Rightarrow> day \<Rightarrow> day \<Rightarrow> pyval \<Rightarrow> pyval list \<Rightarrow> personal_task list \<Rightarrow> string list \<Rightarrow> 's
    \<Rightarrow> (personal_task list \<times> string list) \<times> 's"
where
  "copy_tasks P current_date yesterday ovs [] copied errors s = ((copied, errors), s)"
| "copy_tasks P current_date yesterday ovs (i # is) copied errors s =
     (case copy_task P current_date yesterday ovs i s of
        (Inl e, s1) \<Rightarrow> copy_tasks P current_date yesterday ovs is copied (errors @ [copy_error P i e]) s1
      | (Inr t, s1) \<Rightarrow> copy_tasks P current_date yesterday ovs is (copied @ [t]) errors s1)"

definition copy_tasks_from_yesterday ::
    "('s, 'x) planner_scheme \<Rightarrow> request \<Rightarrow> int \<Rightarrow> int \<Rightarrow> int \<Rightarrow> 's \<Rightarrow> ('s, response) outcome"
  where "copy_tasks_from_yesterday P rq year month day = require_http_methods [''POST''] rq (\<lambda>s.
    (case day_before year month day of
       Inl e \<Rightarrow> invalid_date e s
     | Inr (current_date, yesterday) \<Rightarrow>
         with_json rq (json_error 400 ''Invalid JSON'') (\<lambda>data.
           (case rbind (dict_get data ''task_ids'' (VList [])) (\<lambda>ids. rbind (dict_get data ''time_overrides'' (VDict []))
               (\<lambda>ovs. rbind (py_iter ids) (\<lambda>is. Inr (is, ovs)))) of
              Inl e \<Rightarrow> (Inl e, s)
            | Inr (is, ovs) \<Rightarrow>
                (let ((copied, errors), s1) = copy_tasks P current_date yesterday ovs is [] [] s
                 in (Inr (Json 200 (VDict
                      [(''success'', VBool (copied \<noteq> [])), (''copied_tasks'', VList (map copied_json copied)),
                       (''errors'', VList (map VStr errors)),
                       (''message'', VStr (''Successfully copied '' @ str_of_int (int (length copied)) @ '' task(s)''))])), s1)))) s))"

end
