(* ===== verification/Prayers.thy ===== *)
theory Prayers
  imports PlannerModels
begin

text \<open>
  \<open>scheduler/views/prayer_views.py\<close>: the prayer times, the record of each day's prayers and its statistics.
\<close>

section \<open>Prayer times\<close>

definition prayer_settings :: "('s, 'x) planner_scheme \<Rightarrow> 's \<Rightarrow> prayer_schedule list \<times> (string \<times> string) list"
  \<comment> \<open>the page's context\<close>
  where "prayer_settings P s = (sort_key ps_start_time (tb_rows (p_prayers P) s), PRAYER_NAMES)"

definition prayer_json :: "prayer_schedule \<Rightarrow> pyval"
  where "prayer_json p = VDict
    [(''id'', id_json (ps_id p)), (''prayer_name'', VStr (ps_prayer_name p)),
     (''start_time'', time_json (ps_start_time p)), (''end_time'', time_json (ps_end_time p))]"

definition get_prayer_times_api :: "('s, 'x) planner_scheme \<Rightarrow> 's \<Rightarrow> ('s, response) outcome"
  where "get_prayer_times_api P s =
    (Inr (Json 200 (VDict [(''prayers'', VList (map prayer_json (sort_key ps_start_time (tb_rows (p_prayers P) s))))])), s)"

definition to_settings :: "string \<Rightarrow> string \<Rightarrow> response"
  where "to_settings level text = Redirect [(level, text)] ''prayer_settings'' []"

definition create_prayer :: "('s, 'x) planner_scheme \<Rightarrow> request \<Rightarrow> 's \<Rightarrow> ('s, response) outcome"
  where "create_prayer P rq = require_http_methods [''GET'', ''POST''] rq (\<lambda>s.
    if rq_method rq \<noteq> ''POST'' then (Inr (Page [] ''admin/scheduler/create_prayer.html''), s)
    else (let name = map_of (rq_post rq) ''prayer_name''; start = map_of (rq_post rq) ''start_time'';
              finish = map_of (rq_post rq) ''end_time''
      in if \<not> (truthy_text name \<and> truthy_text start \<and> truthy_text finish)
         then (Inr (to_settings ''error'' ''All fields are required''), s)
         else if list_ex (\<lambda>p. ps_prayer_name p = the name) (tb_rows (p_prayers P) s)
         then (Inr (to_settings ''error'' (''Prayer time for '' @ the name @ '' already exists'')), s)
         else (case rbind (p_text P (VStr (the name))) (\<lambda>n. rbind (p_time P (the start)) (\<lambda>a.
                 rbind (p_time P (the finish)) (\<lambda>b. Inr (n, a, b)))) of
            Inl e \<Rightarrow> (Inr (to_settings ''error'' (''Error creating prayer: '' @ p_str P e)), s)
          | Inr (n, a, b) \<Rightarrow>
              (Inr (to_settings ''success'' (''Prayer time for '' @ the name @ '' created successfully'')),
               snd (create (p_prayers P) \<lparr> ps_id = None, ps_prayer_name = n, ps_start_time = a, ps_end_time = b \<rparr> s)))))"

definition update_prayer :: "('s, 'x) planner_scheme \<Rightarrow> request \<Rightarrow> int \<Rightarrow> 's \<Rightarrow> ('s, response) outcome"
  where "update_prayer P rq prayer_id = require_http_methods [''GET'', ''POST''] rq (\<lambda>s.
    object_or_404 ps_id (p_prayers P) prayer_id s (\<lambda>p.
      if rq_method rq \<noteq> ''POST'' then (Inr (Page [] ''admin/scheduler/update_prayer.html''), s)
      else (let start = map_of (rq_post rq) ''start_time''; finish = map_of (rq_post rq) ''end_time''
        in if \<not> (truthy_text start \<and> truthy_text finish) then (Inr (to_settings ''error'' ''All fields are required''), s)
           else (case rbind (p_time P (the start)) (\<lambda>a. rbind (p_time P (the finish)) (\<lambda>b. Inr (a, b))) of
              Inl e \<Rightarrow> (Inr (to_settings ''error'' (''Error updating prayer: '' @ p_str P e)), s)
            | Inr (a, b) \<Rightarrow>
                (Inr (to_settings ''success'' (''Prayer time for '' @ display PRAYER_NAMES (ps_prayer_name p) @ '' updated successfully'')),
                 snd (tb_save (p_prayers P) (p\<lparr>ps_start_time := a, ps_end_time := b\<rparr>) s))))))"

definition delete_prayer :: "('s, 'x) planner_scheme \<Rightarrow> request \<Rightarrow> int \<Rightarrow> 's \<Rightarrow> ('s, response) outcome"
  where "delete_prayer P rq prayer_id = require_http_methods [''POST''] rq (\<lambda>s.
    object_or_404 ps_id (p_prayers P) prayer_id s (\<lambda>p.
      (Inr (to_settings ''success'' (''Prayer time for '' @ display PRAYER_NAMES (ps_prayer_name p) @ '' deleted successfully'')),
       tb_delete (p_prayers P) p s)))"

section \<open>The record of a day's prayers\<close>

definition get_or_create_completion :: "('s, 'x) planner_scheme \<Rightarrow> string \<Rightarrow> day \<Rightarrow> 's \<Rightarrow> ('s, prayer_completion) outcome"
  where "get_or_create_completion P name d s =
    (case find (\<lambda>c. pc_prayer_name c = name \<and> pc_date c = d) (tb_rows (p_prayer_completions P) s) of
       Some c \<Rightarrow> (Inr c, s)
     | None \<Rightarrow>
         (case p_text P (VStr name) of
            Inl e \<Rightarrow> (Inl e, s)
          | Inr n \<Rightarrow>
              (let (c, s1) = create (p_prayer_completions P) \<lparr> pc_id = None, pc_prayer_name = n, pc_date = d,
                     pc_is_completed = False, pc_status = NOT_YET, pc_completed_at = None \<rparr> s in (Inr c, s1))))"

definition save_status :: "('s, 'x) planner_scheme \<Rightarrow> pyval \<Rightarrow> prayer_completion \<Rightarrow> 's \<Rightarrow> 's"
  \<comment> \<open>the branches on the request's status, and \<open>prayer_completion.save()\<close>\<close>
  where "save_status P status c s =
    (if status = VStr ''prayed'' then
       (let (now, s1) = p_now P s
        in snd (tb_save (p_prayer_completions P) (c\<lparr>pc_is_completed := True, pc_status := PRAYED, pc_completed_at := Some now\<rparr>) s1))
     else if status = VStr ''missed'' then
       snd (tb_save (p_prayer_completions P) (c\<lparr>pc_is_completed := False, pc_status := MISSED, pc_completed_at := None\<rparr>) s)
     else
       snd (tb_save (p_prayer_completions P) (c\<lparr>pc_is_completed := False, pc_status := NOT_YET, pc_completed_at := None\<rparr>) s))"

definition replace_underscores :: "pyval \<Rightarrow> string result"
  \<comment> \<open>\<open>status.replace("_", " ")\<close>\<close>
  where "replace_underscores v =
    (case v of VStr t \<Rightarrow> Inr (map (\<lambda>c. if c = CHR ''_'' then CHR '' '' else c) t) | _ \<Rightarrow> Inl AttributeError)"

definition date_failure :: "('s, 'x) planner_scheme \<Rightarrow> ('s, response) outcome \<Rightarrow> ('s, response) outcome"
  \<comment> \<open>\<open>except ValueError\<close>, then \<open>except Exception\<close>\<close>
  where "date_failure P r =
    (case r of
       (Inl e, s) \<Rightarrow> if e = ValueError then (Inr (json_error 400 ''Invalid date format. Use YYYY-MM-DD''), s) else or_failure P 500 r
     | _ \<Rightarrow> r)"

definition toggle_prayer_completion :: "('s, 'x) planner_scheme \<Rightarrow> request \<Rightarrow> string \<Rightarrow> 's \<Rightarrow> ('s, response) outcome"
  where "toggle_prayer_completion P rq prayer_name = require_http_methods [''POST''] rq (\<lambda>s.
    with_json rq (json_error 400 ''Invalid JSON'') (\<lambda>data.
      (case rbind (dict_get data ''date'' VNone) (\<lambda>d. rbind (dict_get data ''is_completed'' (VBool False)) (\<lambda>b.
          rbind (dict_get data ''status'' (VStr ''not_yet'')) (\<lambda>st. Inr (d, b, st)))) of
         Inl e \<Rightarrow> (Inl e, s)
       | Inr (date_str, is_completed, status) \<Rightarrow>
           if \<not> py_truthy date_str then (Inr (json_error 400 ''Date is required''), s)
           else date_failure P
             (case parse_date date_str of
                Inl e \<Rightarrow> (Inl e, s)
              | Inr d \<Rightarrow> and_then (get_or_create_completion P prayer_name d s) (\<lambda>c s1.
                  (rbind (replace_underscores status) (\<lambda>words. Inr (Json 200 (VDict
                     [(''success'', VBool True), (''prayer_name'', VStr prayer_name), (''date'', date_str),
                      (''is_completed'', is_completed), (''status'', status),
                      (''message'', VStr (''Prayer marked as '' @ words))]))), save_status P status c s1))))) s)"

section \<open>Statistics\<close>

definition completions_on :: "('s, 'x) planner_scheme \<Rightarrow> day \<Rightarrow> 's \<Rightarrow> prayer_completion list"
  where "completions_on P d s = sort_key pc_prayer_name (filter (\<lambda>c. pc_date c = d) (tb_rows (p_prayer_completions P) s))"

definition daily_prayer :: "prayer_completion list \<Rightarrow> prayer_schedule \<Rightarrow> bool \<times> string"
  \<comment> \<open>whether a prayer is done, and its status, by the day's records\<close>
  where "daily_prayer cs p =
    ((case map_of (rev (map (\<lambda>c. (pc_prayer_name c, pc_is_completed c)) cs)) (ps_prayer_name p) of None \<Rightarrow> False | Some b \<Rightarrow> b),
     (case find (\<lambda>c. pc_prayer_name c = ps_prayer_name p) cs of None \<Rightarrow> ''not_yet'' | Some c \<Rightarrow> pc_status c))"

definition daily_prayer_json :: "prayer_completion list \<Rightarrow> prayer_schedule \<Rightarrow> pyval"
  where "daily_prayer_json cs p = VDict
    [(''prayer_name'', VStr (ps_prayer_name p)), (''prayer_display'', VStr (display PRAYER_NAMES (ps_prayer_name p))),
     (''start_time'', VStr (time_iso (ps_start_time p))), (''end_time'', VStr (time_iso (ps_end_time p))),
     (''is_completed'', VBool (fst (daily_prayer cs p))), (''status'', VStr (snd (daily_prayer cs p)))]"

definition get_daily_prayer_completions ::
    "('s, 'x) planner_scheme \<Rightarrow> request \<Rightarrow> int \<Rightarrow> int \<Rightarrow> int \<Rightarrow> 's \<Rightarrow> ('s, response) outcome"
  where "get_daily_prayer_completions P rq year month day = require_http_methods [''GET''] rq (\<lambda>s.
    (case date_of year month day of
       Inl e \<Rightarrow> (Inr (json_error 400 ''Invalid date''), s)
     | Inr d \<Rightarrow>
         (let prayers = sort_key ps_start_time (tb_rows (p_prayers P) s); cs = completions_on P d s;
              completed = length (filter (\<lambda>p. fst (daily_prayer cs p)) prayers)
          in (Inr (Json 200 (VDict
               [(''success'', VBool True), (''date'', VStr (date_iso d)),
                (''prayers'', VList (map (daily_prayer_json cs) prayers)), (''total_prayers'', VInt (int (length prayers))),
                (''completed_prayers'', VInt (int completed)),
                (''completion_percentage'', VFloat (percentage completed (length prayers)))])), s))))"

record prayer_stat =
  st_prayer_name :: string
  st_total :: nat
  st_completed :: nat
  st_percentage :: rat

definition prayer_stats :: "prayer_completion list \<Rightarrow> prayer_stat list"
  \<comment> \<open>\<open>values("prayer_name").annotate(...).order_by("prayer_name")\<close>, and the percentages\<close>
  where "prayer_stats cs =
    map (\<lambda>n. let mine = filter (\<lambda>c. pc_prayer_name c = n) cs; completed = length (filter pc_is_completed mine)
             in \<lparr> st_prayer_name = n, st_total = length mine, st_completed = completed,
                  st_percentage = percentage completed (length mine) \<rparr>)
        (sorted_list_of_set (pc_prayer_name ` set cs))"

definition prayer_stat_json :: "prayer_stat \<Rightarrow> pyval"
  where "prayer_stat_json r = VDict
    [(''prayer_name'', VStr (st_prayer_name r)), (''prayer_display'', VStr (display PRAYER_NAMES (st_prayer_name r))),
     (''total'', VInt (int (st_total r))), (''completed'', VInt (int (st_completed r))), (''percentage'', VFloat (st_percentage r))]"

definition query_param :: "request \<Rightarrow> string \<Rightarrow> string option \<Rightarrow> string option"
  \<comment> \<open>\<open>request.GET.get(name, default)\<close>\<close>
  where "query_param rq name d = (case map_of (rq_get rq) name of None \<Rightarrow> d | Some v \<Rightarrow> Some v)"

definition get_prayer_stats ::
    "('s, 'x) planner_scheme \<Rightarrow> request \<Rightarrow> string option \<Rightarrow> string option \<Rightarrow> 's \<Rightarrow> ('s, response) outcome"
  where "get_prayer_stats P rq start_date end_date = require_http_methods [''GET''] rq (\<lambda>s.
    (let a = query_param rq ''start_date'' start_date; b = query_param rq ''end_date'' end_date
     in if truthy_text a \<and> truthy_text b then date_failure P
          (rbind (parse_date (VStr (the a))) (\<lambda>from. rbind (parse_date (VStr (the b))) (\<lambda>until.
             Inr (Json 200 (VDict
               [(''success'', VBool True), (''start_date'', VStr (date_iso from)), (''end_date'', VStr (date_iso until)),
                (''stats'', VList (map prayer_stat_json (prayer_stats
                   (filter (\<lambda>c. in_range from until (pc_date c)) (tb_rows (p_prayer_completions P) s)))))])))), s)
        else (Inr (json_error 400 ''start_date and end_date are required''), s)))"

end
