(* ===== verification/Projects.thy ===== *)
theory Projects
  imports PlannerModels
begin

text \<open>
  \<open>scheduler/views/project_views.py\<close>: projects, their tasks, the weekly schedules of those tasks, and the
  personal tasks generated from the schedules.
\<close>

section \<open>Projects\<close>

definition projects_list :: "('s, 'x) planner_scheme \<Rightarrow> 's \<Rightarrow> project list \<times> (string \<times> string) list"
  \<comment> \<open>the page's context\<close>
  where "projects_list P s = (sort_key (\<lambda>p. - pj_start_date p) (tb_rows (p_projects P) s), PROJECT_STATUSES)"

definition stripped_field :: "pyval \<Rightarrow> string \<Rightarrow> string result"
  \<comment> \<open>\<open>data.get(name, "").strip()\<close>\<close>
  where "stripped_field data name = rbind (dict_get data name (VStr [])) stripped"

definition loaded :: "request \<Rightarrow> pyval result"
  \<comment> \<open>\<open>json.loads(request.body)\<close>, whose JSONDecodeError is a ValueError\<close>
  where "loaded rq = (case rq_json rq of None \<Rightarrow> Inl ValueError | Some v \<Rightarrow> Inr v)"

definition request_data :: "request \<Rightarrow> pyval result"
  where "request_data rq =
    (if rq_is_json rq then loaded rq else Inr (VDict (map (\<lambda>(k, v). (k, VStr v)) (rq_post rq))))"

definition new_project :: "('s, 'x) planner_scheme \<Rightarrow> pyval \<Rightarrow> 's \<Rightarrow> ('s, string \<times> project) outcome"
  \<comment> \<open>with the title the object keeps in memory\<close>
  where "new_project P data s =
    (case rbind (stripped_field data ''title'') (\<lambda>title. rbind (stripped_field data ''description'') (\<lambda>description.
          rbind (dict_get data ''start_date'' VNone) (\<lambda>v. rbind (parse_date v) (\<lambda>start.
          rbind (dict_get data ''end_date'' VNone) (\<lambda>w. rbind (parse_date w) (\<lambda>finish.
          rbind (dict_get data ''status'' (VStr ''planned'')) (\<lambda>st.
          rbind (p_text P (VStr title)) (\<lambda>t. rbind (p_text P (VStr description)) (\<lambda>d. rbind (p_text P st) (\<lambda>status.
            Inr (title, \<lparr> pj_id = None, pj_title = t, pj_description = Some d, pj_start_date = start, pj_end_date = finish,
              pj_status = status \<rparr>))))))))))) of
       Inl e \<Rightarrow> (Inl e, s)
     | Inr (title, p) \<Rightarrow> (let (p1, s1) = create (p_projects P) p s in (Inr (title, p1), s1)))"

definition quoted :: "string \<Rightarrow> string"
  where "quoted t = [CHR 0x27] @ t @ [CHR 0x27]"

definition create_project :: "('s, 'x) planner_scheme \<Rightarrow> request \<Rightarrow> 's \<Rightarrow> ('s, response) outcome"
  where "create_project P rq = require_http_methods [''GET'', ''POST''] rq (\<lambda>s.
    if rq_method rq \<noteq> ''POST'' then (Inr (Page [] ''admin/scheduler/create_project.html''), s)
    else (case (case request_data rq of Inl e \<Rightarrow> (Inl e, s) | Inr data \<Rightarrow> new_project P data s) of
       (Inl e, s1) \<Rightarrow>
         if \<not> is_Exception e then (Inl e, s1)
         else if rq_is_json rq then (Inr (json_failure 400 (p_str P e)), s1)
         else (Inr (Page [(''error'', ''Error creating project: '' @ p_str P e)] ''admin/scheduler/create_project.html''), s1)
     | (Inr (title, p), s1) \<Rightarrow>
         (let message = ''Project '' @ quoted title @ '' created successfully!''
          in if rq_is_json rq
             then (Inr (Json 200 (VDict [(''success'', VBool True), (''project_id'', id_json (pj_id p)), (''message'', VStr message)])), s1)
             else (Inr (Redirect [(''success'', message)] ''project_detail'' [the (pj_id p)]), s1))))"

record project_page =
  pp_project :: project
  pp_tasks :: "project_task list"
  pp_progress :: int

definition posted :: "('s, 'x) planner_scheme \<Rightarrow> request \<Rightarrow> string \<Rightarrow> string option \<Rightarrow> string option result"
  \<comment> \<open>the stored text of \<open>request.POST.get(name, current)\<close>\<close>
  where "posted P rq name current =
    (case (case map_of (rq_post rq) name of None \<Rightarrow> current | Some t \<Rightarrow> Some t) of
       None \<Rightarrow> Inr None
     | Some t \<Rightarrow> (case p_text P (VStr t) of Inl e \<Rightarrow> Inl e | Inr u \<Rightarrow> Inr (Some u)))"

definition edited_project :: "('s, 'x) planner_scheme \<Rightarrow> request \<Rightarrow> project \<Rightarrow> project result"
  where "edited_project P rq p =
    rbind (posted P rq ''title'' (Some (pj_title p))) (\<lambda>title.
    rbind (posted P rq ''description'' (pj_description p)) (\<lambda>description.
    rbind (posted P rq ''status'' (Some (pj_status p))) (\<lambda>status.
      Inr (p\<lparr>pj_title := the title, pj_description := description, pj_status := the status\<rparr>))))"

definition project_detail :: "('s, 'x) planner_scheme \<Rightarrow> request \<Rightarrow> int \<Rightarrow> 's \<Rightarrow> ('s, response + project_page) outcome"
  where "project_detail P rq project_id s =
    (if rq_method rq \<notin> {''GET'', ''POST''} then (Inr (Inl NotAllowed), s)
     else object_or_404 pj_id (p_projects P) project_id s (\<lambda>p.
       if rq_method rq = ''POST'' then
         (case edited_project P rq p of
            Inl e \<Rightarrow> (Inr (Inl (Redirect [(''error'', ''Error updating project: '' @ p_str P e)] ''project_detail'' [project_id])), s)
          | Inr q \<Rightarrow> (Inr (Inl (Redirect [(''success'', ''Project updated successfully!'')] ''project_detail'' [project_id])),
              snd (tb_save (p_projects P) q s)))
       else (Inr (Inr \<lparr> pp_project = p, pp_tasks = tasks_of_project P project_id s,
                        pp_progress = get_progress_percentage P p s \<rparr>), s)))"

definition delete_project :: "('s, 'x) planner_scheme \<Rightarrow> request \<Rightarrow> int \<Rightarrow> 's \<Rightarrow> ('s, response) outcome"
  where "delete_project P rq project_id = require_http_methods [''DELETE''] rq (\<lambda>s.
    object_or_404 pj_id (p_projects P) project_id s (\<lambda>p.
      (Inr (Json 200 (VDict [(''success'', VBool True),
         (''message'', VStr (''Project '' @ quoted (pj_title p) @ '' deleted successfully!''))])), cascade_project P project_id s)))"

section \<open>The tasks of a project\<close>

definition create_project_task :: "('s, 'x) planner_scheme \<Rightarrow> request \<Rightarrow> int \<Rightarrow> 's \<Rightarrow> ('s, response) outcome"
  where "create_project_task P rq project_id = require_http_methods [''POST''] rq (\<lambda>s.
    object_or_404 pj_id (p_projects P) project_id s (\<lambda>p. or_failure P 400
      (let max_order = fold max (map jt_order (tasks_of_project P project_id s)) 0
       in case rbind (loaded rq) (\<lambda>data. rbind (stripped_field data ''title'') (\<lambda>title.
            rbind (stripped_field data ''description'') (\<lambda>description. rbind (dict_get data ''duration_hours'' (VFloat 1)) (\<lambda>v.
            rbind (py_float P v) (\<lambda>duration. rbind (p_text P (VStr title)) (\<lambda>t. rbind (p_text P (VStr description)) (\<lambda>d.
            rbind (p_order P (VInt (max_order + 1))) (\<lambda>ord.
              Inr (title, \<lparr> jt_id = None, jt_project = project_id, jt_title = t, jt_description = Some d,
                jt_duration_hours = duration, jt_order = ord, jt_is_scheduled = False \<rparr>))))))))) of
            Inl e \<Rightarrow> (Inl e, s)
          | Inr (title, row) \<Rightarrow>
              (let (t, s1) = create (p_project_tasks P) row s
               in (Inr (Json 200 (VDict [(''success'', VBool True), (''task_id'', id_json (jt_id t)),
                     (''task'', VDict [(''id'', id_json (jt_id t)), (''title'', VStr title),
                        (''duration_hours'', VFloat (jt_duration_hours t)), (''is_scheduled'', VBool False)])])), s1)))))"

definition delete_project_task :: "('s, 'x) planner_scheme \<Rightarrow> request \<Rightarrow> int \<Rightarrow> 's \<Rightarrow> ('s, response) outcome"
  where "delete_project_task P rq task_id = require_http_methods [''DELETE''] rq (\<lambda>s.
    object_or_404 jt_id (p_project_tasks P) task_id s (\<lambda>t.
    object_or_404 pj_id (p_projects P) (jt_project t) s (\<lambda>_.
      (Inr (Json 200 (VDict [(''success'', VBool True), (''message'', VStr ''Task deleted successfully!'')])),
       delete_project_tasks P [task_id] s))))"

section \<open>Weekly schedules\<close>

definition twice_text :: string
  where "twice_text = ''You are scheduling the same task twice in one day''"

definition schedule_failure :: "('s, 'x) planner_scheme \<Rightarrow> exn \<Rightarrow> response"
  where "schedule_failure P e =
    json_failure 400 (if substring ''UNIQUE constraint failed'' (p_str P e) \<and> substring ''day_of_week'' (p_str P e)
      then twice_text else p_str P e)"

definition create_schedule :: "('s, 'x) planner_scheme \<Rightarrow> request \<Rightarrow> int \<Rightarrow> 's \<Rightarrow> ('s, response) outcome"
  where "create_schedule P rq task_id = require_http_methods [''POST''] rq (\<lambda>s.
    object_or_404 jt_id (p_project_tasks P) task_id s (\<lambda>t.
      (case rbind (loaded rq) (\<lambda>data. rbind (dict_get data ''day_of_week'' VNone) (\<lambda>v. rbind (py_int v) (\<lambda>d. Inr (data, d)))) of
         Inl e \<Rightarrow> (Inr (schedule_failure P e), s)
       | Inr (data, d) \<Rightarrow>
           if list_ex (\<lambda>c. js_project_task c = task_id \<and> js_day_of_week c = d) (tb_rows (p_schedules P) s)
           then (Inr (json_failure 400 twice_text), s)
           else (case rbind (dict_get data ''start_time'' VNone) (\<lambda>v. rbind (parse_hhmm v) (\<lambda>start.
                  rbind (dict_get data ''duration_hours'' (VFloat (jt_duration_hours t))) (\<lambda>w. rbind (py_float P w) (\<lambda>duration.
                  rbind (dict_get data ''weeks'' (VInt 1)) (\<lambda>x. rbind (py_int x) (\<lambda>n. rbind (p_order P (VInt n)) (\<lambda>weeks.
                    Inr \<lparr> js_id = None, js_project_task = task_id, js_day_of_week = d, js_start_time = start,
                      js_duration_hours = duration, js_weeks = weeks, js_is_active = True \<rparr>))))))) of
             Inl e \<Rightarrow> (Inr (schedule_failure P e), s)
           | Inr row \<Rightarrow>
               (let (c, s1) = create (p_schedules P) row s; (now, s2) = today P s1
                in case get_end_time now c of
                     Inl e \<Rightarrow> (Inr (schedule_failure P e), s2)
                   | Inr end_time \<Rightarrow> (Inr (Json 200 (VDict [(''success'', VBool True), (''schedule_id'', id_json (js_id c)),
                       (''schedule'', VDict [(''id'', id_json (js_id c)), (''day_of_week'', VInt d),
                          (''start_time'', VStr (format_hhmm (js_start_time c))), (''end_time'', VStr (format_hhmm end_time)),
                          (''duration_hours'', VFloat (js_duration_hours c)), (''weeks'', VInt (js_weeks c))])])), s2))))))"

section \<open>Generating the tasks of a schedule\<close>

record conflict =
  cf_task :: string
  cf_date :: day
  cf_start :: clock_time
  cf_end :: clock_time

record generated =
  gn_conflicts :: "conflict list"
  gn_created :: nat

definition target_date :: "day \<Rightarrow> int \<Rightarrow> day \<Rightarrow> day result"
  \<comment> \<open>the next occurrence of the weekday\<close>
  where "target_date start_date day_of_week current_date =
    (let days_ahead = (day_of_week - weekday current_date) mod 7
     in if days_ahead = 0 \<and> current_date \<noteq> start_date then shift_date current_date 7 else shift_date current_date days_ahead)"

definition conflicting :: "personal_task list \<Rightarrow> day \<Rightarrow> clock_time \<Rightarrow> clock_time \<Rightarrow> bool"
  where "conflicting ts d start_time end_time =
    list_ex (\<lambda>t. pt_date t = d \<and> pt_start_time t < end_time \<and> pt_end_time t > start_time \<and> \<not> pt_is_break t) ts"

definition generated_task :: "string \<Rightarrow> project \<Rightarrow> day \<Rightarrow> clock_time \<Rightarrow> clock_time \<Rightarrow> personal_task"
  where "generated_task title p d start_time end_time =
    \<lparr> pt_id = None, pt_title = title, pt_description = Some (''Project task for '' @ pj_title p), pt_date = d,
      pt_start_time = start_time, pt_end_time = end_time, pt_category = NON_NEGOTIABLE, pt_is_completed = False,
      pt_is_break = False, pt_parent_task = None \<rparr>"

definition generated_title :: "project \<Rightarrow> project_task \<Rightarrow> string"
  where "generated_title p t = [CHR 0xF0, CHR 0x9F, CHR 0x93, CHR 0x8A] @ '' '' @ pj_title p @ '': '' @ jt_title t"

definition generate_on :: "('s, 'x) planner_scheme \<Rightarrow> project \<Rightarrow> project_task \<Rightarrow> project_schedule \<Rightarrow> day
    \<Rightarrow> generated \<Rightarrow> 's \<Rightarrow> ('s, generated) outcome"
  \<comment> \<open>the body of the loop for one target date\<close>
  where "generate_on P p t c d g s =
    (case combine_add d (js_start_time c) (hours (js_duration_hours c)) of
       Inl e \<Rightarrow> (Inl e, s)
     | Inr end_time \<Rightarrow>
         if conflicting (tb_rows (p_tasks P) s) d (js_start_time c) end_time
         then (Inr (g\<lparr>gn_conflicts := gn_conflicts g @ [\<lparr> cf_task = jt_title t, cf_date = d, cf_start = js_start_time c,
                 cf_end = end_time \<rparr>]\<rparr>), s)
         else (case p_text P (VStr (generated_title p t)) of
            Inl e \<Rightarrow> (Inl e, s)
          | Inr title \<Rightarrow> (Inr (g\<lparr>gn_created := Suc (gn_created g)\<rparr>),
              snd (create (p_tasks P) (generated_task title p d (js_start_time c) end_time) s))))"

function generate_weeks :: "('s, 'x) planner_scheme \<Rightarrow> project \<Rightarrow> project_task \<Rightarrow> project_schedule \<Rightarrow> day \<Rightarrow> int
    \<Rightarrow> generated \<Rightarrow> 's \<Rightarrow> ('s, generated) outcome"
where
  "generate_weeks P p t c current_date week_count g s =
    (if current_date \<le> pj_end_date p \<and> week_count < js_weeks c
     then (case target_date (pj_start_date p) (js_day_of_week c) current_date of
        Inl e \<Rightarrow> (Inl e, s)
      | Inr d \<Rightarrow>
          if d > pj_end_date p then (Inr g, s)
          else and_then (generate_on P p t c d g s) (\<lambda>g1 s1.
            (case shift_date d 1 of
               Inl e \<Rightarrow> (Inl e, s1)
             | Inr next_date \<Rightarrow> generate_weeks P p t c next_date (week_count + 1) g1 s1)))
     else (Inr g, s))"
  by pat_completeness auto
termination by (relation "measure (\<lambda>(P, p, t, c, current_date, week_count, g, s). nat (js_weeks c - week_count))") auto

declare generate_weeks.simps [simp del]

definition generate_schedule_of :: "('s, 'x) planner_scheme \<Rightarrow> project \<Rightarrow> project_task \<Rightarrow> project_schedule
    \<Rightarrow> generated \<Rightarrow> 's \<Rightarrow> ('s, generated) outcome"
  where "generate_schedule_of P p t c g s =
    and_then (generate_weeks P p t c (pj_start_date p) 0 g s) (\<lambda>g1 s1.
      (Inr g1, snd (tb_save (p_project_tasks P) (t\<lparr>jt_is_scheduled := True\<rparr>) s1)))"

fun generate_schedules :: "('s, 'x) planner_scheme \<Rightarrow> project \<Rightarrow> project_task \<Rightarrow> project_schedule list
    \<Rightarrow> generated \<Rightarrow> 's \<Rightarrow> ('s, generated) outcome" where
  "generate_schedules P p t [] g s = (Inr g, s)"
| "generate_schedules P p t (c # cs) g s = and_then (generate_schedule_of P p t c g s) (generate_schedules P p t cs)"

definition active_schedules :: "('s, 'x) planner_scheme \<Rightarrow> project_task \<Rightarrow> 's \<Rightarrow> project_schedule list"
  where "active_schedules P t s =
    filter (\<lambda>c. Some (js_project_task c) = jt_id t \<and> js_is_active c) (tb_rows (p_schedules P) s)"

fun generate_tasks :: "('s, 'x) planner_scheme \<Rightarrow> project \<Rightarrow> project_task list \<Rightarrow> generated \<Rightarrow> 's \<Rightarrow> ('s, generated) outcome" where
  "generate_tasks P p [] g s = (Inr g, s)"
| "generate_tasks P p (t # ts) g s = and_then (generate_schedules P p t (active_schedules P t s) g s) (generate_tasks P p ts)"

fun keys_of :: "('s, 'x) planner_scheme \<Rightarrow> pyval list \<Rightarrow> int list result"
  \<comment> \<open>the keys of an \<open>id__in\<close>, of which None matches no row\<close>
where
  "keys_of P [] = Inr []"
| "keys_of P (v # vs) = rbind (p_key P v) (\<lambda>k. rbind (keys_of P vs) (\<lambda>ks. Inr ((case k of None \<Rightarrow> [] | Some i \<Rightarrow> [i]) @ ks)))"

definition conflict_json :: "conflict \<Rightarrow> pyval"
  where "conflict_json c = VDict [(''task'', VStr (cf_task c)), (''date'', VStr (date_iso (cf_date c))),
    (''time'', VStr (format_hhmm (cf_start c) @ ''-'' @ format_hhmm (cf_end c)))]"

definition generate_schedule :: "('s, 'x) planner_scheme \<Rightarrow> request \<Rightarrow> int \<Rightarrow> 's \<Rightarrow> ('s, response) outcome"
  where "generate_schedule P rq project_id = require_http_methods [''POST''] rq (\<lambda>s.
    object_or_404 pj_id (p_projects P) project_id s (\<lambda>p. or_failure P 400
      (case rbind (loaded rq) (\<lambda>data. rbind (dict_get data ''task_ids'' (VList [])) (\<lambda>ids. rbind (py_iter ids) (keys_of P))) of
         Inl e \<Rightarrow> (Inl e, s)
       | Inr ids \<Rightarrow>
           and_then (generate_tasks P p (filter (\<lambda>t. \<exists>i\<in>set ids. jt_id t = Some i) (tasks_of_project P project_id s))
               \<lparr> gn_conflicts = [], gn_created = 0 \<rparr> s) (\<lambda>g s1.
             (Inr (Json 200 (VDict [(''success'', VBool True), (''created'', VInt (int (gn_created g))),
                (''conflicts'', VList (map conflict_json (gn_conflicts g))),
                (''message'', VStr (''Generated '' @ str_of_int (int (gn_created g)) @ '' recurring tasks''))])), s1)))))"

end
