(* ===== verification/PlannerSteps.thy ===== *)
theory PlannerSteps
  imports PlannerDb Personal Prayers Projects
begin

text \<open>
  The requests of the planner as steps on its database: each view is a step, whatever it is asked.  Every step
  keeps the foreign keys, the unique constraints and the place of breaks (\<open>step_keeps\<close>).
\<close>

context planner
begin

section \<open>Creating and saving rows\<close>

lemma create_task_ok:
  assumes ok: "planner_ok (view s)" and new: "pt_id r = None"
    and parent: "pt_parent_task r = None \<or> pt_parent_task r \<in> pt_id ` set (w_tasks (view s)) \<and> pt_is_break r"
  shows "planner_ok (view (snd (create (p_tasks P) r s)))"
proof -
  obtain i s1 where c: "create (p_tasks P) r s = (r\<lparr>pt_id := Some i\<rparr>, s1)"
    "view s1 = (view s)\<lparr>w_tasks := w_tasks (view s) @ [r\<lparr>pt_id := Some i\<rparr>]\<rparr>"
    by (rule tasks.create_row [of r s, OF new])
  have "refs_ok ((view s)\<lparr>w_tasks := w_tasks (view s) @ [r\<lparr>pt_id := Some i\<rparr>]\<rparr>)"
  proof (rule refs_ok_tasks)
    show "pt_parent_task t = None \<or> pt_parent_task t \<in> pt_id ` set (w_tasks (view s) @ [r\<lparr>pt_id := Some i\<rparr>])"
      if "t \<in> set (w_tasks (view s) @ [r\<lparr>pt_id := Some i\<rparr>])" for t
    proof -
      have "pt_parent_task x = None \<or> (\<exists>y\<in>set (w_tasks (view s)). pt_parent_task x = pt_id y)" if "x \<in> set (w_tasks (view s))" for x
        using ok that by (auto simp: planner_ok_def refs_ok_def image_iff)
      moreover have "pt_parent_task r = None \<or> (\<exists>y\<in>set (w_tasks (view s)). pt_parent_task r = pt_id y)"
        using parent by (auto simp: image_iff)
      ultimately have "pt_parent_task t = None \<or> (\<exists>y\<in>set (w_tasks (view s)). pt_parent_task t = pt_id y)"
        using that by auto
      then show ?thesis by (auto intro: image_eqI)
    qed
  qed (use ok in \<open>auto simp: planner_ok_def\<close>)
  then show ?thesis using ok parent by (auto simp: c planner_ok_def breaks_ok_def)
qed

lemma create_task_in:
  "pt_id r = None \<Longrightarrow> create (p_tasks P) r s = (t, s1) \<Longrightarrow>
    (\<exists>i. t = r\<lparr>pt_id := Some i\<rparr>) \<and> t \<in> set (w_tasks (view s1)) \<and> w_tasks (view s1) = w_tasks (view s) @ [t]"
  by (rule tasks.create_row [of r s]) auto

lemma create_subtask_ok:
  assumes ok: "planner_ok (view s)" and new: "sb_id r = None" and parent: "Some (sb_personal_task r) \<in> pt_id ` set (w_tasks (view s))"
  shows "planner_ok (view (snd (create (p_subtasks P) r s))) \<and> w_tasks (view (snd (create (p_subtasks P) r s))) = w_tasks (view s)"
proof -
  obtain i s1 where c: "create (p_subtasks P) r s = (r\<lparr>sb_id := Some i\<rparr>, s1)"
    "view s1 = (view s)\<lparr>w_subtasks := w_subtasks (view s) @ [r\<lparr>sb_id := Some i\<rparr>]\<rparr>"
    by (rule subtasks.create_row [of r s, OF new])
  have "refs_ok ((view s)\<lparr>w_subtasks := w_subtasks (view s) @ [r\<lparr>sb_id := Some i\<rparr>]\<rparr>)"
    using ok parent by (intro refs_ok_subtasks) (auto simp: planner_ok_def refs_ok_def)
  then show ?thesis using ok by (simp add: c planner_ok_def)
qed

lemma create_completion_ok:
  assumes ok: "planner_ok (view s)" and new: "tc_id r = None" and parent: "Some (tc_task r) \<in> pt_id ` set (w_tasks (view s))"
  shows "planner_ok (view (snd (create (p_completions P) r s)))"
proof -
  obtain i s1 where c: "create (p_completions P) r s = (r\<lparr>tc_id := Some i\<rparr>, s1)"
    "view s1 = (view s)\<lparr>w_completions := w_completions (view s) @ [r\<lparr>tc_id := Some i\<rparr>]\<rparr>"
    by (rule completions.create_row [of r s, OF new])
  have "refs_ok ((view s)\<lparr>w_completions := w_completions (view s) @ [r\<lparr>tc_id := Some i\<rparr>]\<rparr>)"
    using ok parent by (intro refs_ok_completions) (auto simp: planner_ok_def refs_ok_def)
  then show ?thesis using ok by (simp add: c planner_ok_def)
qed

lemma create_prayer_ok:
  assumes ok: "planner_ok (view s)" and new: "ps_id r = None" and "\<forall>p\<in>set (w_prayers (view s)). ps_prayer_name p \<noteq> ps_prayer_name r"
  shows "planner_ok (view (snd (create (p_prayers P) r s)))"
  by (rule prayers.create_row [of r s, OF new]) (use assms in \<open>auto simp: planner_ok_def unique_ok_def\<close>)

lemma create_prayer_completion_ok:
  assumes ok: "planner_ok (view s)" and new: "pc_id r = None"
    and "(pc_prayer_name r, pc_date r) \<notin> (\<lambda>c. (pc_prayer_name c, pc_date c)) ` set (w_prayer_completions (view s))"
    and c: "create (p_prayer_completions P) r s = (c, s1)"
  shows "planner_ok (view s1) \<and> c \<in> set (w_prayer_completions (view s1))"
  by (rule prayer_completions.create_row [of r s, OF new]) (use assms in \<open>auto simp: planner_ok_def unique_ok_def\<close>)

lemma create_project_ok:
  assumes ok: "planner_ok (view s)" and new: "pj_id r = None"
  shows "planner_ok (view (snd (create (p_projects P) r s)))"
  by (rule projects.create_row [of r s, OF new])
    (use ok in \<open>auto simp: planner_ok_def unique_ok_def intro: refs_ok_projects\<close>)

lemma create_project_task_ok:
  assumes ok: "planner_ok (view s)" and new: "jt_id r = None" and parent: "Some (jt_project r) \<in> pj_id ` set (w_projects (view s))"
  shows "planner_ok (view (snd (create (p_project_tasks P) r s)))"
proof (rule project_tasks.create_row [of r s, OF new])
  fix i s1
  assume c: "create (p_project_tasks P) r s = (r\<lparr>jt_id := Some i\<rparr>, s1)"
    "view s1 = (view s)\<lparr>w_project_tasks := w_project_tasks (view s) @ [r\<lparr>jt_id := Some i\<rparr>]\<rparr>"
  have "refs_ok ((view s)\<lparr>w_project_tasks := w_project_tasks (view s) @ [r\<lparr>jt_id := Some i\<rparr>]\<rparr>)"
    using ok parent by (intro refs_ok_project_tasks) (auto simp: planner_ok_def refs_ok_def)
  then show ?thesis using ok by (simp add: c planner_ok_def)
qed

lemma create_schedule_ok:
  assumes ok: "planner_ok (view s)" and new: "js_id r = None"
    and parent: "Some (js_project_task r) \<in> jt_id ` set (w_project_tasks (view s))"
    and unique: "(js_project_task r, js_day_of_week r) \<notin> (\<lambda>c. (js_project_task c, js_day_of_week c)) ` set (w_schedules (view s))"
  shows "planner_ok (view (snd (create (p_schedules P) r s)))"
proof (rule schedules.create_row [of r s, OF new])
  fix i s1
  assume c: "create (p_schedules P) r s = (r\<lparr>js_id := Some i\<rparr>, s1)"
    "view s1 = (view s)\<lparr>w_schedules := w_schedules (view s) @ [r\<lparr>js_id := Some i\<rparr>]\<rparr>"
  have "refs_ok ((view s)\<lparr>w_schedules := w_schedules (view s) @ [r\<lparr>js_id := Some i\<rparr>]\<rparr>)"
    using ok parent by (intro refs_ok_schedules) (auto simp: planner_ok_def refs_ok_def)
  then show ?thesis using ok unique by (simp add: c planner_ok_def unique_ok_def)
qed

lemma save_task_ok:
  assumes ok: "planner_ok (view s)" and t: "t \<in> set (w_tasks (view s))"
    and same: "pt_id r = pt_id t" "pt_parent_task r = pt_parent_task t" "pt_is_break r = pt_is_break t"
  shows "planner_ok (view (snd (tb_save (p_tasks P) r s)))"
    "pt_id ` set (w_tasks (view (snd (tb_save (p_tasks P) r s)))) = pt_id ` set (w_tasks (view s))"
    "fst (tb_save (p_tasks P) r s) = r"
proof -
  let ?ts = "map (\<lambda>x. if pt_id x = pt_id r then r else x) (w_tasks (view s))"
  have known: "pt_id r \<in> pt_id ` set (w_tasks (view s))" using t same by auto
  note saved = tasks.save_row [OF known]
  have ids: "pt_id ` set ?ts = pt_id ` set (w_tasks (view s))" by (rule image_replace) (use known in auto)
  have "refs_ok ((view s)\<lparr>w_tasks := ?ts\<rparr>)"
  proof (rule refs_ok_tasks)
    show "pt_parent_task x = None \<or> pt_parent_task x \<in> pt_id ` set ?ts" if "x \<in> set ?ts" for x
    proof -
      from that t same obtain y where "y \<in> set (w_tasks (view s))" "pt_parent_task x = pt_parent_task y"
        by (auto split: if_splits)
      then show ?thesis using ok by (auto simp: planner_ok_def refs_ok_def simp flip: ids)
    qed
  qed (use ok ids in \<open>auto simp: planner_ok_def\<close>)
  then show "planner_ok (view (snd (tb_save (p_tasks P) r s)))"
    using ok t same by (auto simp: saved planner_ok_def breaks_ok_def)
  show "pt_id ` set (w_tasks (view (snd (tb_save (p_tasks P) r s)))) = pt_id ` set (w_tasks (view s))"
    using ids by (simp add: saved)
  show "fst (tb_save (p_tasks P) r s) = r" by (rule saved)
qed

lemma save_subtask_ok:
  assumes ok: "planner_ok (view s)" and b: "b \<in> set (w_subtasks (view s))"
    and same: "sb_id r = sb_id b" "sb_personal_task r = sb_personal_task b"
  shows "planner_ok (view (snd (tb_save (p_subtasks P) r s)))"
proof -
  have known: "sb_id r \<in> sb_id ` set (w_subtasks (view s))" using b same by auto
  have "refs_ok ((view s)\<lparr>w_subtasks := map (\<lambda>x. if sb_id x = sb_id r then r else x) (w_subtasks (view s))\<rparr>)"
    using ok b same by (intro refs_ok_subtasks) (auto simp: planner_ok_def refs_ok_def)
  then show ?thesis using ok by (simp add: subtasks.save_row [OF known] planner_ok_def)
qed

lemma save_prayer_ok:
  assumes ok: "planner_ok (view s)" and p: "p \<in> set (w_prayers (view s))"
    and same: "ps_id r = ps_id p" "ps_prayer_name r = ps_prayer_name p"
  shows "planner_ok (view (snd (tb_save (p_prayers P) r s)))"
proof -
  have known: "ps_id r \<in> ps_id ` set (w_prayers (view s))" using p same by auto
  have "map ps_prayer_name (map (\<lambda>x. if ps_id x = ps_id r then r else x) (w_prayers (view s))) = map ps_prayer_name (w_prayers (view s))"
    using prayers.rows_distinct [of s] p same by (intro map_replace) (auto simp: prayers.rows_view distinct_map dest: inj_onD)
  then show ?thesis using ok by (simp add: prayers.save_row [OF known] planner_ok_def unique_ok_def del: map_map)
qed

lemma save_prayer_completion_ok:
  assumes ok: "planner_ok (view s)" and c: "c \<in> set (w_prayer_completions (view s))"
    and same: "pc_id r = pc_id c" "pc_prayer_name r = pc_prayer_name c" "pc_date r = pc_date c"
  shows "planner_ok (view (snd (tb_save (p_prayer_completions P) r s)))"
proof -
  have known: "pc_id r \<in> pc_id ` set (w_prayer_completions (view s))" using c same by auto
  have "map (\<lambda>c. (pc_prayer_name c, pc_date c)) (map (\<lambda>x. if pc_id x = pc_id r then r else x) (w_prayer_completions (view s)))
      = map (\<lambda>c. (pc_prayer_name c, pc_date c)) (w_prayer_completions (view s))"
    using prayer_completions.rows_distinct [of s] c same
    by (intro map_replace) (auto simp: prayer_completions.rows_view distinct_map dest: inj_onD)
  then show ?thesis using ok
    by (simp add: prayer_completions.save_row [OF known] planner_ok_def unique_ok_def del: map_map)
qed

lemma save_project_ok:
  assumes ok: "planner_ok (view s)" and known: "pj_id r \<in> pj_id ` set (w_projects (view s))"
  shows "planner_ok (view (snd (tb_save (p_projects P) r s)))"
proof -
  have "pj_id ` set (map (\<lambda>x. if pj_id x = pj_id r then r else x) (w_projects (view s))) = pj_id ` set (w_projects (view s))"
    by (rule image_replace) (use known in auto)
  then have "refs_ok ((view s)\<lparr>w_projects := map (\<lambda>x. if pj_id x = pj_id r then r else x) (w_projects (view s))\<rparr>)"
    using ok by (intro refs_ok_projects) (auto simp: planner_ok_def)
  then show ?thesis using ok by (simp add: projects.save_row [OF known] planner_ok_def)
qed

lemma save_project_task_ok:
  assumes ok: "planner_ok (view s)" and known: "jt_id r \<in> jt_id ` set (w_project_tasks (view s))"
    and parent: "Some (jt_project r) \<in> pj_id ` set (w_projects (view s))"
  shows "planner_ok (view (snd (tb_save (p_project_tasks P) r s)))"
    "jt_id ` set (w_project_tasks (view (snd (tb_save (p_project_tasks P) r s)))) = jt_id ` set (w_project_tasks (view s))"
    "w_projects (view (snd (tb_save (p_project_tasks P) r s))) = w_projects (view s)"
proof -
  let ?ts = "map (\<lambda>x. if jt_id x = jt_id r then r else x) (w_project_tasks (view s))"
  note saved = project_tasks.save_row [OF known]
  have ids: "jt_id ` set ?ts = jt_id ` set (w_project_tasks (view s))" by (rule image_replace) (use known in auto)
  have "refs_ok ((view s)\<lparr>w_project_tasks := ?ts\<rparr>)"
    using ok parent ids by (intro refs_ok_project_tasks) (auto simp: planner_ok_def refs_ok_def)
  then show "planner_ok (view (snd (tb_save (p_project_tasks P) r s)))" using ok by (simp add: saved planner_ok_def)
  show "jt_id ` set (w_project_tasks (view (snd (tb_save (p_project_tasks P) r s)))) = jt_id ` set (w_project_tasks (view s))"
    "w_projects (view (snd (tb_save (p_project_tasks P) r s))) = w_projects (view s)"
    using ids by (simp_all add: saved)
qed

section \<open>The views\<close>

abbreviation ok :: "'s \<Rightarrow> bool"
  where "ok s \<equiv> planner_ok (view s)"

lemma today_view: "today P s = (d, s1) \<Longrightarrow> view s1 = view s"
  using clock_view [of s] by (auto simp: today_def split: prod.splits)

lemma require_ok: "ok s \<Longrightarrow> ok (snd (k s)) \<Longrightarrow> ok (snd (require_http_methods ms rq k s))"
  by (simp add: require_http_methods_def)

lemma object_ok: "ok s \<Longrightarrow> (\<And>r. get_by_id rid T i s = Some r \<Longrightarrow> ok (snd (k r))) \<Longrightarrow> ok (snd (object_or_404 rid T i s k))"
  by (simp add: object_or_404_def split: option.split)

lemma with_json_ok: "ok s \<Longrightarrow> (\<And>v. ok (snd (k v))) \<Longrightarrow> ok (snd (with_json rq bad k s))"
  by (simp add: with_json_def split: option.split)

lemma or_failure_ok: "ok (snd m) \<Longrightarrow> ok (snd (or_failure P n m))"
  by (auto simp: or_failure_def split: prod.split sum.split)

lemma date_failure_ok: "ok (snd m) \<Longrightarrow> ok (snd (date_failure P m))"
  using or_failure_ok [of m 500] by (auto simp: date_failure_def split: prod.split sum.split)

lemma and_then_ok:
  "(\<And>e s1. m = (Inl e, s1) \<Longrightarrow> ok s1) \<Longrightarrow> (\<And>x s1. m = (Inr x, s1) \<Longrightarrow> ok (snd (f x s1))) \<Longrightarrow> ok (snd (and_then m f))"
  by (auto simp: and_then_def split: prod.split sum.split)

lemmas view_ok = require_ok object_ok with_json_ok or_failure_ok date_failure_ok

lemma form_clean_view: "form_clean P c s = (r, s1) \<Longrightarrow> view s1 = view s"
  by (auto simp: form_clean_def Let_def dest: today_view split: option.splits prod.splits if_splits)

lemma form_valid_view: "form_valid P c s = (f, s1) \<Longrightarrow> view s1 = view s"
  by (auto simp: form_valid_def dest: form_clean_view split: prod.splits sum.splits)

lemma form_valid_ok: "form_valid P c s = (f, s1) \<Longrightarrow> ok s \<Longrightarrow> ok s1"
  by (simp add: form_valid_view)

lemma subtask_row_ok:
  assumes "create_subtask_row P i d s = (r, s1)" "ok s" "Some i \<in> pt_id ` set (w_tasks (view s))"
  shows "ok s1 \<and> w_tasks (view s1) = w_tasks (view s)"
  using assms(1) create_subtask_ok [OF assms(2)] assms(2,3)
  by (auto simp: create_subtask_row_def split: sum.splits prod.splits)

lemma subtask_rows_ok:
  "create_subtask_rows P i ds s = (r, s1) \<Longrightarrow> ok s \<Longrightarrow> Some i \<in> pt_id ` set (w_tasks (view s)) \<Longrightarrow>
    ok s1 \<and> w_tasks (view s1) = w_tasks (view s)"
proof (induction ds arbitrary: s)
  case (Cons d ds)
  obtain r0 s0 where row: "create_subtask_row P i d s = (r0, s0)" by fastforce
  with Cons.prems have "ok s0" "w_tasks (view s0) = w_tasks (view s)" using subtask_row_ok by blast+
  with row Cons show ?case by (cases r0) auto
qed simp

lemma add_subtasks_ok:
  assumes add: "add_subtasks P replace i js s = (r, s1)" and pre: "ok s" "Some i \<in> pt_id ` set (w_tasks (view s))"
  shows "ok s1 \<and> w_tasks (view s1) = w_tasks (view s)"
proof -
  let ?s0 = "if replace then delete_rows (p_subtasks P) (\<lambda>b. sb_personal_task b = i) s else s"
  have "ok ?s0" "w_tasks (view ?s0) = w_tasks (view s)"
    using pre by (auto simp: subtasks.deleted planner_ok_def refs_ok_def)
  moreover from add have "s1 = s \<or> s1 = ?s0 \<or> (\<exists>items r0. create_subtask_rows P i items ?s0 = (r0, s1))"
    by (auto simp: add_subtasks_def Let_def split: option.splits sum.splits prod.splits if_splits)
  moreover have "ok s1 \<and> w_tasks (view s1) = w_tasks (view s)" if "create_subtask_rows P i items ?s0 = (r0, s1)" for items r0
    using subtask_rows_ok [OF that] calculation(1,2) pre(2) by simp
  ultimately show ?thesis using pre by auto
qed

lemma auto_insert_breaks_ok:
  assumes "auto_insert_breaks P t s = (r, s1)" "ok s" "long_task t \<Longrightarrow> pt_id t \<in> pt_id ` set (w_tasks (view s))"
  shows "ok s1"
proof -
  have "ok (snd (create (p_tasks P) (break_for t b) s))" if "long_task t" for b
    using assms(3) [OF that] by (intro create_task_ok [OF assms(2)]) (simp_all add: break_for_def)
  then show ?thesis using assms(1,2) by (auto simp: auto_insert_breaks_def split: sum.splits if_splits)
qed

lemma store_new_task_ok: "ok s \<Longrightarrow> ok (snd (store_new_task P f js d s))"
proof (cases "create (p_tasks P) (fill f new_task) s")
  case (Pair t s1)
  assume "ok s"
  then have s1: "ok s1" using create_task_ok [of s "fill f new_task"] Pair by (simp add: fill_def new_task_def)
  from Pair create_task_in [of "fill f new_task" s t s1] have t: "pt_id t \<noteq> None" "pt_id t \<in> pt_id ` set (w_tasks (view s1))"
    by (auto simp: fill_def new_task_def)
  then have in1: "Some (the (pt_id t)) \<in> pt_id ` set (w_tasks (view s1))" by simp
  have "ok s2 \<and> pt_id t \<in> pt_id ` set (w_tasks (view s2))"
    if "add_subtasks P False (the (pt_id t)) js s1 = (r, s2)" for r s2
    using add_subtasks_ok [OF that s1 in1] t by simp
  then show ?thesis
    unfolding store_new_task_def Pair by (auto intro!: and_then_ok dest: auto_insert_breaks_ok)
qed

lemma create_personal_task_ok: "ok s \<Longrightarrow> ok (snd (create_personal_task P rq c y m d s))"
  unfolding create_personal_task_def
  by (auto intro!: view_ok store_new_task_ok dest: form_valid_ok split: sum.split option.split prod.split)

text \<open>
  The breaks of a task are deleted before a new one is inserted: the task itself stays, since a task that is
  not a break belongs to no other.
\<close>

lemma breaks_gone:
  assumes breaks: "\<And>t. t \<in> set ts \<Longrightarrow> pt_is_break t \<or> pt_parent_task t = None"
    and ids: "\<And>t. t \<in> set ts \<Longrightarrow> pt_id t = Some i \<Longrightarrow> \<not> pt_is_break t"
    and start: "i \<notin> set js"
  shows "i \<notin> set (with_breaks n ts js)"
  using start
proof (induction n arbitrary: js)
  case (Suc n)
  have "i \<notin> set (break_step ts js)" using Suc.prems breaks ids by (fastforce simp: break_step_set)
  then show ?case using Suc.IH [of "break_step ts js"] unfolding with_breaks_Suc by simp
qed simp

lemma own_task_kept:
  assumes ok: "ok s" and t: "t \<in> set (w_tasks (view s))" "pt_id t = Some i" "\<not> pt_is_break t"
  shows "Some i \<in> pt_id ` set (w_tasks (view (cascade_tasks P (break_keys (tb_rows (p_tasks P) s) i) s)))"
proof -
  have same: "x = t" if "x \<in> set (w_tasks (view s))" "pt_id x = Some i" for x
  proof -
    have "inj_on pt_id (set (w_tasks (view s)))" using tasks.rows_distinct [of s] by (simp add: tasks.rows_view distinct_map)
    then show ?thesis by (rule inj_onD) (use that t in simp_all)
  qed
  have br: "pt_is_break x \<or> pt_parent_task x = None" if "x \<in> set (w_tasks (view s))" for x
    using ok that by (auto simp: planner_ok_def breaks_ok_def)
  have root: "pt_parent_task x = None" "\<not> pt_is_break x" if "x \<in> set (w_tasks (view s))" "pt_id x = Some i" for x
    using same [OF that] br [OF t(1)] t(3) by simp_all
  have "i \<notin> set (break_keys (w_tasks (view s)) i)"
  proof
    assume "i \<in> set (break_keys (w_tasks (view s)) i)"
    then obtain b where "b \<in> set (w_tasks (view s))" "pt_parent_task b = Some i" "pt_id b = Some i"
      by (auto simp: break_keys_def List.map_filter_def)
    with root(1) [of b] show False by simp
  qed
  then have "i \<notin> tasks_gone (w_tasks (view s)) (break_keys (w_tasks (view s)) i)"
    unfolding tasks_gone_def by (intro breaks_gone) (simp_all only: br root not_False_eq_True)
  then have "\<forall>j\<in>tasks_gone (w_tasks (view s)) (break_keys (w_tasks (view s)) i). pt_id t \<noteq> Some j" using t by auto
  then have "t \<in> set (w_tasks (view (cascade_tasks P (break_keys (tb_rows (p_tasks P) s) i) s)))"
    using t by (simp add: cascade_tasks_view tasks.rows_view)
  then show ?thesis using t(2) by (metis image_eqI)
qed

lemma store_edited_task_ok:
  assumes ok: "ok s" and t: "t \<in> set (w_tasks (view s))" "pt_id t = Some i"
    and same: "pt_id r = pt_id t" "pt_parent_task r = pt_parent_task t" "pt_is_break r = pt_is_break t"
  shows "ok (snd (store_edited_task P i r js s))"
proof -
  obtain s1 where s1: "tb_save (p_tasks P) r s = (r, s1)" "ok s1" "Some i \<in> pt_id ` set (w_tasks (view s1))" "r \<in> set (w_tasks (view s1))"
  proof -
    have "r \<in> set (w_tasks (view (snd (tb_save (p_tasks P) r s))))"
      using tasks.save_row(2) [of r s] t same by (force simp: image_iff)
    with save_task_ok [OF ok t(1) same] t that show ?thesis by (metis image_eqI prod.collapse)
  qed
  have after: "ok s3" if add: "add_subtasks P True i js s1 = (x, s2)"
    and br: "auto_insert_breaks P r (cascade_tasks P (break_keys (tb_rows (p_tasks P) s2) i) s2) = (y, s3)" for x s2 y s3
  proof (rule auto_insert_breaks_ok [OF br])
    from add_subtasks_ok [OF add s1(2,3)] have s2: "ok s2" "w_tasks (view s2) = w_tasks (view s1)" by auto
    then show "ok (cascade_tasks P (break_keys (tb_rows (p_tasks P) s2) i) s2)" by (intro cascade_tasks_ok)
    show "pt_id r \<in> pt_id ` set (w_tasks (view (cascade_tasks P (break_keys (tb_rows (p_tasks P) s2) i) s2)))" if "long_task r"
      using own_task_kept [OF s2(1), of r i] s2(2) s1(4) t(2) same(1) that by (simp add: long_task_def)
  qed
  show ?thesis unfolding store_edited_task_def s1(1)
    using after add_subtasks_ok [OF _ s1(2,3)] by (auto intro!: and_then_ok)
qed

lemma edit_personal_task_ok: "ok s \<Longrightarrow> ok (snd (edit_personal_task P rq c i s))"
  unfolding edit_personal_task_def
proof (intro view_ok)
  fix t assume ok: "ok s" and "get_by_id pt_id (p_tasks P) i s = Some t"
  then have t: "t \<in> set (w_tasks (view s))" "pt_id t = Some i" using tasks.got by blast+
  have "ok (snd (store_edited_task P i (fill f t) js s1))" if "form_valid P c s = (Some f, s1)" for f s1 js
    using that ok t by (intro store_edited_task_ok [of s1 t]) (auto simp: form_valid_view fill_def)
  then show "ok (snd (if rq_method rq \<noteq> ''POST'' then (Inr (Page [] ''admin/scheduler/create_personal_task.html''), s)
      else (case form_valid P c s of
         (None, s1) \<Rightarrow> (Inr (Page [] ''admin/scheduler/create_personal_task.html''), s1)
       | (Some f, s1) \<Rightarrow> store_edited_task P i (fill f t) (map_of (rq_post rq) ''subtasks_json'') s1)))"
    using ok by (auto dest: form_valid_ok split: option.split prod.split)
qed

lemma delete_personal_task_ok: "ok s \<Longrightarrow> ok (snd (delete_personal_task P rq i s))"
  unfolding delete_personal_task_def by (intro view_ok) (simp_all add: cascade_tasks_ok)

lemma task_known: "get_by_id pt_id (p_tasks P) i s = Some t \<Longrightarrow> Some i \<in> pt_id ` set (w_tasks (view s))"
  using tasks.got by (metis image_eqI)

lemma completed_ok:
  assumes "ok s" "get_by_id pt_id (p_tasks P) i s = Some t"
  shows "ok (snd (create (p_completions P) \<lparr> tc_id = None, tc_task = i, tc_is_completed = b, tc_performance_rating = q \<rparr>
      (snd (tb_save (p_tasks P) (t\<lparr>pt_is_completed := b\<rparr>) s))))"
proof -
  have t: "t \<in> set (w_tasks (view s))" "pt_id t = Some i" using tasks.got assms(2) by blast+
  have saved: "pt_id (t\<lparr>pt_is_completed := b\<rparr>) = pt_id t" "pt_parent_task (t\<lparr>pt_is_completed := b\<rparr>) = pt_parent_task t"
    "pt_is_break (t\<lparr>pt_is_completed := b\<rparr>) = pt_is_break t" by simp_all
  have "Some i \<in> pt_id ` set (w_tasks (view (snd (tb_save (p_tasks P) (t\<lparr>pt_is_completed := b\<rparr>) s))))"
    unfolding save_task_ok(2) [OF assms(1) t(1) saved] by (rule task_known [OF assms(2)])
  then show ?thesis using save_task_ok(1) [OF assms(1) t(1) saved] by (intro create_completion_ok) simp_all
qed

lemma toggle_task_completion_ok: "ok s \<Longrightarrow> ok (snd (toggle_task_completion P rq i s))"
  unfolding toggle_task_completion_def
  by (intro view_ok) (auto simp: Let_def intro!: or_failure_ok completed_ok split: sum.split)

lemma new_subtask_ok:
  "create (p_subtasks P) r s = (b, s1) \<Longrightarrow> get_by_id pt_id (p_tasks P) i s = Some t \<Longrightarrow>
    ok s \<Longrightarrow> sb_id r = None \<Longrightarrow> sb_personal_task r = i \<Longrightarrow> ok s1"
  using create_subtask_ok [of s r] task_known [of i s t] by simp

lemma create_subtask_view_ok: "ok s \<Longrightarrow> ok (snd (create_subtask P rq i s))"
  unfolding create_subtask_def
  by (intro view_ok) (auto simp: Let_def intro!: or_failure_ok elim!: new_subtask_ok split: sum.split prod.split)

lemma toggled_subtask_ok:
  assumes "ok s" "get_by_id sb_id (p_subtasks P) i s = Some b"
  shows "ok (snd (tb_save (p_subtasks P) (b\<lparr>sb_is_completed := x\<rparr>) s))"
  using assms(1) by (rule save_subtask_ok [where b = b]) (use subtasks.got [OF assms(2)] in auto)

lemma toggle_subtask_completion_ok: "ok s \<Longrightarrow> ok (snd (toggle_subtask_completion P rq i s))"
  unfolding toggle_subtask_completion_def
  by (intro view_ok) (auto simp: Let_def intro!: or_failure_ok toggled_subtask_ok split: sum.split option.split)

lemma subtask_deleted_ok: "ok s \<Longrightarrow> ok (tb_delete (p_subtasks P) b s)"
  by (auto simp: subtasks.delete_row planner_ok_def refs_ok_def)

lemma delete_subtask_ok: "ok s \<Longrightarrow> ok (snd (delete_subtask P rq i s))"
  unfolding delete_subtask_def
  by (intro view_ok) (auto simp: Let_def subtask_deleted_ok split: option.split)

lemma copy_subtasks_ok:
  "ok s \<Longrightarrow> Some i \<in> pt_id ` set (w_tasks (view s)) \<Longrightarrow> ok (copy_subtasks P i bs s)"
proof (induction bs arbitrary: s)
  case (Cons b bs)
  from create_subtask_ok [of s "\<lparr> sb_id = None, sb_personal_task = i, sb_title = sb_title b, sb_is_completed = False, sb_order = sb_order b \<rparr>"]
    Cons show ?case by (simp add: copy_subtasks_def)
qed (simp add: copy_subtasks_def)

lemma copy_task_ok:
  assumes copy: "copy_task P d y ovs i s = (r, s1)" and ok: "ok s" shows "ok s1"
proof (cases r)
  case (Inl e)
  with copy ok show ?thesis by (auto simp: copy_task_def Let_def split: sum.splits prod.splits)
next
  case (Inr t)
  with copy obtain x bs s0 where c: "create (p_tasks P) x s = (t, s0)" "pt_id x = None" "pt_parent_task x = None"
    "s1 = copy_subtasks P (the (pt_id t)) bs s0"
    by (auto simp: copy_task_def Let_def new_task_def split: sum.splits prod.splits)
  with create_task_in [OF c(2,1)] have "Some (the (pt_id t)) \<in> pt_id ` set (w_tasks (view s0))"
    by (metis image_eqI option.sel personal_task.select_convs(1) personal_task.surjective personal_task.update_convs(1))
  moreover have "ok s0" using create_task_ok [OF ok c(2)] c by simp
  ultimately show ?thesis using copy_subtasks_ok c(4) by blast
qed

lemma copy_tasks_ok: "ok s \<Longrightarrow> ok (snd (copy_tasks P d y ovs is cs es s))"
  by (induction "is" arbitrary: cs es s) (auto split: prod.split sum.split dest: copy_task_ok)

lemma copy_tasks_from_yesterday_ok: "ok s \<Longrightarrow> ok (snd (copy_tasks_from_yesterday P rq y m d s))"
  unfolding copy_tasks_from_yesterday_def
  using copy_tasks_ok [of s]
  by (auto simp: invalid_date_def intro!: require_ok with_json_ok split: sum.split prod.split) (metis snd_conv)

section \<open>Prayers\<close>

lemma create_prayer_view_ok: "ok s \<Longrightarrow> ok (snd (create_prayer P rq s))"
  unfolding create_prayer_def
  by (auto simp: Let_def prayers.rows_view list_ex_iff intro!: require_ok create_prayer_ok dest!: text_kept
      split: sum.split simp: rbind_def split: sum.splits)

lemma update_prayer_ok: "ok s \<Longrightarrow> ok (snd (update_prayer P rq i s))"
  unfolding update_prayer_def
  by (intro view_ok) (auto simp: Let_def dest!: prayers.got intro!: save_prayer_ok split: sum.split)

lemma prayer_deleted_ok: "ok s \<Longrightarrow> ok (tb_delete (p_prayers P) p s)"
  by (auto simp: prayers.delete_row planner_ok_def unique_ok_def distinct_map_filter)

lemma delete_prayer_ok: "ok s \<Longrightarrow> ok (snd (delete_prayer P rq i s))"
  unfolding delete_prayer_def by (intro view_ok) (simp_all add: prayer_deleted_ok)

lemma get_or_create_completion_ok:
  assumes get: "get_or_create_completion P n d s = (r, s1)" and ok: "ok s"
  shows "ok s1 \<and> (\<forall>c. r = Inr c \<longrightarrow> c \<in> set (w_prayer_completions (view s1)))"
proof (cases "find (\<lambda>c. pc_prayer_name c = n \<and> pc_date c = d) (tb_rows (p_prayer_completions P) s)")
  case (Some c)
  with get have "r = Inr c" "s1 = s" by (auto simp: get_or_create_completion_def)
  moreover have "c \<in> set (w_prayer_completions (view s))"
    using Some by (auto simp: find_Some_iff prayer_completions.rows_view)
  ultimately show ?thesis using ok by simp
next
  case None
  then have new: "\<And>c. c \<in> set (w_prayer_completions (view s)) \<Longrightarrow> \<not> (pc_prayer_name c = n \<and> pc_date c = d)"
    by (auto simp: find_None_iff prayer_completions.rows_view)
  show ?thesis
  proof (cases "p_text P (VStr n)")
    case (Inl e)
    with None get ok show ?thesis by (auto simp: get_or_create_completion_def)
  next
    case (Inr m)
    then have [simp]: "m = n" by (rule text_kept)
    let ?r = "\<lparr> pc_id = None, pc_prayer_name = n, pc_date = d, pc_is_completed = False, pc_status = NOT_YET, pc_completed_at = None \<rparr>"
    obtain c where "create (p_prayer_completions P) ?r s = (c, s1)" "r = Inr c"
      using None get Inr by (auto simp: get_or_create_completion_def Let_def split: prod.splits)
    with create_prayer_completion_ok [OF ok, of ?r c s1] new show ?thesis by auto
  qed
qed

lemmas got_completion = get_or_create_completion_ok [THEN conjunct1] get_or_create_completion_ok [THEN conjunct2, rule_format]

lemma save_status_ok: "ok s \<Longrightarrow> c \<in> set (w_prayer_completions (view s)) \<Longrightarrow> ok (save_status P st c s)"
proof -
  assume ok: "ok s" and c: "c \<in> set (w_prayer_completions (view s))"
  have "view (snd (p_now P s)) = view s" by (rule clock_view)
  then show "ok (save_status P st c s)"
    using ok c by (auto simp: save_status_def Let_def split: prod.split intro!: save_prayer_completion_ok [where c = c])
qed

lemma toggle_prayer_completion_ok: "ok s \<Longrightarrow> ok (snd (toggle_prayer_completion P rq n s))"
proof -
  assume ok: "ok s"
  have got: "ok s1" if "get_or_create_completion P n d s = (r, s1)" for d r s1 using got_completion(1) [OF that ok] .
  have saved: "ok (save_status P st c s1)" if "get_or_create_completion P n d s = (Inr c, s1)" for d c s1 st
    using that ok by (intro save_status_ok) (auto intro: got got_completion(2))
  show ?thesis unfolding toggle_prayer_completion_def using ok
    by (auto intro!: require_ok with_json_ok date_failure_ok and_then_ok split: sum.split prod.split) (erule got saved)+
qed

section \<open>Projects\<close>

lemma new_project_ok: "new_project P v s = (r, s1) \<Longrightarrow> ok s \<Longrightarrow> ok s1"
proof -
  have new: "ok s2" if "create (p_projects P) p s = (p1, s2)" "ok s" "pj_id p = None" for p p1 s2
    using create_project_ok [OF that(2,3)] that(1) by simp
  assume "new_project P v s = (r, s1)" "ok s"
  then show "ok s1"
    by (auto simp: new_project_def Let_def rbind_def split: sum.splits prod.splits dest!: new)
qed

lemma create_project_view_ok: "ok s \<Longrightarrow> ok (snd (create_project P rq s))"
proof -
  assume ok: "ok s"
  have "ok s1" if "(case request_data rq of Inl e \<Rightarrow> (Inl e, s) | Inr data \<Rightarrow> new_project P data s) = (r, s1)" for r s1
    using that ok new_project_ok by (auto split: sum.splits)
  then show ?thesis unfolding create_project_def using ok
    by (intro require_ok) (auto split: sum.split prod.split simp: Let_def simp del: split_paired_All)
qed

lemma saved_project_ok:
  "get_by_id pj_id (p_projects P) i s = Some p \<Longrightarrow> ok s \<Longrightarrow> pj_id r = pj_id p \<Longrightarrow> ok (snd (tb_save (p_projects P) r s))"
  by (rule save_project_ok) (use projects.got in \<open>metis image_eqI\<close>)+

lemma edited_project_id: "edited_project P rq p = Inr q \<Longrightarrow> pj_id q = pj_id p"
  by (auto simp: edited_project_def rbind_def split: sum.splits)

lemma project_detail_ok: "ok s \<Longrightarrow> ok (snd (project_detail P rq i s))"
  unfolding project_detail_def object_or_404_def
  by (auto split: option.split sum.split intro: saved_project_ok edited_project_id)

lemma delete_project_ok: "ok s \<Longrightarrow> ok (snd (delete_project P rq i s))"
  unfolding delete_project_def by (intro view_ok) (simp_all add: cascade_project_ok)

lemma new_project_task_ok:
  assumes "create (p_project_tasks P) r s = (t, s1)" "get_by_id pj_id (p_projects P) i s = Some p" "ok s" "jt_id r = None" "jt_project r = i"
  shows "ok s1"
proof -
  have "Some (jt_project r) \<in> pj_id ` set (w_projects (view s))" using projects.got [OF assms(2)] assms(5) by (metis image_eqI)
  then show ?thesis using create_project_task_ok [OF assms(3,4)] assms(1) by simp
qed

lemma create_project_task_view_ok: "ok s \<Longrightarrow> ok (snd (create_project_task P rq i s))"
  unfolding create_project_task_def
  by (intro view_ok) (auto simp: Let_def rbind_def elim!: new_project_task_ok split: sum.splits prod.splits)

lemma delete_project_task_ok: "ok s \<Longrightarrow> ok (snd (delete_project_task P rq i s))"
  unfolding delete_project_task_def by (intro view_ok) (simp_all add: delete_project_tasks_ok)

lemma new_schedule_ok:
  assumes "create (p_schedules P) r s = (c, s1)" "get_by_id jt_id (p_project_tasks P) i s = Some t" "ok s" "js_id r = None"
    "js_project_task r = i" "\<forall>x\<in>set (w_schedules (view s)). js_project_task x = i \<longrightarrow> js_day_of_week x \<noteq> js_day_of_week r"
  shows "ok s1"
proof -
  have "Some (js_project_task r) \<in> jt_id ` set (w_project_tasks (view s))" using project_tasks.got [OF assms(2)] assms(5) by (metis image_eqI)
  moreover have "(js_project_task r, js_day_of_week r) \<notin> (\<lambda>c. (js_project_task c, js_day_of_week c)) ` set (w_schedules (view s))"
    using assms(5,6) by auto
  ultimately show ?thesis using create_schedule_ok [OF assms(3,4)] assms(1) by simp
qed

lemma create_schedule_view_ok: "ok s \<Longrightarrow> ok (snd (create_schedule P rq i s))"
  unfolding create_schedule_def
  by (intro view_ok) (auto simp: Let_def rbind_def schedules.rows_view list_ex_iff today_view dest!: today_view
      elim!: new_schedule_ok split: sum.splits prod.splits)

section \<open>Generating tasks\<close>

definition same_projects :: "'s \<Rightarrow> 's \<Rightarrow> bool"
  where "same_projects s s1 \<longleftrightarrow> w_projects (view s1) = w_projects (view s) \<and>
    jt_id ` set (w_project_tasks (view s1)) = jt_id ` set (w_project_tasks (view s))"

lemma same_projects_trans: "same_projects s s1 \<Longrightarrow> same_projects s1 s2 \<Longrightarrow> same_projects s s2"
  by (simp add: same_projects_def)

lemma create_task_frame: "pt_id r = None \<Longrightarrow> \<exists>ts. view (snd (create (p_tasks P) r s)) = (view s)\<lparr>w_tasks := ts\<rparr>"
  by (rule tasks.create_row [of r s]) auto

lemma generate_on_ok:
  assumes gen: "generate_on P p t c d g s = (r, s1)" and ok: "ok s"
  shows "ok s1 \<and> same_projects s s1"
proof -
  have "ok (snd (create (p_tasks P) (generated_task x p d a b) s)) \<and>
      same_projects s (snd (create (p_tasks P) (generated_task x p d a b) s))" for x a b
    using create_task_ok [OF ok, of "generated_task x p d a b"] create_task_frame [of "generated_task x p d a b" s]
    by (auto simp: generated_task_def same_projects_def)
  moreover have "same_projects s s" by (simp add: same_projects_def)
  ultimately show ?thesis using gen ok by (auto simp: generate_on_def split: sum.splits if_splits)
qed

lemma generate_weeks_ok:
  "generate_weeks P p t c d n g s = (r, s1) \<Longrightarrow> ok s \<Longrightarrow> ok s1 \<and> same_projects s s1"
proof (induction "nat (js_weeks c - n)" arbitrary: d n g s rule: less_induct)
  case less
  have same: "same_projects s s" by (simp add: same_projects_def)
  show ?case
  proof (cases "d \<le> pj_end_date p \<and> n < js_weeks c")
    case False
    then have "s1 = s" using less.prems(1) by (auto simp: generate_weeks.simps [of P p t c d])
    then show ?thesis using less.prems(2) same by simp
  next
    case True
    show ?thesis
    proof (cases "\<exists>e. target_date (pj_start_date p) (js_day_of_week c) d = Inr e \<and> e \<le> pj_end_date p")
      case False
      then have "s1 = s" using True less.prems(1)
        by (auto simp: generate_weeks.simps [of P p t c d] split: sum.splits if_splits)
      then show ?thesis using less.prems(2) same by simp
    next
      case target: True
      then obtain e where e: "target_date (pj_start_date p) (js_day_of_week c) d = Inr e" "e \<le> pj_end_date p" by blast
      obtain r0 s0 where on: "generate_on P p t c e g s = (r0, s0)" by fastforce
      note on_ok = generate_on_ok [OF on less.prems(2)]
      have run: "and_then (generate_on P p t c e g s) (\<lambda>g1 s1. (case shift_date e 1 of Inl x \<Rightarrow> (Inl x, s1)
          | Inr next_date \<Rightarrow> generate_weeks P p t c next_date (n + 1) g1 s1)) = (r, s1)"
        using less.prems(1) True e by (simp add: generate_weeks.simps [of P p t c d])
      show ?thesis
      proof (cases "\<exists>g1 x. r0 = Inr g1 \<and> shift_date e 1 = Inr x")
        case False
        then have "s1 = s0" using run on by (cases r0) (auto split: sum.splits)
        then show ?thesis using on_ok by simp
      next
        case next_week: True
        then obtain g1 x where rec: "generate_weeks P p t c x (n + 1) g1 s0 = (r, s1)" using run on by auto
        have "nat (js_weeks c - (n + 1)) < nat (js_weeks c - n)" using True by simp
        from less.hyps [OF this rec] on_ok show ?thesis using same_projects_trans by blast
      qed
    qed
  qed
qed

lemma generate_schedule_of_ok:
  assumes "generate_schedule_of P p t c g s = (r, s1)" "ok s"
    and t: "jt_id t \<in> jt_id ` set (w_project_tasks (view s))" "Some (jt_project t) \<in> pj_id ` set (w_projects (view s))"
  shows "ok s1 \<and> same_projects s s1"
proof -
  obtain r0 s0 where weeks: "generate_weeks P p t c (pj_start_date p) 0 g s = (r0, s0)" by fastforce
  note s0 = generate_weeks_ok [OF weeks assms(2)]
  show ?thesis
  proof (cases r0)
    case (Inl e)
    then show ?thesis using s0 weeks assms(1) by (simp add: generate_schedule_of_def)
  next
    case (Inr g1)
    then have s1: "s1 = snd (tb_save (p_project_tasks P) (t\<lparr>jt_is_scheduled := True\<rparr>) s0)"
      using weeks assms(1) by (simp add: generate_schedule_of_def)
    have "jt_id (t\<lparr>jt_is_scheduled := True\<rparr>) \<in> jt_id ` set (w_project_tasks (view s0))"
      "Some (jt_project (t\<lparr>jt_is_scheduled := True\<rparr>)) \<in> pj_id ` set (w_projects (view s0))"
      using s0 t by (simp_all add: same_projects_def)
    from save_project_task_ok [OF _ this] s0 show ?thesis
      unfolding s1 by (auto simp: same_projects_def)
  qed
qed

lemma generate_schedules_ok:
  "generate_schedules P p t cs g s = (r, s1) \<Longrightarrow> ok s \<Longrightarrow> jt_id t \<in> jt_id ` set (w_project_tasks (view s)) \<Longrightarrow>
    Some (jt_project t) \<in> pj_id ` set (w_projects (view s)) \<Longrightarrow> ok s1 \<and> same_projects s s1"
proof (induction cs arbitrary: g s)
  case (Cons c cs)
  obtain r0 s0 where one: "generate_schedule_of P p t c g s = (r0, s0)" by fastforce
  note s0 = generate_schedule_of_ok [OF one Cons.prems(2-4)]
  show ?case
  proof (cases r0)
    case (Inl e)
    then show ?thesis using one Cons.prems(1) s0 by simp
  next
    case (Inr g1)
    then have rec: "generate_schedules P p t cs g1 s0 = (r, s1)" using one Cons.prems(1) by simp
    have "ok s1 \<and> same_projects s0 s1"
      using s0 Cons.prems(3,4) by (intro Cons.IH [OF rec]) (simp_all add: same_projects_def)
    then show ?thesis using s0 same_projects_trans by blast
  qed
qed (simp add: same_projects_def)

lemma generate_tasks_ok:
  "generate_tasks P p ts g s = (r, s1) \<Longrightarrow> ok s \<Longrightarrow>
    (\<And>t. t \<in> set ts \<Longrightarrow> jt_id t \<in> jt_id ` set (w_project_tasks (view s)) \<and> Some (jt_project t) \<in> pj_id ` set (w_projects (view s))) \<Longrightarrow> ok s1"
proof (induction ts arbitrary: g s)
  case (Cons t ts)
  obtain r0 s0 where one: "generate_schedules P p t (active_schedules P t s) g s = (r0, s0)" by fastforce
  have s0: "ok s0 \<and> same_projects s s0"
    by (rule generate_schedules_ok [OF one Cons.prems(2)]) (use Cons.prems(3) [of t] in simp_all)
  show ?case
  proof (cases r0)
    case (Inl e)
    then show ?thesis using one Cons.prems(1) s0 by simp
  next
    case (Inr g1)
    then have rec: "generate_tasks P p ts g1 s0 = (r, s1)" using one Cons.prems(1) by simp
    show ?thesis using s0 Cons.prems(3) by (intro Cons.IH [OF rec]) (auto simp: same_projects_def)
  qed
qed simp

lemma generate_schedule_ok: "ok s \<Longrightarrow> ok (snd (generate_schedule P rq i s))"
proof -
  assume ok: "ok s"
  have gen: "ok s1" if "generate_tasks P p (filter C (tasks_of_project P i s)) g s = (r, s1)" for p C g r s1
    by (rule generate_tasks_ok [OF that ok])
      (use ok in \<open>auto simp: tasks_of_project_def project_tasks.rows_view planner_ok_def refs_ok_def\<close>)
  show ?thesis
    unfolding generate_schedule_def using ok
    by (auto intro!: require_ok object_ok or_failure_ok and_then_ok split: sum.split) (erule gen)+
qed

end

section \<open>Steps\<close>

inductive planner_step :: "('s, 'x) planner_scheme \<Rightarrow> 's \<Rightarrow> 's \<Rightarrow> bool" for P where
  clock: "planner_step P s (snd (today P s))"
| create_personal_task: "planner_step P s (snd (create_personal_task P rq c year month day s))"
| edit_personal_task: "planner_step P s (snd (edit_personal_task P rq c i s))"
| delete_personal_task: "planner_step P s (snd (delete_personal_task P rq i s))"
| toggle_task_completion: "planner_step P s (snd (toggle_task_completion P rq i s))"
| create_subtask: "planner_step P s (snd (create_subtask P rq i s))"
| toggle_subtask_completion: "planner_step P s (snd (toggle_subtask_completion P rq i s))"
| delete_subtask: "planner_step P s (snd (delete_subtask P rq i s))"
| copy_tasks_from_yesterday: "planner_step P s (snd (copy_tasks_from_yesterday P rq year month day s))"
| create_prayer: "planner_step P s (snd (create_prayer P rq s))"
| update_prayer: "planner_step P s (snd (update_prayer P rq i s))"
| delete_prayer: "planner_step P s (snd (delete_prayer P rq i s))"
| toggle_prayer_completion: "planner_step P s (snd (toggle_prayer_completion P rq name s))"
| create_project: "planner_step P s (snd (create_project P rq s))"
| project_detail: "planner_step P s (snd (project_detail P rq i s))"
| delete_project: "planner_step P s (snd (delete_project P rq i s))"
| create_project_task: "planner_step P s (snd (create_project_task P rq i s))"
| delete_project_task: "planner_step P s (snd (delete_project_task P rq i s))"
| create_schedule: "planner_step P s (snd (create_schedule P rq i s))"
| generate_schedule: "planner_step P s (snd (generate_schedule P rq i s))"

context planner
begin

lemma step_keeps: "planner_step P s s1 \<Longrightarrow> ok s \<Longrightarrow> ok s1"
proof (induction rule: planner_step.induct)
  case (clock s)
  then show ?case by (cases "today P s") (simp add: today_view)
qed (simp_all add: create_personal_task_ok edit_personal_task_ok delete_personal_task_ok toggle_task_completion_ok
    create_subtask_view_ok toggle_subtask_completion_ok delete_subtask_ok copy_tasks_from_yesterday_ok create_prayer_view_ok
    update_prayer_ok delete_prayer_ok toggle_prayer_completion_ok create_project_view_ok project_detail_ok delete_project_ok
    create_project_task_view_ok delete_project_task_ok create_schedule_view_ok generate_schedule_ok)

lemma steps_keep: "(planner_step P)\<^sup>*\<^sup>* s s1 \<Longrightarrow> ok s \<Longrightarrow> ok s1"
  by (induction rule: rtranclp_induct) (blast intro: step_keeps)+

end

end
