(* ===== verification/Analytics.thy ===== *)
theory Analytics
  imports PlannerModels
begin

text \<open>
  \<open>scheduler/views/analytics_views.py\<close>: the statistics of a week or a month, day by day and in all, the
  alerts of the dashboard and the data of its charts.
\<close>

section \<open>The period\<close>

definition replace_date :: "int \<Rightarrow> int \<Rightarrow> int \<Rightarrow> day result"
  \<comment> \<open>\<open>today.replace(year=y, month=m, day=d)\<close>\<close>
  where "replace_date y m d = date_of y m d"

definition week_range :: "day \<Rightarrow> (day \<times> day) result"
  where "week_range now =
    rbind (shift_date now (- weekday now)) (\<lambda>start_date. rbind (shift_date start_date 6) (\<lambda>end_date. Inr (start_date, end_date)))"

definition month_range :: "day \<Rightarrow> (day \<times> day) result"
  where "month_range now =
    (let x = fromordinal now
     in rbind (replace_date (y_year x) (y_month x) 1) (\<lambda>start_date.
        rbind (if y_month x = 12 then replace_date (y_year x + 1) 1 1 else replace_date (y_year x) (y_month x + 1) 1) (\<lambda>after.
        rbind (shift_date after (-1)) (\<lambda>end_date. Inr (start_date, end_date)))))"

definition get_date_range :: "('s, 'x) planner_scheme \<Rightarrow> string \<Rightarrow> 's \<Rightarrow> ('s, day \<times> day) outcome"
  where "get_date_range P filter_type s =
    (let (now, s1) = today P s
     in (if filter_type = ''week'' then week_range now else if filter_type = ''month'' then month_range now else week_range now, s1))"

section \<open>Statistics\<close>

record completion_stats =
  cs_completed :: nat
  cs_incomplete :: int
  cs_total :: nat
  cs_percentage :: rat

definition stats_of :: "bool list \<Rightarrow> completion_stats"
  \<comment> \<open>of the completion flags of the rows counted\<close>
  where "stats_of done =
    (let completed = length (filter id done); n = length done
     in \<lparr> cs_completed = completed, cs_incomplete = int n - int completed, cs_total = n, cs_percentage = percentage completed n \<rparr>)"

definition of_category :: "string option \<Rightarrow> personal_task list \<Rightarrow> personal_task list"
  where "of_category category ts =
    (if truthy_text category then filter (\<lambda>t. pt_category t = the category) ts else ts)"

definition calculate_completion_stats :: "('s, 'x) planner_scheme \<Rightarrow> day \<Rightarrow> day \<Rightarrow> string option \<Rightarrow> 's \<Rightarrow> completion_stats"
  where "calculate_completion_stats P start_date end_date category s =
    stats_of (map pt_is_completed (of_category category (filter (\<lambda>t. in_range start_date end_date (pt_date t)) (tb_rows (p_tasks P) s))))"

definition subtasks_in :: "('s, 'x) planner_scheme \<Rightarrow> (day \<Rightarrow> bool) \<Rightarrow> 's \<Rightarrow> subtask list"
  \<comment> \<open>\<open>SubTask.objects.filter(personal_task__in=tasks)\<close>\<close>
  where "subtasks_in P dates s =
    (let tasks = filter (\<lambda>t. dates (pt_date t)) (tb_rows (p_tasks P) s)
     in filter (\<lambda>b. list_ex (\<lambda>t. pt_id t = Some (sb_personal_task b)) tasks) (tb_rows (p_subtasks P) s))"

definition calculate_subtask_completion_stats :: "('s, 'x) planner_scheme \<Rightarrow> day \<Rightarrow> day \<Rightarrow> 's \<Rightarrow> completion_stats"
  where "calculate_subtask_completion_stats P start_date end_date s =
    stats_of (map sb_is_completed (subtasks_in P (in_range start_date end_date) s))"

definition calculate_prayer_completion_stats :: "('s, 'x) planner_scheme \<Rightarrow> day \<Rightarrow> day \<Rightarrow> 's \<Rightarrow> completion_stats"
  where "calculate_prayer_completion_stats P start_date end_date s =
    stats_of (map pc_is_completed (filter (\<lambda>c. in_range start_date end_date (pc_date c)) (tb_rows (p_prayer_completions P) s)))"

definition get_prayer_stats_by_name ::
    "('s, 'x) planner_scheme \<Rightarrow> day \<Rightarrow> day \<Rightarrow> 's \<Rightarrow> (string \<times> string \<times> completion_stats) list"
  where "get_prayer_stats_by_name P start_date end_date s =
    map (\<lambda>(prayer_name, prayer_display). (prayer_name, prayer_display,
      stats_of (map pc_is_completed (filter (\<lambda>c. pc_prayer_name c = prayer_name \<and> in_range start_date end_date (pc_date c))
        (tb_rows (p_prayer_completions P) s))))) PRAYER_NAMES"

section \<open>Day by day\<close>

record daily_data =
  dd_date :: day
  dd_day :: string
  dd_stats :: completion_stats

definition day_abbreviation :: "day \<Rightarrow> string"
  \<comment> \<open>\<open>strftime("%a")\<close>\<close>
  where "day_abbreviation d = [''Mon'', ''Tue'', ''Wed'', ''Thu'', ''Fri'', ''Sat'', ''Sun''] ! nat (weekday d)"

function daily_stats :: "(day \<Rightarrow> completion_stats) \<Rightarrow> day \<Rightarrow> day \<Rightarrow> daily_data list \<Rightarrow> daily_data list result"
  \<comment> \<open>the loop over the days of a range; the day after the last representable date raises\<close>
where
  "daily_stats of_day current_date end_date daily =
    (if current_date \<le> end_date
     then (case shift_date current_date 1 of
        Inl e \<Rightarrow> Inl e
      | Inr next_date \<Rightarrow> daily_stats of_day next_date end_date
          (daily @ [\<lparr> dd_date = current_date, dd_day = day_abbreviation current_date, dd_stats = of_day current_date \<rparr>]))
     else Inr daily)"
  by pat_completeness auto
termination by (relation "measure (\<lambda>(of_day, current_date, end_date, daily). nat (end_date + 1 - current_date))")
  (auto simp: shift_date_def split: if_splits)

declare daily_stats.simps [simp del]

definition get_daily_stats :: "('s, 'x) planner_scheme \<Rightarrow> day \<Rightarrow> day \<Rightarrow> string option \<Rightarrow> 's \<Rightarrow> daily_data list result"
  where "get_daily_stats P start_date end_date category s =
    daily_stats (\<lambda>d. stats_of (map pt_is_completed (of_category category (filter (\<lambda>t. pt_date t = d) (tb_rows (p_tasks P) s)))))
      start_date end_date []"

definition get_daily_subtask_stats :: "('s, 'x) planner_scheme \<Rightarrow> day \<Rightarrow> day \<Rightarrow> 's \<Rightarrow> daily_data list result"
  where "get_daily_subtask_stats P start_date end_date s =
    daily_stats (\<lambda>d. stats_of (map sb_is_completed (subtasks_in P (\<lambda>x. x = d) s))) start_date end_date []"

definition get_daily_prayer_stats :: "('s, 'x) planner_scheme \<Rightarrow> day \<Rightarrow> day \<Rightarrow> 's \<Rightarrow> daily_data list result"
  where "get_daily_prayer_stats P start_date end_date s =
    daily_stats (\<lambda>d. stats_of (map pc_is_completed (filter (\<lambda>c. pc_date c = d) (tb_rows (p_prayer_completions P) s))))
      start_date end_date []"

section \<open>The dashboard\<close>

record alert =
  al_type :: string
  al_icon :: string
  al_title :: string
  al_message :: string

definition counts_text :: "completion_stats \<Rightarrow> string \<Rightarrow> string"
  where "counts_text c middle =
    ''('' @ str_of_int (cs_incomplete c) @ '')'' @ middle @ ''('' @ str_of_int (int (cs_completed c)) @ '')''"

definition task_alerts :: "string \<Rightarrow> completion_stats \<Rightarrow> completion_stats \<Rightarrow> alert list"
  where "task_alerts filter_type non_negotiable secondary =
    (if cs_total non_negotiable > 0 \<and> cs_incomplete non_negotiable > int (cs_completed non_negotiable)
     then [\<lparr> al_type = ''danger'', al_icon = [CHR 0xF0, CHR 0x9F, CHR 0x94, CHR 0xB4], al_title = ''Non-Negotiables Alert'',
             al_message = ''You have more incomplete '' @ counts_text non_negotiable '' than complete ''
               @ '' non-negotiable tasks this '' @ filter_type @ ''.'' \<rparr>] else [])
    @ (if cs_total secondary > 0 \<and> cs_incomplete secondary > int (cs_completed secondary)
     then [\<lparr> al_type = ''warning'', al_icon = [CHR 0xF0, CHR 0x9F, CHR 0x9F, CHR 0xA1], al_title = ''Secondary Tasks Warning'',
             al_message = ''More incomplete '' @ counts_text secondary '' than complete ''
               @ '' secondary tasks this '' @ filter_type @ ''.'' \<rparr>] else [])"

definition prayer_alerts :: "completion_stats \<Rightarrow> alert list"
  where "prayer_alerts c =
    (if cs_total c = 0 then []
     else if cs_percentage c < 50
     then [\<lparr> al_type = ''danger'', al_icon = [CHR 0xF0, CHR 0x9F, CHR 0x95, CHR 0x8C], al_title = ''Prayer Completion Alert'',
             al_message = ''Prayer completion rate is low ('' @ percent_text (cs_percentage c)
               @ ''). Aim for consistency in your daily prayers.'' \<rparr>]
     else if cs_percentage c < 75
     then [\<lparr> al_type = ''info'', al_icon = [CHR 0xF0, CHR 0x9F, CHR 0x95, CHR 0x8C], al_title = ''Prayer Completion Notice'',
             al_message = ''Prayer completion rate is '' @ percent_text (cs_percentage c) @ ''. Keep improving!'' \<rparr>]
     else [])"

datatype block =
    Stats completion_stats
  | Daily "daily_data list"
  | Breakdown "(string \<times> string \<times> completion_stats) list"

record figures =
  fg_non_negotiable :: completion_stats
  fg_secondary :: completion_stats
  fg_fun :: completion_stats
  fg_subtask :: completion_stats
  fg_prayer :: completion_stats
  fg_breakdown :: "(string \<times> string \<times> completion_stats) list"
  fg_non_negotiable_daily :: "daily_data list"
  fg_secondary_daily :: "daily_data list"
  fg_fun_daily :: "daily_data list"
  fg_subtask_daily :: "daily_data list"
  fg_prayer_daily :: "daily_data list"

definition collect_figures :: "('s, 'x) planner_scheme \<Rightarrow> day \<Rightarrow> day \<Rightarrow> 's \<Rightarrow> figures result"
  where "collect_figures P a b s =
    rbind (get_daily_stats P a b (Some NON_NEGOTIABLE) s) (\<lambda>nn. rbind (get_daily_stats P a b (Some SECONDARY) s) (\<lambda>sec.
    rbind (get_daily_stats P a b (Some FUN) s) (\<lambda>fn. rbind (get_daily_subtask_stats P a b s) (\<lambda>sub.
    rbind (get_daily_prayer_stats P a b s) (\<lambda>pr. Inr
      \<lparr> fg_non_negotiable = calculate_completion_stats P a b (Some NON_NEGOTIABLE) s,
        fg_secondary = calculate_completion_stats P a b (Some SECONDARY) s,
        fg_fun = calculate_completion_stats P a b (Some FUN) s,
        fg_subtask = calculate_subtask_completion_stats P a b s,
        fg_prayer = calculate_prayer_completion_stats P a b s,
        fg_breakdown = get_prayer_stats_by_name P a b s,
        fg_non_negotiable_daily = nn, fg_secondary_daily = sec, fg_fun_daily = fn, fg_subtask_daily = sub,
        fg_prayer_daily = pr \<rparr>)))))"

definition context_stats :: "string \<Rightarrow> string \<Rightarrow> figures \<Rightarrow> (string \<times> block) list"
  where "context_stats view_type category g =
    (if view_type = ''prayers'' then
       [(''prayer_stats'', Stats (fg_prayer g)), (''prayer_breakdown'', Breakdown (fg_breakdown g)),
        (''prayer_daily'', Daily (fg_prayer_daily g))]
     else if view_type = ''subtasks'' then
       [(''subtask_stats'', Stats (fg_subtask g)), (''subtask_daily'', Daily (fg_subtask_daily g))]
     else if category = ''non_negotiable'' then
       [(''non_negotiable_stats'', Stats (fg_non_negotiable g)), (''non_negotiable_daily'', Daily (fg_non_negotiable_daily g))]
     else if category = ''secondary'' then
       [(''secondary_stats'', Stats (fg_secondary g)), (''secondary_daily'', Daily (fg_secondary_daily g))]
     else if category = ''fun'' then [(''fun_stats'', Stats (fg_fun g)), (''fun_daily'', Daily (fg_fun_daily g))]
     else
       [(''non_negotiable_stats'', Stats (fg_non_negotiable g)), (''secondary_stats'', Stats (fg_secondary g)),
        (''fun_stats'', Stats (fg_fun g)), (''subtask_stats'', Stats (fg_subtask g)), (''prayer_stats'', Stats (fg_prayer g)),
        (''prayer_breakdown'', Breakdown (fg_breakdown g)), (''non_negotiable_daily'', Daily (fg_non_negotiable_daily g)),
        (''secondary_daily'', Daily (fg_secondary_daily g)), (''fun_daily'', Daily (fg_fun_daily g)),
        (''subtask_daily'', Daily (fg_subtask_daily g)), (''prayer_daily'', Daily (fg_prayer_daily g))])"

record dashboard =
  db_filter_type :: string
  db_view_type :: string
  db_category :: string
  db_start_date :: day
  db_end_date :: day
  db_period :: string
  db_alerts :: "alert list"
  db_stats :: "(string \<times> block) list"

definition month_abbreviation :: "int \<Rightarrow> string"
  where "month_abbreviation m =
    [''Jan'', ''Feb'', ''Mar'', ''Apr'', ''May'', ''Jun'', ''Jul'', ''Aug'', ''Sep'', ''Oct'', ''Nov'', ''Dec''] ! nat (m - 1)"

definition period_text :: "day \<Rightarrow> day \<Rightarrow> string"
  \<comment> \<open>\<open>strftime("%b %d")\<close> and \<open>strftime("%b %d, %Y")\<close>; glibc does not pad the year\<close>
  where "period_text a b =
    (let x = fromordinal a; y = fromordinal b
     in month_abbreviation (y_month x) @ '' '' @ pad 2 (y_day x) @ '' - '' @ month_abbreviation (y_month y) @ '' ''
        @ pad 2 (y_day y) @ '', '' @ str_of_int (y_year y))"

definition get_param :: "request \<Rightarrow> string \<Rightarrow> string \<Rightarrow> string"
  where "get_param rq name d = (case map_of (rq_get rq) name of None \<Rightarrow> d | Some v \<Rightarrow> v)"

definition analytics_dashboard :: "('s, 'x) planner_scheme \<Rightarrow> request \<Rightarrow> 's \<Rightarrow> ('s, dashboard) outcome"
  where "analytics_dashboard P rq s =
    (let filter_type = get_param rq ''filter'' ''week''; view_type = get_param rq ''view'' ''all'';
         category = get_param rq ''category'' ''all''
     in and_then (get_date_range P filter_type s) (\<lambda>(start_date, end_date) s1.
       (rbind (collect_figures P start_date end_date s1) (\<lambda>g. Inr
          \<lparr> db_filter_type = filter_type, db_view_type = view_type, db_category = category,
            db_start_date = start_date, db_end_date = end_date, db_period = period_text start_date end_date,
            db_alerts = task_alerts filter_type (fg_non_negotiable g) (fg_secondary g) @ prayer_alerts (fg_prayer g),
            db_stats = context_stats view_type category g \<rparr>), s1)))"

section \<open>Charts\<close>

definition dataset :: "string \<Rightarrow> (daily_data \<Rightarrow> int) \<Rightarrow> daily_data list \<Rightarrow> string \<Rightarrow> string \<Rightarrow> (string \<times> pyval) list \<Rightarrow> pyval"
  where "dataset label pick daily border background extra = VDict
    ([(''label'', VStr label), (''data'', VList (map (\<lambda>d. VInt (pick d)) daily)), (''borderColor'', VStr border),
      (''backgroundColor'', VStr background), (''borderWidth'', VInt 2), (''tension'', VFloat (4 / 10)), (''fill'', VBool True)] @ extra)"

definition done_count :: "daily_data \<Rightarrow> int"
  where "done_count d = int (cs_completed (dd_stats d))"

definition undone_count :: "daily_data \<Rightarrow> int"
  where "undone_count d = cs_incomplete (dd_stats d)"

definition chart :: "daily_data list \<Rightarrow> pyval list \<Rightarrow> response"
  where "chart labelled datasets = Json 200 (VDict
    [(''labels'', VList (map (\<lambda>d. VStr (dd_day d)) labelled)), (''datasets'', VList datasets)])"

definition get_chart_data_api :: "('s, 'x) planner_scheme \<Rightarrow> request \<Rightarrow> 's \<Rightarrow> ('s, response) outcome"
  where "get_chart_data_api P rq s =
    and_then (get_date_range P (get_param rq ''filter'' ''week'') s) (\<lambda>(a, b) s1.
      (rbind (get_daily_stats P a b (Some NON_NEGOTIABLE) s1) (\<lambda>nn. rbind (get_daily_stats P a b (Some SECONDARY) s1) (\<lambda>sec.
       rbind (get_daily_stats P a b (Some FUN) s1) (\<lambda>fn. rbind (get_daily_subtask_stats P a b s1) (\<lambda>sub.
       rbind (get_daily_prayer_stats P a b s1) (\<lambda>pr. Inr (chart nn
         [dataset ''Non-Negotiable Completed'' done_count nn ''#10b981'' ''rgba(16, 185, 129, 0.1)'' [],
          dataset ''Non-Negotiable Incomplete'' undone_count nn ''#ef4444'' ''rgba(239, 68, 68, 0.1)'' [],
          dataset ''Secondary Completed'' done_count sec ''#0ea5e9'' ''rgba(14, 165, 233, 0.1)'' [],
          dataset ''Secondary Incomplete'' undone_count sec ''#f59e0b'' ''rgba(245, 158, 11, 0.1)'' [],
          dataset ''Fun Completed'' done_count fn ''#a78bfa'' ''rgba(167, 139, 250, 0.1)'' [],
          dataset ''Fun Incomplete'' undone_count fn ''#9ca3af'' ''rgba(156, 163, 175, 0.1)'' [],
          dataset ''Sub-tasks Completed'' done_count sub ''#ec4899'' ''rgba(236, 72, 153, 0.1)'' [(''hidden'', VBool False)],
          dataset ''Prayers Completed'' done_count pr ''#8b5cf6'' ''rgba(139, 92, 246, 0.1)'' [(''hidden'', VBool False)]])))))), s1))"

definition get_subtask_chart_data_api :: "('s, 'x) planner_scheme \<Rightarrow> request \<Rightarrow> 's \<Rightarrow> ('s, response) outcome"
  where "get_subtask_chart_data_api P rq s =
    and_then (get_date_range P (get_param rq ''filter'' ''week'') s) (\<lambda>(a, b) s1.
      (rbind (get_daily_subtask_stats P a b s1) (\<lambda>sub. Inr (chart sub
         [dataset ''Sub-tasks Completed'' done_count sub ''#10b981'' ''rgba(16, 185, 129, 0.1)'' [],
          dataset ''Sub-tasks Incomplete'' undone_count sub ''#ef4444'' ''rgba(239, 68, 68, 0.1)'' []])), s1))"

definition get_prayer_chart_data_api :: "('s, 'x) planner_scheme \<Rightarrow> request \<Rightarrow> 's \<Rightarrow> ('s, response) outcome"
  where "get_prayer_chart_data_api P rq s =
    and_then (get_date_range P (get_param rq ''filter'' ''week'') s) (\<lambda>(a, b) s1.
      (rbind (get_daily_prayer_stats P a b s1) (\<lambda>pr. Inr (chart pr
         [dataset ''Prayers Completed'' done_count pr ''#10b981'' ''rgba(16, 185, 129, 0.1)'' [],
          dataset ''Prayers Incomplete'' undone_count pr ''#ef4444'' ''rgba(239, 68, 68, 0.1)'' []])), s1))"

end
