(* ===== verification/PlannerFacts.thy ===== *)
theory PlannerFacts
  imports Dates PlannerSteps Analytics
begin

text \<open>
  What the planner's views compute: the calendar grid, the ranges of the statistics, the sums of the daily
  figures, the weekly dates of a schedule, breaks, ratings and progress.
\<close>

section \<open>The calendar\<close>

lemma grid_from_eq:
  "1 \<le> d \<Longrightarrow> grid_from n d = (if n = 0 \<or> d + int n \<le> max_ordinal then Inr (map (\<lambda>i. d + int i) [0..<n]) else Inl OverflowError)"
proof (induction n arbitrary: d)
  case (Suc n)
  have shift: "map (\<lambda>i. d + int i) [0..<Suc n] = d # map (\<lambda>i. d + 1 + int i) [0..<n]"
    by (simp add: map_upt_Suc ac_simps del: upt_Suc)
  show ?case using Suc.IH [of "d + 1"] Suc.prems unfolding shift
    by (auto simp: shift_date_def ac_simps)
qed simp

lemma calendar_grid_eq:
  "calendar_grid y m =
    (if \<not> valid_date y m 1 then Inl ValueError
     else (let a = toordinal (YMD y m 1) - weekday (toordinal (YMD y m 1))
           in if a + 42 \<le> max_ordinal then Inr (map (\<lambda>i. a + int i) [0..<42]) else Inl OverflowError))"
proof (cases "valid_date y m 1")
  case True
  note r = toordinal_range [OF True]
  show ?thesis
    using True r monday_before [of "toordinal (YMD y m 1)"]
    by (simp add: calendar_grid_def date_of_def shift_date_monday Let_def grid_from_eq)
qed (simp add: calendar_grid_def date_of_def)

lemma in_weeks_rows: "n \<le> k \<Longrightarrow> length ds = 7 * n \<Longrightarrow> in_weeks k ds = map (\<lambda>i. take 7 (drop (7 * i) ds)) [0..<n]"
proof (induction k arbitrary: ds n)
  case (Suc k)
  show ?case
  proof (cases n)
    case (Suc j)
    then have "in_weeks k (drop 7 ds) = map (\<lambda>i. take 7 (drop (7 * i) (drop 7 ds))) [0..<j]"
      using Suc.prems Suc.IH [of j "drop 7 ds"] by simp
    moreover have "map (\<lambda>i. take 7 (drop (7 * i) ds)) [0..<Suc j] =
        take 7 ds # map (\<lambda>i. take 7 (drop (7 * i) (drop 7 ds))) [0..<j]"
      by (simp add: map_upt_Suc ac_simps del: upt_Suc)
    ultimately show ?thesis using Suc Suc.prems by (auto simp del: upt_Suc)
  qed (use Suc.prems in simp)
qed simp

section \<open>Ranges of dates\<close>

lemma week_range_eq:
  assumes "1 \<le> n" "n \<le> max_ordinal"
  shows "week_range n = (let a = n - weekday n in if a + 6 \<le> max_ordinal then Inr (a, a + 6) else Inl OverflowError)"
  using shift_date_monday [OF assms] monday_before [OF assms(1)] by (simp add: week_range_def Let_def shift_date_def)

lemma month_range_eq:
  assumes "1 \<le> n" "n \<le> max_ordinal" "fromordinal n = YMD y m d"
  shows "month_range n = (if y = 9999 \<and> m = 12 then Inl ValueError
    else Inr (toordinal (YMD y m 1), toordinal (YMD y m (days_in_month y m))))"
proof -
  note v = fromordinal_valid [OF assms]
  have one: "valid_date y m 1" and last: "valid_date y m (days_in_month y m)"
    using v(1) days_in_month_pos(1) [of y m] by (auto simp: valid_date_def)
  let ?next = "if m = 12 then YMD (y + 1) 1 1 else YMD y (m + 1) 1"
  have "toordinal ?next = toordinal (YMD y m (days_in_month y m)) + 1"
    using v(1) by (intro toordinal_next_month) (auto simp: valid_date_def)
  moreover have "valid_date (y_year ?next) (y_month ?next) 1 \<longleftrightarrow> \<not> (y = 9999 \<and> m = 12)"
    using v(1) days_in_month_pos(1) by (auto simp: valid_date_def intro: order_trans [of 1 28])
  moreover have "y_day ?next = 1" by simp
  ultimately show ?thesis
    using one toordinal_range [OF last]
    by (auto simp: month_range_def replace_date_def date_of_def assms(3) Let_def shift_date_def split: if_splits)
qed

section \<open>Daily figures\<close>

lemma daily_stats_eq:
  assumes "1 \<le> a" "b < max_ordinal"
  shows "daily_stats f a b acc = Inr (acc @ map (\<lambda>d. \<lparr> dd_date = d, dd_day = day_abbreviation d, dd_stats = f d \<rparr>) [a..b])"
  using assms
proof (induction "nat (b + 1 - a)" arbitrary: a acc)
  case 0
  then show ?case by (simp add: daily_stats.simps [of f a])
next
  case (Suc k)
  then have "[a..b] = a # [a + 1..b]" by (simp add: upto_rec1)
  with Suc show ?case by (simp add: daily_stats.simps [of f a] shift_date_def)
qed

lemma sum_by_day: "sum_list (map (\<lambda>d. length (filter (\<lambda>x. g x = d) xs)) [a..b]) = length (filter (\<lambda>x. in_range a b (g x)) xs)"
proof (induction xs)
  case (Cons x xs)
  have split: "length (filter (\<lambda>y. g y = d) (x # xs)) = (if g x = d then 1 else 0) + length (filter (\<lambda>y. g y = d) xs)" for d
    by simp
  have one: "sum_list (map (\<lambda>d. if g x = d then 1 else 0) ds) = (if g x \<in> set ds then 1 else 0 :: nat)" if "distinct ds" for ds
    using that by (induction ds) auto
  have "sum_list (map (\<lambda>d. if g x = d then 1 else 0) [a..b]) = (if in_range a b (g x) then 1 else 0 :: nat)"
    using one [of "[a..b]"] by (simp add: in_range_def)
  then show ?case unfolding split sum_list_addf using Cons by simp
qed simp

definition sum_stats :: "daily_data list \<Rightarrow> nat \<times> int \<times> nat"
  where "sum_stats ds = (sum_list (map (\<lambda>d. cs_completed (dd_stats d)) ds), sum_list (map (\<lambda>d. cs_incomplete (dd_stats d)) ds),
    sum_list (map (\<lambda>d. cs_total (dd_stats d)) ds))"

definition range_stats :: "completion_stats \<Rightarrow> nat \<times> int \<times> nat"
  where "range_stats c = (cs_completed c, cs_incomplete c, cs_total c)"

lemma sum_completed:
  "sum_list (map (\<lambda>d. length (filter (\<lambda>x. g x = d \<and> p x) xs)) [a..b]) = length (filter (\<lambda>x. in_range a b (g x) \<and> p x) xs)"
  using sum_by_day [of g "filter p xs" a b] by (simp add: conj_commute)

lemma sum_list_of_nat_diff: "sum_list (map (\<lambda>d. int (f d) - int (g d)) ds) = int (sum_list (map f ds)) - int (sum_list (map g ds))"
  by (induction ds) simp_all

lemma daily_sums:
  "sum_stats (map (\<lambda>d. \<lparr> dd_date = d, dd_day = day_abbreviation d, dd_stats = stats_of (map p (filter (\<lambda>x. g x = d) xs)) \<rparr>) [a..b])
    = range_stats (stats_of (map p (filter (\<lambda>x. in_range a b (g x)) xs)))"
proof -
  have flags: "length (filter id (map p (filter q xs))) = length (filter (\<lambda>x. q x \<and> p x) xs)" for q
    by (simp add: filter_map comp_def)
  show ?thesis
    by (simp add: sum_stats_def range_stats_def stats_of_def Let_def comp_def sum_list_of_nat_diff)
      (simp add: flags sum_completed sum_by_day)
qed

section \<open>The dates of a schedule\<close>

definition first_date :: "project \<Rightarrow> project_schedule \<Rightarrow> day"
  where "first_date p c = pj_start_date p + (js_day_of_week c - weekday (pj_start_date p)) mod 7"

definition weekly_dates :: "project \<Rightarrow> project_schedule \<Rightarrow> day list"
  \<comment> \<open>the schedule's weekday in as many weeks as it asks for, from the start of the project to its end\<close>
  where "weekly_dates p c =
    filter (\<lambda>d. d \<le> pj_end_date p) (map (\<lambda>k. first_date p c + 7 * k) [0..js_weeks c - 1])"

fun generate_on_dates :: "('s, 'x) planner_scheme \<Rightarrow> project \<Rightarrow> project_task \<Rightarrow> project_schedule \<Rightarrow> day list
    \<Rightarrow> generated \<Rightarrow> 's \<Rightarrow> ('s, generated) outcome" where
  "generate_on_dates P p t c [] g s = (Inr g, s)"
| "generate_on_dates P p t c (d # ds) g s = and_then (generate_on P p t c d g s) (generate_on_dates P p t c ds)"

lemma target_first:
  "pj_start_date p + 6 \<le> max_ordinal \<Longrightarrow> 1 \<le> pj_start_date p \<Longrightarrow>
    target_date (pj_start_date p) (js_day_of_week c) (pj_start_date p) = Inr (first_date p c)"
  using pos_mod_bound [of 7 "js_day_of_week c - weekday (pj_start_date p)"]
    pos_mod_sign [of 7 "js_day_of_week c - weekday (pj_start_date p)"]
  by (auto simp: target_date_def first_date_def Let_def shift_date_def)

lemma weekday_first: "weekday (first_date p c + 7 * k) = js_day_of_week c mod 7"
proof -
  have "weekday (first_date p c + 7 * k) = (weekday (pj_start_date p) + ((js_day_of_week c - weekday (pj_start_date p)) mod 7 + 7 * k)) mod 7"
    using weekday_add [of "pj_start_date p" "(js_day_of_week c - weekday (pj_start_date p)) mod 7 + 7 * k"]
    by (simp add: first_date_def add.assoc)
  also have "\<dots> = js_day_of_week c mod 7" by (simp add: mod_add_right_eq flip: add.assoc)
  finally show ?thesis .
qed

lemma first_date_bounds: "pj_start_date p \<le> first_date p c" "first_date p c \<le> pj_start_date p + 6"
  using pos_mod_bound [of 7 "js_day_of_week c - weekday (pj_start_date p)"]
    pos_mod_sign [of 7 "js_day_of_week c - weekday (pj_start_date p)"]
  by (auto simp: first_date_def)

lemma target_next:
  assumes "1 \<le> pj_start_date p" "0 \<le> k" "first_date p c + 7 * k + 7 \<le> max_ordinal"
  shows "target_date (pj_start_date p) (js_day_of_week c) (first_date p c + 7 * k + 1) = Inr (first_date p c + 7 * (k + 1))"
proof -
  have "weekday (first_date p c + 7 * k + 1) = (js_day_of_week c mod 7 + 1) mod 7"
    using weekday_add [of "first_date p c + 7 * k" 1] by (simp add: weekday_first)
  then have "(js_day_of_week c - weekday (first_date p c + 7 * k + 1)) mod 7 = (js_day_of_week c - (js_day_of_week c + 1)) mod 7"
    by (simp add: mod_diff_right_eq mod_add_left_eq)
  then have "(js_day_of_week c - weekday (first_date p c + 7 * k + 1)) mod 7 = 6" by simp
  then show ?thesis
    using assms first_date_bounds [of p c] by (simp add: target_date_def Let_def shift_date_def)
qed

lemma dates_past:
  assumes "pj_end_date p < first_date p c + 7 * n"
  shows "filter (\<lambda>d. d \<le> pj_end_date p) (map (\<lambda>k. first_date p c + 7 * k) [n..m]) = []"
  using assms by (auto simp: filter_empty_conv)

lemma generate_weeks_dates:
  assumes "1 \<le> pj_start_date p" "pj_end_date p + 7 \<le> max_ordinal"
  shows "0 \<le> n \<Longrightarrow> cur \<le> first_date p c + 7 * n \<Longrightarrow>
    (cur \<le> pj_end_date p \<Longrightarrow> target_date (pj_start_date p) (js_day_of_week c) cur = Inr (first_date p c + 7 * n)) \<Longrightarrow>
    generate_weeks P p t c cur n g s =
      generate_on_dates P p t c (filter (\<lambda>d. d \<le> pj_end_date p) (map (\<lambda>k. first_date p c + 7 * k) [n..js_weeks c - 1])) g s"
proof (induction "nat (js_weeks c - n)" arbitrary: n cur g s)
  case 0
  then show ?case by (simp add: generate_weeks.simps [of P p t c cur])
next
  case (Suc m)
  let ?d = "first_date p c + 7 * n"
  have more: "[n..js_weeks c - 1] = n # [n + 1..js_weeks c - 1]" and left: "n < js_weeks c"
    using Suc.hyps(2) by (simp_all add: upto_rec1)
  show ?case
  proof (cases "cur \<le> pj_end_date p \<and> ?d \<le> pj_end_date p")
    case False
    then have "pj_end_date p < ?d" using Suc.prems(2) by auto
    then show ?thesis using dates_past [of p c n] left Suc.prems(3)
      by (auto simp: generate_weeks.simps [of P p t c cur])
  next
    case True
    have shift: "shift_date ?d 1 = Inr (?d + 1)"
      using True assms first_date_bounds(1) [of p c] Suc.prems(1) by (simp add: shift_date_def)
    have rec: "generate_weeks P p t c (?d + 1) (n + 1) g s =
      generate_on_dates P p t c (filter (\<lambda>d. d \<le> pj_end_date p) (map (\<lambda>k. first_date p c + 7 * k) [n + 1..js_weeks c - 1])) g s" for g s
      using Suc.hyps(2) Suc.prems(1) True assms target_next [of p n c] by (intro Suc.hyps(1)) auto
    show ?thesis
      using True left Suc.prems(3) by (simp add: generate_weeks.simps [of P p t c cur] shift rec more cong: if_cong)
  qed
qed

lemma generate_weekly:
  assumes "1 \<le> pj_start_date p" "pj_end_date p + 7 \<le> max_ordinal"
  shows "generate_weeks P p t c (pj_start_date p) 0 g s = generate_on_dates P p t c (weekly_dates p c) g s"
  using generate_weeks_dates [OF assms, of 0 "pj_start_date p" c P t g s] target_first [of p c] first_date_bounds(1) [of p c] assms
  by (simp add: weekly_dates_def)

section \<open>Ratings and progress\<close>

lemma rate_near: "0 \<le> p \<Longrightarrow> p \<le> 100 \<Longrightarrow> \<bar>pf_percentage (rate p) - p\<bar> \<le> 10 \<and> 0 \<le> pf_percentage (rate p) \<and> pf_percentage (rate p) \<le> 100"
  by (simp add: rate_def)

lemma rate_mono: "0 \<le> p \<Longrightarrow> p \<le> q \<Longrightarrow> q \<le> 100 \<Longrightarrow> pf_percentage (rate p) \<le> pf_percentage (rate q)"
  by (simp add: rate_def)

lemma float_percent_near:
  assumes "x \<le> b" "0 < b" "b \<le> 1000000"
  shows "\<bar>float_percent x b - of_nat x / of_nat b * 100\<bar> \<le> 1 / 100000"
proof -
  have "\<bar>float_percent x b - of_nat x / of_nat b * 100\<bar> \<le> 1 / 2 ^ 40"
    using assms by (intro float_percent_error) simp_all
  also have "(1 :: rat) / 2 ^ 40 \<le> 1 / 100000" by simp
  finally show ?thesis .
qed

lemma float_percent_bounds:
  assumes "a \<le> b" "0 < b" "b \<le> 1000000" shows "0 \<le> float_percent a b" "float_percent a b \<le> 100"
proof -
  note err = float_percent_near [OF _ assms(2,3)]
  have step: "1 / 10000 \<le> 100 / (of_nat b :: rat)" using assms(2,3) by (simp add: field_simps)
  show "0 \<le> float_percent a b"
  proof (cases a)
    case (Suc k)
    then have "1 * (100 / of_nat b) \<le> of_nat a * (100 / (of_nat b :: rat))" by (intro mult_right_mono) simp_all
    then have "100 / of_nat b \<le> of_nat a / (of_nat b :: rat) * 100" by simp
    then show ?thesis using err [OF assms(1)] step by linarith
  qed simp
  show "float_percent a b \<le> 100"
  proof (cases "a = b")
    case False
    then have "of_nat a + 1 \<le> (of_nat b :: rat)" using assms(1) by (metis Suc_leI le_neq_implies_less of_nat_Suc of_nat_le_iff add.commute)
    then have "of_nat a / (of_nat b :: rat) * 100 \<le> 100 - 100 / of_nat b" using assms(2) by (simp add: field_simps)
    then show ?thesis using err [OF assms(1)] step by linarith
  qed (use assms in simp)
qed

lemma float_percent_mono:
  assumes "a < a'" "a' \<le> b" "b \<le> 1000000" shows "float_percent a b < float_percent a' b"
proof -
  have b: "0 < b" using assms by simp
  note err = float_percent_near [OF _ b assms(3)]
  have step: "1 / 10000 \<le> 100 / (of_nat b :: rat)" using b assms(3) by (simp add: field_simps)
  have "of_nat a + 1 \<le> (of_nat a' :: rat)" using assms(1) by (metis Suc_leI of_nat_Suc of_nat_le_iff add.commute)
  then have "(of_nat a + 1) * (100 / (of_nat b :: rat)) \<le> of_nat a' * (100 / of_nat b)" by (intro mult_right_mono) simp_all
  then have "of_nat a / (of_nat b :: rat) * 100 + 100 / of_nat b \<le> of_nat a' / of_nat b * 100"
    by (simp add: distrib_right add_divide_distrib)
  then show ?thesis using err [of a] err [of a'] assms step by linarith
qed

lemma progress_29_of_50:
  assumes "pj_start_date p \<le> pj_end_date p" "length ts = 50" "length (filter jt_is_scheduled ts) = 29"
  shows "progress_percentage p ts = 57"
  using assms by (auto simp: progress_percentage_def float_percent_29_50)

section \<open>What requests do to the rows\<close>

fun no_conflicts :: "personal_task list \<Rightarrow> personal_task list \<Rightarrow> bool"
  \<comment> \<open>each new task is free of the tasks before it\<close>
where
  "no_conflicts ts [] = True"
| "no_conflicts ts (x # xs) = (\<not> conflicting ts (pt_date x) (pt_start_time x) (pt_end_time x) \<and> no_conflicts (ts @ [x]) xs)"

lemma no_conflicts_append: "no_conflicts ts (xs @ ys) \<longleftrightarrow> no_conflicts ts xs \<and> no_conflicts (ts @ xs) ys"
  by (induction xs arbitrary: ts) auto

context planner
begin

definition generated :: "project \<Rightarrow> 's \<Rightarrow> 's \<Rightarrow> nat \<Rightarrow> bool"
  where "generated p s s1 n \<longleftrightarrow> (\<exists>xs. w_tasks (view s1) = w_tasks (view s) @ xs \<and> no_conflicts (w_tasks (view s)) xs \<and>
    (\<forall>x\<in>set xs. pj_start_date p \<le> pt_date x \<and> pt_date x \<le> pj_end_date p) \<and> length xs = n)"

lemma generated_none: "w_tasks (view s1) = w_tasks (view s) \<Longrightarrow> generated p s s1 0"
  by (simp add: generated_def)

lemma generated_trans: "generated p s s1 m \<Longrightarrow> generated p s1 s2 n \<Longrightarrow> generated p s s2 (m + n)"
proof -
  assume "generated p s s1 m" "generated p s1 s2 n"
  then obtain xs ys where "w_tasks (view s1) = w_tasks (view s) @ xs" "no_conflicts (w_tasks (view s)) xs"
    "\<forall>x\<in>set xs. pj_start_date p \<le> pt_date x \<and> pt_date x \<le> pj_end_date p" "length xs = m"
    "w_tasks (view s2) = w_tasks (view s1) @ ys" "no_conflicts (w_tasks (view s1)) ys"
    "\<forall>x\<in>set ys. pj_start_date p \<le> pt_date x \<and> pt_date x \<le> pj_end_date p" "length ys = n"
    unfolding generated_def by blast
  then show ?thesis unfolding generated_def by (intro exI [of _ "xs @ ys"]) (auto simp: no_conflicts_append)
qed

lemma generate_on_cases:
  assumes "generate_on P p t c d g s = (r, s1)"
  shows "(s1 = s \<and> (\<forall>g1. r = Inr g1 \<longrightarrow> gn_created g1 = gn_created g)) \<or>
    (\<exists>b x. \<not> conflicting (w_tasks (view s)) d (js_start_time c) b \<and> r = Inr (g\<lparr>gn_created := Suc (gn_created g)\<rparr>) \<and>
      s1 = snd (create (p_tasks P) (generated_task x p d (js_start_time c) b) s))"
proof (cases "combine_add d (js_start_time c) (hours (js_duration_hours c))")
  case (Inr b)
  then show ?thesis using assms
    by (cases "conflicting (w_tasks (view s)) d (js_start_time c) b"; cases "p_text P (VStr (generated_title p t))")
      (auto simp: generate_on_def tasks.rows_view)
qed (use assms in \<open>auto simp: generate_on_def\<close>)

lemma generate_on_generated:
  assumes gen: "generate_on P p t c d g s = (r, s1)" and d: "pj_start_date p \<le> d" "d \<le> pj_end_date p"
  shows "\<exists>n. generated p s s1 n \<and> (\<forall>g1. r = Inr g1 \<longrightarrow> gn_created g1 = gn_created g + n)"
proof (cases "s1 = s \<and> (\<forall>g1. r = Inr g1 \<longrightarrow> gn_created g1 = gn_created g)")
  case True
  then show ?thesis using generated_none [of s1 s p] by (intro exI [of _ 0]) simp
next
  case False
  with generate_on_cases [OF gen] obtain b x where new: "\<not> conflicting (w_tasks (view s)) d (js_start_time c) b" "r = Inr (g\<lparr>gn_created := Suc (gn_created g)\<rparr>)"
    "s1 = snd (create (p_tasks P) (generated_task x p d (js_start_time c) b) s)"
    by blast
  have "\<exists>i. w_tasks (view s1) = w_tasks (view s) @ [(generated_task x p d (js_start_time c) b)\<lparr>pt_id := Some i\<rparr>]"
    unfolding new(3) by (rule tasks.create_row [of "generated_task x p d (js_start_time c) b" s]) (auto simp: generated_task_def)
  then have "generated p s s1 1" using new(1) d unfolding generated_def by (auto simp: generated_task_def)
  with new(2) show ?thesis by auto
qed

lemma generate_weeks_generated:
  "generate_weeks P p t c d n g s = (r, s1) \<Longrightarrow> pj_start_date p \<le> d \<Longrightarrow>
    \<exists>k. generated p s s1 k \<and> (\<forall>g1. r = Inr g1 \<longrightarrow> gn_created g1 = gn_created g + k)"
proof (induction "nat (js_weeks c - n)" arbitrary: d n g s rule: less_induct)
  case less
  have none: "\<exists>k. generated p s s k \<and> (\<forall>g1. r = Inr g1 \<longrightarrow> gn_created g1 = gn_created g + k)" if "r = Inr g \<or> (\<exists>e. r = Inl e)"
    using that generated_none [of s s p] by (intro exI [of _ 0]) auto
  show ?case
  proof (cases "d \<le> pj_end_date p \<and> n < js_weeks c \<and> (\<exists>e. target_date (pj_start_date p) (js_day_of_week c) d = Inr e \<and> e \<le> pj_end_date p)")
    case False
    then have "s1 = s \<and> (r = Inr g \<or> (\<exists>e. r = Inl e))" using less.prems(1)
      by (auto simp: generate_weeks.simps [of P p t c d] split: sum.splits if_splits)
    then show ?thesis using none by simp
  next
    case True
    then obtain e where e: "target_date (pj_start_date p) (js_day_of_week c) d = Inr e" "e \<le> pj_end_date p" by blast
    then have de: "d \<le> e" using pos_mod_sign [of 7 "js_day_of_week c - weekday d"]
      by (auto simp: target_date_def Let_def shift_date_def split: if_splits)
    obtain r0 s0 where on: "generate_on P p t c e g s = (r0, s0)" by fastforce
    have "pj_start_date p \<le> e" using de less.prems(2) by simp
    from generate_on_generated [OF on this e(2)] obtain m where m: "generated p s s0 m"
      "\<forall>g1. r0 = Inr g1 \<longrightarrow> gn_created g1 = gn_created g + m" by blast
    have run: "and_then (r0, s0) (\<lambda>g1 s1. (case shift_date e 1 of Inl x \<Rightarrow> (Inl x, s1)
        | Inr next_date \<Rightarrow> generate_weeks P p t c next_date (n + 1) g1 s1)) = (r, s1)"
      using less.prems(1) True e by (simp add: generate_weeks.simps [of P p t c d] on)
    show ?thesis
    proof (cases "\<exists>g1 x. r0 = Inr g1 \<and> shift_date e 1 = Inr x")
      case False
      then have "s1 = s0 \<and> (\<exists>x. r = Inl x)" using run by (cases r0) (auto split: sum.splits)
      then show ?thesis using m by auto
    next
      case again: True
      then obtain g1 x where g1: "r0 = Inr g1" and rec: "generate_weeks P p t c x (n + 1) g1 s0 = (r, s1)"
        and x: "x = e + 1" using run by (auto simp: shift_date_def split: if_splits)
      have "nat (js_weeks c - (n + 1)) < nat (js_weeks c - n)" using True by simp
      from less.hyps [OF this rec] de less.prems(2) x obtain k where k: "generated p s0 s1 k"
        "\<forall>g2. r = Inr g2 \<longrightarrow> gn_created g2 = gn_created g1 + k" by fastforce
      with generated_trans [OF m(1) k(1)] m(2) g1 show ?thesis by (intro exI [of _ "m + k"]) auto
    qed
  qed
qed

end

end
