(* ===== verification/PlannerRequests.thy ===== *)
theory PlannerRequests
  imports PlannerFacts
begin

text \<open>
  What each request does to the rows of the database: the tasks generated for a project, breaks, the limit of
  non-negotiable tasks, copies of the day before, completions and prayers.
\<close>

section \<open>The state a view leaves\<close>

lemma snd_require: "snd (require_http_methods ms rq k s) = (if rq_method rq \<in> set ms then snd (k s) else s)"
  by (simp add: require_http_methods_def)

lemma snd_object: "snd (object_or_404 rid T i s k) = (case get_by_id rid T i s of None \<Rightarrow> s | Some r \<Rightarrow> snd (k r))"
  by (simp add: object_or_404_def split: option.split)

lemma snd_with_json: "snd (with_json rq bad k s) = (case rq_json rq of None \<Rightarrow> s | Some v \<Rightarrow> snd (k v))"
  by (simp add: with_json_def split: option.split)

lemma snd_or_failure [simp]: "snd (or_failure P n m) = snd m"
  by (auto simp: or_failure_def split: prod.split sum.split)

lemma snd_date_failure [simp]: "snd (date_failure P m) = snd m"
  by (auto simp: date_failure_def split: prod.split sum.split)

lemma snd_and_then: "snd (and_then m f) = (case m of (Inl e, s) \<Rightarrow> s | (Inr x, s) \<Rightarrow> snd (f x s))"
  by (auto simp: and_then_def split: prod.split sum.split)

lemmas view_state = snd_require snd_object snd_with_json snd_and_then

section \<open>What the properties speak of\<close>

definition fixed_on :: "day \<Rightarrow> personal_task list \<Rightarrow> nat"
  where "fixed_on d ts = category_count (filter (\<lambda>t. pt_date t = d) ts) NON_NEGOTIABLE"

lemma fixed_on_append: "fixed_on d (xs @ ys) = fixed_on d xs + fixed_on d ys"
  by (simp add: fixed_on_def category_count_def)

lemma fixed_on_filter: "fixed_on d (filter C ts) \<le> fixed_on d ts"
  by (induction ts) (simp_all add: fixed_on_def category_count_def)

lemma fixed_on_single: "fixed_on d [t] = (if pt_date t = d \<and> pt_category t = NON_NEGOTIABLE then 1 else 0)"
  by (simp add: fixed_on_def category_count_def)

lemma fixed_on_replace:
  "distinct (map pt_id ts) \<Longrightarrow> fixed_on d (map (\<lambda>x. if pt_id x = pt_id r then r else x) ts) \<le> fixed_on d ts + fixed_on d [r]"
proof (induction ts)
  case (Cons x xs)
  have cons: "fixed_on d (y # ys) = fixed_on d [y] + fixed_on d ys" for y ys using fixed_on_append [of d "[y]" ys] by simp
  show ?case
  proof (cases "pt_id x = pt_id r")
    case True
    then have "map (\<lambda>x. if pt_id x = pt_id r then r else x) xs = xs" 
    proof (intro map_idI)
      fix y assume "y \<in> set xs"
      then have "pt_id y \<in> pt_id ` set xs" by (rule imageI)
      moreover have "pt_id r \<notin> pt_id ` set xs" using Cons.prems True by simp
      ultimately have "pt_id y \<noteq> pt_id r" by metis
      then show "(if pt_id y = pt_id r then r else y) = y" by simp
    qed
    then show ?thesis using True cons [of r xs] cons [of x xs] by simp
  next
    case False
    then show ?thesis
      using Cons cons [of x xs] cons [of x "map (\<lambda>x. if pt_id x = pt_id r then r else x) xs"] by simp
  qed
qed (simp add: fixed_on_def category_count_def)

definition is_copy :: "day \<Rightarrow> day \<Rightarrow> personal_task list \<Rightarrow> personal_task \<Rightarrow> bool"
  \<comment> \<open>a new task of a day, like a task of the day before\<close>
  where "is_copy d y ts c \<longleftrightarrow> pt_date c = d \<and> \<not> pt_is_completed c \<and> \<not> pt_is_break c \<and> pt_parent_task c = None \<and>
    list_ex (\<lambda>t. pt_date t = y \<and> pt_title t = pt_title c \<and> pt_description t = pt_description c \<and> pt_category t = pt_category c) ts"

lemma is_copy_mono: "is_copy d y ts c \<Longrightarrow> is_copy d y (ts @ us) c"
  by (auto simp: is_copy_def)

definition prayer_recorded :: "string \<Rightarrow> day \<Rightarrow> string \<Rightarrow> planner_rows \<Rightarrow> bool"
  \<comment> \<open>the one record of a prayer on a day has this status\<close>
  where "prayer_recorded n d st w \<longleftrightarrow>
    (\<exists>c. filter (\<lambda>c. pc_prayer_name c = n \<and> pc_date c = d) (w_prayer_completions w) = [c] \<and>
      pc_is_completed c = (st = ''prayed'') \<and> pc_status c = (if st = ''prayed'' then PRAYED else if st = ''missed'' then MISSED else NOT_YET))"

lemma unique_row: "distinct (map f xs) \<Longrightarrow> x \<in> set xs \<Longrightarrow> filter (\<lambda>y. f y = f x) xs = [x]"
proof (induction xs)
  case (Cons y ys)
  show ?case
  proof (cases "f y = f x")
    case True
    then have "y = x" using Cons.prems by (auto simp: image_iff)
    moreover have "f x \<notin> f ` set ys" using Cons.prems(1) True by simp
    then have "filter (\<lambda>y. f y = f x) ys = []" by (simp add: filter_empty_conv) (metis imageI)
    ultimately show ?thesis by simp
  qed (use Cons in auto)
qed simp

section \<open>Generated tasks\<close>

context planner
begin

lemma save_project_task_tasks: "w_tasks (view (snd (tb_save (p_project_tasks P) r s))) = w_tasks (view s)"
  by (subst project_tasks.save_view) simp

lemma generate_schedules_generated:
  "generate_schedules P p t cs g s = (r, s1) \<Longrightarrow>
    \<exists>k. generated p s s1 k \<and> (\<forall>g1. r = Inr g1 \<longrightarrow> gn_created g1 = gn_created g + k)"
proof (induction cs arbitrary: g s)
  case (Cons c cs)
  obtain r0 s0 where weeks: "generate_weeks P p t c (pj_start_date p) 0 g s = (r0, s0)" by fastforce
  from generate_weeks_generated [OF weeks order_refl] obtain m where m: "generated p s s0 m"
    "\<forall>g1. r0 = Inr g1 \<longrightarrow> gn_created g1 = gn_created g + m" by blast
  show ?case
  proof (cases r0)
    case (Inl e)
    then show ?thesis using weeks Cons.prems m by (auto simp: generate_schedule_of_def)
  next
    case (Inr g1)
    let ?s2 = "snd (tb_save (p_project_tasks P) (t\<lparr>jt_is_scheduled := True\<rparr>) s0)"
    have "generate_schedules P p t cs g1 ?s2 = (r, s1)" using weeks Cons.prems Inr by (simp add: generate_schedule_of_def)
    from Cons.IH [OF this] obtain k where k: "generated p ?s2 s1 k" "\<forall>g2. r = Inr g2 \<longrightarrow> gn_created g2 = gn_created g1 + k"
      by blast
    have "generated p s0 s1 k" using k(1) by (simp add: generated_def save_project_task_tasks)
    with generated_trans [OF m(1) this] k(2) m(2) Inr show ?thesis by (intro exI [of _ "m + k"]) auto
  qed
qed (use generated_none in \<open>auto intro!: exI [of _ 0]\<close>)

lemma generate_tasks_generated:
  "generate_tasks P p ts g s = (r, s1) \<Longrightarrow>
    \<exists>k. generated p s s1 k \<and> (\<forall>g1. r = Inr g1 \<longrightarrow> gn_created g1 = gn_created g + k)"
proof (induction ts arbitrary: g s)
  case (Cons t ts)
  obtain r0 s0 where one: "generate_schedules P p t (active_schedules P t s) g s = (r0, s0)" by fastforce
  from generate_schedules_generated [OF one] obtain m where m: "generated p s s0 m"
    "\<forall>g1. r0 = Inr g1 \<longrightarrow> gn_created g1 = gn_created g + m" by blast
  show ?case
  proof (cases r0)
    case (Inl e)
    then show ?thesis using one Cons.prems m by auto
  next
    case (Inr g1)
    then have "generate_tasks P p ts g1 s0 = (r, s1)" using one Cons.prems by simp
    from Cons.IH [OF this] obtain k where "generated p s0 s1 k" "\<forall>g2. r = Inr g2 \<longrightarrow> gn_created g2 = gn_created g1 + k" by blast
    with generated_trans [OF m(1)] m(2) Inr show ?thesis by (intro exI [of _ "m + k"]) auto
  qed
qed (use generated_none in \<open>auto intro!: exI [of _ 0]\<close>)

lemma generate_schedule_rows:
  "\<exists>xs. w_tasks (view (snd (generate_schedule P rq i s))) = w_tasks (view s) @ xs \<and> no_conflicts (w_tasks (view s)) xs \<and>
     list_all (\<lambda>x. list_ex (\<lambda>p. pj_id p = Some i \<and> pj_start_date p \<le> pt_date x \<and> pt_date x \<le> pj_end_date p) (w_projects (view s))) xs"
  (is "?Q (snd (generate_schedule P rq i s))")
proof -
  have same: "?Q s" by simp
  have gen: "?Q s1" if "generate_tasks P p ts g s = (r, s1)" and p: "get_by_id pj_id (p_projects P) i s = Some p" for p ts g r s1
  proof -
    from generate_tasks_generated [OF that(1)] obtain xs where "w_tasks (view s1) = w_tasks (view s) @ xs"
      "no_conflicts (w_tasks (view s)) xs" "\<forall>x\<in>set xs. pj_start_date p \<le> pt_date x \<and> pt_date x \<le> pj_end_date p"
      unfolding generated_def by blast
    then show ?thesis using projects.got [OF p] by (intro exI [of _ xs]) (auto simp: list_all_iff list_ex_iff)
  qed
  have run: "?Q (snd (and_then (generate_tasks P p ts g s) (\<lambda>g1 s1. (Inr (f g1), s1))))"
    if "get_by_id pj_id (p_projects P) i s = Some p" for p ts g and f :: "generated \<Rightarrow> response"
    using gen [OF _ that, of ts g] by (cases "generate_tasks P p ts g s") (auto simp: and_then_def split: sum.split)
  show ?thesis
  proof (cases "rq_method rq \<in> set [''POST''] \<and> get_by_id pj_id (p_projects P) i s \<noteq> None")
    case False
    then have "snd (generate_schedule P rq i s) = s" by (auto simp: generate_schedule_def view_state split: option.split)
    with same show ?thesis by simp
  next
    case True
    then obtain p where p: "get_by_id pj_id (p_projects P) i s = Some p" by blast
    define ids where "ids = rbind (loaded rq) (\<lambda>data. rbind (dict_get data ''task_ids'' (VList [])) (\<lambda>ids. rbind (py_iter ids) (keys_of P)))"
    show ?thesis
    proof (cases ids)
      case (Inl e)
      then have "snd (generate_schedule P rq i s) = s"
        using True p by (simp add: generate_schedule_def snd_require snd_object ids_def)
      with same show ?thesis by simp
    next
      case (Inr js)
      then show ?thesis
        using True p run [OF p] by (simp add: generate_schedule_def snd_require snd_object ids_def)
    qed
  qed
qed

section \<open>Breaks\<close>

lemma auto_insert_breaks_rows:
  assumes "auto_insert_breaks P t s = (r, s1)"
  shows "view s1 = view s \<or> (\<exists>b i. b = add_clock (pt_end_time t) (minutes 10) \<and> long_task t \<and> room_for_break (w_tasks (view s)) t b \<and>
    view s1 = (view s)\<lparr>w_tasks := w_tasks (view s) @ [(break_for t b)\<lparr>pt_id := Some i\<rparr>]\<rparr>)"
proof (cases "long_task t \<and> is_ok (combine_add (pt_date t) (pt_end_time t) (minutes 10))")
  case False
  then have "s1 = s" using assms
    by (cases "combine_add (pt_date t) (pt_end_time t) (minutes 10)") (auto simp: auto_insert_breaks_def split: if_splits)
  then show ?thesis by simp
next
  case True
  define b where "b = add_clock (pt_end_time t) (minutes 10)"
  have "combine_add (pt_date t) (pt_end_time t) (minutes 10) = Inr b"
    using True by (cases "combine_add (pt_date t) (pt_end_time t) (minutes 10)")
      (auto simp: combine_add_def rbind_def b_def split: sum.splits)
  then have s1: "s1 = (if room_for_break (w_tasks (view s)) t b then snd (create (p_tasks P) (break_for t b) s) else s)"
    using True assms by (simp add: auto_insert_breaks_def tasks.rows_view)
  have "pt_id (break_for t b) = None" by (simp add: break_for_def)
  then obtain i s2 where "create (p_tasks P) (break_for t b) s = ((break_for t b)\<lparr>pt_id := Some i\<rparr>, s2)"
    "view s2 = (view s)\<lparr>w_tasks := w_tasks (view s) @ [(break_for t b)\<lparr>pt_id := Some i\<rparr>]\<rparr>"
    by (rule tasks.create_row)
  then show ?thesis using s1 True b_def by (auto split: if_splits)
qed

lemma room_taken: "\<not> room_for_break (ts @ [(break_for t b)\<lparr>pt_id := Some i\<rparr>]) t b'"
  by (simp add: room_for_break_def break_for_def)

lemma auto_insert_breaks_again:
  assumes "auto_insert_breaks P t s = (r, s1)"
  shows "view (snd (auto_insert_breaks P t s1)) = view s1"
proof (cases "long_task t")
  case True
  show ?thesis
  proof (cases "combine_add (pt_date t) (pt_end_time t) (minutes 10)")
    case (Inr b)
    show ?thesis
    proof (cases "room_for_break (w_tasks (view s)) t b")
      case room: True
      then have "s1 = snd (create (p_tasks P) (break_for t b) s)"
        using assms True Inr by (simp add: auto_insert_breaks_def tasks.rows_view)
      moreover have "pt_id (break_for t b) = None" by (simp add: break_for_def)
      ultimately obtain i where "w_tasks (view s1) = w_tasks (view s) @ [(break_for t b)\<lparr>pt_id := Some i\<rparr>]"
        by (auto elim!: tasks.create_row [of "break_for t b" s])
      then show ?thesis using True Inr by (simp add: auto_insert_breaks_def tasks.rows_view room_taken)
    next
      case False
      then have "s1 = s" using assms True Inr by (simp add: auto_insert_breaks_def tasks.rows_view)
      then show ?thesis using False True Inr by (simp add: auto_insert_breaks_def tasks.rows_view)
    qed
  qed (use True in \<open>simp add: auto_insert_breaks_def\<close>)
qed (simp add: auto_insert_breaks_def)

section \<open>The limit of non-negotiable tasks\<close>

lemma form_valid_limit:
  assumes "form_valid P c s = (Some f, s1)" "ff_category f = NON_NEGOTIABLE"
  shows "fixed_on (ff_date f) (w_tasks (view s)) < 3"
proof -
  from assms(1) obtain late where clean: "form_clean P c s = (Inr late, s1)" and all: "all_fields c = Some f"
    by (auto simp: form_valid_def split: prod.splits sum.splits)
  from all assms(2) have "cd_date c = Some (ff_date f)" "cd_category c = Some NON_NEGOTIABLE"
    by (auto simp: all_fields_def split: option.splits)
  moreover obtain now s2 where "today P s = (now, s2)" by fastforce
  moreover have "view s2 = view s" using calculation(3) by (rule today_view)
  ultimately show ?thesis
    using clean by (auto simp: form_clean_def Let_def tasks.rows_view fixed_on_def split: if_splits)
qed

lemma break_not_fixed: "fixed_on d [(break_for t b)\<lparr>pt_id := i\<rparr>] = 0"
  by (simp add: fixed_on_single break_for_def NON_NEGOTIABLE_def FUN_def)

lemma auto_insert_breaks_fixed: "auto_insert_breaks P t s = (r, s1) \<Longrightarrow> fixed_on d (w_tasks (view s1)) = fixed_on d (w_tasks (view s))"
  by (auto simp: fixed_on_append break_not_fixed dest!: auto_insert_breaks_rows)

lemma store_new_task_fixed:
  assumes "ok s" shows "fixed_on d (w_tasks (view (snd (store_new_task P f js day s)))) \<le>
    fixed_on d (w_tasks (view s)) + (if ff_date f = d \<and> ff_category f = NON_NEGOTIABLE then 1 else 0)"
proof -
  obtain t s1 where c: "create (p_tasks P) (fill f new_task) s = (t, s1)" by fastforce
  with create_task_in [of "fill f new_task" s t s1] obtain i where t: "t = (fill f new_task)\<lparr>pt_id := Some i\<rparr>"
    "w_tasks (view s1) = w_tasks (view s) @ [t]" "t \<in> set (w_tasks (view s1))" by (auto simp: fill_def new_task_def)
  have s1: "ok s1" using create_task_ok [OF assms, of "fill f new_task"] c by (simp add: fill_def new_task_def)
  have count: "fixed_on d (w_tasks (view s1)) = fixed_on d (w_tasks (view s)) + (if ff_date f = d \<and> ff_category f = NON_NEGOTIABLE then 1 else 0)"
    by (simp add: t fixed_on_append fixed_on_single fill_def)
  have "Some (the (pt_id t)) \<in> pt_id ` set (w_tasks (view s1))" using t by force
  note subs = add_subtasks_ok [OF _ s1 this]
  obtain r2 s2 where a: "add_subtasks P False (the (pt_id t)) js s1 = (r2, s2)" by fastforce
  show ?thesis
  proof (cases r2)
    case (Inl e)
    then show ?thesis using a subs [OF a] count by (simp add: store_new_task_def c)
  next
    case (Inr msgs)
    obtain r3 s3 where b: "auto_insert_breaks P t s2 = (r3, s3)" by fastforce
    then have "snd (store_new_task P f js day s) = s3" using a Inr by (cases r3) (simp_all add: store_new_task_def c)
    then show ?thesis using subs [OF a] auto_insert_breaks_fixed [OF b] count by simp
  qed
qed

lemma create_personal_task_limit:
  assumes "ok s"
  shows "fixed_on d (w_tasks (view (snd (create_personal_task P rq c y m dd s)))) \<le> max 3 (fixed_on d (w_tasks (view s)))"
proof -
  have keep: "fixed_on d (w_tasks (view s1)) \<le> max 3 (fixed_on d (w_tasks (view s)))" if "form_valid P c s = (f, s1)" for f s1
    using form_valid_view [OF that] by simp
  have new: "fixed_on d (w_tasks (view (snd (store_new_task P f js day s1)))) \<le> max 3 (fixed_on d (w_tasks (view s)))"
    if "form_valid P c s = (Some f, s1)" for f s1 js day
    using store_new_task_fixed [of s1 d f js day] form_valid_limit [OF that] form_valid_view [OF that] assms
    by (auto split: if_splits)
  show ?thesis
    using keep new by (auto simp: create_personal_task_def snd_require split: sum.split option.split prod.split)
qed

lemma store_edited_task_fixed:
  assumes ok: "ok s" and t: "t \<in> set (w_tasks (view s))" "pt_id t = Some i"
    and same: "pt_id r = pt_id t" "pt_parent_task r = pt_parent_task t" "pt_is_break r = pt_is_break t"
  shows "fixed_on d (w_tasks (view (snd (store_edited_task P i r js s)))) \<le> fixed_on d (w_tasks (view s)) + fixed_on d [r]"
proof -
  obtain s1 where save: "tb_save (p_tasks P) r s = (r, s1)"
    using save_task_ok(3) [OF ok t(1) same] by (cases "tb_save (p_tasks P) r s") simp
  have s1: "ok s1" using save_task_ok(1) [OF ok t(1) same] save by simp
  have "pt_id r \<in> pt_id ` set (w_tasks (view s))" using t same by force
  then have rows: "w_tasks (view s1) = map (\<lambda>x. if pt_id x = pt_id r then r else x) (w_tasks (view s))"
    using tasks.save_row(2) [of r s] save by simp
  have count: "fixed_on d (w_tasks (view s1)) \<le> fixed_on d (w_tasks (view s)) + fixed_on d [r]"
    unfolding rows using tasks.rows_distinct [of s] by (intro fixed_on_replace) (simp add: tasks.rows_view)
  have "Some i \<in> pt_id ` set (w_tasks (view s1))"
    using save_task_ok(2) [OF ok t(1) same] save t by force
  note subs = add_subtasks_ok [OF _ s1 this]
  obtain r2 s2 where a: "add_subtasks P True i js s1 = (r2, s2)" by fastforce
  show ?thesis
  proof (cases r2)
    case (Inl e)
    then show ?thesis using a subs [OF a] count by (simp add: store_edited_task_def save)
  next
    case (Inr msgs)
    let ?s3 = "cascade_tasks P (break_keys (tb_rows (p_tasks P) s2) i) s2"
    obtain r4 s4 where b: "auto_insert_breaks P r ?s3 = (r4, s4)" by fastforce
    then have "snd (store_edited_task P i r js s) = s4" using a Inr by (cases r4) (simp_all add: store_edited_task_def save)
    moreover have "fixed_on d (w_tasks (view ?s3)) \<le> fixed_on d (w_tasks (view s2))"
      by (simp add: cascade_tasks_view fixed_on_filter)
    ultimately show ?thesis using subs [OF a] auto_insert_breaks_fixed [OF b, of d] count by simp
  qed
qed

lemma edit_personal_task_limit:
  assumes ok: "ok s"
  shows "fixed_on d (w_tasks (view (snd (edit_personal_task P rq c i s)))) \<le> max 3 (fixed_on d (w_tasks (view s)))"
proof -
  have keep: "fixed_on d (w_tasks (view s1)) \<le> max 3 (fixed_on d (w_tasks (view s)))" if "form_valid P c s = (f, s1)" for f s1
    using form_valid_view [OF that] by simp
  have new: "fixed_on d (w_tasks (view (snd (store_edited_task P i (fill f t) js s1)))) \<le> max 3 (fixed_on d (w_tasks (view s)))"
    if f: "form_valid P c s = (Some f, s1)" and t: "get_by_id pt_id (p_tasks P) i s = Some t" for f s1 t js
  proof -
    have "fixed_on d (w_tasks (view (snd (store_edited_task P i (fill f t) js s1)))) \<le> fixed_on d (w_tasks (view s1)) + fixed_on d [fill f t]"
      using ok tasks.got [OF t] form_valid_view [OF f] by (intro store_edited_task_fixed [of s1 t]) (simp_all add: fill_def)
    then show ?thesis
      using form_valid_limit [OF f] form_valid_view [OF f] by (auto simp: fixed_on_single fill_def split: if_splits)
  qed
  show ?thesis
    using keep new by (auto simp: edit_personal_task_def snd_require snd_object split: sum.split option.split prod.split)
qed

section \<open>Copies of the day before\<close>

lemma create_subtask_tasks: "sb_id r = None \<Longrightarrow> w_tasks (view (snd (create (p_subtasks P) r s))) = w_tasks (view s)"
  by (rule subtasks.create_row [of r s]) simp_all

lemma copy_subtasks_tasks: "w_tasks (view (copy_subtasks P i bs s)) = w_tasks (view s)"
  by (induction bs arbitrary: s) (simp_all add: copy_subtasks_def create_subtask_tasks)

lemma copy_task_rows:
  assumes "copy_task P d y ovs i s = (r, s1)"
  shows "case r of Inl e \<Rightarrow> s1 = s | Inr c \<Rightarrow> w_tasks (view s1) = w_tasks (view s) @ [c] \<and> is_copy d y (w_tasks (view s)) c"
proof (cases "rbind (find_for P i y s) (\<lambda>t. rbind (copied_times P ovs i t) (\<lambda>times. Inr (t, times)))")
  case (Inl e)
  then show ?thesis using assms by (auto simp: copy_task_def)
next
  case (Inr u)
  obtain t a b where u: "u = (t, a, b)" by (cases u)
  have "find_for P i y s = Inr t" using Inr u by (auto simp: rbind_def split: sum.splits)
  then have t: "t \<in> set (w_tasks (view s))" "pt_date t = y"
    by (auto simp: find_for_def rbind_def tasks.rows_view find_Some_iff split: sum.splits option.splits)
  let ?x = "new_task\<lparr>pt_title := pt_title t, pt_description := pt_description t, pt_date := d, pt_start_time := a,
    pt_end_time := b, pt_category := pt_category t\<rparr>"
  obtain c s0 where c: "create (p_tasks P) ?x s = (c, s0)" by fastforce
  have "pt_id ?x = None" by (simp add: new_task_def)
  from create_task_in [OF this c] obtain j where j: "c = ?x\<lparr>pt_id := Some j\<rparr>" "w_tasks (view s0) = w_tasks (view s) @ [c]" by blast
  have "is_copy d y (w_tasks (view s)) c" using t by (auto simp: is_copy_def j(1) new_task_def list_ex_iff)
  moreover have "r = Inr c \<and> w_tasks (view s1) = w_tasks (view s0)"
    using assms Inr u by (auto simp: copy_task_def c copy_subtasks_tasks)
  ultimately show ?thesis using j(2) by simp
qed

lemma copy_tasks_rows:
  "copy_tasks P d y ovs is cs es s = ((cs', es'), s1) \<Longrightarrow> d \<noteq> y \<Longrightarrow>
    \<exists>new failed. cs' = cs @ new \<and> es' = es @ failed \<and> length new + length failed = length is \<and>
      w_tasks (view s1) = w_tasks (view s) @ new \<and> list_all (is_copy d y (w_tasks (view s))) new"
proof (induction "is" arbitrary: cs es s)
  case (Cons i "is")
  obtain r s0 where one: "copy_task P d y ovs i s = (r, s0)" by fastforce
  note rows = copy_task_rows [OF one]
  show ?case
  proof (cases r)
    case (Inl e)
    then have "copy_tasks P d y ovs is cs (es @ [copy_error P i e]) s0 = ((cs', es'), s1)" using Cons.prems(1) one by simp
    from Cons.IH [OF this Cons.prems(2)] obtain new failed where "cs' = cs @ new" "es' = es @ [copy_error P i e] @ failed"
      "length new + length failed = length is" "w_tasks (view s1) = w_tasks (view s0) @ new"
      "list_all (is_copy d y (w_tasks (view s0))) new" by auto
    then show ?thesis using rows Inl by (intro exI [of _ new] exI [of _ "copy_error P i e # failed"]) simp
  next
    case (Inr c)
    then have "copy_tasks P d y ovs is (cs @ [c]) es s0 = ((cs', es'), s1)" using Cons.prems(1) one by simp
    from Cons.IH [OF this Cons.prems(2)] obtain new failed where new: "cs' = cs @ c # new" "es' = es @ failed"
      "length new + length failed = length is" "w_tasks (view s1) = w_tasks (view s0) @ new"
      "list_all (is_copy d y (w_tasks (view s0))) new" by auto
    have c: "w_tasks (view s0) = w_tasks (view s) @ [c]" "is_copy d y (w_tasks (view s)) c" using rows Inr by simp_all
    have "is_copy d y (w_tasks (view s)) x" if "is_copy d y (w_tasks (view s0)) x" for x
      using that c Cons.prems(2) by (auto simp: is_copy_def)
    then have "list_all (is_copy d y (w_tasks (view s))) new" using new(5) by (simp add: list_all_iff)
    with new c show ?thesis by (intro exI [of _ "c # new"] exI [of _ failed]) simp
  qed
qed simp

section \<open>Deletion\<close>

lemma cascade_tasks_left:
  fixes i :: int
  assumes "ok s"
  defines "w \<equiv> view s" and "w' \<equiv> view (cascade_tasks P [i] s)"
  shows "w_tasks w' = filter (\<lambda>t. \<forall>j\<in>tasks_gone (w_tasks w) [i]. pt_id t \<noteq> Some j) (w_tasks w)"
    "w_subtasks w' = filter (\<lambda>b. Some (sb_personal_task b) \<in> pt_id ` set (w_tasks w')) (w_subtasks w)"
    "w_completions w' = filter (\<lambda>c. Some (tc_task c) \<in> pt_id ` set (w_tasks w')) (w_completions w)"
    "\<forall>t\<in>set (w_tasks w'). pt_id t \<noteq> Some i \<and> pt_parent_task t \<noteq> Some i"
proof -
  let ?gone = "tasks_gone (w_tasks w) [i]"
  show tasks: "w_tasks w' = filter (\<lambda>t. \<forall>j\<in>?gone. pt_id t \<noteq> Some j) (w_tasks w)"
    by (simp add: w'_def w_def cascade_tasks_view)
  have left: "Some k \<in> pt_id ` set (w_tasks w') \<longleftrightarrow> k \<notin> ?gone" if "Some k \<in> pt_id ` set (w_tasks w)" for k
    using that unfolding tasks by (auto simp: image_iff)
  show "w_subtasks w' = filter (\<lambda>b. Some (sb_personal_task b) \<in> pt_id ` set (w_tasks w')) (w_subtasks w)"
  proof -
    have "\<forall>b\<in>set (w_subtasks w). Some (sb_personal_task b) \<in> pt_id ` set (w_tasks w)"
      using assms(1) by (simp add: planner_ok_def refs_ok_def w_def)
    then have "filter (\<lambda>b. sb_personal_task b \<notin> ?gone) (w_subtasks w) =
        filter (\<lambda>b. Some (sb_personal_task b) \<in> pt_id ` set (w_tasks w')) (w_subtasks w)"
      by (intro filter_cong refl) (simp only: left)
    then show ?thesis by (simp add: w'_def w_def cascade_tasks_view)
  qed
  show "w_completions w' = filter (\<lambda>c. Some (tc_task c) \<in> pt_id ` set (w_tasks w')) (w_completions w)"
  proof -
    have "\<forall>c\<in>set (w_completions w). Some (tc_task c) \<in> pt_id ` set (w_tasks w)"
      using assms(1) by (simp add: planner_ok_def refs_ok_def w_def)
    then have "filter (\<lambda>c. tc_task c \<notin> ?gone) (w_completions w) =
        filter (\<lambda>c. Some (tc_task c) \<in> pt_id ` set (w_tasks w')) (w_completions w)"
      by (intro filter_cong refl) (simp only: left)
    then show ?thesis by (simp add: w'_def w_def cascade_tasks_view)
  qed
  have i: "i \<in> ?gone" using with_breaks_superset [of "[i]"] by (auto simp: tasks_gone_def)
  show "\<forall>t\<in>set (w_tasks w'). pt_id t \<noteq> Some i \<and> pt_parent_task t \<noteq> Some i"
  proof (intro ballI conjI)
    fix t assume t: "t \<in> set (w_tasks w')"
    then show "pt_id t \<noteq> Some i" using i unfolding tasks by auto
    obtain k where "pt_id t = Some k" using t task_saved [of t s] by (auto simp: tasks w_def)
    then show "pt_parent_task t \<noteq> Some i"
      using t with_breaks_parents [of t "w_tasks w" k i "[i]"] i by (auto simp: tasks tasks_gone_def)
  qed
qed

section \<open>Completions\<close>

lemma toggle_task_completion_rows:
  assumes ok: "ok s" and t: "get_by_id pt_id (p_tasks P) i s = Some t"
    and rq: "rq_method rq = ''POST''" "rq_json rq = Some data" "dict_get data ''is_completed'' (VBool False) = Inr v"
  shows "case p_bool P v of
      Inl e \<Rightarrow> toggle_task_completion P rq i s = (if is_Exception e then (Inr (json_failure 500 (p_str P e)), s) else (Inl e, s))
    | Inr b \<Rightarrow> (\<exists>j. view (snd (toggle_task_completion P rq i s)) = (view s)\<lparr>
        w_tasks := map (\<lambda>x. if pt_id x = Some i then t\<lparr>pt_is_completed := b\<rparr> else x) (w_tasks (view s)),
        w_completions := w_completions (view s) @ [\<lparr> tc_id = Some j, tc_task = i, tc_is_completed = b,
          tc_performance_rating = Some (pf_label (get_performance_rating P i s)) \<rparr>]\<rparr>)"
proof (cases "p_bool P v")
  case (Inl e)
  then show ?thesis
    using assms by (simp add: toggle_task_completion_def require_http_methods_def object_or_404_def with_json_def or_failure_def)
next
  case (Inr b)
  have mem: "t \<in> set (w_tasks (view s))" "pt_id t = Some i" using tasks.got [OF t] by auto
  define s1 where "s1 = snd (tb_save (p_tasks P) (t\<lparr>pt_is_completed := b\<rparr>) s)"
  have known: "pt_id (t\<lparr>pt_is_completed := b\<rparr>) \<in> pt_id ` set (w_tasks (view s))" using mem by force
  have s1: "view s1 = (view s)\<lparr>w_tasks := map (\<lambda>x. if pt_id x = Some i then t\<lparr>pt_is_completed := b\<rparr> else x) (w_tasks (view s))\<rparr>"
    using tasks.save_row(2) [OF known] mem(2) by (simp add: s1_def)
  have rating: "get_performance_rating P i s1 = get_performance_rating P i s"
    by (simp add: get_performance_rating_def subtasks_of_def subtasks.rows_view s1)
  define c where "c = \<lparr> tc_id = None, tc_task = i, tc_is_completed = b, tc_performance_rating = Some (pf_label (get_performance_rating P i s)) \<rparr>"
  have "tc_id c = None" by (simp add: c_def)
  then obtain j s2 where s2: "create (p_completions P) c s1 = (c\<lparr>tc_id := Some j\<rparr>, s2)"
    "view s2 = (view s1)\<lparr>w_completions := w_completions (view s1) @ [c\<lparr>tc_id := Some j\<rparr>]\<rparr>"
    by (rule completions.create_row)
  have "snd (toggle_task_completion P rq i s) = s2"
    using t rq Inr s2(1) rating
    by (simp add: toggle_task_completion_def snd_require snd_object snd_with_json Let_def flip: s1_def c_def)
  then show ?thesis using Inr s2(2) s1 by (auto simp: c_def)
qed

section \<open>Prayers\<close>

lemma saved_prayer_recorded:
  assumes ok: "ok s" and c: "c \<in> set (w_prayer_completions (view s))"
    and r: "pc_id r = pc_id c" "pc_prayer_name r = n" "pc_prayer_name c = n" "pc_date r = d" "pc_date c = d"
    and st: "pc_is_completed r = (st = ''prayed'')" "pc_status r = (if st = ''prayed'' then PRAYED else if st = ''missed'' then MISSED else NOT_YET)"
  shows "prayer_recorded n d st (view (snd (tb_save (p_prayer_completions P) r s)))"
proof -
  let ?s1 = "snd (tb_save (p_prayer_completions P) r s)"
  have known: "pc_id r \<in> pc_id ` set (w_prayer_completions (view s))" using c r(1) by auto
  have "ok ?s1" using save_prayer_completion_ok [OF ok c] r by simp
  then have "distinct (map (\<lambda>c. (pc_prayer_name c, pc_date c)) (w_prayer_completions (view ?s1)))"
    by (simp add: planner_ok_def unique_ok_def)
  moreover have "r \<in> set (w_prayer_completions (view ?s1))"
    using prayer_completions.save_row(2) [OF known] c r(1) by (auto simp: image_iff intro!: bexI [of _ c])
  ultimately have "filter (\<lambda>c. (pc_prayer_name c, pc_date c) = (pc_prayer_name r, pc_date r)) (w_prayer_completions (view ?s1)) = [r]"
    by (rule unique_row)
  then show ?thesis using r st by (simp add: prayer_recorded_def)
qed

lemma save_status_recorded:
  assumes "ok s" "c \<in> set (w_prayer_completions (view s))" "pc_prayer_name c = n" "pc_date c = d"
  shows "prayer_recorded n d st (view (save_status P (VStr st) c s))"
proof -
  obtain now s0 where now: "p_now P s = (now, s0)" by fastforce
  then have "view s0 = view s" using clock_view [of s] by simp
  then show ?thesis
    using assms by (auto simp: save_status_def now intro!: saved_prayer_recorded [where c = c])
qed

lemma toggle_prayer_recorded:
  assumes ok: "ok s" and rq: "rq_method rq = ''POST''" "rq_json rq = Some data"
    "dict_get data ''date'' VNone = Inr date" "py_truthy date" "parse_date date = Inr d"
    "dict_get data ''is_completed'' (VBool False) = Inr b" "dict_get data ''status'' (VStr ''not_yet'') = Inr (VStr st)"
    and kept: "p_text P (VStr n) = Inr n"
  shows "prayer_recorded n d st (view (snd (toggle_prayer_completion P rq n s)))"
proof -
  have "is_ok (fst (get_or_create_completion P n d s))"
    by (simp add: get_or_create_completion_def kept split: option.split prod.split)
  then obtain c s1 where got: "get_or_create_completion P n d s = (Inr c, s1)"
    by (cases "get_or_create_completion P n d s"; cases "fst (get_or_create_completion P n d s)") auto
  have "pc_prayer_name c = n \<and> pc_date c = d"
  proof (cases "find (\<lambda>c. pc_prayer_name c = n \<and> pc_date c = d) (tb_rows (p_prayer_completions P) s)")
    case None
    have new: "pc_id \<lparr> pc_id = None, pc_prayer_name = n, pc_date = d, pc_is_completed = False, pc_status = NOT_YET, pc_completed_at = None \<rparr> = None"
      by simp
    show ?thesis by (rule prayer_completions.create_row [OF new, of s]) (use got None kept in \<open>auto simp: get_or_create_completion_def\<close>)
  next
    case (Some c0)
    then have "c0 = c" using got by (simp add: get_or_create_completion_def)
    then show ?thesis using Some by (auto simp: find_Some_iff)
  qed
  moreover note got_completion [OF got ok]
  ultimately have "prayer_recorded n d st (view (save_status P (VStr st) c s1))" by (intro save_status_recorded) auto
  moreover have "snd (toggle_prayer_completion P rq n s) = save_status P (VStr st) c s1"
    using rq by (simp add: toggle_prayer_completion_def snd_require snd_with_json snd_and_then got)
  ultimately show ?thesis by simp
qed

end

section \<open>A day's timeline\<close>

lemma timeline_sorted: "sorted (map item_start (timeline ts ps cs d))"
  by (simp add: timeline_def)

lemma timeline_items: "mset (timeline ts ps cs d) =
    image_mset (\<lambda>p. PrayerItem p (prayer_done cs (ps_prayer_name p) d)) (mset ps) + image_mset TaskItem (filter_mset (\<lambda>t. pt_date t = d) (mset ts))"
  by (simp add: timeline_def tasks_by_start_def mset_filter)

end
