(* ===== verification/Planner_Properties.thy ===== *)
theory Planner_Properties
  imports PlannerRequests
begin

text \<open>
  The properties of the daily planner.  The database is a hypothesis, the locale \<open>planner\<close>; each property with a
  hypothesis is instantiated at the database in memory.
\<close>

section \<open>Samples\<close>

definition no_rows :: planner_mem
  where "no_rows = \<lparr> w_tasks = [], w_subtasks = [], w_completions = [], w_prayers = [], w_prayer_completions = [],
    w_projects = [], w_project_tasks = [], w_schedules = [], pm_clock = 0 \<rparr>"

definition sample_task :: personal_task
  where "sample_task = \<lparr> pt_id = Some 1, pt_title = ''write'', pt_description = None, pt_date = 738886, pt_start_time = minutes 540,
    pt_end_time = minutes 600, pt_category = SECONDARY, pt_is_completed = False, pt_is_break = False, pt_parent_task = None \<rparr>"

definition one_task :: planner_mem
  where "one_task = no_rows\<lparr>w_tasks := [sample_task]\<rparr>"

definition post :: "pyval option \<Rightarrow> request"
  where "post body = \<lparr> rq_method = ''POST'', rq_get = [], rq_post = [], rq_is_json = True, rq_json = body \<rparr>"

definition sample_form :: cleaned_data
  where "sample_form = \<lparr> cd_title = Some ''read'', cd_description = None, cd_date = Some 738886, cd_start_time = Some (minutes 540),
    cd_end_time = Some (minutes 630), cd_category = Some NON_NEGOTIABLE \<rparr>"

definition sample_project :: project
  where "sample_project = \<lparr> pj_id = Some 1, pj_title = ''thesis'', pj_description = None, pj_start_date = 738886,
    pj_end_date = 738920, pj_status = ''planned'' \<rparr>"

definition sample_project_task :: project_task
  where "sample_project_task = \<lparr> jt_id = Some 1, jt_project = 1, jt_title = ''draft'', jt_description = None,
    jt_duration_hours = 1, jt_order = 1, jt_is_scheduled = False \<rparr>"

definition sample_schedule :: project_schedule
  where "sample_schedule = \<lparr> js_id = Some 1, js_project_task = 1, js_day_of_week = 2, js_start_time = minutes 600,
    js_duration_hours = 1, js_weeks = 3, js_is_active = True \<rparr>"

lemma norm_rows_Nil [simp]: "norm_rows f [] = []"
  by (simp add: norm_rows_def row_index_def)

lemma norm_rows_single [simp]: "f r = Some i \<Longrightarrow> norm_rows f [r] = [r]"
  by (simp add: norm_rows_def row_index_def)

lemma no_rows_view: "mem_rows no_rows = \<lparr> w_tasks = [], w_subtasks = [], w_completions = [], w_prayers = [],
    w_prayer_completions = [], w_projects = [], w_project_tasks = [], w_schedules = [] \<rparr>"
  by (simp add: mem_rows_def no_rows_def)

lemma one_task_view: "mem_rows one_task = (mem_rows no_rows)\<lparr>w_tasks := [sample_task]\<rparr>"
  by (simp add: mem_rows_def one_task_def no_rows_def sample_task_def)

lemma samples_ok: "planner_ok (mem_rows no_rows)" "planner_ok (mem_rows one_task)"
  by (simp_all add: one_task_view no_rows_view planner_ok_def refs_ok_def unique_ok_def breaks_ok_def sample_task_def)

lemma one_task_found: "get_by_id pt_id (p_tasks mem_planner) 1 one_task = Some sample_task"
  by (simp add: get_by_id_def mem_planner_def mem_table_def one_task_def no_rows_def sample_task_def)

section \<open>The database\<close>

text \<open>
  C4.  Whatever requests the planner is sent, in whatever order: no subtask, completion, break, project
  task or schedule refers to a row that is not there; no prayer has two times or two records on a day, no task
  two schedules on a weekday; and only breaks belong to another task.
\<close>

theorem requests_keep_constraints:
  assumes "planner P view" "(planner_step P)\<^sup>*\<^sup>* s s'" "planner_ok (view s)"
  shows "planner_ok (view s')"
  using planner.steps_keep [OF assms] .

theorem requests_keep_constraints_witness:
  "planner_ok (mem_rows (snd (delete_personal_task mem_planner (post None) 1
     (snd (create_personal_task mem_planner (post None) sample_form 2024 1 1 one_task)))))"
proof (rule requests_keep_constraints [OF mem_planner.planner_axioms _ samples_ok(2)])
  let ?s = "snd (create_personal_task mem_planner (post None) sample_form 2024 1 1 one_task)"
  have "planner_step mem_planner one_task ?s" by (rule planner_step.create_personal_task)
  moreover have "planner_step mem_planner ?s (snd (delete_personal_task mem_planner (post None) 1 ?s))"
    by (rule planner_step.delete_personal_task)
  ultimately show "(planner_step mem_planner)\<^sup>*\<^sup>* one_task (snd (delete_personal_task mem_planner (post None) 1 ?s))" by simp
qed



section \<open>Personal tasks\<close>



text \<open>
  C22.  Creating or editing a task never brings a day over three non-negotiable tasks: it has at most three
  afterwards, or no more than before.
\<close>

theorem three_fixed_a_day:
  assumes "planner P view" "planner_ok (view s)"
  shows "fixed_on d (w_tasks (view (snd (create_personal_task P rq c year month day s)))) \<le> max 3 (fixed_on d (w_tasks (view s))) \<and>
    fixed_on d (w_tasks (view (snd (edit_personal_task P rq c i s)))) \<le> max 3 (fixed_on d (w_tasks (view s)))"
  using planner.create_personal_task_limit [OF assms] planner.edit_personal_task_limit [OF assms] by blast

theorem three_fixed_a_day_witness:
  "fixed_on 738886 (w_tasks (mem_rows (snd (create_personal_task mem_planner (post None) sample_form 2024 1 1 one_task))))
      \<le> max 3 (fixed_on 738886 (w_tasks (mem_rows one_task))) \<and>
    fixed_on 738886 (w_tasks (mem_rows (snd (edit_personal_task mem_planner (post None) sample_form 1 one_task))))
      \<le> max 3 (fixed_on 738886 (w_tasks (mem_rows one_task)))"
  by (rule three_fixed_a_day [OF mem_planner.planner_axioms samples_ok(2)])



text \<open>
  C28.  Marking a task as completed or not stores the flag in its row and adds one row to the history, with the rating
  of its subtasks; a value that is no flag is an error 500 and changes nothing.
\<close>

theorem completion_recorded:
  assumes "planner P view" "planner_ok (view s)" "get_by_id pt_id (p_tasks P) i s = Some t"
    "rq_method rq = ''POST''" "rq_json rq = Some data" "dict_get data ''is_completed'' (VBool False) = Inr v"
  shows "case p_bool P v of
      Inl e \<Rightarrow> toggle_task_completion P rq i s = (if is_Exception e then (Inr (json_failure 500 (p_str P e)), s) else (Inl e, s))
    | Inr b \<Rightarrow> (\<exists>j. view (snd (toggle_task_completion P rq i s)) = (view s)\<lparr>
        w_tasks := map (\<lambda>x. if pt_id x = Some i then t\<lparr>pt_is_completed := b\<rparr> else x) (w_tasks (view s)),
        w_completions := w_completions (view s) @ [\<lparr> tc_id = Some j, tc_task = i, tc_is_completed = b,
          tc_performance_rating = Some (pf_label (get_performance_rating P i s)) \<rparr>]\<rparr>)"
  by (rule planner.toggle_task_completion_rows [OF assms])

theorem completion_recorded_witness:
  "case p_bool mem_planner (VBool True) of
      Inl e \<Rightarrow> toggle_task_completion mem_planner (post (Some (VDict [(''is_completed'', VBool True)]))) 1 one_task
        = (if is_Exception e then (Inr (json_failure 500 (p_str mem_planner e)), one_task) else (Inl e, one_task))
    | Inr b \<Rightarrow> (\<exists>j. mem_rows (snd (toggle_task_completion mem_planner (post (Some (VDict [(''is_completed'', VBool True)]))) 1 one_task))
        = (mem_rows one_task)\<lparr>
        w_tasks := map (\<lambda>x. if pt_id x = Some 1 then sample_task\<lparr>pt_is_completed := b\<rparr> else x) (w_tasks (mem_rows one_task)),
        w_completions := w_completions (mem_rows one_task) @ [\<lparr> tc_id = Some j, tc_task = 1, tc_is_completed = b,
          tc_performance_rating = Some (pf_label (get_performance_rating mem_planner 1 one_task)) \<rparr>]\<rparr>)"
  by (rule completion_recorded [OF mem_planner.planner_axioms samples_ok(2) one_task_found, where data = "VDict [(''is_completed'', VBool True)]"])
    (simp_all add: post_def)

text \<open>
  A day's timeline has every prayer and every task of the day, each once, and nothing else, in the order of
  their start.
\<close>

theorem timeline_ordered:
  "sorted (map item_start (timeline tasks prayers completions d)) \<and>
   mset (timeline tasks prayers completions d) =
     image_mset (\<lambda>p. PrayerItem p (prayer_done completions (ps_prayer_name p) d)) (mset prayers)
     + image_mset TaskItem (filter_mset (\<lambda>t. pt_date t = d) (mset tasks))"
  using timeline_sorted timeline_items by blast

text \<open>
  The rating of a task's subtasks is between 0 and 100 and within ten points of the share completed, and a
  task with more of as many subtasks completed is not rated lower.
\<close>

theorem rating_fair:
  assumes "bs \<noteq> []" "length bs \<le> 1000000" "length cs = length bs"
    "length (filter sb_is_completed bs) \<le> length (filter sb_is_completed cs)"
  shows "0 \<le> pf_percentage (performance_rating bs) \<and> pf_percentage (performance_rating cs) \<le> 100 \<and>
    pf_percentage (performance_rating bs) \<le> pf_percentage (performance_rating cs) \<and>
    \<bar>pf_percentage (performance_rating bs) - of_nat (length (filter sb_is_completed bs)) / of_nat (length bs) * 100\<bar> \<le> 10 + 1 / 100000"
proof -
  let ?p = "float_percent (length (filter sb_is_completed bs)) (length bs)"
  let ?q = "float_percent (length (filter sb_is_completed cs)) (length bs)"
  have n: "0 < length bs" using assms(1) by simp
  have k: "length (filter sb_is_completed bs) \<le> length bs" "length (filter sb_is_completed cs) \<le> length bs"
    using assms(3) length_filter_le [of sb_is_completed cs] by simp_all
  note p = float_percent_bounds [OF k(1) n assms(2)] and q = float_percent_bounds [OF k(2) n assms(2)]
  have le: "?p \<le> ?q"
  proof (cases "length (filter sb_is_completed bs) = length (filter sb_is_completed cs)")
    case False
    with assms(4) have "length (filter sb_is_completed bs) < length (filter sb_is_completed cs)" by simp
    from float_percent_mono [OF this k(2) assms(2)] show ?thesis by simp
  qed simp
  have eqs: "performance_rating bs = rate ?p" "performance_rating cs = rate ?q"
    using assms(1,3) by (auto simp: performance_rating_def)
  show ?thesis unfolding eqs
    using rate_near [OF p] rate_near [OF q] rate_mono [OF p(1) le q(2)] float_percent_near [OF k(1) n assms(2)]
    by (intro conjI; linarith)
qed

theorem rating_fair_witness:
  "let b = \<lparr> sb_id = Some 1, sb_personal_task = 1, sb_title = ''a'', sb_is_completed = False, sb_order = 1 \<rparr>; bs = [b, b];
     cs = [b, b\<lparr>sb_is_completed := True\<rparr>] in
   0 \<le> pf_percentage (performance_rating bs) \<and> pf_percentage (performance_rating cs) \<le> 100 \<and>
    pf_percentage (performance_rating bs) \<le> pf_percentage (performance_rating cs) \<and>
    \<bar>pf_percentage (performance_rating bs) - of_nat (length (filter sb_is_completed bs)) / of_nat (length bs) * 100\<bar> \<le> 10 + 1 / 100000"
  unfolding Let_def by (rule rating_fair) simp_all

section \<open>Prayers\<close>

text \<open>
  C29.  After a prayer is marked for a day there is exactly one record of it on that day, and it has the status asked
  for: completed only if the prayer was prayed.
\<close>

theorem prayer_day_recorded:
  assumes "planner P view" "planner_ok (view s)" "rq_method rq = ''POST''" "rq_json rq = Some data"
    "dict_get data ''date'' VNone = Inr date" "py_truthy date" "parse_date date = Inr d"
    "dict_get data ''is_completed'' (VBool False) = Inr b" "dict_get data ''status'' (VStr ''not_yet'') = Inr (VStr st)"
    "p_text P (VStr n) = Inr n"
  shows "prayer_recorded n d st (view (snd (toggle_prayer_completion P rq n s)))"
  by (rule planner.toggle_prayer_recorded [OF assms])

theorem prayer_day_recorded_witness:
  "prayer_recorded ''fajr'' 738886 ''prayed'' (mem_rows (snd (toggle_prayer_completion mem_planner
     (post (Some (VDict [(''date'', VStr ''2024-01-01''), (''status'', VStr ''prayed'')]))) ''fajr'' no_rows)))"
proof (rule prayer_day_recorded [OF mem_planner.planner_axioms samples_ok(1), where date = "VStr ''2024-01-01''"
    and data = "VDict [(''date'', VStr ''2024-01-01''), (''status'', VStr ''prayed'')]" and b = "VBool False"])
  show "parse_date (VStr ''2024-01-01'') = Inr 738886" by code_simp
qed (simp_all add: post_def mem_planner_def)

section \<open>Dates\<close>


text \<open>
  The week of the statistics is the seven days from Monday to Sunday in which the day lies, their month all its days
  from the first to the last; the only errors are those of the last week and the last month of the calendar.
\<close>

theorem period_of_statistics:
  assumes "1 \<le> n" "n \<le> max_ordinal"
  shows "(case week_range n of Inl e \<Rightarrow> max_ordinal < n + 6
     | Inr (a, b) \<Rightarrow> weekday a = 0 \<and> weekday b = 6 \<and> b = a + 6 \<and> a \<le> n \<and> n \<le> b) \<and>
   (case month_range n of Inl e \<Rightarrow> y_year (fromordinal n) = 9999 \<and> y_month (fromordinal n) = 12
     | Inr (a, b) \<Rightarrow> a \<le> n \<and> n \<le> b \<and> y_day (fromordinal a) = 1 \<and> b - a + 1 = days_in_month (y_year (fromordinal n)) (y_month (fromordinal n)) \<and>
         y_month (fromordinal b) = y_month (fromordinal n) \<and> y_year (fromordinal b) = y_year (fromordinal n))"
proof
  define a where "a = n - weekday n"
  have "weekday a = 0" "weekday (a + 6) = 6" "a \<le> n" "n \<le> a + 6"
    using weekday_monday [of n] weekday_add [of a 6] weekday_bounds [of n] by (simp_all add: a_def)
  then show "case week_range n of Inl e \<Rightarrow> max_ordinal < n + 6
     | Inr (a, b) \<Rightarrow> weekday a = 0 \<and> weekday b = 6 \<and> b = a + 6 \<and> a \<le> n \<and> n \<le> b"
    by (simp add: week_range_eq [OF assms] Let_def flip: a_def)
next
  obtain y m d where x: "fromordinal n = YMD y m d" by (cases "fromordinal n")
  note v = fromordinal_valid [OF assms x]
  have md: "month_day y m 1" "month_day y m (days_in_month y m)"
    using v(1) days_in_month_pos(1) [of y m] by (auto simp: valid_date_def month_day_def)
  show "case month_range n of Inl e \<Rightarrow> y_year (fromordinal n) = 9999 \<and> y_month (fromordinal n) = 12
     | Inr (a, b) \<Rightarrow> a \<le> n \<and> n \<le> b \<and> y_day (fromordinal a) = 1 \<and> b - a + 1 = days_in_month (y_year (fromordinal n)) (y_month (fromordinal n)) \<and>
         y_month (fromordinal b) = y_month (fromordinal n) \<and> y_year (fromordinal b) = y_year (fromordinal n)"
    using v by (simp add: month_range_eq [OF assms x] x fromordinal_of [OF md(1)] fromordinal_of [OF md(2)])
      (auto simp: toordinal_def valid_date_def)
qed

theorem period_of_statistics_witness:
  "(case week_range 738886 of Inl e \<Rightarrow> max_ordinal < 738886 + 6
     | Inr (a, b) \<Rightarrow> weekday a = 0 \<and> weekday b = 6 \<and> b = a + 6 \<and> a \<le> 738886 \<and> 738886 \<le> b) \<and>
   (case month_range 738886 of Inl e \<Rightarrow> y_year (fromordinal 738886) = 9999 \<and> y_month (fromordinal 738886) = 12
     | Inr (a, b) \<Rightarrow> a \<le> 738886 \<and> 738886 \<le> b \<and> y_day (fromordinal a) = 1 \<and>
         b - a + 1 = days_in_month (y_year (fromordinal 738886)) (y_month (fromordinal 738886)) \<and>
         y_month (fromordinal b) = y_month (fromordinal 738886) \<and> y_year (fromordinal b) = y_year (fromordinal 738886))"
  by (rule period_of_statistics) (simp_all add: max_ordinal_def)

text \<open>
  C38.  The figures of the days of a period, of tasks and of prayers, add up to the figures of the period, and there is one for
  each of its days in order.
\<close>

theorem days_add_up:
  assumes "1 \<le> a" "b < max_ordinal"
  shows "(case get_daily_stats P a b category s of Inl e \<Rightarrow> False
     | Inr daily \<Rightarrow> map dd_date daily = [a..b] \<and> sum_stats daily = range_stats (calculate_completion_stats P a b category s)) \<and>
   (case get_daily_prayer_stats P a b s of Inl e \<Rightarrow> False
     | Inr daily \<Rightarrow> map dd_date daily = [a..b] \<and> sum_stats daily = range_stats (calculate_prayer_completion_stats P a b s))"
proof -
  have category: "of_category category (filter C ts) = filter C (of_category category ts)" for C ts
    by (simp add: of_category_def conj_commute)
  show ?thesis
    by (simp add: get_daily_stats_def get_daily_prayer_stats_def daily_stats_eq [OF assms] comp_def category daily_sums
        calculate_completion_stats_def calculate_prayer_completion_stats_def)
qed

theorem days_add_up_witness:
  "(case get_daily_stats mem_planner 738880 738886 (Some SECONDARY) one_task of Inl e \<Rightarrow> False
     | Inr daily \<Rightarrow> map dd_date daily = [738880..738886] \<and>
         sum_stats daily = range_stats (calculate_completion_stats mem_planner 738880 738886 (Some SECONDARY) one_task)) \<and>
   (case get_daily_prayer_stats mem_planner 738880 738886 one_task of Inl e \<Rightarrow> False
     | Inr daily \<Rightarrow> map dd_date daily = [738880..738886] \<and>
         sum_stats daily = range_stats (calculate_prayer_completion_stats mem_planner 738880 738886 one_task))"
  by (rule days_add_up) (simp_all add: max_ordinal_def)

text \<open>
  A date reads back from the text it is sent as; a time of day reads back from \<open>HH:MM\<close> as its minute, so that a whole
  minute is itself.
\<close>

theorem dates_read_back:
  assumes "1 \<le> n" "n \<le> max_ordinal" "valid_clock_time t"
  shows "parse_date (VStr (date_iso n)) = Inr n \<and> parse_hhmm (VStr (format_hhmm t)) = Inr (t - t mod 60000000)"
  using parse_date_iso [OF assms(1,2)] parse_format_hhmm [OF assms(3)] by blast

theorem dates_read_back_witness:
  "parse_date (VStr (date_iso 738886)) = Inr 738886 \<and>
   parse_hhmm (VStr (format_hhmm (minutes 61))) = Inr (minutes 61 - minutes 61 mod 60000000)"
  by (rule dates_read_back) (simp_all add: max_ordinal_def valid_clock_time_def minutes_def day_micros_def)

section \<open>Projects\<close>

text \<open>
  C20.  The loop that generates a schedule's tasks ends, and visits the schedule's weekday in as many weeks as the
  schedule asks for, from the first one on or after the project's start, leaving out those after its end.
\<close>

theorem schedule_is_weekly:
  assumes "1 \<le> pj_start_date p" "pj_end_date p + 7 \<le> max_ordinal"
  shows "generate_weeks P p t c (pj_start_date p) 0 g s = generate_on_dates P p t c (weekly_dates p c) g s \<and>
    list_all (\<lambda>d. pj_start_date p \<le> d \<and> d \<le> pj_end_date p \<and> weekday d = js_day_of_week c mod 7) (weekly_dates p c)"
  using generate_weekly [OF assms] first_date_bounds(1) [of p c]
  by (auto simp: weekly_dates_def list_all_iff weekday_first intro: order_trans)

theorem schedule_is_weekly_witness:
  "generate_weeks mem_planner sample_project sample_project_task sample_schedule (pj_start_date sample_project) 0
      \<lparr> gn_conflicts = [], gn_created = 0 \<rparr> no_rows =
    generate_on_dates mem_planner sample_project sample_project_task sample_schedule (weekly_dates sample_project sample_schedule)
      \<lparr> gn_conflicts = [], gn_created = 0 \<rparr> no_rows \<and>
    list_all (\<lambda>d. pj_start_date sample_project \<le> d \<and> d \<le> pj_end_date sample_project \<and> weekday d = js_day_of_week sample_schedule mod 7)
      (weekly_dates sample_project sample_schedule)"
  by (rule schedule_is_weekly) (simp_all add: sample_project_def max_ordinal_def)



lemma floor_near:
  fixes f e d :: rat
  assumes "\<bar>f - e\<bar> \<le> d" "0 \<le> f" "f \<le> 100"
  shows "0 \<le> \<lfloor>f\<rfloor> \<and> \<lfloor>f\<rfloor> \<le> 100 \<and> e - 1 - d < of_int \<lfloor>f\<rfloor> \<and> of_int \<lfloor>f\<rfloor> \<le> e + d"
proof -
  have "of_int \<lfloor>f\<rfloor> \<le> f" "f < of_int \<lfloor>f\<rfloor> + 1" by linarith+
  then show ?thesis using assms by (intro conjI) (simp, simp add: floor_le_iff, linarith+)
qed

text \<open>
  C39.  The progress of a project is a whole number from 0 to 100, less than a point below the share of its tasks that is
  scheduled and not above it, rounding errors aside; it is 100 if all are.
\<close>

theorem progress_close:
  assumes "pj_start_date p \<le> pj_end_date p" "ts \<noteq> []" "length ts \<le> 1000000"
  shows "let r = progress_percentage p ts; exact = of_nat (length (filter jt_is_scheduled ts)) / of_nat (length ts) * (100 :: rat) in
    0 \<le> r \<and> r \<le> 100 \<and> exact - 1 - 1 / 100000 < of_int r \<and> of_int r \<le> exact + 1 / 100000 \<and>
    (list_all jt_is_scheduled ts \<longrightarrow> r = 100)"
proof -
  let ?k = "length (filter jt_is_scheduled ts)" and ?f = "float_percent (length (filter jt_is_scheduled ts)) (length ts)"
  have n: "0 < length ts" "?k \<le> length ts" using assms(2) by simp_all
  have r: "progress_percentage p ts = \<lfloor>?f\<rfloor>" using assms by (simp add: progress_percentage_def)
  note bounds = float_percent_bounds [OF n(2,1) assms(3)] and near = float_percent_near [OF n(2,1) assms(3)]
  have "list_all jt_is_scheduled ts \<Longrightarrow> ?f = 100" using n(1) by (simp add: list_all_iff filter_id_conv [THEN iffD2])
  with floor_near [OF near bounds] show ?thesis unfolding r Let_def by auto
qed

theorem progress_close_witness:
  "let r = progress_percentage sample_project [sample_project_task];
     exact = of_nat (length (filter jt_is_scheduled [sample_project_task])) / of_nat (length [sample_project_task]) * (100 :: rat) in
    0 \<le> r \<and> r \<le> 100 \<and> exact - 1 - 1 / 100000 < of_int r \<and> of_int r \<le> exact + 1 / 100000 \<and>
    (list_all jt_is_scheduled [sample_project_task] \<longrightarrow> r = 100)"
  by (rule progress_close) (simp_all add: sample_project_def)

end
