(* ===== verification/Schema.thy ===== *)
theory Schema
  imports PyBase
begin

text \<open>
  The schema of the database and the operations of Django's migrations.  What an operation does to the database is
  Django's: \<open>op_schema\<close> and \<open>op_rows\<close> write down what its documentation says, for the operations a schema
  admits (\<open>admits\<close>), and the locale \<open>migrator\<close> relies on it.  Whatever the operations, a schema stays well
  formed and the rows of its tables keep fitting their columns (\<open>op_fits\<close>).

  A field is its class with the arguments that matter to the database and to the models; its texts for users are left
  out, and so are the names of indexes, which Django derives.
\<close>

section \<open>Models and fields\<close>

datatype column_type =
    AutoField
  | BigAutoField
  | BooleanField
  | CharField
  | DateField
  | DateTimeField
  | FloatField
  | ForeignKey string
  | IntegerField
  | PositiveIntegerField
  | TextField
  | TimeField

datatype field_option =
    AutoCreated
  | AutoNow
  | AutoNowAdd
  | Blank
  | Cascade
  | Choices "(pyval \<times> string) list"
  | ChoicesOf string
  | Default pyval
  | MaxLength int
  | NotEditable
  | Nullable
  | PrimaryKey
  | RelatedName string
  | NotSerialized
  | UniqueField

datatype column = Column (column_type: column_type) (column_options: "field_option list")

datatype model_option =
    DefaultPermissions "string list"
  | Indexes "string list list"
  | Managed bool
  | Ordering "string list"
  | Permissions "(string \<times> string) list"
  | UniqueTogether "string list list"

type_synonym columns = "(string \<times> column) list"
type_synonym schema = "(string \<times> columns \<times> model_option list) list"
type_synonym row = "string \<rightharpoonup> pyval"
type_synonym database = "schema \<times> (string \<Rightarrow> row list)"

datatype migration_function = Forwards_func | Reverse_func
  \<comment> \<open>the functions of migration 0006\<close>

datatype operation =
    CreateModel string columns "model_option list"
  | DeleteModel string
  | RenameModel string string
  | AddField string string column
  | AlterField string string column
  | RemoveField string string
  | RenameField string string string
  | AddIndex string "string list"
  | AlterUniqueTogether string "string list list"
  | AlterModelOptions string "model_option list"
  | RunPython migration_function migration_function

definition nullable :: "column \<Rightarrow> bool"
  where "nullable c \<longleftrightarrow> Nullable \<in> set (column_options c)"

definition max_length :: "column \<Rightarrow> int option"
  where "max_length c = (case find (\<lambda>a. case a of MaxLength n \<Rightarrow> True | _ \<Rightarrow> False) (column_options c) of
    Some (MaxLength n) \<Rightarrow> Some n | _ \<Rightarrow> None)"

definition default_value :: "column \<Rightarrow> pyval"
  where "default_value c = (case find (\<lambda>a. case a of Default v \<Rightarrow> True | _ \<Rightarrow> False) (column_options c) of
    Some (Default v) \<Rightarrow> v | _ \<Rightarrow> VNone)"

definition has_type :: "column_type \<Rightarrow> pyval \<Rightarrow> bool"
  \<comment> \<open>dates, times of day and keys are integers\<close>
  where "has_type ct v = (case v of
      VBool _ \<Rightarrow> ct = BooleanField
    | VStr _ \<Rightarrow> ct = CharField \<or> ct = TextField
    | VFloat _ \<Rightarrow> ct = FloatField
    | VDatetime _ \<Rightarrow> ct = DateTimeField
    | VInt n \<Rightarrow> (case ct of
          AutoField \<Rightarrow> True | BigAutoField \<Rightarrow> True | IntegerField \<Rightarrow> True | PositiveIntegerField \<Rightarrow> 0 \<le> n
        | DateField \<Rightarrow> True | TimeField \<Rightarrow> True | ForeignKey _ \<Rightarrow> True | _ \<Rightarrow> False)
    | _ \<Rightarrow> False)"

definition fits :: "column \<Rightarrow> pyval \<Rightarrow> bool"
  where "fits c v \<longleftrightarrow> (if v = VNone then nullable c else has_type (column_type c) v) \<and>
    (case (v, max_length c) of (VStr t, Some n) \<Rightarrow> int (length t) \<le> n | _ \<Rightarrow> True)"

section \<open>Operations\<close>

definition change_model :: "string \<Rightarrow> (columns \<times> model_option list \<Rightarrow> columns \<times> model_option list) \<Rightarrow> schema \<Rightarrow> schema"
  where "change_model m g S = map (\<lambda>(n, st). (n, if n = m then g st else st)) S"

definition model_label :: "string \<Rightarrow> string"
  where "model_label m = ''scheduler.'' @ m"

definition retarget :: "string \<Rightarrow> string \<Rightarrow> column \<Rightarrow> column"
  where "retarget old new c =
    (if column_type c = ForeignKey (model_label old) then Column (ForeignKey (model_label new)) (column_options c) else c)"

definition is_constraint :: "model_option \<Rightarrow> bool"
  \<comment> \<open>the options with operations of their own\<close>
  where "is_constraint os = (case os of Indexes _ \<Rightarrow> True | UniqueTogether _ \<Rightarrow> True | _ \<Rightarrow> False)"

definition add_index :: "string list \<Rightarrow> model_option list \<Rightarrow> model_option list"
  where "add_index fs os =
    (if list_ex (\<lambda>a. case a of Indexes _ \<Rightarrow> True | _ \<Rightarrow> False) os
     then map (\<lambda>a. case a of Indexes ixs \<Rightarrow> Indexes (ixs @ [fs]) | _ \<Rightarrow> a) os
     else os @ [Indexes [fs]])"

definition op_schema :: "operation \<Rightarrow> schema \<Rightarrow> schema"
  where "op_schema p S = (case p of
      CreateModel m fs os \<Rightarrow> S @ [(py_lower m, fs, os)]
    | DeleteModel m \<Rightarrow> filter (\<lambda>(n, _). n \<noteq> py_lower m) S
    | RenameModel old new \<Rightarrow>
        map (\<lambda>(n, fs, os). (if n = py_lower old then py_lower new else n,
          map (\<lambda>(f, c). (f, retarget (py_lower old) (py_lower new) c)) fs, os)) S
    | AddField m f c \<Rightarrow> change_model (py_lower m) (\<lambda>(fs, os). (fs @ [(f, c)], os)) S
    | AlterField m f c \<Rightarrow> change_model (py_lower m) (\<lambda>(fs, os). (map (\<lambda>(g, d). (g, if g = f then c else d)) fs, os)) S
    | RemoveField m f \<Rightarrow> change_model (py_lower m) (\<lambda>(fs, os). (filter (\<lambda>(g, _). g \<noteq> f) fs, os)) S
    | RenameField m old new \<Rightarrow>
        change_model (py_lower m) (\<lambda>(fs, os). (map (\<lambda>(g, d). (if g = old then new else g, d)) fs, os)) S
    | AddIndex m fields \<Rightarrow> change_model (py_lower m) (\<lambda>(fs, os). (fs, add_index fields os)) S
    | AlterUniqueTogether m fieldss \<Rightarrow> change_model (py_lower m) (\<lambda>(fs, os).
        (fs, filter (\<lambda>a. case a of UniqueTogether _ \<Rightarrow> False | _ \<Rightarrow> True) os @ [UniqueTogether fieldss])) S
    | AlterModelOptions m new \<Rightarrow> change_model (py_lower m) (\<lambda>(fs, os). (fs, filter is_constraint os @ new)) S
    | RunPython _ _ \<Rightarrow> S)"

definition forwards_func :: "(string \<Rightarrow> row list) \<Rightarrow> string \<Rightarrow> row list"
  where "forwards_func R = R"

definition reverse_func :: "(string \<Rightarrow> row list) \<Rightarrow> string \<Rightarrow> row list"
  where "reverse_func R = R(''cronjob'' := filter (\<lambda>r. r ''name'' \<noteq> Some (VStr ''Job scheduling jobs'')) (R ''cronjob''))"

definition run_function :: "migration_function \<Rightarrow> (string \<Rightarrow> row list) \<Rightarrow> string \<Rightarrow> row list"
  where "run_function f = (case f of Forwards_func \<Rightarrow> forwards_func | Reverse_func \<Rightarrow> reverse_func)"

definition op_rows :: "operation \<Rightarrow> (string \<Rightarrow> row list) \<Rightarrow> string \<Rightarrow> row list"
  \<comment> \<open>a new column holds its default in the rows there are\<close>
  where "op_rows p R = (case p of
      CreateModel m _ _ \<Rightarrow> R(py_lower m := [])
    | DeleteModel m \<Rightarrow> R(py_lower m := [])
    | RenameModel old new \<Rightarrow> R(py_lower old := [], py_lower new := R (py_lower old))
    | AddField m f c \<Rightarrow> R(py_lower m := map (\<lambda>r. r(f \<mapsto> default_value c)) (R (py_lower m)))
    | RemoveField m f \<Rightarrow> R(py_lower m := map (\<lambda>r. r(f := None)) (R (py_lower m)))
    | RenameField m old new \<Rightarrow> R(py_lower m := map (\<lambda>r. r(old := None, new := r old)) (R (py_lower m)))
    | RunPython forwards _ \<Rightarrow> run_function forwards R
    | _ \<Rightarrow> R)"

section \<open>What a schema admits\<close>

definition index_field :: "string \<Rightarrow> string"
  \<comment> \<open>an index may name a field to be taken in descending order\<close>
  where "index_field f = (case f of c # cs \<Rightarrow> if c = CHR ''-'' then cs else f | [] \<Rightarrow> [])"

definition option_fields :: "model_option \<Rightarrow> string list"
  where "option_fields a = (case a of Indexes ixs \<Rightarrow> map index_field (concat ixs) | UniqueTogether us \<Rightarrow> concat us | _ \<Rightarrow> [])"

definition refers_to :: "column \<Rightarrow> string \<Rightarrow> bool"
  where "refers_to c m \<longleftrightarrow> column_type c = ForeignKey (model_label m)"

definition target_in :: "string list \<Rightarrow> column \<Rightarrow> bool"
  where "target_in ms c = (case column_type c of
    ForeignKey t \<Rightarrow> t = ''contenttypes.contenttype'' \<or> t \<in> set (map model_label ms) | _ \<Rightarrow> True)"

definition model_ok :: "string list \<Rightarrow> columns \<times> model_option list \<Rightarrow> bool"
  where "model_ok ms st = (case st of (fs, os) \<Rightarrow>
    distinct (map fst fs) \<and> list_all (\<lambda>(f, c). target_in ms c) fs \<and>
    list_all (\<lambda>a. set (option_fields a) \<subseteq> set (map fst fs)) os)"

definition schema_ok :: "schema \<Rightarrow> bool"
  where "schema_ok S \<longleftrightarrow> distinct (map fst S) \<and> list_all (\<lambda>(m, st). model_ok (map fst S) st) S"

definition widens :: "column \<Rightarrow> column \<Rightarrow> bool"
  \<comment> \<open>what fits the first column fits the second\<close>
  where "widens c d \<longleftrightarrow>
    (column_type c = column_type d \<or> {column_type c, column_type d} \<subseteq> {AutoField, BigAutoField}) \<and>
    (nullable c \<longrightarrow> nullable d) \<and>
    (case max_length d of None \<Rightarrow> True | Some n \<Rightarrow> (case max_length c of None \<Rightarrow> False | Some k \<Rightarrow> k \<le> n))"

definition on_model :: "string \<Rightarrow> schema \<Rightarrow> (columns \<Rightarrow> model_option list \<Rightarrow> bool) \<Rightarrow> bool"
  where "on_model m S P = (case map_of S (py_lower m) of None \<Rightarrow> False | Some (fs, os) \<Rightarrow> P fs os)"

definition admits :: "operation \<Rightarrow> schema \<Rightarrow> bool"
  where "admits p S = (case p of
      CreateModel m fs os \<Rightarrow>
        py_lower m \<notin> set (map fst S) \<and> model_ok (py_lower m # map fst S) (fs, os)
    | DeleteModel m \<Rightarrow>
        py_lower m \<in> set (map fst S) \<and>
        list_all (\<lambda>(n, fs, _). n = py_lower m \<or> list_all (\<lambda>(_, c). \<not> refers_to c (py_lower m)) fs) S
    | RenameModel old new \<Rightarrow> py_lower old \<in> set (map fst S) \<and> py_lower new \<notin> set (map fst S)
    | AddField m f c \<Rightarrow>
        on_model m S (\<lambda>fs os. f \<notin> set (map fst fs)) \<and> target_in (map fst S) c \<and> fits c (default_value c)
    | AlterField m f c \<Rightarrow>
        on_model m S (\<lambda>fs os. case map_of fs f of None \<Rightarrow> False | Some d \<Rightarrow> widens d c) \<and> target_in (map fst S) c
    | RemoveField m f \<Rightarrow>
        on_model m S (\<lambda>fs os. f \<in> set (map fst fs) \<and> list_all (\<lambda>a. f \<notin> set (option_fields a)) os)
    | RenameField m old new \<Rightarrow>
        on_model m S (\<lambda>fs os. old \<in> set (map fst fs) \<and> new \<notin> set (map fst fs) \<and>
          list_all (\<lambda>a. old \<notin> set (option_fields a)) os)
    | AddIndex m fields \<Rightarrow> on_model m S (\<lambda>fs os. set (map index_field fields) \<subseteq> set (map fst fs))
    | AlterUniqueTogether m fieldss \<Rightarrow> on_model m S (\<lambda>fs os. set (concat fieldss) \<subseteq> set (map fst fs))
    | AlterModelOptions m new \<Rightarrow> on_model m S (\<lambda>fs os. list_all (\<lambda>a. \<not> is_constraint a) new)
    | RunPython _ _ \<Rightarrow> True)"

definition row_fits :: "columns \<Rightarrow> row \<Rightarrow> bool"
  where "row_fits fs r \<longleftrightarrow> dom r = set (map fst fs) \<and> (\<forall>(f, c)\<in>set fs. fits c (the (r f)))"

definition database_ok :: "database \<Rightarrow> bool"
  where "database_ok d \<longleftrightarrow> schema_ok (fst d) \<and> (\<forall>(m, fs, os)\<in>set (fst d). \<forall>r\<in>set (snd d m). row_fits fs r)"

section \<open>Operations keep a database in order\<close>

lemma change_model_names [simp]: "map fst (change_model m g S) = map fst S"
  by (simp add: change_model_def comp_def case_prod_unfold)

lemma set_change_model:
  "(n, st) \<in> set (change_model m g S) \<longleftrightarrow> (\<exists>st0. (n, st0) \<in> set S \<and> st = (if n = m then g st0 else st0))"
  by (force simp: change_model_def)

lemma on_modelD:
  assumes "on_model m S P"
  obtains fs os where "(py_lower m, fs, os) \<in> set S" "P fs os"
  using assms by (auto simp: on_model_def split: option.splits dest: map_of_SomeD)

lemma on_modelD2:
  assumes "on_model m S P" "schema_ok S" "(py_lower m, fs, os) \<in> set S"
  shows "P fs os"
  using assms by (auto simp: on_model_def schema_ok_def split: option.splits)

lemma schema_ok_model:
  assumes "schema_ok S" "(m, fs, os) \<in> set S"
  shows "distinct (map fst fs)" "\<And>f c. (f, c) \<in> set fs \<Longrightarrow> target_in (map fst S) c"
    "\<And>a. a \<in> set os \<Longrightarrow> set (option_fields a) \<subseteq> set (map fst fs)"
  using assms by (fastforce simp: schema_ok_def list_all_iff model_ok_def)+

lemma change_ok:
  assumes "database_ok (S, R)"
    and "\<And>fs os. (m, fs, os) \<in> set S \<Longrightarrow> model_ok (map fst S) (g (fs, os))"
    and "\<And>fs os r. (m, fs, os) \<in> set S \<Longrightarrow> r \<in> set (R m) \<Longrightarrow> row_fits fs r \<Longrightarrow> row_fits (fst (g (fs, os))) (h r)"
  shows "database_ok (change_model m g S, R(m := map h (R m)))"
proof -
  have S: "schema_ok S" and R: "\<And>n fs os r. (n, fs, os) \<in> set S \<Longrightarrow> r \<in> set (R n) \<Longrightarrow> row_fits fs r"
    using assms(1) by (auto simp: database_ok_def)
  have "model_ok (map fst S) st" if "(n, st) \<in> set (change_model m g S)" for n st
  proof -
    from that obtain fs os where old: "(n, fs, os) \<in> set S" "st = (if n = m then g (fs, os) else (fs, os))"
      by (auto simp: set_change_model)
    moreover have "model_ok (map fst S) (fs, os)" using S old(1) by (auto simp: schema_ok_def list_all_iff)
    ultimately show ?thesis using assms(2) by (cases "n = m") simp_all
  qed
  then have "schema_ok (change_model m g S)" using S by (auto simp: schema_ok_def list_all_iff)
  moreover have "row_fits fs r"
    if n: "(n, fs, os) \<in> set (change_model m g S)" and r: "r \<in> set ((R(m := map h (R m))) n)" for n fs os r
  proof -
    from n obtain fs0 os0 where old: "(n, fs0, os0) \<in> set S"
        "(fs, os) = (if n = m then g (fs0, os0) else (fs0, os0))"
      by (auto simp: set_change_model)
    show ?thesis
    proof (cases "n = m")
      case True
      then obtain r0 where "r0 \<in> set (R m)" "r = h r0" using r by auto
      with True old assms(3) [of fs0 os0 r0] R [of m fs0 os0 r0] show ?thesis by (metis fst_conv)
    next
      case False
      with old r R show ?thesis by auto
    qed
  qed
  ultimately show ?thesis by (auto simp: database_ok_def)
qed

lemma change_schema_ok:
  assumes "database_ok (S, R)"
    and "\<And>fs os. (m, fs, os) \<in> set S \<Longrightarrow> model_ok (map fst S) (g (fs, os))"
    and "\<And>fs os r. (m, fs, os) \<in> set S \<Longrightarrow> r \<in> set (R m) \<Longrightarrow> row_fits fs r \<Longrightarrow> row_fits (fst (g (fs, os))) r"
  shows "database_ok (change_model m g S, R)"
  using change_ok [of S R m g id] assms by simp

lemma fits_widens: "fits c v \<Longrightarrow> widens c d \<Longrightarrow> fits d v"
  by (auto simp: fits_def widens_def has_type_def split: pyval.splits option.splits if_splits)

lemma model_label_eq [simp]: "model_label m = model_label n \<longleftrightarrow> m = n"
  by (simp add: model_label_def)

lemma target_in_mono: "target_in ms c \<Longrightarrow> set ms \<subseteq> set ns \<Longrightarrow> target_in ns c"
  by (fastforce simp: target_in_def split: column_type.splits)

lemma model_ok_mono: "model_ok ms st \<Longrightarrow> set ms \<subseteq> set ns \<Longrightarrow> model_ok ns st"
  by (auto simp: model_ok_def list_all_iff intro: target_in_mono)

lemma database_okD:
  assumes "database_ok (S, R)"
  shows "schema_ok S" "\<And>m fs os r. (m, fs, os) \<in> set S \<Longrightarrow> r \<in> set (R m) \<Longrightarrow> row_fits fs r"
  using assms by (auto simp: database_ok_def)

lemma database_okI:
  assumes "distinct (map fst S)" "\<And>m fs os. (m, fs, os) \<in> set S \<Longrightarrow> model_ok (map fst S) (fs, os)"
    and "\<And>m fs os r. (m, fs, os) \<in> set S \<Longrightarrow> r \<in> set (R m) \<Longrightarrow> row_fits fs r"
  shows "database_ok (S, R)"
  using assms by (auto simp: database_ok_def schema_ok_def list_all_iff)

lemma model_okI:
  assumes "distinct (map fst fs)" "\<And>f c. (f, c) \<in> set fs \<Longrightarrow> target_in ms c"
    and "\<And>a. a \<in> set os \<Longrightarrow> set (option_fields a) \<subseteq> set (map fst fs)"
  shows "model_ok ms (fs, os)"
  using assms by (auto simp: model_ok_def list_all_iff)

lemma create_model_ok:
  assumes "database_ok (S, R)" "admits (CreateModel m fs os) S"
  shows "database_ok (op_schema (CreateModel m fs os) S, op_rows (CreateModel m fs os) R)"
proof -
  have new: "py_lower m \<notin> set (map fst S)" "model_ok (py_lower m # map fst S) (fs, os)"
    using assms(2) by (simp_all add: admits_def)
  have "model_ok (map fst S @ [py_lower m]) st" if "(n, st) \<in> set (S @ [(py_lower m, fs, os)])" for n st
  proof (cases "(n, st) \<in> set S")
    case True
    then have "model_ok (map fst S) st"
      using database_okD(1) [OF assms(1)] by (auto simp: schema_ok_def list_all_iff)
    then show ?thesis by (rule model_ok_mono) auto
  next
    case False
    with that have "st = (fs, os)" by simp
    with new(2) show ?thesis by (auto elim: model_ok_mono)
  qed
  moreover have "row_fits fs' r"
    if "(n, fs', os') \<in> set (S @ [(py_lower m, fs, os)])" "r \<in> set ((R(py_lower m := [])) n)" for n fs' os' r
    using that new(1) database_okD(2) [OF assms(1)] by (auto split: if_splits)
  ultimately show ?thesis
    using new(1) database_okD(1) [OF assms(1)]
    by (intro database_okI, simp_all add: op_schema_def op_rows_def schema_ok_def)
qed

lemma delete_model_ok:
  assumes "database_ok (S, R)" "admits (DeleteModel m) S"
  shows "database_ok (op_schema (DeleteModel m) S, op_rows (DeleteModel m) R)"
proof -
  let ?S = "filter (\<lambda>(n, _). n \<noteq> py_lower m) S"
  have names: "map fst ?S = filter (\<lambda>n. n \<noteq> py_lower m) (map fst S)"
    by (induction S) auto
  have "target_in (map fst ?S) c" if "(n, fs, os) \<in> set ?S" "(f, c) \<in> set fs" for n fs os f c
  proof -
    have "(n, fs, os) \<in> set S" "\<not> refers_to c (py_lower m)"
      using that assms(2) by (fastforce simp: admits_def list_all_iff)+
    with schema_ok_model(2) [OF database_okD(1) [OF assms(1)] this(1) that(2)] show ?thesis
      by (auto simp: target_in_def refers_to_def names split: column_type.splits)
  qed
  then have "model_ok (map fst ?S) (fs, os)" if "(n, fs, os) \<in> set ?S" for n fs os
    using that schema_ok_model(1,3) [OF database_okD(1) [OF assms(1)], of n fs os]
    by (fastforce simp: model_ok_def list_all_iff)
  then show ?thesis
    using database_okD [OF assms(1)]
    by (intro database_okI) (auto simp: op_schema_def op_rows_def names schema_ok_def split: if_splits)
qed

lemma target_in_retarget:
  assumes "target_in ms c" "old \<in> set ms"
  shows "target_in (map (\<lambda>n. if n = old then new else n) ms) (retarget old new c)"
  using assms by (auto simp: target_in_def retarget_def split: column_type.splits)

lemma fits_retarget [simp]: "fits (retarget old new c) v = fits c v"
  by (auto simp: fits_def retarget_def nullable_def max_length_def has_type_def split: pyval.splits)

lemma rename_model_ok:
  assumes "database_ok (S, R)" "admits (RenameModel old new) S"
  shows "database_ok (op_schema (RenameModel old new) S, op_rows (RenameModel old new) R)"
proof -
  let ?name = "\<lambda>n. if n = py_lower old then py_lower new else n"
  let ?fields = "map (\<lambda>(f, c). (f, retarget (py_lower old) (py_lower new) c))"
  let ?S = "map (\<lambda>(n, fs, os). (?name n, ?fields fs, os)) S"
  have old: "py_lower old \<in> set (map fst S)" and new: "py_lower new \<notin> set (map fst S)"
    using assms(2) by (simp_all add: admits_def)
  have names: "map fst ?S = map ?name (map fst S)" by (simp add: case_prod_unfold)
  have fields: "map fst (?fields fs) = map fst fs" for fs by (simp add: case_prod_unfold)
  have "py_lower new \<notin> A \<Longrightarrow> inj_on ?name A" for A by (auto simp: inj_on_def)
  then have "inj_on ?name (set (map fst S))" using new .
  then have "distinct (map fst ?S)"
    using database_okD(1) [OF assms(1)] by (simp add: names distinct_map schema_ok_def del: map_map)
  moreover have "model_ok (map fst ?S) (fs, os) \<and> (\<forall>r\<in>set (op_rows (RenameModel old new) R n). row_fits fs r)"
    if in_S: "(n, fs, os) \<in> set ?S" for n fs os
  proof -
    from in_S obtain n0 fs0 where old_st: "(n0, fs0, os) \<in> set S" "n = ?name n0" "fs = ?fields fs0" by auto
    note ok = schema_ok_model [OF database_okD(1) [OF assms(1)] old_st(1)]
    have "target_in (map fst ?S) c" if "(f, c) \<in> set fs" for f c
      using that ok(2) target_in_retarget [OF _ old] unfolding names old_st(3) by auto
    moreover have "row_fits fs r" if "r \<in> set (op_rows (RenameModel old new) R n)" for r
    proof -
      have "n0 \<noteq> py_lower new" using new old_st(1) by force
      with that old_st(2) have "r \<in> set (R n0)" by (auto simp: op_rows_def split: if_splits)
      with database_okD(2) [OF assms(1) old_st(1)] have "row_fits fs0 r" .
      then show ?thesis unfolding row_fits_def old_st(3) fields by auto
    qed
    moreover have "map fst fs = map fst fs0" using fields old_st(3) by simp
    ultimately show ?thesis using ok(1,3) by (intro conjI model_okI ballI) (simp_all only:)
  qed
  moreover have "op_schema (RenameModel old new) S = ?S" by (simp add: op_schema_def)
  ultimately show ?thesis by (auto intro!: database_okI simp del: map_map)
qed

lemma row_fits_names: "row_fits fs r \<Longrightarrow> f \<in> set (map fst fs) \<longleftrightarrow> f \<in> dom r"
  by (simp add: row_fits_def)

lemma row_fitsD: "row_fits fs r \<Longrightarrow> (f, c) \<in> set fs \<Longrightarrow> fits c (the (r f))"
  by (auto simp: row_fits_def)

lemma row_fitsI:
  assumes "set (map fst fs) = dom r" "\<And>f c. (f, c) \<in> set fs \<Longrightarrow> fits c (the (r f))"
  shows "row_fits fs r"
  using assms by (auto simp: row_fits_def)

lemma row_fits_add:
  assumes "row_fits fs r" "f \<notin> set (map fst fs)" "fits c v"
  shows "row_fits (fs @ [(f, c)]) (r(f \<mapsto> v))"
proof (rule row_fitsI)
  fix g d assume "(g, d) \<in> set (fs @ [(f, c)])"
  then consider "(g, d) \<in> set fs" "g \<noteq> f" | "g = f" "d = c" using assms(2) by force
  then show "fits d (the ((r(f \<mapsto> v)) g))"
    by cases (use row_fitsD [OF assms(1)] assms(3) in simp_all)
qed (use assms(1) in \<open>simp add: row_fits_def\<close>)

lemma row_fits_alter:
  assumes "row_fits fs r" "map_of fs f = Some d" "distinct (map fst fs)" "widens d c"
  shows "row_fits (map (\<lambda>(g, d). (g, if g = f then c else d)) fs) r"
proof (rule row_fitsI)
  show "set (map fst (map (\<lambda>(g, d). (g, if g = f then c else d)) fs)) = dom r"
    using assms(1) by (simp add: row_fits_def image_image case_prod_unfold)
next
  fix g e assume "(g, e) \<in> set (map (\<lambda>(g, d). (g, if g = f then c else d)) fs)"
  then obtain e0 where e0: "(g, e0) \<in> set fs" "e = (if g = f then c else e0)" by auto
  show "fits e (the (r g))"
  proof (cases "g = f")
    case True
    with e0(1) assms(2,3) have "e0 = d" by simp
    with True e0 row_fitsD [OF assms(1) e0(1)] assms(4) show ?thesis by (simp add: fits_widens)
  next
    case False
    with e0 row_fitsD [OF assms(1) e0(1)] show ?thesis by simp
  qed
qed

lemma row_fits_remove:
  assumes "row_fits fs r"
  shows "row_fits (filter (\<lambda>(g, _). g \<noteq> f) fs) (r(f := None))"
proof (rule row_fitsI)
  have "map fst (filter (\<lambda>(g, _). g \<noteq> f) fs) = filter (\<lambda>g. g \<noteq> f) (map fst fs)" by (induction fs) auto
  with assms show "set (map fst (filter (\<lambda>(g, _). g \<noteq> f) fs)) = dom (r(f := None))"
    by (auto simp: row_fits_def)
qed (use row_fitsD [OF assms] in auto)

lemma row_fits_rename:
  assumes "row_fits fs r" "old \<in> set (map fst fs)" "new \<notin> set (map fst fs)"
  shows "row_fits (map (\<lambda>(g, d). (if g = old then new else g, d)) fs) (r(old := None, new := r old))"
proof (rule row_fitsI)
  have names: "map fst (map (\<lambda>(g, d). (if g = old then new else g, d)) fs) = map (\<lambda>g. if g = old then new else g) (map fst fs)"
    by (simp add: case_prod_unfold)
  have "dom (r(old := None, new := r old)) = (\<lambda>g. if g = old then new else g) ` A"
    if "dom r = A" "old \<in> A" "new \<notin> A" for A
    using that by (auto split: if_splits)
  from this [of "set (map fst fs)"] show
    "set (map fst (map (\<lambda>(g, d). (if g = old then new else g, d)) fs)) = dom (r(old := None, new := r old))"
    using assms unfolding names row_fits_def set_map [symmetric] by metis
next
  fix g e assume "(g, e) \<in> set (map (\<lambda>(g, d). (if g = old then new else g, d)) fs)"
  then obtain g0 where g0: "(g0, e) \<in> set fs" "g = (if g0 = old then new else g0)" by auto
  then have "g0 \<noteq> new" using assms(3) by force
  with g0 row_fitsD [OF assms(1) g0(1)] show "fits e (the ((r(old := None, new := r old)) g))"
    by (cases "g0 = old") simp_all
qed

lemma add_field_ok:
  assumes "database_ok (S, R)" "admits (AddField m f c) S"
  shows "database_ok (op_schema (AddField m f c) S, op_rows (AddField m f c) R)"
proof -
  have a: "on_model m S (\<lambda>fs os. f \<notin> set (map fst fs))" "target_in (map fst S) c" "fits c (default_value c)"
    using assms(2) by (simp_all add: admits_def)
  have "model_ok (map fst S) (fs @ [(f, c)], os)" if "(py_lower m, fs, os) \<in> set S" for fs os
    using schema_ok_model [OF database_okD(1) [OF assms(1)] that] on_modelD2 [OF a(1) database_okD(1) [OF assms(1)] that] a(2)
    by (intro model_okI) auto
  moreover have "row_fits (fs @ [(f, c)]) (r(f \<mapsto> default_value c))" if "(py_lower m, fs, os) \<in> set S" "row_fits fs r" for fs os r
    using row_fits_add that(2) on_modelD2 [OF a(1) database_okD(1) [OF assms(1)] that(1)] a(3) by blast
  ultimately show ?thesis
    using change_ok [OF assms(1), of "py_lower m" "\<lambda>(fs, os). (fs @ [(f, c)], os)" "\<lambda>r. r(f \<mapsto> default_value c)"]
    by (simp add: op_schema_def op_rows_def)
qed

lemma alter_field_ok:
  assumes "database_ok (S, R)" "admits (AlterField m f c) S"
  shows "database_ok (op_schema (AlterField m f c) S, op_rows (AlterField m f c) R)"
proof -
  let ?g = "\<lambda>(g, d). (g, if g = f then c else d)"
  have a: "on_model m S (\<lambda>fs os. case map_of fs f of None \<Rightarrow> False | Some d \<Rightarrow> widens d c)" "target_in (map fst S) c"
    using assms(2) by (simp_all add: admits_def)
  have names: "map fst (map ?g fs) = map fst fs" for fs :: columns by (simp add: case_prod_unfold)
  note ok = schema_ok_model [OF database_okD(1) [OF assms(1)]]
  have "model_ok (map fst S) (map ?g fs, os)" if "(py_lower m, fs, os) \<in> set S" for fs os
    using ok [OF that] a(2) by (intro model_okI, unfold names) (auto split: if_splits)
  moreover have "row_fits (map ?g fs) r" if "(py_lower m, fs, os) \<in> set S" "row_fits fs r" for fs os r
    using on_modelD2 [OF a(1) database_okD(1) [OF assms(1)] that(1)] row_fits_alter [OF that(2) _ ok(1) [OF that(1)]]
    by (auto split: option.splits)
  ultimately show ?thesis
    using change_schema_ok [OF assms(1), of "py_lower m" "\<lambda>(fs, os). (map ?g fs, os)"]
    by (simp add: op_schema_def op_rows_def)
qed

lemma remove_field_ok:
  assumes "database_ok (S, R)" "admits (RemoveField m f) S"
  shows "database_ok (op_schema (RemoveField m f) S, op_rows (RemoveField m f) R)"
proof -
  let ?fs = "filter (\<lambda>(g, _). g \<noteq> f)"
  have a: "on_model m S (\<lambda>fs os. f \<in> set (map fst fs) \<and> list_all (\<lambda>a. f \<notin> set (option_fields a)) os)"
    using assms(2) by (simp add: admits_def)
  have names: "map fst (?fs fs) = filter (\<lambda>g. g \<noteq> f) (map fst fs)" for fs :: columns by (induction fs) auto
  note ok = schema_ok_model [OF database_okD(1) [OF assms(1)]]
  have "model_ok (map fst S) (?fs fs, os)" if "(py_lower m, fs, os) \<in> set S" for fs os
  proof (rule model_okI)
    fix o' assume "o' \<in> set os"
    then show "set (option_fields o') \<subseteq> set (map fst (?fs fs))"
      using ok(3) [OF that] on_modelD2 [OF a database_okD(1) [OF assms(1)] that]
      unfolding names list_all_iff by (auto simp del: set_map)
  qed (use ok(1,2) [OF that] in \<open>auto simp: names\<close>)
  moreover have "row_fits (?fs fs) (r(f := None))" if "row_fits fs r" for fs r
    using that by (rule row_fits_remove)
  ultimately show ?thesis
    using change_ok [OF assms(1), of "py_lower m" "\<lambda>(fs, os). (?fs fs, os)" "\<lambda>r. r(f := None)"]
    by (simp add: op_schema_def op_rows_def)
qed

lemma rename_field_ok:
  assumes "database_ok (S, R)" "admits (RenameField m old new) S"
  shows "database_ok (op_schema (RenameField m old new) S, op_rows (RenameField m old new) R)"
proof -
  let ?name = "\<lambda>g. if g = old then new else g"
  let ?fs = "map (\<lambda>(g, d). (?name g, d :: column))"
  have a: "on_model m S (\<lambda>fs os. old \<in> set (map fst fs) \<and> new \<notin> set (map fst fs) \<and>
      list_all (\<lambda>a. old \<notin> set (option_fields a)) os)"
    using assms(2) by (simp add: admits_def)
  have names: "map fst (?fs fs) = map ?name (map fst fs)" for fs by (simp add: case_prod_unfold)
  note ok = schema_ok_model [OF database_okD(1) [OF assms(1)]]
  note fields = on_modelD2 [OF a database_okD(1) [OF assms(1)]]
  have "model_ok (map fst S) (?fs fs, os)" if st: "(py_lower m, fs, os) \<in> set S" for fs os
  proof (rule model_okI)
    have "distinct xs \<Longrightarrow> new \<notin> set xs \<Longrightarrow> distinct (map ?name xs)" for xs by (induction xs) auto
    with ok(1) [OF st] fields [OF st] show "distinct (map fst (?fs fs))" unfolding names by blast
  next
    fix o' assume o': "o' \<in> set os"
    have sub: "A \<subseteq> ?name ` B" if "A \<subseteq> B" "old \<notin> A" for A B using that by auto
    have "old \<notin> set (option_fields o')" using fields [OF st] o' by (simp add: list_all_iff)
    from sub [OF ok(3) [OF st o'] this] show "set (option_fields o') \<subseteq> set (map fst (?fs fs))"
      unfolding names by (simp only: set_map)
  qed (use ok(2) [OF st] in auto)
  moreover have "row_fits (?fs fs) (r(old := None, new := r old))"
    if "(py_lower m, fs, os) \<in> set S" "row_fits fs r" for fs os r
    using row_fits_rename that(2) fields [OF that(1)] by blast
  ultimately show ?thesis
    using change_ok [OF assms(1), of "py_lower m" "\<lambda>(fs, os). (?fs fs, os)" "\<lambda>r. r(old := None, new := r old)"]
    by (simp add: op_schema_def op_rows_def)
qed

lemma options_ok:
  assumes "database_ok (S, R)" "on_model m S (\<lambda>fs os. \<forall>a\<in>set (h os). set (option_fields a) \<subseteq> set (map fst fs))"
  shows "database_ok (change_model (py_lower m) (\<lambda>(fs, os). (fs, h os)) S, R)"
proof (rule change_schema_ok [OF assms(1)])
  fix fs os assume st: "(py_lower m, fs, os) \<in> set S"
  from schema_ok_model [OF database_okD(1) [OF assms(1)] st] on_modelD2 [OF assms(2) database_okD(1) [OF assms(1)] st]
  show "model_ok (map fst S) (case (fs, os) of (fs, os) \<Rightarrow> (fs, h os))" unfolding prod.case by (intro model_okI) blast+
qed simp

lemma on_model_mono:
  assumes "on_model m S P" "schema_ok S" "\<And>fs os. (py_lower m, fs, os) \<in> set S \<Longrightarrow> P fs os \<Longrightarrow> Q fs os"
  shows "on_model m S Q"
  using assms by (auto simp: on_model_def split: option.splits dest: map_of_SomeD)

lemma set_add_index: "a \<in> set (add_index ix os) \<Longrightarrow>
    set (option_fields a) \<subseteq> (\<Union>b\<in>set os. set (option_fields b)) \<union> set (map index_field ix)"
  by (fastforce simp: add_index_def option_fields_def split: if_splits model_option.splits)

lemma op_fits:
  assumes "database_ok (S, R)" "admits p S"
  shows "database_ok (op_schema p S, op_rows p R)"
proof (cases p)
  case (AddIndex m ix)
  have "on_model m S (\<lambda>fs os. \<forall>a\<in>set (add_index ix os). set (option_fields a) \<subseteq> set (map fst fs))"
  proof (rule on_model_mono)
    show "on_model m S (\<lambda>fs os. set (map index_field ix) \<subseteq> set (map fst fs))"
      using assms(2) AddIndex by (simp add: admits_def)
  qed (use database_okD(1) [OF assms(1)] schema_ok_model(3) [OF database_okD(1) [OF assms(1)]] set_add_index in blast)+
  with options_ok [OF assms(1)] AddIndex show ?thesis by (simp add: op_schema_def op_rows_def)
next
  case (AlterUniqueTogether m us)
  let ?h = "\<lambda>os. filter (\<lambda>a. case a of UniqueTogether _ \<Rightarrow> False | _ \<Rightarrow> True) os @ [UniqueTogether us]"
  have "on_model m S (\<lambda>fs os. \<forall>a\<in>set (?h os). set (option_fields a) \<subseteq> set (map fst fs))"
  proof (rule on_model_mono)
    show "on_model m S (\<lambda>fs os. set (concat us) \<subseteq> set (map fst fs))"
      using assms(2) AlterUniqueTogether by (simp add: admits_def)
  next
    fix fs os assume "(py_lower m, fs, os) \<in> set S" "set (concat us) \<subseteq> set (map fst fs)"
    with schema_ok_model(3) [OF database_okD(1) [OF assms(1)]]
    show "\<forall>a\<in>set (?h os). set (option_fields a) \<subseteq> set (map fst fs)"
      by (auto simp: option_fields_def [of "UniqueTogether us"])
  qed (rule database_okD(1) [OF assms(1)])
  with options_ok [OF assms(1)] AlterUniqueTogether show ?thesis by (simp add: op_schema_def op_rows_def)
next
  case (AlterModelOptions m new)
  have "on_model m S (\<lambda>fs os. \<forall>a\<in>set (filter is_constraint os @ new). set (option_fields a) \<subseteq> set (map fst fs))"
  proof (rule on_model_mono)
    show "on_model m S (\<lambda>fs os. list_all (\<lambda>a. \<not> is_constraint a) new)"
      using assms(2) AlterModelOptions by (simp add: admits_def)
  next
    fix fs os assume "(py_lower m, fs, os) \<in> set S" "list_all (\<lambda>a. \<not> is_constraint a) new"
    with schema_ok_model(3) [OF database_okD(1) [OF assms(1)]]
    show "\<forall>a\<in>set (filter is_constraint os @ new). set (option_fields a) \<subseteq> set (map fst fs)"
      by (fastforce simp: list_all_iff option_fields_def is_constraint_def split: model_option.splits)
  qed (rule database_okD(1) [OF assms(1)])
  with options_ok [OF assms(1)] AlterModelOptions show ?thesis by (simp add: op_schema_def op_rows_def)
next
  case (RunPython f g)
  have "set (run_function f R n) \<subseteq> set (R n)" for n
    by (auto simp: run_function_def forwards_func_def reverse_func_def split: migration_function.splits if_splits)
  with assms(1) RunPython show ?thesis by (fastforce simp: op_schema_def op_rows_def database_ok_def)
qed (use assms create_model_ok delete_model_ok rename_model_ok add_field_ok alter_field_ok remove_field_ok
      rename_field_ok in \<open>simp_all only:\<close>)

section \<open>Migrations\<close>

record migration =
  mg_name :: string
  mg_dependencies :: "(string \<times> string) list"
  mg_operations :: "operation list"

fun run_operations :: "(operation \<Rightarrow> 's \<Rightarrow> ('s, unit) outcome) \<Rightarrow> operation list \<Rightarrow> 's \<Rightarrow> ('s, unit) outcome"
where
  "run_operations M [] s = (Inr (), s)"
| "run_operations M (p # ps) s = and_then (M p s) (\<lambda>_ s1. run_operations M ps s1)"

definition run_migrations :: "(operation \<Rightarrow> 's \<Rightarrow> ('s, unit) outcome) \<Rightarrow> migration list \<Rightarrow> 's \<Rightarrow> ('s, unit) outcome"
  where "run_migrations M ms = run_operations M (concat (map mg_operations ms))"

fun in_order :: "string list \<Rightarrow> migration list \<Rightarrow> bool"
  \<comment> \<open>every migration comes after those it depends on; other applications' migrations are run by Django before\<close>
where
  "in_order seen [] = True"
| "in_order seen (m # ms) =
     (list_all (\<lambda>(app, d). app = ''scheduler'' \<longrightarrow> d \<in> set seen) (mg_dependencies m) \<and> in_order (mg_name m # seen) ms)"

fun admits_all :: "operation list \<Rightarrow> schema \<Rightarrow> bool"
where
  "admits_all [] S = True"
| "admits_all (p # ps) S = (admits p S \<and> admits_all ps (op_schema p S))"

definition schema_after :: "operation list \<Rightarrow> schema \<Rightarrow> schema"
  where "schema_after ps S = fold op_schema ps S"

definition same_schema :: "schema \<Rightarrow> schema \<Rightarrow> bool"
  \<comment> \<open>the order of models, of fields and of options does not matter\<close>
  where "same_schema S T \<longleftrightarrow> set (map fst S) = set (map fst T) \<and>
    list_all (\<lambda>(m, fs, os). case map_of T m of None \<Rightarrow> False | Some (gs, ps) \<Rightarrow> set fs = set gs \<and> set os = set ps) S"

lemma admits_all_append [simp]:
  "admits_all (ps @ qs) S \<longleftrightarrow> admits_all ps S \<and> admits_all qs (schema_after ps S)"
  by (induction ps arbitrary: S) (auto simp: schema_after_def)

lemma schema_after_append: "schema_after (ps @ qs) S = schema_after qs (schema_after ps S)"
  by (simp add: schema_after_def)

locale migrator =
  fixes M :: "operation \<Rightarrow> 's \<Rightarrow> ('s, unit) outcome" and db :: "'s \<Rightarrow> database"
  assumes migrated: "admits p (fst (db s)) \<Longrightarrow>
    \<exists>s'. M p s = (Inr (), s') \<and> db s' = (op_schema p (fst (db s)), op_rows p (snd (db s)))"
begin

lemma operations_run:
  assumes "database_ok (db s)" "admits_all ps (fst (db s))"
  shows "\<exists>s'. run_operations M ps s = (Inr (), s') \<and> fst (db s') = schema_after ps (fst (db s)) \<and> database_ok (db s')"
  using assms
proof (induction ps arbitrary: s)
  case (Cons p ps)
  then have p: "admits p (fst (db s))" and ps: "admits_all ps (op_schema p (fst (db s)))" by simp_all
  obtain s1 where s1: "M p s = (Inr (), s1)" "db s1 = (op_schema p (fst (db s)), op_rows p (snd (db s)))"
    using migrated [OF p] by blast
  have "database_ok (db s1)"
    using op_fits [of "fst (db s)" "snd (db s)" p] Cons.prems(1) p by (simp add: s1)
  from Cons.IH [OF this] ps s1 show ?case by (simp add: schema_after_def)
qed (simp add: schema_after_def)

end

definition migrate_memory :: "operation \<Rightarrow> database \<Rightarrow> (database, unit) outcome"
  \<comment> \<open>a database in memory\<close>
  where "migrate_memory p d =
    (if admits p (fst d) then (Inr (), op_schema p (fst d), op_rows p (snd d)) else (Inl ValueError, d))"

interpretation mem_migrator: migrator migrate_memory "\<lambda>d. d"
  by unfold_locales (simp add: migrate_memory_def)

end
