(* ===== verification/Migrations.thy ===== *)
theory Migrations
  imports Schema
begin

text \<open>
  \<open>scheduler/migrations/\<close>, one definition for each file: its name, the migrations it depends on and its operations in
  their order.  A table created in a long file has a definition of its own.
\<close>

definition migration_0001 :: migration
  where "migration_0001 =
    \<lparr> mg_name = ''0001_initial_squashed_0005_added_result_ttl'',
      mg_dependencies = [],
      mg_operations =
      [CreateModel ''CronJob''
       [(''id'', Column AutoField [AutoCreated, PrimaryKey, NotSerialized]),
        (''created'', Column DateTimeField [AutoNowAdd]),
        (''modified'', Column DateTimeField [AutoNow]),
        (''name'', Column CharField [MaxLength 128, UniqueField]),
        (''callable'', Column CharField [MaxLength 2048]),
        (''enabled'', Column BooleanField [Default (VBool True)]),
        (''queue'', Column CharField [MaxLength 16]),
        (''job_id'', Column CharField [Blank, MaxLength 128, NotEditable, Nullable]),
        (''timeout'', Column IntegerField [Blank, Nullable]),
        (''repeat'', Column PositiveIntegerField [Blank, Nullable]),
        (''cron_string'', Column CharField [MaxLength 64])]
       [Ordering [''name'']],
       CreateModel ''RepeatableJob''
       [(''id'', Column AutoField [AutoCreated, PrimaryKey, NotSerialized]),
        (''created'', Column DateTimeField [AutoNowAdd]),
        (''modified'', Column DateTimeField [AutoNow]),
        (''name'', Column CharField [MaxLength 128, UniqueField]),
        (''callable'', Column CharField [MaxLength 2048]),
        (''enabled'', Column BooleanField [Default (VBool True)]),
        (''queue'', Column CharField [MaxLength 16]),
        (''job_id'', Column CharField [Blank, MaxLength 128, NotEditable, Nullable]),
        (''scheduled_time'', Column DateTimeField []),
        (''interval'', Column PositiveIntegerField []),
        (''interval_unit'', Column CharField [Choices [(VStr ''minutes'', ''minutes''), (VStr ''hours'', ''hours''),
           (VStr ''days'', ''days''), (VStr ''weeks'', ''weeks'')], Default (VStr ''hours''), MaxLength 12]),
        (''repeat'', Column PositiveIntegerField [Blank, Nullable]),
        (''timeout'', Column IntegerField [Blank, Nullable]),
        (''result_ttl'', Column IntegerField [Blank, Nullable])]
       [Ordering [''name'']],
       CreateModel ''ScheduledJob''
       [(''id'', Column AutoField [AutoCreated, PrimaryKey, NotSerialized]),
        (''created'', Column DateTimeField [AutoNowAdd]),
        (''modified'', Column DateTimeField [AutoNow]),
        (''name'', Column CharField [MaxLength 128, UniqueField]),
        (''callable'', Column CharField [MaxLength 2048]),
        (''enabled'', Column BooleanField [Default (VBool True)]),
        (''queue'', Column CharField [MaxLength 16]),
        (''job_id'', Column CharField [Blank, MaxLength 128, NotEditable, Nullable]),
        (''scheduled_time'', Column DateTimeField []),
        (''timeout'', Column IntegerField [Blank, Nullable]),
        (''result_ttl'', Column IntegerField [Blank, Nullable])]
       [Ordering [''name'']]] \<rparr>"

definition migration_0002 :: migration
  where "migration_0002 =
    \<lparr> mg_name = ''0002_alter_cronjob_id_alter_repeatablejob_id_and_more'',
      mg_dependencies = [(''scheduler'', ''0001_initial_squashed_0005_added_result_ttl'')],
      mg_operations =
      [AlterField ''cronjob'' ''id'' (Column BigAutoField [AutoCreated, PrimaryKey, NotSerialized]),
       AlterField ''repeatablejob'' ''id'' (Column BigAutoField [AutoCreated, PrimaryKey, NotSerialized]),
       AlterField ''scheduledjob'' ''id'' (Column BigAutoField [AutoCreated, PrimaryKey, NotSerialized])] \<rparr>"

definition migration_0003 :: migration
  where "migration_0003 =
    \<lparr> mg_name = ''0003_auto_20220329_2107'',
      mg_dependencies = [(''contenttypes'', ''0002_remove_content_type_name''),
         (''scheduler'', ''0002_alter_cronjob_id_alter_repeatablejob_id_and_more'')],
      mg_operations =
      [AlterField ''cronjob'' ''cron_string'' (Column CharField [MaxLength 64]),
       AlterField ''cronjob'' ''id'' (Column AutoField [AutoCreated, PrimaryKey, NotSerialized]),
       AlterField ''repeatablejob'' ''id'' (Column AutoField [AutoCreated, PrimaryKey, NotSerialized]),
       AlterField ''repeatablejob'' ''interval_unit'' (Column CharField [Choices [(VStr ''seconds'', ''seconds''),
          (VStr ''minutes'', ''minutes''), (VStr ''hours'', ''hours''), (VStr ''days'', ''days''),
             (VStr ''weeks'', ''weeks'')], Default (VStr ''hours''), MaxLength 12]),
       AlterField ''scheduledjob'' ''id'' (Column AutoField [AutoCreated, PrimaryKey, NotSerialized]),
       CreateModel ''JobKwarg''
       [(''id'', Column AutoField [AutoCreated, PrimaryKey, NotSerialized]),
        (''arg_type'', Column CharField [Choices [(VStr ''str_val'', ''string''), (VStr ''int_val'', ''int''),
           (VStr ''bool_val'', ''boolean''), (VStr ''datetime_val'', ''Datetime'')],
              Default (VStr ''str_val''), MaxLength 12]),
        (''str_val'', Column CharField [Blank, MaxLength 255]),
        (''int_val'', Column IntegerField [Blank, Nullable]),
        (''bool_val'', Column BooleanField [Default (VBool False)]),
        (''datetime_val'', Column DateTimeField [Blank, Nullable]),
        (''object_id'', Column PositiveIntegerField []),
        (''key'', Column CharField [MaxLength 255]),
        (''content_type'', Column (ForeignKey ''contenttypes.contenttype'') [Cascade])]
       [Ordering [''id'']],
       CreateModel ''JobArg''
       [(''id'', Column AutoField [AutoCreated, PrimaryKey, NotSerialized]),
        (''arg_type'', Column CharField [Choices [(VStr ''str_val'', ''string''), (VStr ''int_val'', ''int''),
           (VStr ''bool_val'', ''boolean''), (VStr ''datetime_val'', ''Datetime'')],
              Default (VStr ''str_val''), MaxLength 12]),
        (''str_val'', Column CharField [Blank, MaxLength 255]),
        (''int_val'', Column IntegerField [Blank, Nullable]),
        (''bool_val'', Column BooleanField [Default (VBool False)]),
        (''datetime_val'', Column DateTimeField [Blank, Nullable]),
        (''object_id'', Column PositiveIntegerField []),
        (''content_type'', Column (ForeignKey ''contenttypes.contenttype'') [Cascade])]
       [Ordering [''id'']]] \<rparr>"

definition migration_0004 :: migration
  where "migration_0004 =
    \<lparr> mg_name = ''0004_cronjob_at_front_repeatablejob_at_front_and_more'',
      mg_dependencies = [(''scheduler'', ''0003_auto_20220329_2107'')],
      mg_operations =
      [AddField ''cronjob'' ''at_front'' (Column BooleanField [Default (VBool False)]),
       AddField ''repeatablejob'' ''at_front'' (Column BooleanField [Default (VBool False)]),
       AddField ''scheduledjob'' ''at_front'' (Column BooleanField [Default (VBool False)])] \<rparr>"

definition migration_0005 :: migration
  where "migration_0005 =
    \<lparr> mg_name = ''0005_alter_cronjob_at_front_alter_repeatablejob_at_front_and_more'',
      mg_dependencies = [(''scheduler'', ''0004_cronjob_at_front_repeatablejob_at_front_and_more'')],
      mg_operations =
      [AlterField ''cronjob'' ''at_front'' (Column BooleanField [Blank, Default (VBool False), Nullable]),
       AlterField ''repeatablejob'' ''at_front'' (Column BooleanField [Blank, Default (VBool False), Nullable]),
       AlterField ''scheduledjob'' ''at_front'' (Column BooleanField [Blank, Default (VBool False), Nullable])] \<rparr>"

definition migration_0006 :: migration
  where "migration_0006 =
    \<lparr> mg_name = ''0006_auto_20230118_1640'',
      mg_dependencies = [(''scheduler'', ''0005_alter_cronjob_at_front_alter_repeatablejob_at_front_and_more'')],
      mg_operations =
      [RunPython Forwards_func Reverse_func] \<rparr>"

definition migration_0007 :: migration
  where "migration_0007 =
    \<lparr> mg_name = ''0007_add_result_ttl'',
      mg_dependencies = [(''scheduler'', ''0006_auto_20230118_1640'')],
      mg_operations =
      [AddField ''cronjob'' ''result_ttl'' (Column IntegerField [Blank, Nullable]),
       AlterField ''cronjob'' ''queue'' (Column CharField [MaxLength 16]),
       AlterField ''repeatablejob'' ''queue'' (Column CharField [MaxLength 16]),
       AlterField ''scheduledjob'' ''queue'' (Column CharField [MaxLength 16])] \<rparr>"

definition migration_0008 :: migration
  where "migration_0008 =
    \<lparr> mg_name = ''0008_rename_str_val_jobarg_val_and_more'',
      mg_dependencies = [(''scheduler'', ''0007_add_result_ttl'')],
      mg_operations =
      [RenameField ''jobarg'' ''str_val'' ''val'',
       RenameField ''jobkwarg'' ''str_val'' ''val'',
       RemoveField ''jobarg'' ''bool_val'',
       RemoveField ''jobarg'' ''datetime_val'',
       RemoveField ''jobarg'' ''int_val'',
       RemoveField ''jobkwarg'' ''bool_val'',
       RemoveField ''jobkwarg'' ''datetime_val'',
       RemoveField ''jobkwarg'' ''int_val'',
       AlterField ''jobarg'' ''arg_type'' (Column CharField [Choices [(VStr ''str_val'', ''string''),
          (VStr ''int_val'', ''int''), (VStr ''bool_val'', ''boolean''), (VStr ''datetime_val'', ''Datetime''),
             (VStr ''callable'', ''Callable'')], Default (VStr ''str_val''), MaxLength 12]),
       AlterField ''jobkwarg'' ''arg_type'' (Column CharField [Choices [(VStr ''str_val'', ''string''),
          (VStr ''int_val'', ''int''), (VStr ''bool_val'', ''boolean''), (VStr ''datetime_val'', ''Datetime''),
             (VStr ''callable'', ''Callable'')], Default (VStr ''str_val''), MaxLength 12])] \<rparr>"

definition migration_0009 :: migration
  where "migration_0009 =
    \<lparr> mg_name = ''0009_alter_jobarg_arg_type_alter_jobarg_val_and_more'',
      mg_dependencies = [(''scheduler'', ''0008_rename_str_val_jobarg_val_and_more'')],
      mg_operations =
      [AlterField ''jobarg'' ''arg_type'' (Column CharField [Choices [(VStr ''str'', ''string''),
         (VStr ''int'', ''int''), (VStr ''bool'', ''boolean''), (VStr ''datetime'', ''datetime''),
            (VStr ''callable'', ''callable'')], Default (VStr ''str''), MaxLength 12]),
       AlterField ''jobarg'' ''val'' (Column CharField [Blank, MaxLength 255]),
       AlterField ''jobkwarg'' ''arg_type'' (Column CharField [Choices [(VStr ''str'', ''string''),
          (VStr ''int'', ''int''), (VStr ''bool'', ''boolean''), (VStr ''datetime'', ''datetime''),
             (VStr ''callable'', ''callable'')], Default (VStr ''str''), MaxLength 12]),
       AlterField ''jobkwarg'' ''val'' (Column CharField [Blank, MaxLength 255])] \<rparr>"

definition migration_0010 :: migration
  where "migration_0010 =
    \<lparr> mg_name = ''0010_queue'',
      mg_dependencies = [(''scheduler'', ''0009_alter_jobarg_arg_type_alter_jobarg_val_and_more'')],
      mg_operations =
      [CreateModel ''Queue''
       [(''id'', Column AutoField [AutoCreated, PrimaryKey, NotSerialized])]
       [Permissions [(''view'', ''Access admin page'')], Managed False, DefaultPermissions []]] \<rparr>"

definition migration_0011 :: migration
  where "migration_0011 =
    \<lparr> mg_name = ''0011_worker_alter_queue_options_alter_cronjob_at_front_and_more'',
      mg_dependencies = [(''scheduler'', ''0010_queue'')],
      mg_operations =
      [CreateModel ''Worker''
       [(''id'', Column AutoField [AutoCreated, PrimaryKey, NotSerialized])]
       [Permissions [(''view'', ''Access admin page'')], Managed False, DefaultPermissions []],
       AlterModelOptions ''queue'' [DefaultPermissions [], Managed False, Permissions [(''view'', ''Access admin page'')]],
       AlterField ''cronjob'' ''at_front'' (Column BooleanField [Blank, Default (VBool False), Nullable]),
       AlterField ''cronjob'' ''cron_string'' (Column CharField [MaxLength 64]),
       AlterField ''cronjob'' ''enabled'' (Column BooleanField [Default (VBool True)]),
       AlterField ''cronjob'' ''job_id'' (Column CharField [Blank, MaxLength 128, NotEditable, Nullable]),
       AlterField ''cronjob'' ''queue'' (Column CharField [Choices [(VStr ''default'', ''default''),
          (VStr ''low'', ''low''), (VStr ''high'', ''high'')], MaxLength 16]),
       AlterField ''cronjob'' ''repeat'' (Column PositiveIntegerField [Blank, Nullable]),
       AlterField ''cronjob'' ''result_ttl'' (Column IntegerField [Blank, Nullable]),
       AlterField ''repeatablejob'' ''at_front'' (Column BooleanField [Blank, Default (VBool False), Nullable]),
       AlterField ''repeatablejob'' ''enabled'' (Column BooleanField [Default (VBool True)]),
       AlterField ''repeatablejob'' ''job_id'' (Column CharField [Blank, MaxLength 128, NotEditable, Nullable]),
       AlterField ''repeatablejob'' ''queue'' (Column CharField [Choices [(VStr ''default'', ''default''),
          (VStr ''low'', ''low''), (VStr ''high'', ''high'')], MaxLength 16]),
       AlterField ''repeatablejob'' ''repeat'' (Column PositiveIntegerField [Blank, Nullable]),
       AlterField ''repeatablejob'' ''result_ttl'' (Column IntegerField [Blank, Nullable]),
       AlterField ''scheduledjob'' ''at_front'' (Column BooleanField [Blank, Default (VBool False), Nullable]),
       AlterField ''scheduledjob'' ''enabled'' (Column BooleanField [Default (VBool True)]),
       AlterField ''scheduledjob'' ''job_id'' (Column CharField [Blank, MaxLength 128, NotEditable, Nullable]),
       AlterField ''scheduledjob'' ''queue'' (Column CharField [Choices [(VStr ''default'', ''default''),
          (VStr ''low'', ''low''), (VStr ''high'', ''high'')], MaxLength 16]),
       AlterField ''scheduledjob'' ''result_ttl'' (Column IntegerField [Blank, Nullable])] \<rparr>"

definition migration_0012 :: migration
  where "migration_0012 =
    \<lparr> mg_name = ''0012_alter_cronjob_name_alter_repeatablejob_name_and_more'',
      mg_dependencies = [(''scheduler'', ''0011_worker_alter_queue_options_alter_cronjob_at_front_and_more'')],
      mg_operations =
      [AlterField ''cronjob'' ''name'' (Column CharField [MaxLength 128, UniqueField]),
       AlterField ''repeatablejob'' ''name'' (Column CharField [MaxLength 128, UniqueField]),
       AlterField ''scheduledjob'' ''name'' (Column CharField [MaxLength 128, UniqueField])] \<rparr>"

definition migration_0013 :: migration
  where "migration_0013 =
    \<lparr> mg_name = ''0013_alter_cronjob_queue_alter_repeatablejob_queue_and_more'',
      mg_dependencies = [(''scheduler'', ''0012_alter_cronjob_name_alter_repeatablejob_name_and_more'')],
      mg_operations =
      [AlterField ''cronjob'' ''queue'' (Column CharField [Choices [(VStr ''default'', ''default''),
         (VStr ''low'', ''low''), (VStr ''high'', ''high'')], MaxLength 255]),
       AlterField ''repeatablejob'' ''queue'' (Column CharField [Choices [(VStr ''default'', ''default''),
          (VStr ''low'', ''low''), (VStr ''high'', ''high'')], MaxLength 255]),
       AlterField ''scheduledjob'' ''queue'' (Column CharField [Choices [(VStr ''default'', ''default''),
          (VStr ''low'', ''low''), (VStr ''high'', ''high'')], MaxLength 255])] \<rparr>"

definition migration_0014 :: migration
  where "migration_0014 =
    \<lparr> mg_name = ''0014_alter_cronjob_created_alter_cronjob_modified_and_more'',
      mg_dependencies = [(''scheduler'', ''0013_alter_cronjob_queue_alter_repeatablejob_queue_and_more'')],
      mg_operations =
      [AlterField ''cronjob'' ''created'' (Column DateTimeField [AutoNowAdd]),
       AlterField ''cronjob'' ''modified'' (Column DateTimeField [AutoNow]),
       AlterField ''repeatablejob'' ''created'' (Column DateTimeField [AutoNowAdd]),
       AlterField ''repeatablejob'' ''modified'' (Column DateTimeField [AutoNow]),
       AlterField ''scheduledjob'' ''created'' (Column DateTimeField [AutoNowAdd]),
       AlterField ''scheduledjob'' ''modified'' (Column DateTimeField [AutoNow])] \<rparr>"

definition migration_0015 :: migration
  where "migration_0015 =
    \<lparr> mg_name = ''0015_rename_cronjob_crontask_and_more'',
      mg_dependencies = [(''scheduler'', ''0014_alter_cronjob_created_alter_cronjob_modified_and_more'')],
      mg_operations =
      [RenameModel ''CronJob'' ''CronTask'',
       RenameModel ''RepeatableJob'' ''RepeatableTask'',
       RenameModel ''ScheduledJob'' ''ScheduledTask''] \<rparr>"

definition migration_0016 :: migration
  where "migration_0016 =
    \<lparr> mg_name = ''0016_rename_jobarg_taskarg_rename_jobkwarg_taskkwarg_and_more'',
      mg_dependencies = [(''contenttypes'', ''0002_remove_content_type_name''),
         (''scheduler'', ''0015_rename_cronjob_crontask_and_more'')],
      mg_operations =
      [RenameModel ''JobArg'' ''TaskArg'',
       RenameModel ''JobKwarg'' ''TaskKwarg'',
       AlterModelOptions ''crontask'' [Ordering [''name'']],
       AlterModelOptions ''repeatabletask'' [Ordering [''name'']],
       AlterModelOptions ''scheduledtask'' [Ordering [''name'']]] \<rparr>"

definition migration_0017 :: migration
  where "migration_0017 =
    \<lparr> mg_name = ''0017_remove_crontask_repeat_crontask_failed_runs_and_more'',
      mg_dependencies = [(''scheduler'', ''0016_rename_jobarg_taskarg_rename_jobkwarg_taskkwarg_and_more'')],
      mg_operations =
      [RemoveField ''crontask'' ''repeat'',
       AddField ''crontask'' ''failed_runs'' (Column PositiveIntegerField [Default (VInt 0)]),
       AddField ''crontask'' ''last_failed_run'' (Column DateTimeField [Blank, Nullable]),
       AddField ''crontask'' ''last_successful_run'' (Column DateTimeField [Blank, Nullable]),
       AddField ''crontask'' ''successful_runs'' (Column PositiveIntegerField [Default (VInt 0)]),
       AddField ''repeatabletask'' ''failed_runs'' (Column PositiveIntegerField [Default (VInt 0)]),
       AddField ''repeatabletask'' ''last_failed_run'' (Column DateTimeField [Blank, Nullable]),
       AddField ''repeatabletask'' ''last_successful_run'' (Column DateTimeField [Blank, Nullable]),
       AddField ''repeatabletask'' ''successful_runs'' (Column PositiveIntegerField [Default (VInt 0)])] \<rparr>"

definition migration_0018 :: migration
  where "migration_0018 =
    \<lparr> mg_name = ''0018_alter_crontask_queue_alter_repeatabletask_queue_and_more'',
      mg_dependencies = [(''scheduler'', ''0017_remove_crontask_repeat_crontask_failed_runs_and_more'')],
      mg_operations =
      [] \<rparr>"

definition create_task_0019 :: operation
  where "create_task_0019 =
    CreateModel ''Task''
       [(''id'', Column AutoField [AutoCreated, PrimaryKey, NotSerialized]),
        (''created_at'', Column DateTimeField [AutoNowAdd]),
        (''updated_at'', Column DateTimeField [AutoNow]),
        (''name'', Column CharField [MaxLength 128, UniqueField]),
        (''task_type'', Column CharField [Choices [(VStr ''CronTaskType'', ''Cron Task''),
           (VStr ''RepeatableTaskType'', ''Repeatable Task''), (VStr ''OnceTaskType'', ''Run once'')],
              Default (VStr ''OnceTaskType''), MaxLength 32]),
        (''callable'', Column CharField [MaxLength 2048]),
        (''enabled'', Column BooleanField [Default (VBool True)]),
        (''queue'', Column CharField [ChoicesOf ''get_queue_choices'', MaxLength 255]),
        (''job_id'', Column CharField [Blank, MaxLength 128, NotEditable, Nullable]),
        (''at_front'', Column BooleanField [Default (VBool False)]),
        (''timeout'', Column IntegerField [Blank, Nullable]),
        (''result_ttl'', Column IntegerField [Blank, Nullable]),
        (''failed_runs'', Column PositiveIntegerField [Default (VInt 0)]),
        (''successful_runs'', Column PositiveIntegerField [Default (VInt 0)]),
        (''last_successful_run'', Column DateTimeField [Blank, Nullable]),
        (''last_failed_run'', Column DateTimeField [Blank, Nullable]),
        (''interval'', Column PositiveIntegerField [Blank, Nullable]),
        (''interval_unit'', Column CharField [Blank, Choices [(VStr ''seconds'', ''seconds''),
           (VStr ''minutes'', ''minutes''), (VStr ''hours'', ''hours''), (VStr ''days'', ''days''),
              (VStr ''weeks'', ''weeks'')], Default (VStr ''hours''), MaxLength 12, Nullable]),
        (''repeat'', Column PositiveIntegerField [Blank, Nullable]),
        (''scheduled_time'', Column DateTimeField [Blank, Nullable]),
        (''cron_string'', Column CharField [Blank, MaxLength 64, Nullable])]
       []"

definition migration_0019 :: migration
  where "migration_0019 =
    \<lparr> mg_name = ''0019_task_crontask_new_task_id_repeatabletask_new_task_id_and_more'',
      mg_dependencies = [(''scheduler'', ''0018_alter_crontask_queue_alter_repeatabletask_queue_and_more'')],
      mg_operations =
      [create_task_0019,
       AddField ''crontask'' ''new_task_id'' (Column (ForeignKey ''scheduler.task'') [Blank, Cascade, Nullable]),
       AddField ''repeatabletask'' ''new_task_id'' (Column (ForeignKey ''scheduler.task'') [Blank, Cascade, Nullable]),
       AddField ''scheduledtask'' ''new_task_id'' (Column (ForeignKey ''scheduler.task'')
          [Blank, Cascade, Nullable])] \<rparr>"

definition migration_0020 :: migration
  where "migration_0020 =
    \<lparr> mg_name = ''0020_remove_repeatabletask_new_task_id_and_more'',
      mg_dependencies = [(''scheduler'', ''0019_task_crontask_new_task_id_repeatabletask_new_task_id_and_more'')],
      mg_operations =
      [RemoveField ''repeatabletask'' ''new_task_id'',
       RemoveField ''scheduledtask'' ''new_task_id'',
       DeleteModel ''CronTask'',
       DeleteModel ''RepeatableTask'',
       DeleteModel ''ScheduledTask''] \<rparr>"

definition migration_0021 :: migration
  where "migration_0021 =
    \<lparr> mg_name = ''0021_remove_task_job_id_task_job_name'',
      mg_dependencies = [(''scheduler'', ''0020_remove_repeatabletask_new_task_id_and_more'')],
      mg_operations =
      [RemoveField ''task'' ''job_id'',
       AddField ''task'' ''job_name'' (Column CharField [Blank, MaxLength 128, NotEditable, Nullable])] \<rparr>"

definition create_prayerschedule_0022 :: operation
  where "create_prayerschedule_0022 =
    CreateModel ''PrayerSchedule''
       [(''id'', Column AutoField [AutoCreated, PrimaryKey, NotSerialized]),
        (''prayer_name'', Column CharField [Choices [(VStr ''fajr'', ''Fajr''), (VStr ''zhor'', ''Zhor''),
           (VStr ''asr'', ''Asr''), (VStr ''magrib'', ''Magrib''), (VStr ''eisha'', ''Eisha'')], MaxLength 20, UniqueField]),
        (''start_time'', Column TimeField []),
        (''end_time'', Column TimeField []),
        (''created_at'', Column DateTimeField [AutoNowAdd]),
        (''updated_at'', Column DateTimeField [AutoNow])]
       [Ordering [''start_time'']]"

definition create_personaltask_0022 :: operation
  where "create_personaltask_0022 =
    CreateModel ''PersonalTask''
       [(''id'', Column AutoField [AutoCreated, PrimaryKey, NotSerialized]),
        (''title'', Column CharField [MaxLength 255]),
        (''description'', Column TextField [Blank, Nullable]),
        (''date'', Column DateField []),
        (''start_time'', Column TimeField []),
        (''end_time'', Column TimeField []),
        (''category'', Column CharField [Choices [(VStr ''non_negotiable'', ''Non-Negotiable''),
           (VStr ''secondary'', ''Secondary''), (VStr ''fun'', ''Fun Activity'')],
              Default (VStr ''secondary''), MaxLength 20]),
        (''is_completed'', Column BooleanField [Default (VBool False)]),
        (''created_at'', Column DateTimeField [AutoNowAdd]),
        (''updated_at'', Column DateTimeField [AutoNow])]
       [Ordering [''date'', ''start_time''], Indexes [[''date''], [''category''], [''date'', ''category'']]]"

definition create_taskcompletion_0022 :: operation
  where "create_taskcompletion_0022 =
    CreateModel ''TaskCompletion''
       [(''id'', Column AutoField [AutoCreated, PrimaryKey, NotSerialized]),
        (''is_completed'', Column BooleanField []),
        (''completed_at'', Column DateTimeField [AutoNowAdd]),
        (''task'', Column (ForeignKey ''scheduler.personaltask'') [Cascade, RelatedName ''completions''])]
       [Ordering [''-completed_at''], Indexes [[''task'', ''-completed_at'']]]"

definition migration_0022 :: migration
  where "migration_0022 =
    \<lparr> mg_name = ''0022_prayerschedule_personaltask_taskcompletion'',
      mg_dependencies = [(''scheduler'', ''0021_remove_task_job_id_task_job_name'')],
      mg_operations =
      [create_prayerschedule_0022,
       create_personaltask_0022,
       create_taskcompletion_0022] \<rparr>"

definition migration_0023 :: migration
  where "migration_0023 =
    \<lparr> mg_name = ''0023_taskcompletion_performance_rating_prayercompletion_and_more'',
      mg_dependencies = [(''scheduler'', ''0022_prayerschedule_personaltask_taskcompletion'')],
      mg_operations =
      [AddField ''taskcompletion'' ''performance_rating'' (Column CharField [Blank, MaxLength 50, Nullable]),
       CreateModel ''PrayerCompletion''
       [(''id'', Column AutoField [AutoCreated, PrimaryKey, NotSerialized]),
        (''prayer_name'', Column CharField [Choices [(VStr ''fajr'', ''Fajr''), (VStr ''zhor'', ''Zhor''),
           (VStr ''asr'', ''Asr''), (VStr ''magrib'', ''Magrib''), (VStr ''eisha'', ''Eisha'')], MaxLength 20]),
        (''date'', Column DateField []),
        (''is_completed'', Column BooleanField [Default (VBool False)]),
        (''completed_at'', Column DateTimeField [Blank, Nullable]),
        (''created_at'', Column DateTimeField [AutoNowAdd]),
        (''updated_at'', Column DateTimeField [AutoNow])]
       [Ordering [''-date'', ''prayer_name''], Indexes [[''date''], [''prayer_name'', ''date'']],
          UniqueTogether [[''prayer_name'', ''date'']]],
       CreateModel ''SubTask''
       [(''id'', Column AutoField [AutoCreated, PrimaryKey, NotSerialized]),
        (''title'', Column CharField [MaxLength 255]),
        (''is_completed'', Column BooleanField [Default (VBool False)]),
        (''order'', Column PositiveIntegerField [Default (VInt 0)]),
        (''created_at'', Column DateTimeField [AutoNowAdd]),
        (''updated_at'', Column DateTimeField [AutoNow]),
        (''personal_task'', Column (ForeignKey ''scheduler.personaltask'') [Cascade, RelatedName ''subtasks''])]
       [Ordering [''order''], Indexes [[''personal_task'', ''order'']]]] \<rparr>"

definition migration_0024 :: migration
  where "migration_0024 =
    \<lparr> mg_name = ''0024_prayercompletion_status'',
      mg_dependencies = [(''scheduler'', ''0023_taskcompletion_performance_rating_prayercompletion_and_more'')],
      mg_operations =
      [AddField ''prayercompletion'' ''status'' (Column CharField [Choices [(VStr ''prayed'', ''Prayed''),
         (VStr ''not_yet'', ''Not Yet''), (VStr ''missed'', ''Missed'')],
            Default (VStr ''not_yet''), MaxLength 20])] \<rparr>"

definition migration_0025 :: migration
  where "migration_0025 =
    \<lparr> mg_name = ''0025_personaltask_is_break_personaltask_parent_task'',
      mg_dependencies = [(''scheduler'', ''0024_prayercompletion_status'')],
      mg_operations =
      [AddField ''personaltask'' ''is_break'' (Column BooleanField [Default (VBool False)]),
       AddField ''personaltask'' ''parent_task'' (Column (ForeignKey ''scheduler.personaltask'')
          [Blank, Cascade, Nullable, RelatedName ''breaks''])] \<rparr>"

definition create_project_0026 :: operation
  where "create_project_0026 =
    CreateModel ''Project''
       [(''id'', Column AutoField [AutoCreated, PrimaryKey, NotSerialized]),
        (''title'', Column CharField [MaxLength 255]),
        (''description'', Column TextField [Blank, Nullable]),
        (''start_date'', Column DateField []),
        (''end_date'', Column DateField []),
        (''status'', Column CharField [Choices [(VStr ''planned'', ''Planned''),
           (VStr ''in_progress'', ''In Progress''), (VStr ''completed'', ''Completed''),
              (VStr ''on_hold'', ''On Hold'')], Default (VStr ''planned''), MaxLength 20]),
        (''created_at'', Column DateTimeField [AutoNowAdd]),
        (''updated_at'', Column DateTimeField [AutoNow])]
       [Ordering [''-start_date''], Indexes [[''status''], [''-start_date'']]]"

definition create_projecttask_0026 :: operation
  where "create_projecttask_0026 =
    CreateModel ''ProjectTask''
       [(''id'', Column AutoField [AutoCreated, PrimaryKey, NotSerialized]),
        (''title'', Column CharField [MaxLength 255]),
        (''description'', Column TextField [Blank, Nullable]),
        (''duration_hours'', Column FloatField [Default (VFloat 1)]),
        (''order'', Column PositiveIntegerField [Default (VInt 0)]),
        (''is_scheduled'', Column BooleanField [Default (VBool False)]),
        (''created_at'', Column DateTimeField [AutoNowAdd]),
        (''updated_at'', Column DateTimeField [AutoNow]),
        (''project'', Column (ForeignKey ''scheduler.project'') [Cascade, RelatedName ''tasks''])]
       [Ordering [''order'']]"

definition create_projectschedule_0026 :: operation
  where "create_projectschedule_0026 =
    CreateModel ''ProjectSchedule''
       [(''id'', Column AutoField [AutoCreated, PrimaryKey, NotSerialized]),
        (''day_of_week'', Column IntegerField [Choices [(VInt 0, ''Monday''), (VInt 1, ''Tuesday''),
           (VInt 2, ''Wednesday''), (VInt 3, ''Thursday''), (VInt 4, ''Friday''), (VInt 5, ''Saturday''),
              (VInt 6, ''Sunday'')]]),
        (''start_time'', Column TimeField []),
        (''duration_hours'', Column FloatField [Default (VFloat 1)]),
        (''weeks'', Column PositiveIntegerField [Default (VInt 1)]),
        (''is_active'', Column BooleanField [Default (VBool True)]),
        (''created_at'', Column DateTimeField [AutoNowAdd]),
        (''updated_at'', Column DateTimeField [AutoNow]),
        (''project_task'', Column (ForeignKey ''scheduler.projecttask'') [Cascade, RelatedName ''schedules''])]
       []"

definition migration_0026 :: migration
  where "migration_0026 =
    \<lparr> mg_name = ''0026_project_projecttask_projectschedule_and_more'',
      mg_dependencies = [(''scheduler'', ''0025_personaltask_is_break_personaltask_parent_task'')],
      mg_operations =
      [create_project_0026,
       create_projecttask_0026,
       create_projectschedule_0026,
       AddIndex ''projecttask'' [''project'', ''order''],
       AlterUniqueTogether ''projectschedule'' [[''project_task'', ''day_of_week'']]] \<rparr>"

definition migrations :: "migration list"
  where "migrations =
    [migration_0001, migration_0002, migration_0003, migration_0004, migration_0005, migration_0006,
     migration_0007, migration_0008, migration_0009, migration_0010, migration_0011, migration_0012,
     migration_0013, migration_0014, migration_0015, migration_0016, migration_0017, migration_0018,
     migration_0019, migration_0020, migration_0021, migration_0022, migration_0023, migration_0024,
     migration_0025, migration_0026]"

lemmas migration_defs = migrations_def
  migration_0001_def migration_0002_def migration_0003_def migration_0004_def migration_0005_def
  migration_0006_def migration_0007_def migration_0008_def migration_0009_def migration_0010_def
  migration_0011_def migration_0012_def migration_0013_def migration_0014_def migration_0015_def
  migration_0016_def migration_0017_def migration_0018_def migration_0019_def migration_0020_def
  migration_0021_def migration_0022_def migration_0023_def migration_0024_def migration_0025_def
  migration_0026_def

lemmas create_defs =
  create_task_0019_def create_prayerschedule_0022_def create_personaltask_0022_def create_taskcompletion_0022_def
  create_project_0026_def create_projecttask_0026_def create_projectschedule_0026_def

end
