(* ===== verification/Declarations.thy ===== *)
theory Declarations
  imports Schema PlannerModels Tasks
begin

text \<open>
  The fields the models declare, \<open>models/task.py\<close>, \<open>models/args.py\<close>, \<open>models/personal_task.py\<close> and
  \<open>models/ephemeral_models.py\<close>.  Each model has the key that Django adds with the class \<open>apps.py\<close> sets; generic
  relations have no column.
\<close>

definition default_auto_field :: column_type where "default_auto_field = AutoField"

definition id_field :: "string \<times> column"
  where "id_field = (''id'', Column default_auto_field [AutoCreated, PrimaryKey, NotSerialized])"

definition text_choices :: "(string \<times> string) list \<Rightarrow> (pyval \<times> string) list"
  where "text_choices cs = map (\<lambda>(v, l). (VStr v, l)) cs"

definition TaskType_choices :: "(string \<times> string) list"
  where "TaskType_choices = [(CRON, ''Cron Task''), (REPEATABLE, ''Repeatable Task''), (ONCE, ''Run once'')]"

definition TimeUnits_choices :: "(string \<times> string) list"
  where "TimeUnits_choices = [(''seconds'', ''seconds''), (''minutes'', ''minutes''), (''hours'', ''hours''),
    (''days'', ''days''), (''weeks'', ''weeks'')]"

definition ArgType_choices :: "(string \<times> string) list"
  where "ArgType_choices = [(''str'', ''string''), (''int'', ''int''), (''bool'', ''boolean''), (''datetime'', ''datetime''),
    (''callable'', ''callable'')]"

definition PrayerCompletionStatus_choices :: "(string \<times> string) list"
  where "PrayerCompletionStatus_choices = [(PRAYED, ''Prayed''), (NOT_YET, ''Not Yet''), (MISSED, ''Missed'')]"

definition BaseTaskArg_fields :: columns
  where "BaseTaskArg_fields =
      [(''arg_type'', Column CharField [Choices (text_choices ArgType_choices), Default (VStr ''str''), MaxLength 12]),
       (''val'', Column CharField [Blank, MaxLength 255]),
       (''content_type'', Column (ForeignKey ''contenttypes.contenttype'') [Cascade]),
       (''object_id'', Column PositiveIntegerField [])]"

definition TaskArg_model :: "string \<times> columns \<times> model_option list"
  where "TaskArg_model =
    (''taskarg'', id_field # BaseTaskArg_fields @ [], [Ordering [''id'']])"

definition TaskKwarg_model :: "string \<times> columns \<times> model_option list"
  where "TaskKwarg_model =
    (''taskkwarg'', id_field # BaseTaskArg_fields @ [(''key'', Column CharField [MaxLength 255])], [Ordering [''id'']])"

definition Task_model :: "string \<times> columns \<times> model_option list"
  where "Task_model =
    (''task'', id_field # [(''created_at'', Column DateTimeField [AutoNowAdd]),
       (''updated_at'', Column DateTimeField [AutoNow]),
       (''name'', Column CharField [MaxLength 128, UniqueField]),
       (''task_type'', Column CharField [Choices (text_choices TaskType_choices), Default (VStr ONCE), MaxLength 32]),
       (''callable'', Column CharField [MaxLength 2048]),
       (''enabled'', Column BooleanField [Default (VBool True)]),
       (''queue'', Column CharField [ChoicesOf ''get_queue_choices'', MaxLength 255]),
       (''job_name'', Column CharField [Blank, MaxLength 128, NotEditable, Nullable]),
       (''at_front'', Column BooleanField [Default (VBool False)]),
       (''timeout'', Column IntegerField [Blank, Nullable]),
       (''result_ttl'', Column IntegerField [Blank, Nullable]),
       (''failed_runs'', Column PositiveIntegerField [Default (VInt 0)]),
       (''successful_runs'', Column PositiveIntegerField [Default (VInt 0)]),
       (''last_successful_run'', Column DateTimeField [Blank, Nullable]),
       (''last_failed_run'', Column DateTimeField [Blank, Nullable]),
       (''interval'', Column PositiveIntegerField [Blank, Nullable]),
       (''interval_unit'', Column CharField [Blank, Choices (text_choices TimeUnits_choices), Default (VStr ''hours''), MaxLength 12, Nullable]),
       (''repeat'', Column PositiveIntegerField [Blank, Nullable]),
       (''scheduled_time'', Column DateTimeField [Blank, Nullable]),
       (''cron_string'', Column CharField [Blank, MaxLength 64, Nullable])], [])"

definition PersonalTask_model :: "string \<times> columns \<times> model_option list"
  where "PersonalTask_model =
    (''personaltask'', id_field # [(''title'', Column CharField [MaxLength 255]),
       (''description'', Column TextField [Blank, Nullable]),
       (''date'', Column DateField []),
       (''start_time'', Column TimeField []),
       (''end_time'', Column TimeField []),
       (''category'', Column CharField [Choices (text_choices TASK_CATEGORIES), Default (VStr SECONDARY), MaxLength 20]),
       (''is_completed'', Column BooleanField [Default (VBool False)]),
       (''is_break'', Column BooleanField [Default (VBool False)]),
       (''parent_task'', Column (ForeignKey ''scheduler.personaltask'') [Blank, Cascade, Nullable, RelatedName ''breaks'']),
       (''created_at'', Column DateTimeField [AutoNowAdd]),
       (''updated_at'', Column DateTimeField [AutoNow])], [Ordering [''date'', ''start_time''], Indexes [[''date''],
          [''category''], [''date'', ''category'']]])"

definition PrayerSchedule_model :: "string \<times> columns \<times> model_option list"
  where "PrayerSchedule_model =
    (''prayerschedule'', id_field # [(''prayer_name'', Column CharField [Choices (text_choices PRAYER_NAMES), MaxLength 20, UniqueField]),
       (''start_time'', Column TimeField []),
       (''end_time'', Column TimeField []),
       (''created_at'', Column DateTimeField [AutoNowAdd]),
       (''updated_at'', Column DateTimeField [AutoNow])], [Ordering [''start_time'']])"

definition SubTask_model :: "string \<times> columns \<times> model_option list"
  where "SubTask_model =
    (''subtask'', id_field # [(''personal_task'', Column (ForeignKey ''scheduler.personaltask'')
       [Cascade, RelatedName ''subtasks'']),
       (''title'', Column CharField [MaxLength 255]),
       (''is_completed'', Column BooleanField [Default (VBool False)]),
       (''order'', Column PositiveIntegerField [Default (VInt 0)]),
       (''created_at'', Column DateTimeField [AutoNowAdd]),
       (''updated_at'', Column DateTimeField [AutoNow])], [Ordering [''order''], Indexes [[''personal_task'', ''order'']]])"

definition TaskCompletion_model :: "string \<times> columns \<times> model_option list"
  where "TaskCompletion_model =
    (''taskcompletion'', id_field # [(''task'', Column (ForeignKey ''scheduler.personaltask'')
       [Cascade, RelatedName ''completions'']),
       (''is_completed'', Column BooleanField []),
       (''completed_at'', Column DateTimeField [AutoNowAdd]),
       (''performance_rating'', Column CharField [Blank, MaxLength 50, Nullable])], [Ordering [''-completed_at''],
          Indexes [[''task'', ''-completed_at'']]])"

definition PrayerCompletion_model :: "string \<times> columns \<times> model_option list"
  where "PrayerCompletion_model =
    (''prayercompletion'', id_field # [(''prayer_name'', Column CharField [Choices (text_choices PRAYER_NAMES), MaxLength 20]),
       (''date'', Column DateField []),
       (''is_completed'', Column BooleanField [Default (VBool False)]),
       (''status'', Column CharField [Choices (text_choices PrayerCompletionStatus_choices), Default (VStr NOT_YET), MaxLength 20]),
       (''completed_at'', Column DateTimeField [Blank, Nullable]),
       (''created_at'', Column DateTimeField [AutoNowAdd]),
       (''updated_at'', Column DateTimeField [AutoNow])], [Ordering [''-date'', ''prayer_name''],
          UniqueTogether [[''prayer_name'', ''date'']], Indexes [[''date''], [''prayer_name'', ''date'']]])"

definition Project_model :: "string \<times> columns \<times> model_option list"
  where "Project_model =
    (''project'', id_field # [(''title'', Column CharField [MaxLength 255]),
       (''description'', Column TextField [Blank, Nullable]),
       (''start_date'', Column DateField []),
       (''end_date'', Column DateField []),
       (''status'', Column CharField [Choices (text_choices PROJECT_STATUSES), Default (VStr ''planned''), MaxLength 20]),
       (''created_at'', Column DateTimeField [AutoNowAdd]),
       (''updated_at'', Column DateTimeField [AutoNow])], [Ordering [''-start_date''], Indexes [[''status''],
          [''-start_date'']]])"

definition ProjectTask_model :: "string \<times> columns \<times> model_option list"
  where "ProjectTask_model =
    (''projecttask'', id_field # [(''project'', Column (ForeignKey ''scheduler.project'') [Cascade, RelatedName ''tasks'']),
       (''title'', Column CharField [MaxLength 255]),
       (''description'', Column TextField [Blank, Nullable]),
       (''duration_hours'', Column FloatField [Default (VFloat 1)]),
       (''order'', Column PositiveIntegerField [Default (VInt 0)]),
       (''is_scheduled'', Column BooleanField [Default (VBool False)]),
       (''created_at'', Column DateTimeField [AutoNowAdd]),
       (''updated_at'', Column DateTimeField [AutoNow])], [Ordering [''order''], Indexes [[''project'', ''order'']]])"

definition ProjectSchedule_model :: "string \<times> columns \<times> model_option list"
  where "ProjectSchedule_model =
    (''projectschedule'', id_field # [(''project_task'', Column (ForeignKey ''scheduler.projecttask'')
       [Cascade, RelatedName ''schedules'']),
       (''day_of_week'', Column IntegerField [Choices (map (\<lambda>(v, l). (VInt v, l)) WEEKDAY_CHOICES)]),
       (''start_time'', Column TimeField []),
       (''duration_hours'', Column FloatField [Default (VFloat 1)]),
       (''weeks'', Column PositiveIntegerField [Default (VInt 1)]),
       (''is_active'', Column BooleanField [Default (VBool True)]),
       (''created_at'', Column DateTimeField [AutoNowAdd]),
       (''updated_at'', Column DateTimeField [AutoNow])], [UniqueTogether [[''project_task'', ''day_of_week'']]])"

definition Queue_model :: "string \<times> columns \<times> model_option list"
  where "Queue_model =
    (''queue'', id_field # [], [Managed False, DefaultPermissions [], Permissions [(''view'', ''Access admin page'')]])"

definition Worker_model :: "string \<times> columns \<times> model_option list"
  where "Worker_model =
    (''worker'', id_field # [], [Managed False, DefaultPermissions [], Permissions [(''view'', ''Access admin page'')]])"

definition declared_models :: schema
  where "declared_models =
    [TaskArg_model, TaskKwarg_model, Task_model, PersonalTask_model,
     PrayerSchedule_model, SubTask_model, TaskCompletion_model, PrayerCompletion_model,
     Project_model, ProjectTask_model, ProjectSchedule_model, Queue_model,
     Worker_model]"

lemmas declared_defs = declared_models_def
  TaskArg_model_def TaskKwarg_model_def Task_model_def PersonalTask_model_def
  PrayerSchedule_model_def SubTask_model_def TaskCompletion_model_def PrayerCompletion_model_def
  Project_model_def ProjectTask_model_def ProjectSchedule_model_def Queue_model_def
  Worker_model_def

end
