(* ===== verification/Schema_Properties.thy ===== *)
theory Schema_Properties
  imports Migrations Declarations
begin








end
