(* ===== verification/Urls.thy ===== *)
theory Urls
  imports PyBase
begin

text \<open>
  \<open>scheduler/urls.py\<close>: the paths of the pages, the views they lead to and the names they are linked by.  A path is
  written as in the code; \<open>parse_component\<close> reads the part between two slashes, and what \<open>str\<close> and \<open>int\<close> stand for is
  as Django documents it.  A path is taken decoded.  The facts: no path leads to two views, whatever the order of the
  patterns, and the link to a view with its arguments leads back to the view with those arguments.
\<close>

section \<open>Patterns\<close>

datatype component = Fixed string | StrArg string | IntArg string

record route =
  rt_path :: "component list"
  rt_view :: string
  rt_name :: string

definition parse_component :: "string \<Rightarrow> component"
  \<comment> \<open>\<open><str:name>\<close>, \<open><int:name>\<close> or the text itself\<close>
  where "parse_component t =
    (if t \<noteq> [] \<and> hd t = CHR ''<'' \<and> last t = CHR ''>'' then
       (case py_split CHR '':'' (butlast (tl t)) of
          [converter, name] \<Rightarrow>
            if converter = ''str'' then StrArg name else if converter = ''int'' then IntArg name else Fixed t
        | _ \<Rightarrow> Fixed t)
     else Fixed t)"

definition path :: "string \<Rightarrow> string \<Rightarrow> string \<Rightarrow> route"
  where "path pattern view name =
    \<lparr> rt_path = map parse_component (py_split CHR ''/'' pattern), rt_view = view, rt_name = name \<rparr>"

definition arguments :: "component list \<Rightarrow> string list"
  where "arguments cs = concat (map (\<lambda>c. case c of Fixed _ \<Rightarrow> [] | StrArg n \<Rightarrow> [n] | IntArg n \<Rightarrow> [n]) cs)"

section \<open>Resolving and reversing\<close>

definition match_component :: "component \<Rightarrow> string \<Rightarrow> pyval list option"
  where "match_component c t = (case c of
      Fixed u \<Rightarrow> if t = u then Some [] else None
    | StrArg _ \<Rightarrow> if t = [] then None else Some [VStr t]
    | IntArg _ \<Rightarrow> if list_all is_digit t then map_option (\<lambda>n. [VInt (int n)]) (read_digits t) else None)"

fun match_components :: "component list \<Rightarrow> string list \<Rightarrow> pyval list option"
where
  "match_components [] [] = Some []"
| "match_components (c # cs) (t # ts) =
     (case match_component c t of None \<Rightarrow> None
      | Some vs \<Rightarrow> map_option (\<lambda>ws. vs @ ws) (match_components cs ts))"
| "match_components _ _ = None"

definition route_match :: "route \<Rightarrow> string \<Rightarrow> pyval list option"
  where "route_match r url = match_components (rt_path r) (py_split CHR ''/'' url)"

fun resolve :: "route list \<Rightarrow> string \<Rightarrow> (string \<times> (string \<times> pyval) list) option"
  \<comment> \<open>the first pattern that matches: its view, with the arguments by name\<close>
where
  "resolve [] url = None"
| "resolve (r # rs) url =
     (case route_match r url of Some vs \<Rightarrow> Some (rt_view r, zip (arguments (rt_path r)) vs) | None \<Rightarrow> resolve rs url)"

fun fill :: "component list \<Rightarrow> pyval list \<Rightarrow> string list option"
  \<comment> \<open>the components with the arguments in their places; None if they are too many, too few or do not fit\<close>
where
  "fill [] [] = Some []"
| "fill (Fixed t # cs) vs = map_option (\<lambda>ts. t # ts) (fill cs vs)"
| "fill (StrArg n # cs) (VStr t # vs) =
     (if t = [] \<or> CHR ''/'' \<in> set t then None else map_option (\<lambda>ts. t # ts) (fill cs vs))"
| "fill (IntArg n # cs) (VInt i # vs) = (if i < 0 then None else map_option (\<lambda>ts. str_of_int i # ts) (fill cs vs))"
| "fill _ _ = None"

definition url_of :: "route \<Rightarrow> pyval list \<Rightarrow> string option"
  where "url_of r args = map_option (py_join ''/'') (fill (rt_path r) args)"

definition reverse_url :: "route list \<Rightarrow> string \<Rightarrow> pyval list \<Rightarrow> string option"
  \<comment> \<open>\<open>reverse(name, args=args)\<close>, None for NoReverseMatch\<close>
  where "reverse_url rs name args = (case find (\<lambda>r. rt_name r = name) rs of None \<Rightarrow> None | Some r \<Rightarrow> url_of r args)"

section \<open>The pages\<close>

definition queue_routes :: "route list"
  where "queue_routes =
    [path '''' ''stats'' ''queues_home'',
     path ''stats.json'' ''stats_json'' ''queues_home_json'',
     path ''queues/<str:queue_name>/workers/'' ''queue_workers'' ''queue_workers'',
     path ''queues/<str:queue_name>/<str:registry_name>/jobs'' ''list_registry_jobs'' ''queue_registry_jobs'',
     path ''queues/<str:queue_name>/<str:registry_name>/<str:action>/'' ''queue_registry_actions'' ''queue_registry_action'',
     path ''queues/<str:queue_name>/confirm-action/'' ''queue_confirm_job_action'' ''queue_confirm_job_action'',
     path ''queues/<str:queue_name>/actions/'' ''queue_job_actions'' ''queue_job_actions'']"

definition worker_routes :: "route list"
  where "worker_routes =
    [path ''workers/'' ''workers_list'' ''workers_home'',
     path ''workers/<str:name>/'' ''worker_details'' ''worker_details'',
     path ''jobs/<str:job_name>/'' ''job_detail'' ''job_details'',
     path ''jobs/<str:job_name>/<str:action>/'' ''job_action'' ''job_detail_action'']"

definition prayer_routes :: "route list"
  where "prayer_routes =
    [path ''prayers/'' ''prayer_settings'' ''prayer_settings'',
     path ''prayers/api/'' ''get_prayer_times_api'' ''prayer_times_api'',
     path ''prayers/create/'' ''create_prayer'' ''create_prayer'',
     path ''prayers/<int:prayer_id>/update/'' ''update_prayer'' ''update_prayer'',
     path ''prayers/<int:prayer_id>/delete/'' ''delete_prayer'' ''delete_prayer'',
     path ''api/prayers/<str:prayer_name>/toggle/'' ''toggle_prayer_completion'' ''toggle_prayer'',
     path ''api/prayers/<int:year>/<int:month>/<int:day>/'' ''get_daily_prayer_completions'' ''get_daily_prayers'',
     path ''api/prayers/stats/'' ''get_prayer_stats'' ''prayer_stats_api'']"

definition task_routes :: "route list"
  where "task_routes =
    [path ''calendar/'' ''calendar_view'' ''calendar_view'',
     path ''calendar/<int:year>/<int:month>/<int:day>/'' ''task_data_view'' ''task_data_view'',
     path ''calendar/<int:year>/<int:month>/<int:day>/create/'' ''create_personal_task'' ''create_personal_task'',
     path ''tasks/<int:task_id>/edit/'' ''edit_personal_task'' ''edit_personal_task'',
     path ''tasks/<int:task_id>/delete/'' ''delete_personal_task'' ''delete_personal_task'',
     path ''api/tasks/<int:task_id>/toggle/'' ''toggle_task_completion'' ''toggle_task_completion'',
     path ''api/tasks/<int:task_id>/subtasks/'' ''create_subtask'' ''create_subtask'',
     path ''api/tasks/<int:task_id>/subtasks-list/'' ''get_task_subtasks'' ''get_task_subtasks'',
     path ''api/subtasks/<int:subtask_id>/toggle/'' ''toggle_subtask_completion'' ''toggle_subtask'',
     path ''api/subtasks/<int:subtask_id>/delete/'' ''delete_subtask'' ''delete_subtask'',
     path ''api/tasks/<int:year>/<int:month>/<int:day>/'' ''get_tasks_by_date_api'' ''get_tasks_api'',
     path ''api/tasks/<int:year>/<int:month>/<int:day>/yesterday/'' ''get_yesterday_tasks'' ''get_yesterday_tasks'',
     path ''api/tasks/<int:year>/<int:month>/<int:day>/copy-yesterday/'' ''copy_tasks_from_yesterday'' ''copy_tasks_from_yesterday'']"

definition analytics_routes :: "route list"
  where "analytics_routes =
    [path ''analytics/'' ''analytics_dashboard'' ''analytics_dashboard'',
     path ''api/analytics/chart-data/'' ''get_chart_data_api'' ''get_chart_data_api'',
     path ''api/analytics/subtask-chart-data/'' ''get_subtask_chart_data_api'' ''get_subtask_chart_data_api'',
     path ''api/analytics/prayer-chart-data/'' ''get_prayer_chart_data_api'' ''get_prayer_chart_data_api'']"

definition project_routes :: "route list"
  where "project_routes =
    [path ''projects/'' ''projects_list'' ''projects_list'',
     path ''projects/create/'' ''create_project'' ''create_project'',
     path ''projects/<int:project_id>/'' ''project_detail'' ''project_detail'',
     path ''api/projects/<int:project_id>/tasks/'' ''create_project_task'' ''create_project_task'',
     path ''api/projects/tasks/<int:task_id>/'' ''delete_project_task'' ''delete_project_task'',
     path ''api/projects/tasks/<int:task_id>/schedules/'' ''create_schedule'' ''create_schedule'',
     path ''api/projects/<int:project_id>/generate/'' ''generate_schedule'' ''generate_schedule'',
     path ''api/projects/<int:project_id>/delete/'' ''delete_project'' ''delete_project'']"

definition urlpatterns :: "route list"
  where "urlpatterns = queue_routes @ worker_routes @ prayer_routes @ task_routes @ analytics_routes @ project_routes"

section \<open>No pattern hides another\<close>

definition clash :: "component \<Rightarrow> component \<Rightarrow> bool"
  \<comment> \<open>nothing matches both\<close>
  where "clash c d = (case (c, d) of
      (Fixed t, Fixed u) \<Rightarrow> t \<noteq> u
    | (Fixed t, StrArg _) \<Rightarrow> t = []
    | (StrArg _, Fixed t) \<Rightarrow> t = []
    | (Fixed t, IntArg _) \<Rightarrow> t = [] \<or> \<not> list_all is_digit t
    | (IntArg _, Fixed t) \<Rightarrow> t = [] \<or> \<not> list_all is_digit t
    | _ \<Rightarrow> False)"

fun apart :: "component list \<Rightarrow> component list \<Rightarrow> bool"
where
  "apart [] [] = False"
| "apart (c # cs) (d # ds) = (clash c d \<or> apart cs ds)"
| "apart _ _ = True"

fun all_apart :: "route list \<Rightarrow> bool"
where
  "all_apart [] = True"
| "all_apart (r # rs) = (list_all (\<lambda>r'. apart (rt_path r) (rt_path r')) rs \<and> all_apart rs)"

lemma read_digits_Nil [simp]: "read_digits [] = None"
  by (simp add: read_digits_def)

lemma clash_match: "match_component c t = Some vs \<Longrightarrow> match_component d t = Some ws \<Longrightarrow> \<not> clash c d"
  by (auto simp: match_component_def clash_def split: component.splits if_splits)

lemma apart_match: "match_components cs ts = Some vs \<Longrightarrow> match_components ds ts = Some ws \<Longrightarrow> \<not> apart cs ds"
proof (induction cs ts arbitrary: vs ws ds rule: match_components.induct)
  case (2 c cs t ts)
  then obtain d ds' where ds: "ds = d # ds'" by (cases ds) auto
  with 2 clash_match [of c t _ d] show ?case by (auto split: option.splits)
next
  case 1
  then show ?case by (cases ds) auto
qed simp_all

lemma apart_routes:
  assumes "apart (rt_path r) (rt_path r')"
  shows "route_match r url = None \<or> route_match r' url = None"
  using assms apart_match by (cases "route_match r url"; cases "route_match r' url") (auto simp: route_match_def)

lemma resolve_unique:
  assumes "all_apart rs" "r \<in> set rs" "route_match r url = Some vs"
  shows "resolve rs url = Some (rt_view r, zip (arguments (rt_path r)) vs) \<and>
    (\<forall>r'\<in>set rs. route_match r' url \<noteq> None \<longrightarrow> r' = r)"
  using assms
proof (induction rs)
  case (Cons r0 rs)
  show ?case
  proof (cases "r0 = r")
    case True
    have "route_match r' url = None" if "r' \<in> set rs" for r'
      using that Cons.prems(1,3) apart_routes [of r0 r' url] True by (auto simp: list_all_iff)
    with True Cons.prems(3) show ?thesis by auto
  next
    case False
    then have r: "r \<in> set rs" using Cons.prems(2) by simp
    have none: "route_match r0 url = None"
      using r Cons.prems(1,3) apart_routes [of r0 r url] by (auto simp: list_all_iff)
    have "all_apart rs" using Cons.prems(1) by simp
    note IH = Cons.IH [OF this r Cons.prems(3)]
    from IH have "resolve (r0 # rs) url = Some (rt_view r, zip (arguments (rt_path r)) vs)"
      by (simp only: resolve.simps none option.case)
    moreover from IH none have "\<forall>r'\<in>set (r0 # rs). route_match r' url \<noteq> None \<longrightarrow> r' = r" by auto
    ultimately show ?thesis by blast
  qed
qed simp

section \<open>Links lead back\<close>

lemma split_join:
  assumes "ts \<noteq> []" "list_all (\<lambda>t. CHR ''/'' \<notin> set t) ts"
  shows "py_split CHR ''/'' (py_join ''/'' ts) = ts"
proof -
  have word: "CHR ''/'' \<notin> set t \<Longrightarrow> py_split CHR ''/'' t = [t]" for t by (induction t) auto
  have more: "CHR ''/'' \<notin> set t \<Longrightarrow> py_split CHR ''/'' (t @ CHR ''/'' # s) = t # py_split CHR ''/'' s" for t s
    by (induction t) auto
  from assms show ?thesis
  proof (induction ts rule: induct_list012)
    case (3 t u ts)
    have "py_join ''/'' (t # u # ts) = t @ CHR ''/'' # py_join ''/'' (u # ts)" by (simp add: py_join_def)
    with 3 more show ?case by simp
  qed (simp_all add: py_join_def word)
qed

lemma digits_no_slash: "list_all is_digit t \<Longrightarrow> CHR ''/'' \<notin> set t"
  by (auto simp: list_all_iff is_digit_def)

definition plain :: "component \<Rightarrow> bool"
  where "plain c = (case c of Fixed t \<Rightarrow> CHR ''/'' \<notin> set t | _ \<Rightarrow> True)"

lemma fill_match:
  assumes "fill cs vs = Some ts" "list_all plain cs"
  shows "match_components cs ts = Some vs \<and> list_all (\<lambda>t. CHR ''/'' \<notin> set t) ts \<and> length ts = length cs"
  using assms
proof (induction cs vs arbitrary: ts rule: fill.induct)
  case (4 n cs i vs)
  then show ?case
    by (auto simp: match_component_def str_of_int_def dec_digits_all read_dec_digits digits_no_slash split: if_splits)
qed (auto simp: match_component_def plain_def split: if_splits)

lemma url_of_match:
  assumes "url_of r args = Some url" "list_all plain (rt_path r)" "rt_path r \<noteq> []"
  shows "route_match r url = Some args"
proof -
  obtain ts where ts: "fill (rt_path r) args = Some ts" "url = py_join ''/'' ts"
    using assms(1) by (auto simp: url_of_def)
  note filled = fill_match [OF ts(1) assms(2)]
  then have "ts \<noteq> []" using assms(3) by (cases ts) auto
  with filled split_join show ?thesis by (simp add: route_match_def ts(2))
qed

lemma urlpatterns_apart: "all_apart urlpatterns"
  by code_simp

lemma urlpatterns_plain: "list_all (\<lambda>r. list_all plain (rt_path r) \<and> rt_path r \<noteq> []) urlpatterns"
  by code_simp

lemma urlpatterns_names: "distinct (map rt_name urlpatterns)"
  by code_simp

lemma find_by_name: "distinct (map rt_name rs) \<Longrightarrow> r \<in> set rs \<Longrightarrow> find (\<lambda>r'. rt_name r' = rt_name r) rs = Some r"
  by (induction rs) (auto simp: rev_image_eqI)

end
