(* ===== verification/AdminSite.thy ===== *)
theory AdminSite
  imports Declarations AdminActions
begin

text \<open>
  The declarations the administration site and the forms are generated from: \<open>scheduler/admin/\<close> and the fields and
  widgets of \<open>scheduler/forms.py\<close>; and the little code among them.  \<open>admin_ok\<close> is what Django's checks ask of such a
  declaration against the models (\<open>Declarations\<close>); \<open>left_out\<close> are the columns a form cannot leave to a default and
  does not ask for, so that a form without any can create a row.
\<close>

section \<open>Declarations\<close>

record inline_admin =
  in_model :: string
  in_generic :: bool
  in_extra :: nat
  in_fields :: "string list list"
  in_ordering :: "string list"

record model_admin =
  ad_model :: string
  ad_columns :: "string list"  \<comment> \<open>methods shown as columns\<close>
  ad_list_display :: "string list"
  ad_list_display_links :: "string list"
  ad_list_filter :: "string list"
  ad_search_fields :: "string list"
  ad_readonly_fields :: "string list"
  ad_inlines :: "inline_admin list"
  ad_date_hierarchy :: "string option"
  ad_fieldsets :: "(string \<times> string list list \<times> string list) list"  \<comment> \<open>title, rows of fields, classes\<close>

datatype widget =
    TextInput | Textarea | DateInput | TimeInput | DateTimeInput | Select | CheckboxInput | NumberInput
  | JobMethodsDatalistWidget

record model_form =
  mf_model :: string
  mf_fields :: "string list"
  mf_widgets :: "(string \<times> widget \<times> bool) list"  \<comment> \<open>and whether the input is required\<close>

definition JobArgInline :: inline_admin
  where "JobArgInline =
    \<lparr> in_model = ''taskarg'', in_generic = True, in_extra = 0, in_fields = [[''arg_type''], [''val'']],
      in_ordering = [] \<rparr>"

definition JobKwargInline :: inline_admin
  where "JobKwargInline =
    \<lparr> in_model = ''taskkwarg'', in_generic = True, in_extra = 0, in_fields = [[''key''], [''arg_type'', ''val'']],
      in_ordering = [] \<rparr>"

definition TaskAdmin :: model_admin
  where "TaskAdmin =
    \<lparr> ad_model = ''task'',
      ad_columns = [''function_string'', ''is_scheduled'', ''task_schedule'', ''next_run''],
      ad_list_display = [''enabled'', ''name'', ''function_string'', ''is_scheduled'', ''queue'', ''task_schedule'',
         ''next_run'', ''successful_runs'', ''last_successful_run'', ''failed_runs'', ''last_failed_run''],
      ad_list_display_links = [''name''],
      ad_list_filter = [''enabled'', ''task_type'', ''queue''],
      ad_search_fields = [],
      ad_readonly_fields = [''job_name'', ''successful_runs'', ''last_successful_run'', ''failed_runs'',
         ''last_failed_run''],
      ad_inlines = [JobArgInline, JobKwargInline],
      ad_date_hierarchy = None,
      ad_fieldsets =
       [('''', [[''name''], [''callable''], [''enabled'', ''timeout'', ''result_ttl''], [''task_type'']], []),
        ('''', [[''scheduled_time'']], [''tasktype-OnceTaskType'']),
        ('''', [[''cron_string'']], [''tasktype-CronTaskType'']),
        ('''', [[''interval'', ''interval_unit''], [''repeat'']], [''tasktype-RepeatableTaskType'']),
        (''Queue settings'', [[''queue'', ''at_front''], [''job_name'']], []),
        (''Previous runs info'', [[''successful_runs'', ''last_successful_run''], [''failed_runs'',
           ''last_failed_run'']], [])] \<rparr>"

definition SubTaskInline :: inline_admin
  where "SubTaskInline =
    \<lparr> in_model = ''subtask'', in_generic = False, in_extra = 1, in_fields = [[''title''], [''is_completed''],
       [''order'']],
      in_ordering = [''order''] \<rparr>"

definition PersonalTaskAdmin :: model_admin
  where "PersonalTaskAdmin =
    \<lparr> ad_model = ''personaltask'',
      ad_columns = [],
      ad_list_display = [''title'', ''date'', ''start_time'', ''end_time'', ''category'', ''is_completed'', ''created_at''],
      ad_list_display_links = [],
      ad_list_filter = [''category'', ''date'', ''is_completed'', ''created_at''],
      ad_search_fields = [''title'', ''description''],
      ad_readonly_fields = [''created_at'', ''updated_at''],
      ad_inlines = [SubTaskInline],
      ad_date_hierarchy = Some ''date'',
      ad_fieldsets =
       [(''Task Information'', [[''title''], [''description''], [''category'']], []),
        (''Schedule'', [[''date''], [''start_time''], [''end_time'']], []),
        (''Status'', [[''is_completed'']], []),
        (''Timestamps'', [[''created_at''], [''updated_at'']], [''collapse''])] \<rparr>"

definition PrayerScheduleAdmin :: model_admin
  where "PrayerScheduleAdmin =
    \<lparr> ad_model = ''prayerschedule'',
      ad_columns = [],
      ad_list_display = [''prayer_name'', ''start_time'', ''end_time''],
      ad_list_display_links = [],
      ad_list_filter = [''prayer_name''],
      ad_search_fields = [],
      ad_readonly_fields = [''created_at'', ''updated_at''],
      ad_inlines = [],
      ad_date_hierarchy = None,
      ad_fieldsets =
       [(''Prayer'', [[''prayer_name'']], []),
        (''Times'', [[''start_time''], [''end_time'']], []),
        (''Timestamps'', [[''created_at''], [''updated_at'']], [''collapse''])] \<rparr>"

definition TaskCompletionAdmin :: model_admin
  where "TaskCompletionAdmin =
    \<lparr> ad_model = ''taskcompletion'',
      ad_columns = [],
      ad_list_display = [''task'', ''is_completed'', ''performance_rating'', ''completed_at''],
      ad_list_display_links = [],
      ad_list_filter = [''is_completed'', ''completed_at'', ''task__category'', ''performance_rating''],
      ad_search_fields = [''task__title''],
      ad_readonly_fields = [''completed_at''],
      ad_inlines = [],
      ad_date_hierarchy = Some ''completed_at'',
      ad_fieldsets =
       [(''Completion Record'', [[''task''], [''is_completed''], [''performance_rating'']], []),
        (''Timestamp'', [[''completed_at'']], [''collapse''])] \<rparr>"

definition PrayerCompletionAdmin :: model_admin
  where "PrayerCompletionAdmin =
    \<lparr> ad_model = ''prayercompletion'',
      ad_columns = [],
      ad_list_display = [''prayer_name'', ''date'', ''is_completed'', ''completed_at''],
      ad_list_display_links = [],
      ad_list_filter = [''prayer_name'', ''date'', ''is_completed''],
      ad_search_fields = [''prayer_name''],
      ad_readonly_fields = [''created_at'', ''updated_at'', ''completed_at''],
      ad_inlines = [],
      ad_date_hierarchy = Some ''date'',
      ad_fieldsets =
       [(''Prayer'', [[''prayer_name''], [''date'']], []),
        (''Status'', [[''is_completed''], [''completed_at'']], []),
        (''Timestamps'', [[''created_at''], [''updated_at'']], [''collapse''])] \<rparr>"

definition PersonalTaskForm :: model_form
  where "PersonalTaskForm =
    \<lparr> mf_model = ''personaltask'',
      mf_fields = [''title'', ''description'', ''date'', ''start_time'', ''end_time'', ''category''],
      mf_widgets =
       [(''title'', TextInput, True),
        (''description'', Textarea, False),
        (''date'', DateInput, True),
        (''start_time'', TimeInput, True),
        (''end_time'', TimeInput, True),
        (''category'', Select, True)] \<rparr>"

definition SubTaskForm :: model_form
  where "SubTaskForm =
    \<lparr> mf_model = ''subtask'',
      mf_fields = [''title'', ''is_completed'', ''order''],
      mf_widgets =
       [(''title'', TextInput, True),
        (''is_completed'', CheckboxInput, False),
        (''order'', NumberInput, False)] \<rparr>"

definition PrayerCompletionForm :: model_form
  where "PrayerCompletionForm =
    \<lparr> mf_model = ''prayercompletion'',
      mf_fields = [''prayer_name'', ''date'', ''is_completed'', ''completed_at''],
      mf_widgets =
       [(''prayer_name'', Select, True),
        (''date'', DateInput, True),
        (''is_completed'', CheckboxInput, False),
        (''completed_at'', DateTimeInput, False)] \<rparr>"

definition model_admins :: "model_admin list"
  where "model_admins = [TaskAdmin, PersonalTaskAdmin, PrayerScheduleAdmin, TaskCompletionAdmin, PrayerCompletionAdmin]"

definition model_forms :: "model_form list"
  where "model_forms = [PersonalTaskForm, SubTaskForm, PrayerCompletionForm]"

section \<open>The suggestions for a task's callable\<close>

definition quoted :: "string \<Rightarrow> string"
  where "quoted t = CHR 0x22 # t @ [CHR 0x22]"

definition datalist_id :: string where "datalist_id = ''id_callable_job_methods''"

definition datalist_attrs :: "(string \<times> string) list \<Rightarrow> (string \<times> string) list"
  \<comment> \<open>the attributes given, with two set\<close>
  where "datalist_attrs attrs = AList.update ''autocomplete'' ''off'' (AList.update ''list'' datalist_id attrs)"

definition datalist_render :: "string \<Rightarrow> string list \<Rightarrow> string"
  \<comment> \<open>with the text of the input, which Django renders, and \<open>JOB_METHODS_LIST\<close>\<close>
  where "datalist_render text_input methods =
    text_input @ ''<datalist id='' @ quoted (html_escape datalist_id) @ ''>'' @
    concat (map (\<lambda>m. ''<option value='' @ quoted (html_escape m) @ ''></option>'') methods) @ ''</datalist>''"

definition formfield_for_dbfield :: "string \<Rightarrow> widget option \<Rightarrow> widget option"
  \<comment> \<open>the widget a field is shown with\<close>
  where "formfield_for_dbfield name widget = (if name = ''callable'' then Some JobMethodsDatalistWidget else widget)"

section \<open>Queues and workers in the admin\<close>

definition has_add_permission :: bool where "has_add_permission = False"

definition has_change_permission :: bool where "has_change_permission = True"

definition has_module_permission :: "(string \<Rightarrow> bool) \<Rightarrow> bool"
  \<comment> \<open>the user's \<open>has_module_perms\<close>\<close>
  where "has_module_permission has_module_perms = has_module_perms ''scheduler''"

definition queue_changelist :: "('s, 'x) app_env_scheme \<Rightarrow> 's \<Rightarrow> 's view"
  where "queue_changelist A s = stats A s"

definition worker_changelist :: "('s, 'x) app_env_scheme \<Rightarrow> 's \<Rightarrow> 's view"
  where "worker_changelist A s = workers_list A s"

section \<open>Checks\<close>

definition columns_of_model :: "schema \<Rightarrow> string \<Rightarrow> columns"
  where "columns_of_model S m = (case map_of S m of None \<Rightarrow> [] | Some (fs, _) \<Rightarrow> fs)"

definition field_names :: "schema \<Rightarrow> string \<Rightarrow> string list"
  where "field_names S m = map fst (columns_of_model S m)"

definition is_lookup :: "schema \<Rightarrow> string \<Rightarrow> string \<Rightarrow> bool"
  \<comment> \<open>a field, or a field of the model a foreign key leads to\<close>
  where "is_lookup S m l \<longleftrightarrow> l \<in> set (field_names S m) \<or>
    list_ex (\<lambda>(f, c). case column_type c of
        ForeignKey t \<Rightarrow> list_ex (\<lambda>(n, fs, _). t = model_label n \<and> l \<in> set (map (\<lambda>(g, _). f @ ''__'' @ g) fs)) S
      | _ \<Rightarrow> False) (columns_of_model S m)"

definition shown_fields :: "model_admin \<Rightarrow> string list"
  where "shown_fields a = concat (concat (map (\<lambda>(_, rows, _). rows) (ad_fieldsets a)))"

definition refers_to_model :: "schema \<Rightarrow> string \<Rightarrow> inline_admin \<Rightarrow> bool"
  \<comment> \<open>an inline's model refers to the model it is shown in, by one foreign key, or to any by its type and key\<close>
  where "refers_to_model S m i =
    (if in_generic i then {''content_type'', ''object_id''} \<subseteq> set (field_names S (in_model i))
     else length (filter (\<lambda>(_, c). refers_to c m) (columns_of_model S (in_model i))) = 1)"

definition inline_ok :: "schema \<Rightarrow> string \<Rightarrow> inline_admin \<Rightarrow> bool"
  where "inline_ok S m i \<longleftrightarrow> refers_to_model S m i \<and> distinct (concat (in_fields i)) \<and>
    set (concat (in_fields i)) \<union> set (in_ordering i) \<subseteq> set (field_names S (in_model i))"

definition is_date :: "column \<Rightarrow> bool"
  where "is_date c \<longleftrightarrow> column_type c = DateField \<or> column_type c = DateTimeField"

definition admin_ok :: "schema \<Rightarrow> model_admin \<Rightarrow> bool"
  where "admin_ok S a \<longleftrightarrow>
    (let m = ad_model a; names = field_names S m in
       m \<in> set (map fst S) \<and>
       set (ad_list_display a) \<subseteq> set (names @ ad_columns a) \<and> distinct (ad_list_display a) \<and>
       set (ad_list_display_links a) \<subseteq> set (ad_list_display a) \<and>
       list_all (is_lookup S m) (ad_list_filter a @ ad_search_fields a) \<and>
       set (ad_readonly_fields a) \<subseteq> set (names @ ad_columns a) \<and>
       list_all (inline_ok S m) (ad_inlines a) \<and>
       (case ad_date_hierarchy a of None \<Rightarrow> True
        | Some f \<Rightarrow> (case map_of (columns_of_model S m) f of None \<Rightarrow> False | Some c \<Rightarrow> is_date c)) \<and>
       set (shown_fields a) \<subseteq> set (names @ ad_readonly_fields a) \<and> distinct (shown_fields a))"

definition automatic :: "column \<Rightarrow> bool"
  \<comment> \<open>the database or Django has a value for it\<close>
  where "automatic c \<longleftrightarrow> nullable c \<or> default_value c \<noteq> VNone \<or> Blank \<in> set (column_options c) \<or>
    list_ex (\<lambda>a. a \<in> {AutoCreated, AutoNow, AutoNowAdd}) (column_options c)"

definition left_out :: "schema \<Rightarrow> string \<Rightarrow> string list \<Rightarrow> string list"
  where "left_out S m asked =
    map fst (filter (\<lambda>(f, c). \<not> automatic c \<and> f \<notin> set asked) (columns_of_model S m))"

definition asked_fields :: "model_admin \<Rightarrow> string list"
  where "asked_fields a = filter (\<lambda>f. f \<notin> set (ad_readonly_fields a)) (shown_fields a)"

definition inline_left_out :: "schema \<Rightarrow> string \<Rightarrow> inline_admin \<Rightarrow> string list"
  \<comment> \<open>the reference to the object shown is the inline's own\<close>
  where "inline_left_out S m i = filter (\<lambda>f.
      if in_generic i then f \<notin> {''content_type'', ''object_id''}
      else \<not> list_ex (\<lambda>(g, c). g = f \<and> refers_to c m) (columns_of_model S (in_model i)))
    (left_out S (in_model i) (concat (in_fields i)))"

definition form_ok :: "schema \<Rightarrow> model_form \<Rightarrow> bool"
  \<comment> \<open>every input belongs to a field of the form, and only what may not be blank is required\<close>
  where "form_ok S fm \<longleftrightarrow>
    set (mf_fields fm) \<subseteq> set (field_names S (mf_model fm)) \<and> distinct (mf_fields fm) \<and>
    set (map fst (mf_widgets fm)) = set (mf_fields fm) \<and>
    list_all (\<lambda>(f, _, required). case map_of (columns_of_model S (mf_model fm)) f of None \<Rightarrow> False
      | Some c \<Rightarrow> required \<longrightarrow> \<not> nullable c \<and> Blank \<notin> set (column_options c)) (mf_widgets fm)"

end
