(* ===== verification/Site_Properties.thy ===== *)
theory Site_Properties
  imports Urls AdminSite
begin

text \<open>The properties of the site: its paths, and the declarations its forms are generated from.\<close>

text \<open>
  C37.  The path a page is linked by, from its name and arguments, leads to that page's view with those
  arguments; no other pattern matches it, so the order of the patterns does not matter.
\<close>

theorem urls_reach_views:
  assumes "r \<in> set urlpatterns" "url_of r args = Some url"
  shows "reverse_url urlpatterns (rt_name r) args = Some url \<and>
    resolve urlpatterns url = Some (rt_view r, zip (arguments (rt_path r)) args) \<and>
    (\<forall>r'\<in>set urlpatterns. route_match r' url \<noteq> None \<longrightarrow> r' = r)"
proof -
  have "list_all plain (rt_path r)" "rt_path r \<noteq> []"
    using urlpatterns_plain assms(1) by (auto simp: list_all_iff)
  from url_of_match [OF assms(2) this] resolve_unique [OF urlpatterns_apart assms(1), of url args]
    find_by_name [OF urlpatterns_names assms(1)] assms(2)
  show ?thesis by (simp add: reverse_url_def)
qed

theorem urls_reach_views_witness:
  "resolve urlpatterns ''queues/default/failed/requeue/'' = Some (''queue_registry_actions'',
     [(''queue_name'', VStr ''default''), (''registry_name'', VStr ''failed''), (''action'', VStr ''requeue'')])"
proof -
  let ?r = "path ''queues/<str:queue_name>/<str:registry_name>/<str:action>/'' ''queue_registry_actions'' ''queue_registry_action''"
  let ?args = "[VStr ''default'', VStr ''failed'', VStr ''requeue'']"
  have 1: "?r \<in> set urlpatterns" by (simp add: urlpatterns_def queue_routes_def)
  have 2: "url_of ?r ?args = Some ''queues/default/failed/requeue/''" by code_simp
  have "rt_view ?r = ''queue_registry_actions''" by (simp add: path_def)
  moreover have "zip (arguments (rt_path ?r)) ?args =
      [(''queue_name'', VStr ''default''), (''registry_name'', VStr ''failed''), (''action'', VStr ''requeue'')]" by code_simp
  ultimately show ?thesis using urls_reach_views [OF 1 2] by simp
qed

text \<open>
  The administration's declarations pass the checks against the models, and every row they let one add can be
  created: no column without a value of its own is left out of the form.  Of the other forms, only that of subtasks leaves one
  out, the task, which the view gives.
\<close>

theorem site_declarations_ok:
  "list_all (\<lambda>a. admin_ok declared_models a \<and> left_out declared_models (ad_model a) (asked_fields a) = [] \<and>
      list_all (\<lambda>i. inline_left_out declared_models (ad_model a) i = []) (ad_inlines a)) model_admins \<and>
    list_all (form_ok declared_models) model_forms \<and>
    map (\<lambda>f. left_out declared_models (mf_model f) (mf_fields f)) model_forms = [[], [''personal_task''], []]"
  by code_simp

end
