(* ===== verification/Spec2Isabelle.thy ===== *)
theory Spec2Isabelle
  imports Queue_Properties Service_Properties Planner_Properties Schema_Properties Site_Properties
begin

text \<open>
  \<^bold>\<open>The program.\<close>  Daily-Scheduler is a Django application, the package \<open>scheduler\<close>, in two parts.
  One is a task queue on Redis or Valkey: jobs are stored in the broker and move between the registries of
  their queue, workers take and run them, a thread of a worker enqueues what is due, tasks in the database
  describe what is to be run when, and the administration pages and the commands of \<open>manage.py\<close> look at all
  this and interfere with it.  The other is a daily planner: personal tasks, prayers and projects in the database,
  the requests that change them and the statistics over them.

  \<^bold>\<open>Reading the model.\<close>  Classes are records, enumerations are datatypes (or the strings they are stored as), an
  operation is a function with the name it has in the code.  What may raise returns \<open>'a result\<close>, the exception on
  the left; what also changes the outside world returns an \<open>outcome\<close>, the result with the state left behind, which
  an exception does not undo (\<open>Prelude\<close>: \<open>and_then\<close> is the sequence of two).  The outside world is an abstract
  state \<open>'s\<close>, and what acts on it is a record of functions that grows as the program needs it: \<open>broker_env\<close> (the
  commands of the broker, the clock, the configuration; \<open>Broker\<close>), \<open>host_env\<close> (imported functions and calls of them;
  \<open>JobModels\<close>), \<open>app_env\<close> (the task table, cron strings, mail; \<open>Tasks\<close>), \<open>os_env\<close> (processes, signals, threads, sleep;
  \<open>Schedulers\<close>), \<open>planner\<close> (the planner's tables; \<open>PlannerModels\<close>), \<open>site\<close> (Django's URLs; \<open>AdminViews\<close>).
  Instants are microseconds, dates are their proleptic ordinals, times of day are microseconds since midnight.

  \<^bold>\<open>The theories and the code they model.\<close>
  \<^item> Python and the services: \<open>PyBase\<close>, \<open>Calendar\<close>, \<open>Dates\<close> (text, numbers, dates and their facts), \<open>Floats\<close>
    (doubles, where their rounding shows), \<open>Broker\<close> (the commands used and the laws they are relied on for, and a
    broker in memory), \<open>Tables\<close> (database tables, likewise).
  \<^item> \<open>Settings\<close>, \<open>Getters\<close>: \<open>types/\<close>, \<open>settings.py\<close>, \<open>helpers/queues/getters.py\<close>.
  \<^item> \<open>HashModels\<close>, \<open>Registries\<close>, \<open>JobModels\<close>, \<open>Results\<close>, \<open>Locks\<close>, \<open>WorkerModels\<close>: \<open>redis_models/\<close> and
    \<open>helpers/callback.py\<close>, \<open>helpers/utils.py\<close>, what is kept in the broker.
  \<^item> \<open>Queues\<close>: \<open>helpers/queues/queue_logic.py\<close>; \<open>Lifecycle\<close> makes it a state machine, \<open>Places\<close> states the abstract
    machine that it refines.
  \<^item> \<open>Tasks\<close>, \<open>AdminTasks\<close>: \<open>models/task.py\<close>, \<open>models/args.py\<close>, \<open>admin/task_admin.py\<close>, \<open>templatetags/\<close>.
  \<^item> \<open>Schedulers\<close>, \<open>Workers\<close>, \<open>JobExecution\<close>, \<open>Commands\<close>: \<open>worker/scheduler.py\<close>, \<open>worker/worker.py\<close>,
    \<open>worker/commands/\<close>; \<open>Timeouts\<close>: \<open>helpers/timeouts.py\<close>.
  \<^item> \<open>AdminViews\<close>, \<open>AdminActions\<close>: the views of queues, registries, jobs and workers.  \<open>Management\<close>,
    \<open>Arguments\<close>, \<open>Commandline\<close>: \<open>management/commands/\<close> and \<open>decorators.py\<close>.
  \<^item> \<open>PlannerModels\<close>: \<open>models/personal_task.py\<close>; \<open>Personal\<close>, \<open>Prayers\<close>, \<open>Projects\<close>, \<open>Analytics\<close>: the views of
    those names and \<open>forms.py\<close>; \<open>PlannerDb\<close>, \<open>PlannerSteps\<close>: the database they share, and each request as
    a step on it.
  \<^item> \<open>Urls\<close>: \<open>urls.py\<close>; \<open>AdminSite\<close>: the declarations of \<open>admin/\<close> and \<open>forms.py\<close>.
  \<^item> \<open>Migrations\<close>: \<open>migrations/\<close>, a definition for each file; \<open>Declarations\<close>: the fields the models declare;
    \<open>Schema\<close>: schemas, rows and what Django's operations do to them.
  \<^item> \<open>AdminFacts\<close>, \<open>SchedulerFacts\<close>, \<open>PlannerFacts\<close>, \<open>PlannerRequests\<close>: the lemmas the properties rest on;
    \<open>Samples\<close>: the queues, jobs and broker contents the properties are instantiated at; \<open>Queue_Properties\<close>,
    \<open>Service_Properties\<close>, \<open>Planner_Properties\<close>, \<open>Schema_Properties\<close>,
    \<open>Site_Properties\<close>: the properties, numbered C1 to C40.

  \<^bold>\<open>What is relied on.\<close>  Each contract is a locale, and each is interpreted.
  \<^item> \<open>broker\<close>: what each command does to the keys.  From it alone follow the contracts the program builds on it:
    \<open>registry_ops\<close> (a registry as a map from names to times) and \<open>lock_ops\<close> (one holder of a lock), by \<open>sublocale\<close>.
  \<^item> \<open>host\<close>: the broker and, besides, that the functions called do not touch the keys of the scheduler
    themselves.  \<open>app\<close>: moreover, that reading and writing the database leaves the broker as it is.
  \<^item> \<open>table\<close>, \<open>viewed_table\<close>, \<open>planner\<close>: a table returns the rows saved, and tables are independent.
  \<^item> \<open>migrator\<close>: what the operations of a migration do to a database whose schema admits them.
  \<^item> \<open>simulation\<close>: steps that a function maps to steps of another machine.
  The interpretations on a broker, tables and processes kept in memory show that the contracts can be met, and are
  where the witnesses are evaluated.

  \<^bold>\<open>What is shown.\<close>
  \<^item> Queues: no job is ever in two registries, whatever the order of operations (C2), and each operation is
    a move the abstract machine of places allows (C3); what enqueuing, taking, finishing, failing, cancelling and deleting
    do to every registry (C1, C5 to C10); jobs and results read back as saved (C11, C25).
  \<^item> Tasks: a task is scheduled once, at the time it is due, and due jobs are enqueued and no others (C12, C13);
    late tasks catch up (C14); exported tasks can be imported (C15).
  \<^item> Workers: locks, names, clean-up, heartbeats, signals, commands and time limits.
  \<^item> Administration: the pages of a registry, stopping and requeuing jobs; every link leads back to its page
    (C37), and the declarations of the admin pages fit the models.
  \<^item> The planner: every request keeps the constraints of the rows (C4), and what generating, breaks, copies, completions,
    prayers, calendar, statistics and progress compute.
  \<^item> Migrations: from any of them, the rest lead to the schema the models declare and keep the rows fitting it (C40).

  \<^bold>\<open>Loops and fuel.\<close>  Loops that may not end are \<open>partial_function (option)\<close>: taking a job from the queues, waiting
  while suspended, monitoring a job, the worker's loop.  None means that the loop never ends; that taking a
  job does end is C1.  The search for the exponent of a double (\<open>Floats\<close>) has fuel 1000, enough for numbers
  between \<open>2 ^ -900\<close> and \<open>2 ^ 900\<close> (\<open>mantissa_range\<close>).  The timeline of a day nests breaks as deep as there are
  tasks.  The scheduler's thread and the command that shows statistics again and again are run for as many turns as
  they are given: they end only when they are stopped.

  \<^bold>\<open>Idealised.\<close>  The commands of the broker do not fail, except that the loops that retry on a lost connection or a lost race
  are there; keys of different types are looked up separately; a key does not expire between two commands of an
  operation.  Differences of two instants are exact where Python takes them through floats.  Logging, process
  titles and the wording of exceptions are left out.  All queues share one broker where a view or a task looks at
  several.

  \<^bold>\<open>Not modelled.\<close>  \<open>helpers/sentry_integration.py\<close> hooks another library into the worker (and cannot be imported, as
  it imports a module that does not exist).  Templates,
  opening connections, splitting the command line, and the text of JSON, YAML and pickles are the libraries'.
\<close>

end
